(* ===== verification/Prelude.thy ===== *)
theory Prelude
  imports Complex_Main "HOL-Library.AList" "HOL-Library.Word" "HOL-Library.Sublist"
    "HOL-Library.Multiset"
begin

text \<open>
  Shared vocabulary of the development: the parts of the JavaScript standard library that the
  sources call (string trimming, case folding, splitting, joining, number printing,
  \<open>Math.round\<close>, \<open>Array.prototype.slice\<close>, insertion-ordered \<open>Map\<close> and \<open>Set\<close>, the
  values of \<open>JSON.parse\<close>), the interface locales several components share, and the generic
  lemmas their proofs use.

  Strings are lists of characters with codes below 256, so every definition over \<open>string\<close>
  describes the code on Latin-1 text; the hash works on arbitrary 16-bit code units.
\<close>

named_theorems js_eval \<open>definitions unfolded to evaluate library calls on concrete input\<close>

section \<open>Characters and strings\<close>

abbreviation code :: "char \<Rightarrow> nat" where
  "code c \<equiv> of_char c"

text \<open>The class \<open>\s\<close> and the characters \<open>String.prototype.trim\<close> removes.\<close>

definition is_ws :: "char \<Rightarrow> bool" where
  [js_eval]: "is_ws c \<longleftrightarrow> (9 \<le> code c \<and> code c \<le> 13) \<or> code c = 32 \<or> code c = 160"

definition is_digit :: "char \<Rightarrow> bool" where
  [js_eval]: "is_digit c \<longleftrightarrow> 48 \<le> code c \<and> code c \<le> 57"

text \<open>The class \<open>\w\<close>.\<close>

definition is_word_char :: "char \<Rightarrow> bool" where
  [js_eval]: "is_word_char c \<longleftrightarrow> is_digit c \<or> (65 \<le> code c \<and> code c \<le> 90)
     \<or> (97 \<le> code c \<and> code c \<le> 122) \<or> code c = 95"

definition is_hex :: "char \<Rightarrow> bool" where
  [js_eval]: "is_hex c \<longleftrightarrow> is_digit c \<or> (97 \<le> code c \<and> code c \<le> 102)"

definition lower_char :: "char \<Rightarrow> char" where
  [js_eval]: "lower_char c =
     (if (65 \<le> code c \<and> code c \<le> 90) \<or> (192 \<le> code c \<and> code c \<le> 222 \<and> code c \<noteq> 215)
      then char_of (code c + 32) else c)"

definition toLowerCase :: "string \<Rightarrow> string" where
  [js_eval]: "toLowerCase s = map lower_char s"

definition trim_start :: "string \<Rightarrow> string" where
  [js_eval]: "trim_start s = dropWhile is_ws s"

definition trim :: "string \<Rightarrow> string" where
  [js_eval]: "trim s = rev (dropWhile is_ws (rev (dropWhile is_ws s)))"

text \<open>\<open>s.replace(/\s+/g, " ")\<close>: every run of white space becomes one blank.\<close>

fun collapse_ws :: "string \<Rightarrow> string" where
  "collapse_ws [] = []"
| "collapse_ws [c] = (if is_ws c then '' '' else [c])"
| "collapse_ws (c # d # s) =
     (if is_ws c then (if is_ws d then collapse_ws (d # s) else CHR '' '' # collapse_ws (d # s))
      else c # collapse_ws (d # s))"

definition startsWith :: "string \<Rightarrow> string \<Rightarrow> bool" where
  [js_eval]: "startsWith s p \<longleftrightarrow> take (length p) s = p"

definition endsWith :: "string \<Rightarrow> string \<Rightarrow> bool" where
  [js_eval]: "endsWith s p \<longleftrightarrow> length p \<le> length s \<and> drop (length s - length p) s = p"

fun str_includes :: "string \<Rightarrow> string \<Rightarrow> bool" where
  "str_includes [] p = (p = [])"
| "str_includes (c # s) p = (startsWith (c # s) p \<or> str_includes s p)"

fun split_on :: "'a \<Rightarrow> 'a list \<Rightarrow> 'a list list" where
  "split_on x [] = [[]]"
| "split_on x (y # ys) =
     (if x = y then [] # split_on x ys
      else (case split_on x ys of [] \<Rightarrow> [[y]] | z # zs \<Rightarrow> (y # z) # zs))"

text \<open>\<open>s.split(/\r?\n/)\<close>: split at line feeds, dropping one carriage return before each.\<close>

fun drop_cr :: "string list \<Rightarrow> string list" where
  "drop_cr [] = []"
| "drop_cr [l] = [l]"
| "drop_cr (l # m # ls) =
     (if l \<noteq> [] \<and> last l = char_of (13::nat) then butlast l else l) # drop_cr (m # ls)"

definition split_lines :: "string \<Rightarrow> string list" where
  [js_eval]: "split_lines s = drop_cr (split_on (char_of (10::nat)) s)"

fun join :: "'a list \<Rightarrow> 'a list list \<Rightarrow> 'a list" where
  "join sep [] = []"
| "join sep [x] = x"
| "join sep (x # y # xs) = x @ sep @ join sep (y # xs)"

section \<open>Numbers\<close>

definition digit_char :: "nat \<Rightarrow> char" where
  [js_eval]: "digit_char d = char_of (48 + d)"

definition digit_val :: "char \<Rightarrow> nat" where
  [js_eval]: "digit_val c = code c - 48"

text \<open>Decimal printing of integers, as template literals and \<open>String(n)\<close> do.\<close>

fun nat_str :: "nat \<Rightarrow> string" where
  "nat_str n = (if n < 10 then [digit_char n] else nat_str (n div 10) @ [digit_char (n mod 10)])"

declare nat_str.simps [simp del]

definition bool_str :: "bool \<Rightarrow> string" where
  "bool_str b = (if b then ''true'' else ''false'')"

definition int_str :: "int \<Rightarrow> string" where
  [js_eval]: "int_str i = (if i < 0 then CHR ''-'' # nat_str (nat (- i)) else nat_str (nat i))"

text \<open>A digit of \<open>n.toString(16)\<close>.\<close>

definition hex_digit :: "nat \<Rightarrow> char" where
  "hex_digit d = (if d < 10 then char_of (48 + d) else char_of (87 + d))"

text \<open>\<open>Number(s)\<close> on a string of decimal digits.\<close>

definition digits_val :: "string \<Rightarrow> nat" where
  [js_eval]: "digits_val s = foldl (\<lambda>a c. 10 * a + digit_val c) 0 s"

text \<open>\<open>Math.round\<close>: to the nearest integer, halves upwards.\<close>

definition js_round :: "real \<Rightarrow> int" where
  [js_eval]: "js_round x = \<lfloor>x + 1/2\<rfloor>"

section \<open>Arrays\<close>

definition slice_index :: "nat \<Rightarrow> int \<Rightarrow> nat" where
  [js_eval]: "slice_index n i = (if i < 0 then nat (int n + i) else min (nat i) n)"

text \<open>\<open>Array.prototype.slice\<close>: negative indices count from the end.\<close>

definition js_slice :: "'a list \<Rightarrow> int \<Rightarrow> int \<Rightarrow> 'a list" where
  [js_eval]: "js_slice xs a b =
     take (slice_index (length xs) b - slice_index (length xs) a)
          (drop (slice_index (length xs) a) xs)"

text \<open>\<open>Array.prototype.findIndex\<close>, \<open>None\<close> standing for -1.\<close>

fun find_index :: "('a \<Rightarrow> bool) \<Rightarrow> 'a list \<Rightarrow> nat option" where
  "find_index P [] = None"
| "find_index P (x # xs) = (if P x then Some 0 else map_option Suc (find_index P xs))"

text \<open>\<open>Set.prototype.add\<close> on an insertion-ordered set.\<close>

definition set_add :: "'a \<Rightarrow> 'a list \<Rightarrow> 'a list" where
  [js_eval]: "set_add x xs = (if x \<in> set xs then xs else xs @ [x])"

definition set_of_list :: "'a list \<Rightarrow> 'a list" where
  [js_eval]: "set_of_list xs = fold set_add xs []"

type_synonym ('k, 'v) jsmap = "('k \<times> 'v) list"

text \<open>\<open>new Map(entries)\<close>: later entries overwrite, the place of the first is kept.\<close>

definition map_of_entries :: "('k \<times> 'v) list \<Rightarrow> ('k, 'v) jsmap" where
  [js_eval]: "map_of_entries es = fold (\<lambda>(k, v). AList.update k v) es []"

section \<open>JSON values\<close>

text \<open>
  What \<open>unknown\<close> stands for on the wire: the result of \<open>JSON.parse\<close>. A field that is not
  there reads as \<open>undefined\<close>, here \<open>None\<close>.
\<close>

datatype json =
    JNull
  | JBool bool
  | JNum real
  | JStr string
  | JArr "json list"
  | JObj "(string \<times> json) list"

fun json_field :: "json \<Rightarrow> string \<Rightarrow> json option" where
  "json_field (JObj fs) k = map_of fs k"
| "json_field _ k = None"

text \<open>\<open>typeof v === "object" && v !== null\<close>\<close>

fun is_json_object :: "json \<Rightarrow> bool" where
  "is_json_object (JObj _) = True"
| "is_json_object (JArr _) = True"
| "is_json_object _ = False"

fun str_of :: "json option \<Rightarrow> string option" where
  "str_of (Some (JStr s)) = Some s"
| "str_of _ = None"

fun num_of :: "json option \<Rightarrow> real option" where
  "num_of (Some (JNum x)) = Some x"
| "num_of _ = None"

fun arr_of :: "json option \<Rightarrow> json list option" where
  "arr_of (Some (JArr xs)) = Some xs"
| "arr_of _ = None"

text \<open>Truthiness of an optional JSON value.\<close>

fun truthy :: "json option \<Rightarrow> bool" where
  "truthy None = False"
| "truthy (Some JNull) = False"
| "truthy (Some (JBool b)) = b"
| "truthy (Some (JNum x)) = (x \<noteq> 0)"
| "truthy (Some (JStr s)) = (s \<noteq> [])"
| "truthy (Some _) = True"

definition opt_or :: "'a option \<Rightarrow> 'a \<Rightarrow> 'a" where
  [js_eval]: "opt_or x d = (case x of None \<Rightarrow> d | Some v \<Rightarrow> v)"

text \<open>The operator \<open>??\<close> between two optional values.\<close>

definition opt_else :: "'a option \<Rightarrow> 'a option \<Rightarrow> 'a option" where
  [js_eval]: "opt_else x y = (case x of None \<Rightarrow> y | Some v \<Rightarrow> Some v)"

section \<open>Lemmas on strings\<close>

lemma opt_or_simps [simp]: "opt_or None d = d" "opt_or (Some v) d = v"
  by (simp_all add: opt_or_def)

lemma opt_else_simps [simp]: "opt_else None y = y" "opt_else (Some v) y = Some v"
  by (simp_all add: opt_else_def)

lemma join_Cons: "xs \<noteq> [] \<Longrightarrow> join sep (x # xs) = x @ sep @ join sep xs"
  by (cases xs) simp_all

lemma split_on_none: "x \<notin> set ys \<Longrightarrow> split_on x ys = [ys]"
  by (induction ys) auto

lemma split_on_nonempty [simp]: "split_on x ys \<noteq> []"
  by (induction ys) (auto split: list.splits)

lemma split_on_sep: "x \<notin> set ys \<Longrightarrow> split_on x (ys @ x # zs) = ys # split_on x zs"
  by (induction ys) (auto split: list.splits)

lemma split_join: "ls \<noteq> [] \<Longrightarrow> list_all (\<lambda>l. x \<notin> set l) ls \<Longrightarrow> split_on x (join [x] ls) = ls"
  by (induction "[x]" ls rule: join.induct) (simp_all add: split_on_none split_on_sep)

lemma drop_cr_id: "list_all (\<lambda>l. l = [] \<or> last l \<noteq> char_of (13::nat)) ls \<Longrightarrow> drop_cr ls = ls"
  by (induction ls rule: drop_cr.induct) auto

text \<open>Lines without line breaks, joined with line feeds, are split into the same lines.\<close>

lemma split_lines_join:
  assumes "ls \<noteq> []" "list_all (\<lambda>l. char_of (10::nat) \<notin> set l \<and> (l = [] \<or> last l \<noteq> char_of (13::nat))) ls"
  shows "split_lines (join [char_of (10::nat)] ls) = ls"
  using assms unfolding split_lines_def
  by (subst split_join) (auto simp: list_all_iff intro!: drop_cr_id)

lemma length_digit_str [simp]: "is_digit (digit_char d)" if "d < 10"
  using that by (simp add: is_digit_def digit_char_def)

lemma digit_val_char [simp]: "d < 10 \<Longrightarrow> digit_val (digit_char d) = d"
  by (simp add: digit_val_def digit_char_def)

lemma nat_str_digits: "c \<in> set (nat_str n) \<Longrightarrow> is_digit c"
proof (induction n rule: nat_str.induct)
  case (1 n)
  then show ?case
    by (cases "n < 10") (auto simp: nat_str.simps [of n])
qed

lemma nat_str_nonempty [simp]: "nat_str n \<noteq> []"
  by (simp add: nat_str.simps [of n])

lemma digits_val_snoc: "digits_val (s @ [c]) = 10 * digits_val s + digit_val c"
  by (simp add: digits_val_def)

lemma digits_val_nat_str [simp]: "digits_val (nat_str n) = n"
proof (induction n rule: nat_str.induct)
  case (1 n)
  then show ?case
    by (cases "n < 10") (simp_all add: nat_str.simps [of n] digits_val_snoc,
      simp add: digits_val_def)
qed

lemma nat_str_inject [simp]: "nat_str m = nat_str n \<longleftrightarrow> m = n"
  by (metis digits_val_nat_str)

text \<open>
  Printed numbers are self-delimiting: followed by a character that is no digit, the number
  and the rest can be read back.
\<close>

lemma digit_prefix_inject:
  assumes "\<forall>c \<in> set xs. is_digit c" "\<forall>c \<in> set ys. is_digit c"
    and "\<not> is_digit a" "\<not> is_digit b"
    and "xs @ a # s = ys @ b # t"
  shows "xs = ys \<and> a # s = b # t"
  using assms
proof (induction xs arbitrary: ys)
  case Nil
  then show ?case by (cases ys) auto
next
  case (Cons x xs)
  then show ?case by (cases ys) auto
qed

lemma nat_str_prefix_inject:
  assumes "nat_str m @ a # s = nat_str n @ b # t" "\<not> is_digit a" "\<not> is_digit b"
  shows "m = n \<and> a # s = b # t"
proof -
  have "nat_str m = nat_str n \<and> a # s = b # t"
    using assms nat_str_digits by (intro digit_prefix_inject) auto
  then show ?thesis by simp
qed

section \<open>Lemmas on case folding, sets and searches\<close>

lemma lower_lower [simp]: "lower_char (lower_char c) = lower_char c"
  by (auto simp: lower_char_def)

lemma toLowerCase_idem [simp]: "toLowerCase (toLowerCase s) = toLowerCase s"
  by (simp add: toLowerCase_def)

lemma set_set_add [simp]: "set (set_add x xs) = insert x (set xs)"
  by (auto simp: set_add_def)

lemma distinct_set_add [simp]: "distinct xs \<Longrightarrow> distinct (set_add x xs)"
  by (simp add: set_add_def)

lemma fold_set_add:
  "distinct (ys @ xs) \<Longrightarrow> fold set_add xs ys = ys @ xs"
  by (induction xs arbitrary: ys) (auto simp: set_add_def)

lemma set_of_list_distinct: "distinct xs \<Longrightarrow> set_of_list xs = xs"
  by (simp add: set_of_list_def fold_set_add)

lemma fold_set_add_props:
  "distinct ys \<Longrightarrow> distinct (fold set_add xs ys) \<and> set (fold set_add xs ys) = set xs \<union> set ys"
  by (induction xs arbitrary: ys) auto

lemma set_of_list_set [simp]: "set (set_of_list xs) = set xs" "distinct (set_of_list xs)"
  by (simp_all add: set_of_list_def fold_set_add_props)

lemma find_index_Some:
  "find_index P xs = Some i \<Longrightarrow> i < length xs \<and> P (xs ! i) \<and> (\<forall>j < i. \<not> P (xs ! j))"
  by (induction xs arbitrary: i) (auto split: if_splits simp: nth_Cons split: nat.splits)

lemma find_index_None: "find_index P xs = None \<longleftrightarrow> (\<forall>x \<in> set xs. \<not> P x)"
  by (induction xs) auto

lemma passed_all: "length (filter P xs) = length xs \<longleftrightarrow> list_all P xs"
  by (metis filter_id_conv list_all_iff length_filter_less less_irrefl)

lemma trim_nonempty: "c \<in> set s \<Longrightarrow> \<not> is_ws c \<Longrightarrow> trim s \<noteq> []"
proof -
  assume c: "c \<in> set s" "\<not> is_ws c"
  then have "c \<in> set (dropWhile is_ws s)" by (induction s) auto
  with c show ?thesis unfolding trim_def by (simp only: rev_is_Nil_conv dropWhile_eq_Nil_conv) auto
qed

lemma is_hex_digit: "d < 16 \<Longrightarrow> is_hex (hex_digit d)"
  by (auto simp: is_hex_def is_digit_def hex_digit_def)

end
