(* ===== verification/Protocol_Types.thy ===== *)
theory Protocol_Types
  imports Prelude
begin

text \<open>
  The domain types of the protocol package (\<open>packages/protocol/src/types.ts\<close>): one record
  per interface, one datatype per string union, and one datatype for the discriminated union
  of WebSocket messages. Optional fields are options. Millisecond times and counts are
  integers, as every producer under \<open>src/\<close> rounds them; fractions and scores are reals.
\<close>

type_synonym VideoId = string
type_synonym CueId = string
type_synonym JobId = string
type_synonym SessionToken = string
type_synonym RevisionId = string
type_synonym millis = int

datatype Provenance =
    HumanCaption | AutoCaption | Asr | UserEdit | Mt | VlmCorrected
  | LyricsOpenApi | LyricsImport | PageTranslate

datatype CaptionSourceKind =
  SourceHuman | SourceAuto | SourceAsrLive | SourceAsrImport | SourceUserEdit

datatype HardwareProfile = Lite | Balanced | Quality | Workstation

datatype ModelLicenseClass = CommercialDefault | OptionalLicense | ResearchOptIn

datatype JobKind =
    KAsr | KTranslate | KAlign | KVlmReview | KLookup | KExport | KPageTranslate | KLyricsResolve

datatype JobStatus = Queued | Running | Paused | Succeeded | Failed | Cancelled

record Cue =
  cue_id :: CueId
  startMs :: millis
  endMs :: millis
  cue_text :: string
  speaker :: "string option"
  provenance :: Provenance

record SourceTimeline =
  tl_videoId :: VideoId
  tl_cues :: "Cue list"
  sourceHash :: string
  immutable :: bool
  captionSource :: "CaptionSourceKind option"
  tl_language :: "string option"
  developmentFallback :: "bool option"

record TranslationCue =
  tc_id :: CueId
  sourceCueIds :: "CueId list"
  tc_text :: string
  tc_confidence :: real
  tc_provisional :: bool
  tc_revisionId :: RevisionId
  tc_startMs :: "millis option"
  tc_endMs :: "millis option"

record NamedEntity =
  ent_text :: string
  ent_type :: string
  ent_cueIds :: "CueId list"
  ent_locked :: "bool option"

record GlossaryEntry =
  gl_source :: string
  gl_target :: string
  caseSensitive :: "bool option"
  gl_locked :: "bool option"

record CodeSwitchSpan =
  cs_cueId :: CueId
  startOffset :: nat
  endOffset :: nat
  cs_language :: string

datatype NonSpeechKind = Laughter | Music | Applause | Silence | SoundEvent | OtherSound

record NonSpeechCue =
  ns_cueId :: CueId
  ns_kind :: NonSpeechKind
  ns_label :: string

record ContextPackage =
  cp_videoId :: VideoId
  sourceCues :: "Cue list"
  precedingDialogue :: "Cue list"
  followingDialogue :: "Cue list"
  speakers :: "string list"
  namedEntities :: "NamedEntity list"
  terminology :: "GlossaryEntry list"
  recurringPhrases :: "string list"
  userGlossary :: "GlossaryEntry list"
  genre :: "string option"
  cp_title :: "string option"
  description :: "string option"
  detectedDialect :: "string option"
  cp_register :: "string option"
  unresolvedPronouns :: "string list"
  codeSwitchSpans :: "CodeSwitchSpan list"
  nonSpeechCues :: "NonSpeechCue list"

record JobProgress =
  jp_jobId :: JobId
  jp_kind :: JobKind
  jp_status :: JobStatus
  fraction :: real
  jp_message :: "string option"
  cueCount :: "nat option"
  jp_updatedAtMs :: millis

record JobFailure =
  jf_jobId :: JobId
  jf_kind :: JobKind
  jf_code :: string
  jf_message :: string
  retryable :: bool

record AuthHandshakeRequest =
  rq_protocolVersion :: string
  extensionId :: string
  nonce :: string
  requestedAtMs :: real

record AuthHandshakeResponse =
  rs_protocolVersion :: string
  rs_sessionToken :: SessionToken
  expiresAtMs :: real
  companionBuild :: "string option"
  rs_ok :: bool

datatype HandshakeFailureCode = VersionMismatch | OriginRejected | RateLimited | Internal

record AuthHandshakeFailure =
  fl_protocolVersion :: string
  fl_code :: HandshakeFailureCode
  fl_message :: string
  fl_ok :: bool

datatype FidelityCheckKind =
    MissingNumber | ExtraNumber | MissingName | ExtraName | UrlMismatch | UnitMismatch
  | Negation | PunctuationIntent | CueCount | EmptyOutput | ScriptMismatch
  | TimingReadability | OtherCheck

record FidelityCheck =
  ck_kind :: FidelityCheckKind
  ck_passed :: bool
  ck_detail :: "string option"
  ck_cueIds :: "CueId list option"

record FidelityCheckResult =
  fr_ok :: bool
  checks :: "FidelityCheck list"
  score :: real

record AmbiguityEvidence =
  ae_id :: string
  ae_cueIds :: "CueId list"
  ae_reason :: string
  ae_confidence :: real
  ae_frameRefs :: "string list option"
  ocrText :: "string option"
  vlmAnswer :: "string option"
  resolved :: "bool option"

record LexemeSense =
  ls_id :: string
  ls_glosses :: "string list"
  ls_pos :: "string list option"
  ls_examples :: "string list option"
  ls_register :: "string option"
  ls_tags :: "string list option"

record DictionaryEntry =
  de_id :: string
  de_lemma :: string
  de_language :: string
  de_readings :: "string list option"
  de_pronunciations :: "string list option"
  de_senses :: "LexemeSense list"
  de_frequency :: "real option"
  de_etymology :: "string option"
  de_source :: string
  de_license :: string
  de_attribution :: "string option"

datatype FsrsPhase = PhNew | PhLearning | PhReview | PhRelearning

record FsrsState =
  due :: millis
  stability :: real
  difficulty :: real
  elapsedDays :: real
  scheduledDays :: int
  reps :: int
  lapses :: int
  phase :: FsrsPhase
  lastReview :: "millis option"

record StudyCard =
  card_id :: string
  card_videoId :: "VideoId option"
  sourceText :: string
  translationText :: "string option"
  card_cueIds :: "CueId list option"
  definitionIds :: "string list option"
  card_tags :: "string list"
  card_provenance :: Provenance
  fsrs :: FsrsState
  createdAtMs :: millis
  updatedAtMs :: millis

datatype PageTranslateMode = ModeOriginal | ModeTranslated | ModeDual

record PageSegment =
  seg_id :: string
  seg_path :: string
  seg_originalText :: string
  textHash :: string

record PageTranslateRequest =
  pr_url :: string
  pr_canonicalUrl :: string
  pr_sourceLang :: string
  pr_targetLang :: string
  pr_modelId :: string
  pr_modelRevision :: string
  pr_segments :: "PageSegment list"
  pr_mode :: PageTranslateMode

record PageTranslateSegmentResult =
  res_id :: string
  translatedText :: string
  res_confidence :: real
  res_provisional :: bool

datatype LyricsSourceKind = PageCaption | PageEmbedded | LrcLib | UserImport | AsrLyrics

record LyricsAttribution =
  la_source :: LyricsSourceKind
  la_provider :: "string option"
  la_url :: "string option"
  fetchedAtMs :: "millis option"
  licenseNote :: "string option"

record LyricsResolveQuery =
  lq_videoId :: "VideoId option"
  lq_title :: string
  lq_artist :: "string option"
  lq_album :: "string option"
  lq_durationMs :: "millis option"
  lq_treatAsSong :: "bool option"

record SongDetectionResult =
  isSong :: bool
  sd_confidence :: real
  reasons :: "string list"

datatype ExportFormat = Srt | Vtt | JsonExport | Anki

datatype LyricsFormat = FmtLrc | FmtTtml | FmtPlain

datatype WipeScope =
  ScAll | ScTranscripts | ScTranslations | ScLyrics | ScPageCache | ScStudy | ScDictionaries

datatype RetentionPreset = RetSession | RetDays7 | RetDays30 | RetKeep

datatype StudyOp = OpPut | OpGet | OpList | OpDelete

record DictImportEntry =
  die_id :: string
  die_surface :: string
  die_reading :: "string option"
  glossaryJson :: "string option"

record DictLookupEntry =
  dle_id :: string
  dictionaryId :: string
  dle_surface :: string
  dle_reading :: "string option"
  dle_glossaryJson :: "string option"

record HydratedTranslation =
  ht_videoId :: VideoId
  ht_cues :: "TranslationCue list"
  ht_revisionId :: RevisionId
  ht_sourceHash :: "string option"
  ht_targetLang :: "string option"

section \<open>The WebSocket message union\<close>

text \<open>
  One constructor per member of \<open>WsMessage\<close>, its arguments in the order of the fields, the
  session token first where the message has one.
\<close>

datatype (plugins del: "quickcheck" transfer lifting) WsMessage =
    MAuthRequest AuthHandshakeRequest
  | MAuthResponse AuthHandshakeResponse
  | MAuthFailure AuthHandshakeFailure
  | MSessionPing SessionToken millis
  | MSessionPong SessionToken millis
  | MJobSubmit SessionToken JobId JobKind VideoId "(string \<times> json) list"
  | MJobCancel SessionToken JobId
  | MJobProgress SessionToken JobProgress
  | MJobResult SessionToken JobId JobKind json
  | MJobFailed SessionToken JobFailure
  | MTimelineSource SessionToken SourceTimeline
  | MTimelineTranslation SessionToken VideoId "TranslationCue list" RevisionId
  | MContextPackage SessionToken ContextPackage
  | MFidelityResult SessionToken JobId FidelityCheckResult
  | MAmbiguityEvidence SessionToken AmbiguityEvidence
  | MLookupRequest SessionToken string string string "CueId option"
  | MLookupResponse SessionToken string "DictionaryEntry list"
  | MExportRequest SessionToken JobId ExportFormat VideoId
  | MPageTranslateSubmit SessionToken JobId PageTranslateRequest
  | MPageTranslateResult SessionToken JobId "PageTranslateSegmentResult list" bool
  | MPageTranslateCacheClear SessionToken "string option"
  | MLyricsDetect SessionToken string string "string option" "string option" "string option"
  | MLyricsResolve SessionToken JobId LyricsResolveQuery bool
  | MLyricsTimeline SessionToken JobId SourceTimeline LyricsAttribution
  | MLyricsImport SessionToken JobId LyricsFormat string "VideoId option"
  | MLyricsClearCache SessionToken "VideoId option"
  | MLyricsCacheCleared SessionToken nat
  | MSettingsLyricsNetwork SessionToken bool
  | MJobPause SessionToken JobId
  | MJobResume SessionToken JobId
  | MAudioChunk SessionToken JobId real nat string
  | MPrivacyWipe SessionToken WipeScope
  | MPrivacyWipeResult SessionToken "(string \<times> nat) list"
  | MRetentionSet SessionToken RetentionPreset
  | MRetentionGet SessionToken
  | MRetentionStatus SessionToken RetentionPreset
  | MTimelineHydrate SessionToken VideoId "string option"
  | MTimelineHydrated SessionToken VideoId "SourceTimeline option" "HydratedTranslation option"
  | MStudySync SessionToken StudyOp "string option" "string option" "(string \<times> json) list option"
  | MStudySyncResult SessionToken "(string \<times> json) list"
  | MDictionaryImport SessionToken string string string string "string option"
      "DictImportEntry list option" "nat option"
  | MDictionaryLookup SessionToken string "DictLookupEntry list option"
  | MDictionaryStats SessionToken nat nat
  | MError "SessionToken option" string string "bool option"

text \<open>The discriminator \<open>type\<close> of a message.\<close>

primrec ws_type :: "WsMessage \<Rightarrow> string" where
  "ws_type (MAuthRequest _) = ''auth.handshake.request''"
| "ws_type (MAuthResponse _) = ''auth.handshake.response''"
| "ws_type (MAuthFailure _) = ''auth.handshake.failure''"
| "ws_type (MSessionPing _ _) = ''session.ping''"
| "ws_type (MSessionPong _ _) = ''session.pong''"
| "ws_type (MJobSubmit _ _ _ _ _) = ''job.submit''"
| "ws_type (MJobCancel _ _) = ''job.cancel''"
| "ws_type (MJobProgress _ _) = ''job.progress''"
| "ws_type (MJobResult _ _ _ _) = ''job.result''"
| "ws_type (MJobFailed _ _) = ''job.failed''"
| "ws_type (MTimelineSource _ _) = ''timeline.source''"
| "ws_type (MTimelineTranslation _ _ _ _) = ''timeline.translation''"
| "ws_type (MContextPackage _ _) = ''context.package''"
| "ws_type (MFidelityResult _ _ _) = ''fidelity.result''"
| "ws_type (MAmbiguityEvidence _ _) = ''ambiguity.evidence''"
| "ws_type (MLookupRequest _ _ _ _ _) = ''lookup.request''"
| "ws_type (MLookupResponse _ _ _) = ''lookup.response''"
| "ws_type (MExportRequest _ _ _ _) = ''export.request''"
| "ws_type (MPageTranslateSubmit _ _ _) = ''page.translate.submit''"
| "ws_type (MPageTranslateResult _ _ _ _) = ''page.translate.result''"
| "ws_type (MPageTranslateCacheClear _ _) = ''page.translate.cache.clear''"
| "ws_type (MLyricsDetect _ _ _ _ _ _) = ''lyrics.detect''"
| "ws_type (MLyricsResolve _ _ _ _) = ''lyrics.resolve''"
| "ws_type (MLyricsTimeline _ _ _ _) = ''lyrics.timeline''"
| "ws_type (MLyricsImport _ _ _ _ _) = ''lyrics.import''"
| "ws_type (MLyricsClearCache _ _) = ''lyrics.clear-cache''"
| "ws_type (MLyricsCacheCleared _ _) = ''lyrics.cache.cleared''"
| "ws_type (MSettingsLyricsNetwork _ _) = ''settings.lyrics.network''"
| "ws_type (MJobPause _ _) = ''job.pause''"
| "ws_type (MJobResume _ _) = ''job.resume''"
| "ws_type (MAudioChunk _ _ _ _ _) = ''audio.chunk''"
| "ws_type (MPrivacyWipe _ _) = ''privacy.wipe''"
| "ws_type (MPrivacyWipeResult _ _) = ''privacy.wipe.result''"
| "ws_type (MRetentionSet _ _) = ''retention.set''"
| "ws_type (MRetentionGet _) = ''retention.get''"
| "ws_type (MRetentionStatus _ _) = ''retention.status''"
| "ws_type (MTimelineHydrate _ _ _) = ''timeline.hydrate''"
| "ws_type (MTimelineHydrated _ _ _ _) = ''timeline.hydrated''"
| "ws_type (MStudySync _ _ _ _ _) = ''study.sync''"
| "ws_type (MStudySyncResult _ _) = ''study.sync.result''"
| "ws_type (MDictionaryImport _ _ _ _ _ _ _ _) = ''dictionary.import''"
| "ws_type (MDictionaryLookup _ _ _) = ''dictionary.lookup''"
| "ws_type (MDictionaryStats _ _ _) = ''dictionary.stats''"
| "ws_type (MError _ _ _ _) = ''error''"

text \<open>The session token a message carries, if any.\<close>

primrec ws_token :: "WsMessage \<Rightarrow> SessionToken option" where
  "ws_token (MAuthRequest _) = None"
| "ws_token (MAuthResponse r) = Some (rs_sessionToken r)"
| "ws_token (MAuthFailure _) = None"
| "ws_token (MSessionPing t _) = Some t"
| "ws_token (MSessionPong t _) = Some t"
| "ws_token (MJobSubmit t _ _ _ _) = Some t"
| "ws_token (MJobCancel t _) = Some t"
| "ws_token (MJobProgress t _) = Some t"
| "ws_token (MJobResult t _ _ _) = Some t"
| "ws_token (MJobFailed t _) = Some t"
| "ws_token (MTimelineSource t _) = Some t"
| "ws_token (MTimelineTranslation t _ _ _) = Some t"
| "ws_token (MContextPackage t _) = Some t"
| "ws_token (MFidelityResult t _ _) = Some t"
| "ws_token (MAmbiguityEvidence t _) = Some t"
| "ws_token (MLookupRequest t _ _ _ _) = Some t"
| "ws_token (MLookupResponse t _ _) = Some t"
| "ws_token (MExportRequest t _ _ _) = Some t"
| "ws_token (MPageTranslateSubmit t _ _) = Some t"
| "ws_token (MPageTranslateResult t _ _ _) = Some t"
| "ws_token (MPageTranslateCacheClear t _) = Some t"
| "ws_token (MLyricsDetect t _ _ _ _ _) = Some t"
| "ws_token (MLyricsResolve t _ _ _) = Some t"
| "ws_token (MLyricsTimeline t _ _ _) = Some t"
| "ws_token (MLyricsImport t _ _ _ _) = Some t"
| "ws_token (MLyricsClearCache t _) = Some t"
| "ws_token (MLyricsCacheCleared t _) = Some t"
| "ws_token (MSettingsLyricsNetwork t _) = Some t"
| "ws_token (MJobPause t _) = Some t"
| "ws_token (MJobResume t _) = Some t"
| "ws_token (MAudioChunk t _ _ _ _) = Some t"
| "ws_token (MPrivacyWipe t _) = Some t"
| "ws_token (MPrivacyWipeResult t _) = Some t"
| "ws_token (MRetentionSet t _) = Some t"
| "ws_token (MRetentionGet t) = Some t"
| "ws_token (MRetentionStatus t _) = Some t"
| "ws_token (MTimelineHydrate t _ _) = Some t"
| "ws_token (MTimelineHydrated t _ _ _) = Some t"
| "ws_token (MStudySync t _ _ _ _) = Some t"
| "ws_token (MStudySyncResult t _) = Some t"
| "ws_token (MDictionaryImport t _ _ _ _ _ _ _) = Some t"
| "ws_token (MDictionaryLookup t _ _) = Some t"
| "ws_token (MDictionaryStats t _ _) = Some t"
| "ws_token (MError t _ _ _) = t"

end
