(* ===== verification/Messages.thy ===== *)
theory Messages
  imports Protocol_Types
begin

text \<open>
  The message constructors of \<open>packages/protocol/src/messages.ts\<close> (the handshake ones are in
  theory Handshake). An object literal with a spread of an optional field is the
  constructor applied to the option.
\<close>

definition createJobSubmit ::
  "SessionToken \<Rightarrow> JobId \<Rightarrow> JobKind \<Rightarrow> VideoId \<Rightarrow> (string \<times> json) list option \<Rightarrow> WsMessage" where
  "createJobSubmit token job kind video payload =
     MJobSubmit token job kind video (opt_or payload [])"

definition createJobProgress :: "SessionToken \<Rightarrow> JobProgress \<Rightarrow> WsMessage" where
  "createJobProgress token progress = MJobProgress token progress"

definition createJobFailed :: "SessionToken \<Rightarrow> JobFailure \<Rightarrow> WsMessage" where
  "createJobFailed token failure = MJobFailed token failure"

definition createTimelineSource :: "SessionToken \<Rightarrow> SourceTimeline \<Rightarrow> WsMessage" where
  "createTimelineSource token timeline = MTimelineSource token timeline"

definition createTimelineTranslation ::
  "SessionToken \<Rightarrow> VideoId \<Rightarrow> TranslationCue list \<Rightarrow> RevisionId \<Rightarrow> WsMessage" where
  "createTimelineTranslation token video cues revision =
     MTimelineTranslation token video cues revision"

definition createContextPackageMessage :: "SessionToken \<Rightarrow> ContextPackage \<Rightarrow> WsMessage" where
  "createContextPackageMessage token ctx = MContextPackage token ctx"

definition createFidelityResult :: "SessionToken \<Rightarrow> JobId \<Rightarrow> FidelityCheckResult \<Rightarrow> WsMessage" where
  "createFidelityResult token job result = MFidelityResult token job result"

definition createAmbiguityEvidence :: "SessionToken \<Rightarrow> AmbiguityEvidence \<Rightarrow> WsMessage" where
  "createAmbiguityEvidence token evidence = MAmbiguityEvidence token evidence"

definition createLookupResponse ::
  "SessionToken \<Rightarrow> string \<Rightarrow> DictionaryEntry list \<Rightarrow> WsMessage" where
  "createLookupResponse token request entries = MLookupResponse token request entries"

definition createPageTranslateSubmit ::
  "SessionToken \<Rightarrow> JobId \<Rightarrow> PageTranslateRequest \<Rightarrow> WsMessage" where
  "createPageTranslateSubmit token job request = MPageTranslateSubmit token job request"

definition createPageTranslateResult ::
  "SessionToken \<Rightarrow> JobId \<Rightarrow> PageTranslateSegmentResult list \<Rightarrow> bool option \<Rightarrow> WsMessage" where
  "createPageTranslateResult token job results cacheHit =
     MPageTranslateResult token job results (opt_or cacheHit False)"

definition createLyricsDetect ::
  "SessionToken \<Rightarrow> string \<Rightarrow> string \<Rightarrow> string option \<Rightarrow> string option \<Rightarrow> string option \<Rightarrow> WsMessage"
where
  "createLyricsDetect token request href title channel category =
     MLyricsDetect token request href title channel category"

definition createLyricsTimeline ::
  "SessionToken \<Rightarrow> JobId \<Rightarrow> SourceTimeline \<Rightarrow> LyricsAttribution \<Rightarrow> WsMessage" where
  "createLyricsTimeline token job timeline attribution =
     MLyricsTimeline token job timeline attribution"

definition createPrivacyWipe :: "SessionToken \<Rightarrow> WipeScope \<Rightarrow> WsMessage" where
  "createPrivacyWipe token scope = MPrivacyWipe token scope"

definition createRetentionSet :: "SessionToken \<Rightarrow> RetentionPreset \<Rightarrow> WsMessage" where
  "createRetentionSet token preset = MRetentionSet token preset"

definition createTimelineHydrate :: "SessionToken \<Rightarrow> VideoId \<Rightarrow> string option \<Rightarrow> WsMessage" where
  "createTimelineHydrate token video hash = MTimelineHydrate token video hash"

definition createStudySync ::
  "SessionToken \<Rightarrow> StudyOp \<Rightarrow> string option \<Rightarrow> string option \<Rightarrow> (string \<times> json) list option \<Rightarrow> WsMessage"
where
  "createStudySync token op kind ident payload = MStudySync token op kind ident payload"

definition createDictionaryLookup :: "SessionToken \<Rightarrow> string \<Rightarrow> WsMessage" where
  "createDictionaryLookup token surface = MDictionaryLookup token surface None"

definition isWsMessageType :: "WsMessage \<Rightarrow> string \<Rightarrow> bool" where
  "isWsMessageType message ty \<longleftrightarrow> ws_type message = ty"

definition emptyContextPackage :: "VideoId \<Rightarrow> Cue list \<Rightarrow> ContextPackage" where
  "emptyContextPackage video cues =
     \<lparr>cp_videoId = video, sourceCues = cues, precedingDialogue = [], followingDialogue = [],
      speakers = [], namedEntities = [], terminology = [], recurringPhrases = [],
      userGlossary = [], genre = None, cp_title = None, description = None,
      detectedDialect = None, cp_register = None, unresolvedPronouns = [],
      codeSwitchSpans = [], nonSpeechCues = []\<rparr>"

lemmas message_constructors =
  createJobSubmit_def createJobProgress_def createJobFailed_def createTimelineSource_def
  createTimelineTranslation_def createContextPackageMessage_def createFidelityResult_def
  createAmbiguityEvidence_def createLookupResponse_def createPageTranslateSubmit_def
  createPageTranslateResult_def createLyricsDetect_def createLyricsTimeline_def
  createPrivacyWipe_def createRetentionSet_def createTimelineHydrate_def createStudySync_def
  createDictionaryLookup_def

end
