(* ===== verification/Js_Text.thy ===== *)
theory Js_Text
  imports Prelude
begin

text \<open>
  Facts about the string routines of the prelude that several components share: the words of
  a text (its maximal runs of characters that are no white space), which trimming and
  collapsing white space leave alone, the shape of trimmed text, and the scan for runs of
  word characters that regular expressions with \<open>\b...\b\<close> perform.
\<close>

section \<open>The words of a text\<close>

fun split_ws :: "string \<Rightarrow> string list" where
  "split_ws [] = [[]]"
| "split_ws (c # s) =
     (if is_ws c then [] # split_ws s else (c # hd (split_ws s)) # tl (split_ws s))"

definition words :: "string \<Rightarrow> string list" where
  "words s = filter (\<lambda>w. w \<noteq> []) (split_ws s)"

lemma split_ws_nonempty [simp]: "split_ws s \<noteq> []"
  by (cases s) auto

lemma split_ws_append_ws:
  "is_ws c \<Longrightarrow> split_ws (a @ c # b) = split_ws a @ split_ws b"
  by (induction a) (auto simp: neq_Nil_conv hd_append)

lemma words_Nil [simp]: "words [] = []"
  by (simp add: words_def)

lemma words_ws [simp]: "is_ws c \<Longrightarrow> words (c # s) = words s"
  by (simp add: words_def)

lemma words_append_ws: "is_ws c \<Longrightarrow> words (a @ c # b) = words a @ words b"
  by (simp add: words_def split_ws_append_ws)

lemma words_all_ws: "\<forall>c \<in> set w. is_ws c \<Longrightarrow> words w = []"
  by (induction w) auto

lemma words_append_all_ws:
  assumes "\<forall>c \<in> set w. is_ws c"
  shows "words (a @ w) = words a"
proof (cases w)
  case (Cons c w')
  with assms show ?thesis by (simp add: words_append_ws words_all_ws)
qed simp

lemma words_trim_start [simp]: "words (dropWhile is_ws s) = words s"
  by (induction s) auto

lemma words_trim [simp]: "words (trim s) = words s"
proof -
  let ?t = "dropWhile is_ws s"
  have split: "?t = rev (dropWhile is_ws (rev ?t)) @ rev (takeWhile is_ws (rev ?t))"
    by (metis rev_append rev_rev_ident takeWhile_dropWhile_id)
  have "\<forall>c \<in> set (rev (takeWhile is_ws (rev ?t))). is_ws c"
    by (auto dest: set_takeWhileD)
  then have "words ?t = words (rev (dropWhile is_ws (rev ?t)))"
    using words_append_all_ws split by metis
  then show ?thesis by (simp add: trim_def)
qed

lemma split_ws_collapse:
  "hd (split_ws (collapse_ws s)) = hd (split_ws s) \<and>
   filter (\<lambda>w. w \<noteq> []) (tl (split_ws (collapse_ws s))) =
   filter (\<lambda>w. w \<noteq> []) (tl (split_ws s))"
proof (induction s rule: collapse_ws.induct)
  case 1
  then show ?case by simp
next
  case (2 c)
  then show ?case by (simp add: is_ws_def)
next
  case (3 c d s)
  have blank: "is_ws CHR '' ''" by (simp add: is_ws_def)
  have hd_tl: "filter (\<lambda>w. w \<noteq> []) (split_ws t) =
      (if hd (split_ws t) = [] then [] else [hd (split_ws t)]) @
      filter (\<lambda>w. w \<noteq> []) (tl (split_ws t))" for t
    by (cases "split_ws t") auto
  show ?case
  proof (cases "is_ws c")
    case True
    with 3 show ?thesis
      by (cases "is_ws d") (auto simp: blank hd_tl [of "collapse_ws (d # s)"])
  next
    case False
    with 3 show ?thesis by auto
  qed
qed

lemma words_collapse_ws [simp]: "words (collapse_ws s) = words s"
proof -
  have "words t = (if hd (split_ws t) = [] then [] else [hd (split_ws t)]) @
      filter (\<lambda>w. w \<noteq> []) (tl (split_ws t))" for t
    by (cases "split_ws t") (auto simp: words_def)
  then show ?thesis using split_ws_collapse [of s] by simp
qed

lemma is_ws_blank [simp]: "is_ws CHR '' ''"
  by (simp add: is_ws_def)

lemma trim_Nil_iff: "trim s = [] \<longleftrightarrow> (\<forall>c \<in> set s. is_ws c)"
proof
  assume "trim s = []"
  then have "\<forall>c \<in> set (dropWhile is_ws s). is_ws c"
    by (simp add: trim_def dropWhile_eq_Nil_conv)
  then have "dropWhile is_ws s = []"
    by (metis dropWhile_eq_Nil_conv hd_dropWhile hd_in_set)
  then show "\<forall>c \<in> set s. is_ws c" by (simp add: dropWhile_eq_Nil_conv)
next
  assume "\<forall>c \<in> set s. is_ws c"
  then have "dropWhile is_ws s = []" by (simp add: dropWhile_eq_Nil_conv)
  then show "trim s = []" by (simp only: trim_def) simp
qed

lemma set_trim: "set (trim s) \<subseteq> set s"
  unfolding trim_def by (metis set_dropWhileD set_rev subsetI)

lemma trim_id:
  assumes "s \<noteq> [] \<Longrightarrow> \<not> is_ws (hd s)" "s \<noteq> [] \<Longrightarrow> \<not> is_ws (last s)"
  shows "trim s = s"
proof (cases "s = []")
  case False
  then have "dropWhile is_ws s = s" using assms(1) by (cases s) auto
  moreover have "dropWhile is_ws (rev s) = rev s"
    using False assms(2) by (cases s rule: rev_cases) auto
  ultimately show ?thesis by (simp add: trim_def)
qed (simp add: trim_def)

lemma last_trim: "trim s \<noteq> [] \<Longrightarrow> \<not> is_ws (last (trim s))"
  by (simp add: trim_def last_rev hd_dropWhile)

lemma hd_trim: "trim s \<noteq> [] \<Longrightarrow> \<not> is_ws (hd (trim s))"
proof -
  assume ne: "trim s \<noteq> []"
  let ?t = "dropWhile is_ws s"
  have "?t = trim s @ rev (takeWhile is_ws (rev ?t))"
    by (metis rev_append rev_rev_ident takeWhile_dropWhile_id trim_def)
  with ne have "hd (trim s) = hd ?t" by (metis hd_append2)
  moreover from ne have "?t \<noteq> []" by (metis dropWhile.simps(1) rev.simps(1) trim_def)
  ultimately show "\<not> is_ws (hd (trim s))" using hd_dropWhile by metis
qed

lemma trim_trim [simp]: "trim (trim s) = trim s"
  by (rule trim_id) (simp_all add: hd_trim last_trim)

section \<open>Runs of word characters\<close>

text \<open>
  A regular expression \<open>\b(w1|w2|...)\b\<close> whose alternatives consist of word characters
  matches exactly when one of them is a maximal run of word characters of the text.
\<close>

fun word_runs :: "string \<Rightarrow> string list" where
  "word_runs [] = [[]]"
| "word_runs (c # s) =
     (if is_word_char c then (c # hd (word_runs s)) # tl (word_runs s) else [] # word_runs s)"

definition has_word :: "string list \<Rightarrow> string \<Rightarrow> bool" where
  [js_eval]: "has_word ws s \<longleftrightarrow> (\<exists>w \<in> set (word_runs s). w \<in> set ws)"

lemma word_runs_nonempty [simp]: "word_runs s \<noteq> []"
  by (cases s) auto

section \<open>Searching\<close>

text \<open>
  A regular expression without anchors: some place where the text goes on as \<open>P\<close> says.
\<close>

fun search :: "(string \<Rightarrow> bool) \<Rightarrow> string \<Rightarrow> bool" where
  "search P [] = P []"
| "search P (c # s) = (P (c # s) \<or> search P s)"

end
