(* ===== verification/Handshake.thy ===== *)
theory Handshake
  imports Protocol_Types Js_Text
begin

text \<open>
  Version negotiation and the authentication handshake between extension and companion:
  \<open>packages/protocol/src/version.ts\<close>, \<open>compatibility.ts\<close>, \<open>auth.ts\<close> and the handshake
  constructors and guards of \<open>messages.ts\<close>. A value of type \<open>unknown\<close> is a JSON value, the
  clock is the argument \<open>now\<close> and the bytes of the Web Crypto generator are an argument.
\<close>

section \<open>Versions\<close>

definition PROTOCOL_VERSION :: string where
  "PROTOCOL_VERSION = ''1.0.0''"

record VersionParts =
  major :: nat
  minor :: nat
  patch :: nat
  raw :: string

text \<open>The digits at the front of a string (the group \<open>(\d+)\<close>) and what follows them.\<close>

definition take_number :: "string \<Rightarrow> (string \<times> string) option" where
  "take_number s =
     (let ds = takeWhile is_digit s
      in if ds = [] then None else Some (ds, dropWhile is_digit s))"

definition expect_dot :: "string \<Rightarrow> string option" where
  "expect_dot s = (case s of [] \<Rightarrow> None | c # r \<Rightarrow> if c = CHR ''.'' then Some r else None)"

text \<open>The optional tail \<open>(?:[-+].*)?$\<close>; the dot matches no line terminator.\<close>

definition suffix_ok :: "string \<Rightarrow> bool" where
  "suffix_ok s =
     (case s of [] \<Rightarrow> True
      | c # r \<Rightarrow> (c = CHR ''-'' \<or> c = CHR ''+'')
          \<and> list_all (\<lambda>d. code d \<noteq> 10 \<and> code d \<noteq> 13) r)"

definition parseSemver :: "string \<Rightarrow> VersionParts option" where
  "parseSemver version =
     (let v = trim version in
      case take_number v of None \<Rightarrow> None
      | Some (a, r1) \<Rightarrow> (case Option.bind (expect_dot r1) take_number of None \<Rightarrow> None
      | Some (b, r2) \<Rightarrow> (case Option.bind (expect_dot r2) take_number of None \<Rightarrow> None
      | Some (c, r3) \<Rightarrow>
          if suffix_ok r3
          then Some \<lparr>major = digits_val a, minor = digits_val b, patch = digits_val c, raw = v\<rparr>
          else None)))"

definition versionsCompatible :: "string \<Rightarrow> string \<Rightarrow> bool" where
  "versionsCompatible clientVersion companionVersion =
     (case (parseSemver clientVersion, parseSemver companionVersion) of
        (Some client, Some companion) \<Rightarrow> major client = major companion
      | _ \<Rightarrow> False)"

datatype VersionSkew =
    SkewCompatible VersionParts VersionParts
  | SkewMajorMismatch VersionParts VersionParts
  | SkewInvalid string string

definition checkVersionSkew :: "string \<Rightarrow> string \<Rightarrow> VersionSkew" where
  "checkVersionSkew clientVersion companionVersion =
     (case (parseSemver clientVersion, parseSemver companionVersion) of
        (Some client, Some companion) \<Rightarrow>
          if major client \<noteq> major companion then SkewMajorMismatch client companion
          else SkewCompatible client companion
      | _ \<Rightarrow> SkewInvalid clientVersion companionVersion)"

definition isClientAhead :: "string \<Rightarrow> string \<Rightarrow> bool" where
  "isClientAhead clientVersion companionVersion =
     (case (parseSemver clientVersion, parseSemver companionVersion) of
        (Some client, Some companion) \<Rightarrow>
          if major client \<noteq> major companion then False
          else if minor client \<noteq> minor companion then minor client > minor companion
          else patch client > patch companion
      | _ \<Rightarrow> False)"

section \<open>Tokens\<close>

text \<open>\<open>b.toString(16).padStart(2, "0")\<close> of one byte.\<close>

definition byte_hex :: "8 word \<Rightarrow> string" where
  "byte_hex b = [hex_digit (unat b div 16), hex_digit (unat b mod 16)]"

text \<open>\<open>randomHex\<close> on the bytes the generator filled the buffer with.\<close>

definition randomHex :: "8 word list \<Rightarrow> string" where
  "randomHex buf = concat (map byte_hex buf)"

definition isSessionToken :: "string \<Rightarrow> bool" where
  "isSessionToken t \<longleftrightarrow> 32 \<le> length t \<and> length t \<le> 128 \<and>
     list_all (\<lambda>c. is_hex c \<or> (65 \<le> code c \<and> code c \<le> 70)) t"

section \<open>Handshake messages\<close>

definition createAuthHandshakeRequest :: "string \<Rightarrow> string \<Rightarrow> real \<Rightarrow> AuthHandshakeRequest" where
  "createAuthHandshakeRequest ext nce requested =
     \<lparr>rq_protocolVersion = PROTOCOL_VERSION, extensionId = ext, nonce = nce,
      requestedAtMs = requested\<rparr>"

definition createAuthHandshakeResponse ::
  "SessionToken \<Rightarrow> real \<Rightarrow> string option \<Rightarrow> AuthHandshakeResponse" where
  "createAuthHandshakeResponse token expires build =
     \<lparr>rs_protocolVersion = PROTOCOL_VERSION, rs_sessionToken = token, expiresAtMs = expires,
      companionBuild = build, rs_ok = True\<rparr>"

definition createAuthHandshakeFailure :: "HandshakeFailureCode \<Rightarrow> string \<Rightarrow> AuthHandshakeFailure" where
  "createAuthHandshakeFailure cd msg =
     \<lparr>fl_protocolVersion = PROTOCOL_VERSION, fl_code = cd, fl_message = msg, fl_ok = False\<rparr>"

text \<open>The request as the JSON value that travels over the socket.\<close>

definition request_json :: "AuthHandshakeRequest \<Rightarrow> json" where
  "request_json r = JObj
     [(''type'', JStr ''auth.handshake.request''),
      (''protocolVersion'', JStr (rq_protocolVersion r)),
      (''extensionId'', JStr (extensionId r)),
      (''nonce'', JStr (nonce r)),
      (''requestedAtMs'', JNum (requestedAtMs r))]"

definition validateHandshakeRequest ::
  "json \<Rightarrow> string option \<Rightarrow> real option \<Rightarrow> real \<Rightarrow> AuthHandshakeFailure + AuthHandshakeRequest" where
  "validateHandshakeRequest v expectedExtensionId maxSkewMs now =
     (if \<not> is_json_object v then
        Inl (createAuthHandshakeFailure Internal ''Handshake payload must be an object'')
      else if str_of (json_field v ''type'') \<noteq> Some ''auth.handshake.request'' then
        Inl (createAuthHandshakeFailure Internal ''Expected auth.handshake.request'')
      else case (str_of (json_field v ''protocolVersion''), str_of (json_field v ''extensionId''),
                 str_of (json_field v ''nonce''), num_of (json_field v ''requestedAtMs'')) of
        (Some ver, Some ext, Some nce, Some requested) \<Rightarrow>
          if \<not> versionsCompatible ver PROTOCOL_VERSION then
            Inl (createAuthHandshakeFailure VersionMismatch
              (''Protocol major mismatch: client='' @ ver @ '' companion='' @ PROTOCOL_VERSION))
          else if (case expectedExtensionId of None \<Rightarrow> False | Some e \<Rightarrow> e \<noteq> [] \<and> ext \<noteq> e) then
            Inl (createAuthHandshakeFailure OriginRejected ''Extension id is not allowlisted'')
          else if \<bar>now - requested\<bar> > opt_or maxSkewMs 120000 then
            Inl (createAuthHandshakeFailure RateLimited ''Handshake timestamp skew too large'')
          else if length nce < 16 then
            Inl (createAuthHandshakeFailure Internal ''Nonce too short'')
          else Inr \<lparr>rq_protocolVersion = ver, extensionId = ext, nonce = nce,
                    requestedAtMs = requested\<rparr>
      | _ \<Rightarrow> Inl (createAuthHandshakeFailure Internal ''Handshake fields are incomplete''))"

definition isHandshakeResponseValid :: "AuthHandshakeResponse \<Rightarrow> real \<Rightarrow> bool" where
  "isHandshakeResponseValid r now \<longleftrightarrow>
     rs_ok r \<and> versionsCompatible (rs_protocolVersion r) PROTOCOL_VERSION
     \<and> isSessionToken (rs_sessionToken r) \<and> expiresAtMs r > now"

text \<open>The type guards of \<open>messages.ts\<close>.\<close>

definition isWsMessage :: "json \<Rightarrow> bool" where
  "isWsMessage v \<longleftrightarrow> is_json_object v \<and> str_of (json_field v ''type'') \<noteq> None"

definition isAuthHandshakeRequest :: "json \<Rightarrow> bool" where
  "isAuthHandshakeRequest v \<longleftrightarrow>
     isWsMessage v \<and> str_of (json_field v ''type'') = Some ''auth.handshake.request''"

definition isAuthHandshakeResponse :: "json \<Rightarrow> bool" where
  "isAuthHandshakeResponse v \<longleftrightarrow>
     isWsMessage v \<and> str_of (json_field v ''type'') = Some ''auth.handshake.response''
     \<and> json_field v ''ok'' = Some (JBool True)"

definition isAuthHandshakeFailure :: "json \<Rightarrow> bool" where
  "isAuthHandshakeFailure v \<longleftrightarrow>
     isWsMessage v \<and> str_of (json_field v ''type'') = Some ''auth.handshake.failure''
     \<and> json_field v ''ok'' = Some (JBool False)"

section \<open>Version parsing\<close>

definition version_string :: "nat \<Rightarrow> nat \<Rightarrow> nat \<Rightarrow> string \<Rightarrow> string" where
  "version_string a b c sfx = nat_str a @ ''.'' @ nat_str b @ ''.'' @ nat_str c @ sfx"

lemma nat_str_all_digits: "\<forall>c \<in> set (nat_str n). is_digit c"
  using nat_str_digits by blast

lemma take_number_nat_str:
  assumes "r = [] \<or> \<not> is_digit (hd r)"
  shows "take_number (nat_str n @ r) = Some (nat_str n, r)"
proof -
  have "takeWhile is_digit (nat_str n @ r) = nat_str n \<and> dropWhile is_digit (nat_str n @ r) = r"
    using assms nat_str_all_digits [of n] by (cases r) (auto simp: takeWhile_append dropWhile_append)
  then show ?thesis by (simp add: take_number_def)
qed

lemma digit_not_ws: "is_digit c \<Longrightarrow> \<not> is_ws c"
  by (auto simp: is_digit_def is_ws_def)

lemma hd_nat_str_append: "is_digit (hd (nat_str n @ r))"
  using nat_str_all_digits [of n] by (cases "nat_str n") auto

lemma trim_version_string:
  assumes "sfx = [] \<or> \<not> is_ws (last sfx)"
  shows "trim (version_string a b c sfx) = version_string a b c sfx"
proof (rule trim_id)
  show "\<not> is_ws (hd (version_string a b c sfx))"
    using hd_nat_str_append digit_not_ws by (auto simp: version_string_def)
  have "is_digit (last (nat_str c))" using nat_str_all_digits last_in_set nat_str_nonempty by blast
  then show "\<not> is_ws (last (version_string a b c sfx))"
    using assms digit_not_ws by (cases "sfx = []") (auto simp: version_string_def)
qed

lemma parseSemver_version_string:
  assumes "suffix_ok sfx" "sfx = [] \<or> \<not> is_ws (last sfx)"
  shows "parseSemver (version_string a b c sfx) =
    Some \<lparr>major = a, minor = b, patch = c, raw = version_string a b c sfx\<rparr>"
proof -
  have "sfx = [] \<or> \<not> is_digit (hd sfx)"
    using assms(1) by (auto simp: suffix_ok_def is_digit_def split: list.splits)
  then have "take_number (nat_str c @ sfx) = Some (nat_str c, sfx)" by (rule take_number_nat_str)
  moreover have "take_number (nat_str b @ CHR ''.'' # r) = Some (nat_str b, CHR ''.'' # r)"
    "take_number (nat_str a @ CHR ''.'' # r) = Some (nat_str a, CHR ''.'' # r)" for r
    by (simp_all add: take_number_nat_str is_digit_def)
  ultimately show ?thesis
    using assms(1) trim_version_string [OF assms(2), of a b c]
    by (simp add: parseSemver_def Let_def version_string_def expect_dot_def)
qed

section \<open>Hexadecimal tokens\<close>

lemma length_randomHex: "length (randomHex buf) = 2 * length buf"
  by (induction buf) (simp_all add: randomHex_def byte_hex_def)

lemma unat_lt2p_byte: "unat (b :: 8 word) < 256"
  using unsigned_less [of b] by simp

lemma byte_hex_chars: "c \<in> set (byte_hex b) \<Longrightarrow> is_hex c"
  using unat_lt2p_byte [of b] is_hex_digit [of "unat b div 16"] is_hex_digit [of "unat b mod 16"]
  by (auto simp: byte_hex_def)

lemma randomHex_chars: "c \<in> set (randomHex buf) \<Longrightarrow> is_hex c"
  by (auto simp: randomHex_def dest: byte_hex_chars)

lemma isSessionToken_randomHex:
  "16 \<le> length buf \<Longrightarrow> length buf \<le> 64 \<Longrightarrow> isSessionToken (randomHex buf)"
  by (auto simp: isSessionToken_def length_randomHex list_all_iff dest: randomHex_chars)

section \<open>Properties\<close>

text \<open>Versions are compatible exactly when their major numbers agree, whatever the minor
  and patch numbers and the pre-release or build suffix, and the skew report says so too.\<close>

theorem compatible_iff_same_major:
  assumes "suffix_ok s" "s = [] \<or> \<not> is_ws (last s)"
    and "suffix_ok s'" "s' = [] \<or> \<not> is_ws (last s')"
  shows "versionsCompatible (version_string a b c s) (version_string a' b' c' s') = (a = a')
    \<and> ((\<exists>x y. checkVersionSkew (version_string a b c s) (version_string a' b' c' s')
         = SkewCompatible x y) = (a = a'))
    \<and> isClientAhead (version_string a b c s) (version_string a' b' c' s')
        = (a = a' \<and> (b' < b \<or> b = b' \<and> c' < c))"
  using parseSemver_version_string [OF assms(1,2)] parseSemver_version_string [OF assms(3,4)]
  by (auto simp: versionsCompatible_def checkVersionSkew_def isClientAhead_def)

theorem compatible_iff_same_major_witness:
  "versionsCompatible (version_string 1 4 0 ''-beta'') (version_string 1 0 0 [])"
  using compatible_iff_same_major [of "''-beta''" "[]" 1 4 0 1 0 0]
  by (simp add: suffix_ok_def is_ws_def)

lemma validate_Inr_iff:
  "validateHandshakeRequest v expected skew now = Inr r \<longleftrightarrow>
     is_json_object v
     \<and> str_of (json_field v ''type'') = Some ''auth.handshake.request''
     \<and> str_of (json_field v ''protocolVersion'') = Some (rq_protocolVersion r)
     \<and> str_of (json_field v ''extensionId'') = Some (extensionId r)
     \<and> str_of (json_field v ''nonce'') = Some (nonce r)
     \<and> num_of (json_field v ''requestedAtMs'') = Some (requestedAtMs r)
     \<and> versionsCompatible (rq_protocolVersion r) PROTOCOL_VERSION
     \<and> (expected = None \<or> expected = Some [] \<or> expected = Some (extensionId r))
     \<and> \<bar>now - requestedAtMs r\<bar> \<le> opt_or skew 120000
     \<and> 16 \<le> length (nonce r)"
  by (cases r) (auto simp: validateHandshakeRequest_def split: option.splits if_splits)

text \<open>C2: The companion side accepts a handshake exactly when the payload is an object of
  the request type with all four fields of their types, its protocol version is compatible,
  its extension is the expected one (if one is pinned), the clocks differ by at most the
  allowed skew and the nonce has at least 16 characters; what it accepts is what was sent.\<close>

theorem handshake_accepts_iff:
  "validateHandshakeRequest v expected skew now = Inr r \<longleftrightarrow>
     is_json_object v
     \<and> str_of (json_field v ''type'') = Some ''auth.handshake.request''
     \<and> str_of (json_field v ''protocolVersion'') = Some (rq_protocolVersion r)
     \<and> str_of (json_field v ''extensionId'') = Some (extensionId r)
     \<and> str_of (json_field v ''nonce'') = Some (nonce r)
     \<and> num_of (json_field v ''requestedAtMs'') = Some (requestedAtMs r)
     \<and> versionsCompatible (rq_protocolVersion r) PROTOCOL_VERSION
     \<and> (expected = None \<or> expected = Some [] \<or> expected = Some (extensionId r))
     \<and> \<bar>now - requestedAtMs r\<bar> \<le> opt_or skew 120000
     \<and> 16 \<le> length (nonce r)"
  by (rule validate_Inr_iff)

lemma PROTOCOL_VERSION_compatible: "versionsCompatible PROTOCOL_VERSION PROTOCOL_VERSION"
proof -
  have "PROTOCOL_VERSION = version_string 1 0 0 []"
    by code_simp
  then show ?thesis
    using parseSemver_version_string [of "[]" 1 0 0]
    by (simp add: versionsCompatible_def suffix_ok_def)
qed

text \<open>
  Round trip of a handshake: a request built from a fresh nonce of 16 to 64 random
  bytes passes validation against the same extension within the allowed clock skew and comes
  back unchanged, and the nonce is in the format the session tokens have.\<close>

theorem fresh_handshake_accepted:
  assumes "16 \<le> length buf" "length buf \<le> 64" "\<bar>now - t\<bar> \<le> opt_or skew 120000"
  shows "validateHandshakeRequest
      (request_json (createAuthHandshakeRequest ext (randomHex buf) t)) (Some ext) skew now
      = Inr (createAuthHandshakeRequest ext (randomHex buf) t)
    \<and> isSessionToken (randomHex buf)"
  using assms
  by (simp add: validate_Inr_iff request_json_def createAuthHandshakeRequest_def
      PROTOCOL_VERSION_compatible length_randomHex isSessionToken_randomHex)

theorem fresh_handshake_accepted_witness:
  "isSessionToken (randomHex (replicate 16 7))"
  using fresh_handshake_accepted [of "replicate 16 7" 1000 900 None "''ext''"] by simp

end
