(* ===== verification/Fsrs.thy ===== *)
theory Fsrs
  imports Protocol_Types
begin

text \<open>
  The FSRS review scheduler of \<open>packages/learning/src/fsrs.ts\<close>. Stabilities, difficulties and
  retrievabilities are reals (the doubles of the code, without their rounding), \<open>Math.exp\<close>
  and \<open>Math.pow\<close> on positive bases are \<open>exp\<close> and \<open>powr\<close>; due dates, intervals and counters
  are integers.
\<close>

section \<open>Definitions\<close>

text \<open>The ratings 1 to 4.\<close>

datatype FsrsRating = Again | Hard | Good | Easy

fun rating_num :: "FsrsRating \<Rightarrow> nat" where
  "rating_num Again = 1"
| "rating_num Hard = 2"
| "rating_num Good = 3"
| "rating_num Easy = 4"

instantiation FsrsRating :: linorder
begin

definition less_eq_FsrsRating :: "FsrsRating \<Rightarrow> FsrsRating \<Rightarrow> bool" where
  "less_eq_FsrsRating a b \<longleftrightarrow> rating_num a \<le> rating_num b"

definition less_FsrsRating :: "FsrsRating \<Rightarrow> FsrsRating \<Rightarrow> bool" where
  "less_FsrsRating a b \<longleftrightarrow> rating_num a < rating_num b"

instance
proof
  fix x y z :: FsrsRating
  show "(x < y) = (x \<le> y \<and> \<not> y \<le> x)"
    by (auto simp: less_FsrsRating_def less_eq_FsrsRating_def)
  show "x \<le> x" by (simp add: less_eq_FsrsRating_def)
  show "x \<le> y \<Longrightarrow> y \<le> z \<Longrightarrow> x \<le> z" by (simp add: less_eq_FsrsRating_def)
  show "x \<le> y \<Longrightarrow> y \<le> x \<Longrightarrow> x = y"
    by (cases x; cases y) (simp_all add: less_eq_FsrsRating_def)
  show "x \<le> y \<or> y \<le> x" by (auto simp: less_eq_FsrsRating_def)
qed

end

definition FSRS_DEFAULT_WEIGHTS :: "real list" where
  "FSRS_DEFAULT_WEIGHTS =
    [0.40255, 1.18385, 3.173, 15.69105, 7.1949, 0.5345, 1.4604, 0.0046, 1.54575,
     0.1192, 1.01925, 1.9395, 0.11, 0.29605, 2.2698, 0.2315, 2.9898, 0.51655, 0.6621]"

definition DECAY :: real where
  "DECAY = - 0.5"

definition FACTOR :: real where
  "FACTOR = 19 / 81"

definition MS_PER_DAY :: millis where
  "MS_PER_DAY = 86400000"

definition createInitialFsrs :: "millis \<Rightarrow> FsrsState" where
  "createInitialFsrs now =
     \<lparr>due = now, stability = 0, difficulty = 0, elapsedDays = 0, scheduledDays = 0,
      reps = 0, lapses = 0, phase = PhNew, lastReview = None\<rparr>"

definition clampDifficulty :: "real \<Rightarrow> real" where
  "clampDifficulty d = min 10 (max 1 d)"

definition constrainingStability :: "real \<Rightarrow> real" where
  "constrainingStability s = max 0.1 s"

definition initStability :: "real list \<Rightarrow> FsrsRating \<Rightarrow> real" where
  "initStability w r = constrainingStability (w ! (rating_num r - 1))"

definition initDifficulty :: "real list \<Rightarrow> FsrsRating \<Rightarrow> real" where
  "initDifficulty w r = clampDifficulty (w ! 4 - exp ((real (rating_num r) - 1) * w ! 5) + 1)"

definition nextDifficulty :: "real list \<Rightarrow> real \<Rightarrow> FsrsRating \<Rightarrow> real" where
  "nextDifficulty w d r =
     (let nxt = d - w ! 6 * (real (rating_num r) - 3);
          meanReversion = w ! 7 * initDifficulty w Good + (1 - w ! 7) * nxt
      in clampDifficulty meanReversion)"

definition nextStabilitySuccess :: "real list \<Rightarrow> real \<Rightarrow> real \<Rightarrow> real \<Rightarrow> FsrsRating \<Rightarrow> real" where
  "nextStabilitySuccess w d s r rating =
     (let hardPenalty = (if rating = Hard then w ! 15 else 1);
          easyBonus = (if rating = Easy then w ! 16 else 1)
      in constrainingStability
           (s * (exp (w ! 8) * (11 - d) * s powr (- w ! 9) * (exp ((1 - r) * w ! 10) - 1)
                 * hardPenalty * easyBonus + 1)))"

definition nextStabilityFail :: "real list \<Rightarrow> real \<Rightarrow> real \<Rightarrow> real \<Rightarrow> real" where
  "nextStabilityFail w d s r =
     constrainingStability
       (w ! 11 * d powr (- w ! 12) * ((s + 1) powr (w ! 13) - 1) * exp ((1 - r) * w ! 14))"

definition retrievability :: "real \<Rightarrow> real \<Rightarrow> real" where
  "retrievability s elapsed =
     (if s \<le> 0 then 0 else (1 + (FACTOR * elapsed) / s) powr DECAY)"

definition nextIntervalDays :: "real \<Rightarrow> real \<Rightarrow> int" where
  "nextIntervalDays s requestRetention =
     (let raw = (s / FACTOR) * (requestRetention powr (1 / DECAY) - 1)
      in max 1 (js_round raw))"

definition reviewFsrs ::
  "FsrsState \<Rightarrow> FsrsRating \<Rightarrow> millis \<Rightarrow> real list \<Rightarrow> real \<Rightarrow> FsrsState" where
  "reviewFsrs st rating now weights requestRetention =
     (let w = (if 19 \<le> length weights then weights else FSRS_DEFAULT_WEIGHTS);
          last = opt_or (lastReview st) now;
          elapsed = (if phase st = PhNew then 0
                     else max 0 (real_of_int (now - last) / real_of_int MS_PER_DAY));
          next = st\<lparr>reps := reps st + 1, lastReview := Some now, elapsedDays := elapsed\<rparr>
      in if phase st = PhNew then
           let next = next\<lparr>difficulty := initDifficulty w rating,
                           stability := initStability w rating\<rparr>
           in if rating = Again then
                next\<lparr>lapses := lapses next + 1, phase := PhRelearning, scheduledDays := 0,
                     due := now + 10 * 60 * 1000\<rparr>
              else
                let days = nextIntervalDays (stability next) requestRetention
                in next\<lparr>phase := PhReview, scheduledDays := days, due := now + days * MS_PER_DAY\<rparr>
         else
           let r = retrievability (stability st) elapsed;
               next = next\<lparr>difficulty :=
                 nextDifficulty w (if difficulty st = 0 then 5 else difficulty st) rating\<rparr>
           in if rating = Again then
                next\<lparr>lapses := lapses next + 1,
                     stability := nextStabilityFail w (difficulty next) (max 0.1 (stability st)) r,
                     phase := PhRelearning, scheduledDays := 0, due := now + 10 * 60 * 1000\<rparr>
              else
                let next = next\<lparr>stability := nextStabilitySuccess w (difficulty next)
                                  (max 0.1 (stability st)) r rating\<rparr>;
                    days = nextIntervalDays (stability next) requestRetention
                in next\<lparr>phase := PhReview, scheduledDays := days, due := now + days * MS_PER_DAY\<rparr>)"

section \<open>The pieces of a review\<close>

definition review_weights :: "real list \<Rightarrow> real list" where
  "review_weights weights = (if 19 \<le> length weights then weights else FSRS_DEFAULT_WEIGHTS)"

definition review_elapsed :: "FsrsState \<Rightarrow> millis \<Rightarrow> real" where
  "review_elapsed st now = (if phase st = PhNew then 0
     else max 0 (real_of_int (now - opt_or (lastReview st) now) / real_of_int MS_PER_DAY))"

definition review_difficulty :: "FsrsState \<Rightarrow> FsrsRating \<Rightarrow> real list \<Rightarrow> real" where
  "review_difficulty st rating w = (if phase st = PhNew then initDifficulty w rating
     else nextDifficulty w (if difficulty st = 0 then 5 else difficulty st) rating)"

definition review_stability :: "FsrsState \<Rightarrow> FsrsRating \<Rightarrow> millis \<Rightarrow> real list \<Rightarrow> real" where
  "review_stability st rating now w =
     (if phase st = PhNew then initStability w rating
      else let d = review_difficulty st rating w; s = max 0.1 (stability st);
               r = retrievability (stability st) (review_elapsed st now)
           in if rating = Again then nextStabilityFail w d s r
              else nextStabilitySuccess w d s r rating)"

definition review_days :: "FsrsState \<Rightarrow> FsrsRating \<Rightarrow> millis \<Rightarrow> real list \<Rightarrow> real \<Rightarrow> int" where
  "review_days st rating now w rr =
     (if rating = Again then 0 else nextIntervalDays (review_stability st rating now w) rr)"

lemma reviewFsrs_fields:
  "difficulty (reviewFsrs st rating now ws rr) = review_difficulty st rating (review_weights ws)"
  "stability (reviewFsrs st rating now ws rr) = review_stability st rating now (review_weights ws)"
  "elapsedDays (reviewFsrs st rating now ws rr) = review_elapsed st now"
  "reps (reviewFsrs st rating now ws rr) = reps st + 1"
  "lapses (reviewFsrs st rating now ws rr) = lapses st + (if rating = Again then 1 else 0)"
  "phase (reviewFsrs st rating now ws rr) = (if rating = Again then PhRelearning else PhReview)"
  "lastReview (reviewFsrs st rating now ws rr) = Some now"
  "scheduledDays (reviewFsrs st rating now ws rr) = review_days st rating now (review_weights ws) rr"
  "due (reviewFsrs st rating now ws rr) =
     now + (if rating = Again then 600000
            else review_days st rating now (review_weights ws) rr * MS_PER_DAY)"
  by (simp_all add: reviewFsrs_def review_weights_def review_elapsed_def review_difficulty_def
      review_stability_def review_days_def Let_def)

lemma clampDifficulty_bounds: "1 \<le> clampDifficulty d \<and> clampDifficulty d \<le> 10"
  by (auto simp: clampDifficulty_def)

lemma clampDifficulty_mono: "d \<le> e \<Longrightarrow> clampDifficulty d \<le> clampDifficulty e"
  by (auto simp: clampDifficulty_def)

lemma constrainingStability_ge: "0.1 \<le> constrainingStability s" "s \<le> constrainingStability s"
  by (simp_all add: constrainingStability_def)

lemma constrainingStability_mono: "s \<le> t \<Longrightarrow> constrainingStability s \<le> constrainingStability t"
  by (auto simp: constrainingStability_def)

lemma review_difficulty_bounds:
  "1 \<le> review_difficulty st rating w \<and> review_difficulty st rating w \<le> 10"
  by (auto simp: review_difficulty_def initDifficulty_def nextDifficulty_def Let_def
      clampDifficulty_bounds)

lemma review_stability_ge: "0.1 \<le> review_stability st rating now w"
  unfolding review_stability_def initStability_def nextStabilityFail_def
    nextStabilitySuccess_def Let_def
  using constrainingStability_ge(1) by (auto split: if_splits)

lemma review_days_ge: "rating \<noteq> Again \<Longrightarrow> 1 \<le> review_days st rating now w rr"
  by (simp add: review_days_def nextIntervalDays_def Let_def)

lemma review_elapsed_nonneg: "0 \<le> review_elapsed st now"
  by (simp add: review_elapsed_def)

section \<open>Retrievability and intervals\<close>

lemma retrievability_le_1: "0 \<le> t \<Longrightarrow> retrievability s t \<le> 1"
  by (auto simp: retrievability_def FACTOR_def DECAY_def powr_minus_divide
      ge_one_powr_ge_zero divide_le_eq_1)

lemma recall_at_interval:
  assumes "0 < s" "0 < rr"
  shows "retrievability s ((s / FACTOR) * (rr powr (1 / DECAY) - 1)) = rr"
proof -
  have "1 + (FACTOR * ((s / FACTOR) * (rr powr (1 / DECAY) - 1))) / s = rr powr (1 / DECAY)"
    using assms by (simp add: FACTOR_def)
  then show ?thesis using assms by (simp add: retrievability_def powr_powr DECAY_def)
qed

lemma interval_at_default: "nextIntervalDays s 0.9 = max 1 (js_round s)"
proof -
  have "(0.9::real) powr (1 / DECAY) = 1 / (0.9 powr 2)"
    by (simp add: DECAY_def powr_minus_divide)
  then have "(0.9::real) powr (1 / DECAY) - 1 = FACTOR"
    by (simp add: FACTOR_def field_simps power2_eq_square)
  then have "(s / FACTOR) * ((0.9::real) powr (1 / DECAY) - 1) = s"
    by (simp add: FACTOR_def)
  then show ?thesis by (simp only: nextIntervalDays_def Let_def)
qed

lemma nextIntervalDays_mono:
  assumes "s \<le> t" "0 < rr" "rr \<le> 1"
  shows "nextIntervalDays s rr \<le> nextIntervalDays t rr"
proof -
  have "1 \<le> rr powr (1 / DECAY)"
    using assms(2,3) by (simp add: DECAY_def powr_minus_divide field_simps power_le_one)
  then have "(s / FACTOR) * (rr powr (1 / DECAY) - 1) \<le> (t / FACTOR) * (rr powr (1 / DECAY) - 1)"
    using assms(1) by (intro mult_right_mono) (simp_all add: FACTOR_def)
  then have "js_round ((s / FACTOR) * (rr powr (1 / DECAY) - 1))
      \<le> js_round ((t / FACTOR) * (rr powr (1 / DECAY) - 1))"
    by (simp add: js_round_def floor_mono)
  then show ?thesis by (simp add: nextIntervalDays_def Let_def)
qed

section \<open>Monotonicity with the default weights\<close>

lemma default_weights:
  "FSRS_DEFAULT_WEIGHTS ! 0 = 0.40255" "FSRS_DEFAULT_WEIGHTS ! Suc 0 = 1.18385"
  "FSRS_DEFAULT_WEIGHTS ! 2 = 3.173" "FSRS_DEFAULT_WEIGHTS ! 3 = 15.69105"
  "FSRS_DEFAULT_WEIGHTS ! 6 = 1.4604" "FSRS_DEFAULT_WEIGHTS ! 7 = 0.0046"
  "FSRS_DEFAULT_WEIGHTS ! 10 = 1.01925"
  "FSRS_DEFAULT_WEIGHTS ! 15 = 0.2315" "FSRS_DEFAULT_WEIGHTS ! 16 = 2.9898"
  "length FSRS_DEFAULT_WEIGHTS = 19"
  by (simp_all add: FSRS_DEFAULT_WEIGHTS_def)

lemma rating_le_cases:
  assumes "r1 \<le> r2"
  shows "rating_num r1 \<le> rating_num r2"
  using assms by (simp add: less_eq_FsrsRating_def)

lemma nextDifficulty_antimono:
  assumes "r1 \<le> r2"
  shows "nextDifficulty FSRS_DEFAULT_WEIGHTS d r2 \<le> nextDifficulty FSRS_DEFAULT_WEIGHTS d r1"
  unfolding nextDifficulty_def Let_def
  by (rule clampDifficulty_mono)
    (use rating_le_cases [OF assms] in \<open>simp add: default_weights\<close>)

text \<open>The factor by which hard, good and easy scale the growth of the stability.\<close>

definition rating_factor :: "real list \<Rightarrow> FsrsRating \<Rightarrow> real" where
  "rating_factor w r = (if r = Hard then w ! 15 else 1) * (if r = Easy then w ! 16 else 1)"

definition growth :: "real list \<Rightarrow> real \<Rightarrow> real \<Rightarrow> real" where
  "growth w s r = exp (w ! 8) * s powr (- w ! 9) * (exp ((1 - r) * w ! 10) - 1)"

lemma nextStabilitySuccess_growth:
  "nextStabilitySuccess w d s r rating =
   constrainingStability (s * (growth w s r * ((11 - d) * rating_factor w rating) + 1))"
  by (simp add: nextStabilitySuccess_def growth_def rating_factor_def Let_def ac_simps)

lemma growth_nonneg: "0 < s \<Longrightarrow> r \<le> 1 \<Longrightarrow> 0 \<le> growth FSRS_DEFAULT_WEIGHTS s r"
  by (simp add: growth_def default_weights)

lemma rating_factor_pos: "0 < rating_factor FSRS_DEFAULT_WEIGHTS r"
  by (cases r) (simp_all add: rating_factor_def default_weights)

lemma rating_factor_mono:
  "r1 \<noteq> Again \<Longrightarrow> r1 \<le> r2 \<Longrightarrow>
   rating_factor FSRS_DEFAULT_WEIGHTS r1 \<le> rating_factor FSRS_DEFAULT_WEIGHTS r2"
  by (cases r1; cases r2) (simp_all add: rating_factor_def default_weights less_eq_FsrsRating_def)

lemma nextStabilitySuccess_mono:
  assumes "0 < s" "r \<le> 1" "d2 \<le> d1" "d1 \<le> 10" "r1 \<noteq> Again" "r1 \<le> r2"
  shows "nextStabilitySuccess FSRS_DEFAULT_WEIGHTS d1 s r r1
     \<le> nextStabilitySuccess FSRS_DEFAULT_WEIGHTS d2 s r r2"
proof -
  let ?w = FSRS_DEFAULT_WEIGHTS
  have "(11 - d1) * rating_factor ?w r1 \<le> (11 - d2) * rating_factor ?w r2"
    using assms rating_factor_pos [of r1] by (intro mult_mono rating_factor_mono) simp_all
  then have "growth ?w s r * ((11 - d1) * rating_factor ?w r1)
      \<le> growth ?w s r * ((11 - d2) * rating_factor ?w r2)"
    using growth_nonneg [OF assms(1,2)] by (rule mult_left_mono)
  then have "s * (growth ?w s r * ((11 - d1) * rating_factor ?w r1) + 1)
      \<le> s * (growth ?w s r * ((11 - d2) * rating_factor ?w r2) + 1)"
    using assms(1) by simp
  then show ?thesis
    unfolding nextStabilitySuccess_growth by (rule constrainingStability_mono)
qed

lemma initStability_mono:
  "r1 \<le> r2 \<Longrightarrow> initStability FSRS_DEFAULT_WEIGHTS r1 \<le> initStability FSRS_DEFAULT_WEIGHTS r2"
  unfolding initStability_def
  by (rule constrainingStability_mono, cases r1; cases r2)
    (simp_all add: default_weights less_eq_FsrsRating_def)

lemma nextDifficulty_le: "nextDifficulty w d r \<le> 10"
  by (simp add: nextDifficulty_def Let_def clampDifficulty_bounds)

lemma review_stability_mono:
  assumes "r1 \<noteq> Again" "r1 \<le> r2"
  shows "review_stability st r1 now FSRS_DEFAULT_WEIGHTS
     \<le> review_stability st r2 now FSRS_DEFAULT_WEIGHTS"
proof (cases "phase st = PhNew")
  case True
  then show ?thesis by (simp add: review_stability_def initStability_mono [OF assms(2)])
next
  case False
  have "r2 \<noteq> Again" using assms by (cases r1; cases r2) (simp_all add: less_eq_FsrsRating_def)
  moreover have "nextStabilitySuccess FSRS_DEFAULT_WEIGHTS
        (review_difficulty st r1 FSRS_DEFAULT_WEIGHTS) (max 0.1 (stability st))
        (retrievability (stability st) (review_elapsed st now)) r1
      \<le> nextStabilitySuccess FSRS_DEFAULT_WEIGHTS
        (review_difficulty st r2 FSRS_DEFAULT_WEIGHTS) (max 0.1 (stability st))
        (retrievability (stability st) (review_elapsed st now)) r2"
    using assms False
    by (intro nextStabilitySuccess_mono retrievability_le_1 review_elapsed_nonneg)
      (simp_all add: review_difficulty_def nextDifficulty_antimono nextDifficulty_le)
  ultimately show ?thesis using assms(1) False by (simp add: review_stability_def Let_def)
qed

lemma review_due_mono:
  assumes "r1 \<le> r2" "0 < rr" "rr \<le> 1"
  shows "due (reviewFsrs st r1 now FSRS_DEFAULT_WEIGHTS rr)
     \<le> due (reviewFsrs st r2 now FSRS_DEFAULT_WEIGHTS rr)"
proof (cases "r1 = Again")
  case True
  then show ?thesis
    using review_days_ge [of r2 st now FSRS_DEFAULT_WEIGHTS rr]
    by (cases "r2 = Again") (simp_all add: reviewFsrs_fields review_weights_def MS_PER_DAY_def)
next
  case False
  then have "r2 \<noteq> Again" using assms(1) by (cases r1; cases r2) (simp_all add: less_eq_FsrsRating_def)
  with False show ?thesis
    using nextIntervalDays_mono [OF review_stability_mono [OF False assms(1)] assms(2,3)]
    by (simp add: reviewFsrs_fields review_weights_def review_days_def MS_PER_DAY_def)
qed

lemma review_stability_grows:
  assumes "phase st \<noteq> PhNew" "rating \<noteq> Again"
  shows "stability st \<le> review_stability st rating now FSRS_DEFAULT_WEIGHTS"
proof -
  let ?w = FSRS_DEFAULT_WEIGHTS and ?s = "max 0.1 (stability st)"
  let ?r = "retrievability (stability st) (review_elapsed st now)"
  let ?d = "review_difficulty st rating ?w"
  have "0 \<le> growth ?w ?s ?r * ((11 - ?d) * rating_factor ?w rating)"
    using growth_nonneg [of ?s ?r] retrievability_le_1 [OF review_elapsed_nonneg]
      rating_factor_pos [of rating] review_difficulty_bounds [of st rating ?w]
    by (intro mult_nonneg_nonneg) simp_all
  then have "?s * 1 \<le> ?s * (growth ?w ?s ?r * ((11 - ?d) * rating_factor ?w rating) + 1)"
    by (intro mult_left_mono) simp_all
  then have "?s \<le> ?s * (growth ?w ?s ?r * ((11 - ?d) * rating_factor ?w rating) + 1)"
    by simp
  then have "?s \<le> nextStabilitySuccess ?w ?d ?s ?r rating"
    unfolding nextStabilitySuccess_growth using constrainingStability_ge(2) order_trans by blast
  then show ?thesis using assms by (simp add: review_stability_def Let_def)
qed

section \<open>Histories of reviews\<close>

text \<open>A card's reviews in order, each a rating and the time it was given.\<close>

definition review_history ::
  "real list \<Rightarrow> real \<Rightarrow> (FsrsRating \<times> millis) list \<Rightarrow> FsrsState \<Rightarrow> FsrsState" where
  "review_history ws rr rs st = fold (\<lambda>(r, t) s. reviewFsrs s r t ws rr) rs st"

lemma review_history_counts:
  "reps (review_history ws rr rs st) = reps st + int (length rs)"
  "lapses (review_history ws rr rs st) = lapses st + int (length (filter (\<lambda>p. fst p = Again) rs))"
  by (induction rs arbitrary: st) (auto simp: review_history_def reviewFsrs_fields)

section \<open>Properties\<close>

text \<open>C38: Whatever state, weights and retention a review starts from, the state it returns is
  well formed: stability at least 0.1, difficulty between 1 and 10, no negative elapsed time,
  one more repetition, one more lapse exactly for "Again", and a due date ten minutes away
  after "Again" and the scheduled whole number of days (at least one) away otherwise.\<close>

theorem review_well_formed:
  "0.1 \<le> stability (reviewFsrs st rating now ws rr)
   \<and> 1 \<le> difficulty (reviewFsrs st rating now ws rr)
   \<and> difficulty (reviewFsrs st rating now ws rr) \<le> 10
   \<and> 0 \<le> elapsedDays (reviewFsrs st rating now ws rr)
   \<and> reps (reviewFsrs st rating now ws rr) = reps st + 1
   \<and> lastReview (reviewFsrs st rating now ws rr) = Some now
   \<and> (if rating = Again
      then phase (reviewFsrs st rating now ws rr) = PhRelearning
         \<and> lapses (reviewFsrs st rating now ws rr) = lapses st + 1
         \<and> due (reviewFsrs st rating now ws rr) = now + 600000
      else phase (reviewFsrs st rating now ws rr) = PhReview
         \<and> lapses (reviewFsrs st rating now ws rr) = lapses st
         \<and> 1 \<le> scheduledDays (reviewFsrs st rating now ws rr)
         \<and> due (reviewFsrs st rating now ws rr)
           = now + scheduledDays (reviewFsrs st rating now ws rr) * 86400000)"
  using review_stability_ge review_difficulty_bounds review_elapsed_nonneg review_days_ge
  by (simp add: reviewFsrs_fields MS_PER_DAY_def)

text \<open>
  With the default weights a better rating never makes a card due earlier: the due
  dates after Again, Hard, Good and Easy are in this order for every card.\<close>

theorem better_rating_due_later:
  assumes "r1 \<le> r2" "0 < rr" "rr \<le> 1"
  shows "due (reviewFsrs st r1 now FSRS_DEFAULT_WEIGHTS rr)
     \<le> due (reviewFsrs st r2 now FSRS_DEFAULT_WEIGHTS rr)"
  using assms by (rule review_due_mono)

theorem better_rating_due_later_witness:
  "due (reviewFsrs (createInitialFsrs 5) Hard 5 FSRS_DEFAULT_WEIGHTS 0.9)
     \<le> due (reviewFsrs (createInitialFsrs 5) Easy 5 FSRS_DEFAULT_WEIGHTS 0.9)"
  by (rule better_rating_due_later) (simp_all add: less_eq_FsrsRating_def)

text \<open>
  A successful review (Hard, Good or Easy) of a card seen before never lowers its
  stability, so the memory model only loses ground on "Again".\<close>

theorem success_keeps_stability:
  assumes "phase st \<noteq> PhNew" "rating \<noteq> Again"
  shows "stability st \<le> stability (reviewFsrs st rating now FSRS_DEFAULT_WEIGHTS rr)"
  using review_stability_grows [OF assms] by (simp add: reviewFsrs_fields review_weights_def)

theorem success_keeps_stability_witness:
  "(4::real) \<le> stability (reviewFsrs ((createInitialFsrs 0)\<lparr>stability := 4, phase := PhReview\<rparr>)
     Good 86400000 FSRS_DEFAULT_WEIGHTS 0.9)"
  using success_keeps_stability [of "(createInitialFsrs 0)\<lparr>stability := 4, phase := PhReview\<rparr>" Good]
  by (simp add: createInitialFsrs_def)

text \<open>
  Intervals are calibrated: at the interval computed from a stability (before it is
  rounded) the predicted recall is exactly the requested retention, and with the default
  retention of 0.9 the scheduled interval is the stability itself, rounded, at least one day.\<close>

theorem interval_hits_requested_retention:
  assumes "0 < s" "0 < rr"
  shows "retrievability s ((s / FACTOR) * (rr powr (1 / DECAY) - 1)) = rr
    \<and> nextIntervalDays s 0.9 = max 1 (js_round s)"
  using recall_at_interval [OF assms] interval_at_default by simp

theorem interval_hits_requested_retention_witness:
  "nextIntervalDays 15.69105 0.9 = 16"
  using interval_hits_requested_retention [of "15.69105" "0.9"]
  by (simp add: js_round_def floor_eq_iff)

text \<open>Over a whole history of reviews of a new card, \<open>reps\<close> counts the reviews and
  \<open>lapses\<close> the "Again" ratings among them.\<close>

theorem history_counts_reviews:
  "reps (review_history ws rr rs (createInitialFsrs now)) = int (length rs)
   \<and> lapses (review_history ws rr rs (createInitialFsrs now))
     = int (length (filter (\<lambda>p. fst p = Again) rs))"
  by (simp add: review_history_counts createInitialFsrs_def)

end
