(* ===== verification/Study.thy ===== *)
theory Study
  imports Fsrs
begin

text \<open>
  Study cards: the rest of \<open>packages/learning/src/fsrs.ts\<close> (card creation, known words, CSV
  and Anki export) and the study session of \<open>apps/extension/features/learning/session.ts\<close>
  with its stores. The clock and the random card identifier are arguments; the promise of a
  store is its result, and a store is a state with a load and a save operation, whose
  contract is the locale \<open>study_store\<close>.
\<close>

section \<open>Cards and known words\<close>

record CardInput =
  ci_id :: string
  ci_sourceText :: string
  ci_translationText :: "string option"
  ci_videoId :: "VideoId option"
  ci_tags :: "string list option"
  ci_provenance :: "Provenance option"

definition createStudyCard :: "CardInput \<Rightarrow> millis \<Rightarrow> StudyCard" where
  "createStudyCard i now =
     \<lparr>card_id = ci_id i, card_videoId = ci_videoId i, sourceText = ci_sourceText i,
      translationText = ci_translationText i, card_cueIds = None, definitionIds = None,
      card_tags = opt_or (ci_tags i) [], card_provenance = opt_or (ci_provenance i) UserEdit,
      fsrs = createInitialFsrs now, createdAtMs = now, updatedAtMs = now\<rparr>"

record KnownWordTracker =
  known :: "string list"
  encounters :: "(string, nat) jsmap"

definition createKnownWordTracker :: "string list \<Rightarrow> KnownWordTracker" where
  "createKnownWordTracker ws =
     \<lparr>known = set_of_list (map toLowerCase ws), encounters = []\<rparr>"

definition noteEncounter :: "KnownWordTracker \<Rightarrow> string \<Rightarrow> KnownWordTracker" where
  "noteEncounter tr surface =
     (let key = toLowerCase surface
      in tr\<lparr>encounters := AList.update key (opt_or (map_of (encounters tr) key) 0 + 1) (encounters tr)\<rparr>)"

definition markKnown :: "KnownWordTracker \<Rightarrow> string \<Rightarrow> KnownWordTracker" where
  "markKnown tr surface = tr\<lparr>known := set_add (toLowerCase surface) (known tr)\<rparr>"

definition isKnown :: "KnownWordTracker \<Rightarrow> string \<Rightarrow> bool" where
  "isKnown tr surface \<longleftrightarrow> toLowerCase surface \<in> set (known tr)"

section \<open>Export\<close>

definition quote_char :: char where
  "quote_char = char_of (34::nat)"

definition newline_char :: char where
  "newline_char = char_of (10::nat)"

fun double_quotes :: "string \<Rightarrow> string" where
  "double_quotes [] = []"
| "double_quotes (c # s) =
     (if c = quote_char then quote_char # quote_char # double_quotes s else c # double_quotes s)"

definition csvEscape :: "string \<Rightarrow> string" where
  "csvEscape v =
     (if quote_char \<in> set v \<or> CHR '','' \<in> set v \<or> newline_char \<in> set v
      then quote_char # double_quotes v @ [quote_char] else v)"

definition csv_row :: "StudyCard \<Rightarrow> string" where
  "csv_row c = join '',''
     [csvEscape (sourceText c), csvEscape (opt_or (translationText c) []),
      csvEscape (join '' '' (card_tags c)), int_str (due (fsrs c))]"

definition cardsToCsv :: "StudyCard list \<Rightarrow> string" where
  "cardsToCsv cards =
     join [newline_char] (''source,translation,tags,due'' # map csv_row cards)"

record AnkiConnectNote =
  deckName :: string
  modelName :: string
  note_front :: string
  note_back :: string
  note_tags :: "string list"

definition toAnkiConnectNotes :: "StudyCard list \<Rightarrow> string \<Rightarrow> AnkiConnectNote list" where
  "toAnkiConnectNotes cards deck =
     map (\<lambda>c. \<lparr>deckName = deck, modelName = ''Basic'', note_front = sourceText c,
               note_back = opt_or (translationText c) [], note_tags = card_tags c\<rparr>) cards"

section \<open>Sessions\<close>

record StudySessionSnapshot =
  snap_cards :: "StudyCard list"
  knownWords :: "string list"

text \<open>The store created by \<open>createMemoryStudyStore\<close>: its state is the last snapshot.\<close>

definition memory_load :: "StudySessionSnapshot \<Rightarrow> StudySessionSnapshot" where
  "memory_load st = st"

definition memory_save :: "StudySessionSnapshot \<Rightarrow> StudySessionSnapshot \<Rightarrow> StudySessionSnapshot" where
  "memory_save snap st = snap"

text \<open>
  The store created by \<open>createChromeStudyStore\<close> over \<open>chrome.storage.local\<close>, a map from keys
  to stored values; a key that is not there reads as an empty session.
\<close>

definition STORAGE_KEY :: string where
  "STORAGE_KEY = ''language-llm.study''"

type_synonym chrome_storage = "string \<Rightarrow> StudySessionSnapshot option"

definition chrome_load :: "chrome_storage \<Rightarrow> StudySessionSnapshot" where
  "chrome_load st = opt_or (st STORAGE_KEY) \<lparr>snap_cards = [], knownWords = []\<rparr>"

definition chrome_save :: "StudySessionSnapshot \<Rightarrow> chrome_storage \<Rightarrow> chrome_storage" where
  "chrome_save snap st = st(STORAGE_KEY \<mapsto> snap)"

record StudySession =
  cards :: "StudyCard list"
  tracker :: KnownWordTracker

definition new_session :: StudySession where
  "new_session = \<lparr>cards = [], tracker = createKnownWordTracker []\<rparr>"

definition hydrate :: "StudySessionSnapshot \<Rightarrow> StudySession \<Rightarrow> StudySession" where
  "hydrate snap s = s\<lparr>cards := snap_cards snap, tracker := createKnownWordTracker (knownWords snap)\<rparr>"

text \<open>The snapshot \<open>persist\<close> saves.\<close>

definition snapshot :: "StudySession \<Rightarrow> StudySessionSnapshot" where
  "snapshot s = \<lparr>snap_cards = cards s, knownWords = known (tracker s)\<rparr>"

definition listCards :: "StudySession \<Rightarrow> StudyCard list" where
  "listCards s = cards s"

definition dueCards :: "StudySession \<Rightarrow> millis \<Rightarrow> StudyCard list" where
  "dueCards s now = filter (\<lambda>c. due (fsrs c) \<le> now) (cards s)"

text \<open>
  \<open>text.split(/[\s\p{P}]+/u)\<close> without its empty parts: the runs of characters that are neither
  white space nor punctuation (the punctuation of Latin-1).
\<close>

definition is_punct :: "char \<Rightarrow> bool" where
  "is_punct c \<longleftrightarrow> c \<in> set ''!#%&*,-./:;?@_()[]{}'' \<or>
     code c \<in> {34, 39, 92, 161, 167, 171, 182, 183, 187, 191}"

fun split_surfaces :: "string \<Rightarrow> string list" where
  "split_surfaces [] = [[]]"
| "split_surfaces (c # s) =
     (if is_ws c \<or> is_punct c then [] # split_surfaces s
      else (c # hd (split_surfaces s)) # tl (split_surfaces s))"

definition tokenizeSurfaces :: "string \<Rightarrow> string list" where
  "tokenizeSurfaces t = filter (\<lambda>w. w \<noteq> []) (map trim (split_surfaces t))"

record MineInput =
  mi_sourceText :: string
  mi_translationText :: "string option"
  mi_videoId :: "VideoId option"
  mi_tags :: "string list option"

definition mineSentence :: "MineInput \<Rightarrow> string \<Rightarrow> millis \<Rightarrow> StudySession \<Rightarrow> StudyCard \<times> StudySession" where
  "mineSentence i ident now s =
     (let card = createStudyCard
            \<lparr>ci_id = ident, ci_sourceText = mi_sourceText i,
             ci_translationText = mi_translationText i, ci_videoId = mi_videoId i,
             ci_tags = Some (opt_or (mi_tags i) [''mined'']), ci_provenance = Some UserEdit\<rparr> now;
          tr = fold (\<lambda>t k. noteEncounter k t) (tokenizeSurfaces (mi_sourceText i)) (tracker s)
      in (card, s\<lparr>tracker := tr, cards := cards s @ [card]\<rparr>))"

definition review ::
  "string \<Rightarrow> FsrsRating \<Rightarrow> millis \<Rightarrow> StudySession \<Rightarrow> StudyCard option \<times> StudySession" where
  "review cid rating now s =
     (case find_index (\<lambda>c. card_id c = cid) (cards s) of
        None \<Rightarrow> (None, s)
      | Some idx \<Rightarrow>
          let card = cards s ! idx;
              next = card\<lparr>fsrs := reviewFsrs (fsrs card) rating now FSRS_DEFAULT_WEIGHTS 0.9,
                          updatedAtMs := now\<rparr>
          in (Some next, s\<lparr>cards := (cards s)[idx := next]\<rparr>))"

definition markSurfaceKnown :: "string \<Rightarrow> StudySession \<Rightarrow> StudySession" where
  "markSurfaceKnown surface s = s\<lparr>tracker := markKnown (tracker s) surface\<rparr>"

definition isSurfaceKnown :: "StudySession \<Rightarrow> string \<Rightarrow> bool" where
  "isSurfaceKnown s surface = isKnown (tracker s) surface"

definition exportCsv :: "StudySession \<Rightarrow> string" where
  "exportCsv s = cardsToCsv (cards s)"

text \<open>The user's actions on a session, each followed by a save where the code persists.\<close>

datatype StudyAction =
    Mine MineInput string millis
  | Review string FsrsRating millis
  | MarkKnown string

fun study_step :: "StudyAction \<Rightarrow> StudySession \<Rightarrow> StudySession" where
  "study_step (Mine i ident now) s = snd (mineSentence i ident now s)"
| "study_step (Review cid r now) s = snd (review cid r now s)"
| "study_step (MarkKnown w) s = markSurfaceKnown w s"

text \<open>
  Whether the action writes the store: \<open>review\<close> returns early when there is no such card.
\<close>

fun study_persists :: "StudyAction \<Rightarrow> StudySession \<Rightarrow> bool" where
  "study_persists (Review cid r now) s = (find_index (\<lambda>c. card_id c = cid) (cards s) \<noteq> None)"
| "study_persists _ s = True"

section \<open>The companion store\<close>

text \<open>
  Cards that arrive over the wire are JSON values the code casts to \<open>StudyCard\<close> unchecked;
  the cast is the argument \<open>cast\<close>, and \<open>JSON.parse\<close> the argument \<open>parse\<close> (\<open>None\<close> where it
  throws).
\<close>

record WireSnapshot =
  ws_cards :: "json list"
  ws_knownWords :: "json list"

definition wire_snapshot :: "json \<Rightarrow> WireSnapshot option" where
  "wire_snapshot payload =
     (case arr_of (json_field payload ''cards'') of
        None \<Rightarrow> None
      | Some cs \<Rightarrow> Some \<lparr>ws_cards = cs,
          ws_knownWords = opt_or (arr_of (json_field payload ''knownWords'')) []\<rparr>)"

text \<open>One iteration of the loop over \<open>items\<close>: \<open>None\<close> goes on with the next item.\<close>

definition row_payload :: "(string \<Rightarrow> json option) \<Rightarrow> json \<Rightarrow> WireSnapshot option" where
  "row_payload parse row =
     (if \<not> is_json_object row then None
      else if truthy (json_field row ''id'') \<and> json_field row ''id'' \<noteq> Some (JStr ''session'')
      then None
      else
        (let direct = (case json_field row ''payload'' of
               Some p \<Rightarrow> if is_json_object p then wire_snapshot p else None
             | None \<Rightarrow> None);
             raw = (case str_of (json_field row ''payload'') of
               Some t \<Rightarrow> Some t
             | None \<Rightarrow>
                 (case json_field row ''payload_json'' of
                    None \<Rightarrow> str_of (json_field row ''payloadJson'')
                  | Some JNull \<Rightarrow> str_of (json_field row ''payloadJson'')
                  | Some j \<Rightarrow> str_of (Some j)))
         in (case direct of
               Some w \<Rightarrow> Some w
             | None \<Rightarrow>
                 (case raw of
                    None \<Rightarrow> None
                  | Some t \<Rightarrow> (case parse t of None \<Rightarrow> None | Some j \<Rightarrow> wire_snapshot j)))))"

fun first_payload :: "(string \<Rightarrow> json option) \<Rightarrow> json list \<Rightarrow> WireSnapshot option" where
  "first_payload parse [] = None"
| "first_payload parse (r # rs) =
     (case row_payload parse r of Some w \<Rightarrow> Some w | None \<Rightarrow> first_payload parse rs)"

text \<open>The envelope: \<open>typeof null\<close> is an object too, and reading a field of it throws.\<close>

definition study_inner :: "json \<Rightarrow> json option" where
  "study_inner env =
     (if json_field env ''type'' = Some (JStr ''study.sync.result'')
      then (case json_field env ''result'' of
              Some JNull \<Rightarrow> None
            | Some j \<Rightarrow> if is_json_object j then Some j else Some env
            | None \<Rightarrow> Some env)
      else Some env)"

definition extractStudyPayload :: "(string \<Rightarrow> json option) \<Rightarrow> json \<Rightarrow> WireSnapshot option" where
  "extractStudyPayload parse result =
     (if \<not> is_json_object result then None
      else (case study_inner result of
        None \<Rightarrow> None
      | Some inner \<Rightarrow>
          let direct = (case json_field inner ''payload'' of
                Some p \<Rightarrow> if is_json_object p then wire_snapshot p else None
              | None \<Rightarrow> None)
          in (case direct of
                Some w \<Rightarrow> Some w
              | None \<Rightarrow>
                  (case arr_of (json_field inner ''items'') of
                     None \<Rightarrow> None
                   | Some items \<Rightarrow> first_payload parse items))))"

text \<open>The answer of \<open>send\<close>: \<open>None\<close> where the promise is rejected.\<close>

record SyncReply =
  rep_ok :: bool
  rep_result :: "json option"

definition companion_load ::
  "(string \<Rightarrow> json option) \<Rightarrow> (WireSnapshot \<Rightarrow> StudySessionSnapshot) \<Rightarrow> SyncReply option \<Rightarrow>
   ('st \<Rightarrow> StudySessionSnapshot) \<Rightarrow> (StudySessionSnapshot \<Rightarrow> 'st \<Rightarrow> 'st) \<Rightarrow> 'st \<Rightarrow>
   StudySessionSnapshot \<times> 'st" where
  "companion_load parse cast reply load save st =
     (case reply of
        Some r \<Rightarrow>
          if rep_ok r \<and> truthy (rep_result r)
          then (case extractStudyPayload parse (opt_or (rep_result r) JNull) of
                  Some w \<Rightarrow> (cast w, save (cast w) st)
                | None \<Rightarrow> (load st, st))
          else (load st, st)
      | None \<Rightarrow> (load st, st))"

text \<open>
  Saving writes the offline mirror first and then sends a \<open>put\<close>; a failed send is ignored. The
  result is the mirror and the snapshot sent.
\<close>

definition companion_save ::
  "(StudySessionSnapshot \<Rightarrow> 'st \<Rightarrow> 'st) \<Rightarrow> StudySessionSnapshot \<Rightarrow> 'st \<Rightarrow> 'st \<times> StudySessionSnapshot" where
  "companion_save save snap st = (save snap st, snap)"

section \<open>Known words\<close>

text \<open>The words of a tracker are in lower case, each once.\<close>

definition known_ok :: "KnownWordTracker \<Rightarrow> bool" where
  "known_ok tr \<longleftrightarrow> distinct (known tr) \<and> (\<forall>w \<in> set (known tr). toLowerCase w = w)"

lemma known_ok_create [simp]: "known_ok (createKnownWordTracker ws)"
  by (auto simp: known_ok_def createKnownWordTracker_def)

lemma known_ok_mark [simp]: "known_ok tr \<Longrightarrow> known_ok (markKnown tr w)"
  by (auto simp: known_ok_def markKnown_def)

lemma known_note [simp]: "known (noteEncounter tr w) = known tr"
  by (simp add: noteEncounter_def Let_def)

lemma known_fold_note [simp]:
  "known (fold (\<lambda>t k. noteEncounter k t) ws tr) = known tr"
  by (induction ws arbitrary: tr) simp_all

lemma known_ok_cong: "known tr = known tr' \<Longrightarrow> known_ok tr = known_ok tr'"
  by (simp add: known_ok_def)

lemma create_known [simp]:
  "known_ok tr \<Longrightarrow> known (createKnownWordTracker (known tr)) = known tr"
  by (simp add: known_ok_def createKnownWordTracker_def map_idI set_of_list_distinct)

lemma study_step_known_ok:
  "known_ok (tracker s) \<Longrightarrow> known_ok (tracker (study_step a s))"
  by (cases a) (auto simp: mineSentence_def review_def markSurfaceKnown_def Let_def
      split: option.splits cong: known_ok_cong intro: known_ok_cong [THEN iffD1, rotated])

section \<open>The contract of a store\<close>

text \<open>
  A study store gives back what was saved last. A session run against such a store can be
  reloaded from it at any time.
\<close>

locale study_store =
  fixes load :: "'st \<Rightarrow> StudySessionSnapshot"
    and save :: "StudySessionSnapshot \<Rightarrow> 'st \<Rightarrow> 'st"
  assumes load_save: "load (save snap st) = snap"
begin

lemma reload:
  assumes "known_ok (tracker s)"
  shows "cards (hydrate (load (save (snapshot s) st)) s0) = cards s"
    and "known (tracker (hydrate (load (save (snapshot s) st)) s0)) = known (tracker s)"
  using assms by (simp_all add: load_save hydrate_def snapshot_def)

lemma mirror_current:
  "load (snd (companion_load parse cast reply load save st)) =
   fst (companion_load parse cast reply load save st)"
  by (auto simp: companion_load_def load_save split: option.splits)

end

interpretation mem: study_store memory_load memory_save
  by unfold_locales (simp add: memory_load_def memory_save_def)

interpretation chrome: study_store chrome_load chrome_save
  by unfold_locales (simp add: chrome_load_def chrome_save_def)

text \<open>The session with its store: each action saves where the code does.\<close>

definition stored_step ::
  "StudyAction \<Rightarrow> StudySession \<times> chrome_storage \<Rightarrow> StudySession \<times> chrome_storage" where
  "stored_step a p =
     (let s' = study_step a (fst p)
      in (s', if study_persists a (fst p) then chrome_save (snapshot s') (snd p) else snd p))"

lemma study_step_not_persisted:
  "\<not> study_persists a s \<Longrightarrow> study_step a s = s"
  by (cases a) (auto simp: review_def)

definition in_sync :: "StudySession \<times> chrome_storage \<Rightarrow> bool" where
  "in_sync p \<longleftrightarrow> known_ok (tracker (fst p)) \<and> chrome_load (snd p) = snapshot (fst p)"

lemma stored_step_in_sync: "in_sync p \<Longrightarrow> in_sync (stored_step a p)"
  by (auto simp: in_sync_def stored_step_def Let_def study_step_known_ok
      study_step_not_persisted chrome.load_save)

lemma in_sync_start: "in_sync (new_session, Map.empty)"
  by (simp add: in_sync_def new_session_def chrome_load_def snapshot_def)
    (simp add: createKnownWordTracker_def set_of_list_def)

lemma in_sync_fold: "in_sync p \<Longrightarrow> in_sync (fold stored_step as p)"
  by (induction as arbitrary: p) (auto simp: stored_step_in_sync)

text \<open>C34:
  Whatever the user does in a study session started on an empty browser storage, closing it and
  hydrating a new session from the storage gives back the same cards, in the same order, and
  the same known words; no action is lost between a change and its save.\<close>

theorem reload_restores_session:
  "let (s, st) = fold stored_step as (new_session, Map.empty);
       s' = hydrate (chrome_load st) new_session
   in cards s' = cards s \<and> known (tracker s') = known (tracker s)"
  using in_sync_fold [OF in_sync_start, of as]
  by (auto simp: in_sync_def hydrate_def snapshot_def split: prod.splits)

section \<open>Reviewing\<close>

text \<open>
  Reviewing a card changes exactly the first card with that identifier: it gets the memory state
  \<open>reviewFsrs\<close> computes from its own, and the time of the review; every other card stays as it
  is, in its place, and so do the known words. An identifier no card has changes nothing and is
  answered with null.\<close>

theorem review_touches_one_card:
  "let (r, s') = review cid rating now s in
   tracker s' = tracker s \<and> length (cards s') = length (cards s) \<and>
   (if cid \<in> set (map card_id (cards s))
    then (\<exists>i. i < length (cards s) \<and> card_id (cards s ! i) = cid
            \<and> cid \<notin> set (map card_id (take i (cards s)))
            \<and> take i (cards s') = take i (cards s)
            \<and> drop (Suc i) (cards s') = drop (Suc i) (cards s)
            \<and> r = Some (cards s' ! i)
            \<and> cards s' ! i = (cards s ! i)\<lparr>fsrs := reviewFsrs (fsrs (cards s ! i)) rating now
                                 FSRS_DEFAULT_WEIGHTS 0.9, updatedAtMs := now\<rparr>)
    else r = None \<and> s' = s)"
proof (cases "find_index (\<lambda>c. card_id c = cid) (cards s)")
  case None
  then have "cid \<notin> set (map card_id (cards s))" by (auto simp: find_index_None)
  with None show ?thesis by (simp add: review_def)
next
  case (Some i)
  note fi = find_index_Some [OF Some]
  then have "cid \<in> set (map card_id (cards s))" by (metis length_map nth_map nth_mem)
  moreover have "cid \<notin> set (map card_id (take i (cards s)))"
  proof
    assume "cid \<in> set (map card_id (take i (cards s)))"
    then obtain j where "j < length (take i (cards s))" "card_id (take i (cards s) ! j) = cid"
      by (metis in_set_conv_nth length_map nth_map)
    then have "j < i" "card_id (cards s ! j) = cid" by simp_all
    with fi show False by blast
  qed
  ultimately show ?thesis
    using Some fi unfolding review_def Let_def
    by (simp only: option.case prod.case if_True) (intro conjI exI [of _ i]; simp)
qed

section \<open>Reading the CSV back\<close>

text \<open>A CSV reader after RFC 4180, with fields separated by commas and records by line feeds.\<close>

datatype csv_mode = FieldStart | Plain | Quoted | QuoteSeen

fun read_csv :: "csv_mode \<Rightarrow> string \<Rightarrow> string list \<Rightarrow> string \<Rightarrow> string list list" where
  "read_csv m f r [] = [r @ [f]]"
| "read_csv m f r (c # s) =
     (if m = Quoted
      then (if c = quote_char then read_csv QuoteSeen f r s else read_csv Quoted (f @ [c]) r s)
      else if m = QuoteSeen \<and> c = quote_char then read_csv Quoted (f @ [c]) r s
      else if m = FieldStart \<and> c = quote_char then read_csv Quoted f r s
      else if c = CHR '','' then read_csv FieldStart [] (r @ [f]) s
      else if c = newline_char then (r @ [f]) # read_csv FieldStart [] [] s
      else read_csv Plain (f @ [c]) r s)"

lemma special_chars [simp]:
  "quote_char \<noteq> CHR '',''" "CHR '','' \<noteq> quote_char" "quote_char \<noteq> newline_char"
  "newline_char \<noteq> quote_char" "newline_char \<noteq> CHR '',''" "CHR '','' \<noteq> newline_char"
  by code_simp+

lemma read_quoted:
  "read_csv Quoted f r (double_quotes v @ quote_char # s) = read_csv QuoteSeen (f @ v) r s"
  by (induction v arbitrary: f) auto

lemma read_plain:
  "quote_char \<notin> set v \<Longrightarrow> CHR '','' \<notin> set v \<Longrightarrow> newline_char \<notin> set v \<Longrightarrow> m \<in> {FieldStart, Plain} \<Longrightarrow>
   read_csv m f r (v @ s) = read_csv (if v = [] then m else Plain) (f @ v) r s"
  by (induction v arbitrary: f m) auto

lemma read_field_comma:
  "read_csv FieldStart [] r (csvEscape v @ CHR '','' # s) = read_csv FieldStart [] (r @ [v]) s"
  by (simp add: csvEscape_def read_quoted read_plain)

lemma read_field_newline:
  "read_csv FieldStart [] r (csvEscape v @ newline_char # s) =
   (r @ [v]) # read_csv FieldStart [] [] s"
  by (simp add: csvEscape_def read_quoted read_plain)

lemma read_field_end: "read_csv FieldStart [] r (csvEscape v) = [r @ [v]]"
  using read_plain [of v FieldStart "[]" r "[]"] by (auto simp: csvEscape_def read_quoted)

lemma csvEscape_int [simp]: "csvEscape (int_str i) = int_str i"
proof -
  have "is_digit c \<or> c = CHR ''-''" if "c \<in> set (int_str i)" for c
    using that nat_str_digits by (auto simp: int_str_def split: if_splits)
  moreover have "\<not> is_digit quote_char \<and> quote_char \<noteq> CHR ''-'' \<and> \<not> is_digit (CHR '','')
      \<and> \<not> is_digit newline_char \<and> newline_char \<noteq> CHR ''-''" by code_simp
  ultimately show ?thesis by (auto simp: csvEscape_def)
qed

definition csv_fields :: "StudyCard \<Rightarrow> string list" where
  "csv_fields c = [sourceText c, opt_or (translationText c) [], join '' '' (card_tags c),
                   int_str (due (fsrs c))]"

lemma csv_row_fields: "csv_row c = join '','' (map csvEscape (csv_fields c))"
  by (simp add: csv_row_def csv_fields_def)

lemma read_row_newline:
  "read_csv FieldStart [] r (csv_row c @ newline_char # s) =
   (r @ csv_fields c) # read_csv FieldStart [] [] s"
  using read_field_newline [of _ "int_str (due (fsrs c))" s]
  by (simp add: csv_row_def csv_fields_def read_field_comma)

lemma read_row_end: "read_csv FieldStart [] r (csv_row c) = [r @ csv_fields c]"
  using read_field_end [of _ "int_str (due (fsrs c))"]
  by (simp add: csv_row_def csv_fields_def read_field_comma)

lemma read_rows:
  "cs \<noteq> [] \<Longrightarrow> read_csv FieldStart [] [] (join [newline_char] (map csv_row cs)) = map csv_fields cs"
proof (induction cs)
  case Nil
  then show ?case by simp
next
  case (Cons c cs)
  then show ?case
    by (cases "cs = []") (simp_all add: join_Cons read_row_end read_row_newline)
qed

definition csv_header :: "string list" where
  "csv_header = [''source'', ''translation'', ''tags'', ''due'']"

lemma header_escape: "map csvEscape csv_header = csv_header"
proof -
  have quiet: "csvEscape v = v" if "list_all is_word_char v" for v
  proof -
    have "\<not> is_word_char quote_char \<and> \<not> is_word_char (CHR '','') \<and> \<not> is_word_char newline_char"
      by code_simp
    with that show ?thesis by (auto simp: csvEscape_def list_all_iff)
  qed
  have "list_all (list_all is_word_char) csv_header" by code_simp
  then show ?thesis by (auto simp: list_all_iff quiet intro!: map_idI)
qed

lemma header_join: "''source,translation,tags,due'' = join '','' csv_header"
  by (simp add: csv_header_def)

lemma read_header_end: "read_csv FieldStart [] [] (join '','' csv_header) = [csv_header]"
proof -
  have "join '','' (map csvEscape csv_header) =
      csvEscape ''source'' @ CHR '','' # csvEscape ''translation'' @ CHR '','' #
      csvEscape ''tags'' @ CHR '','' # csvEscape ''due''"
    by (simp add: csv_header_def)
  then have "read_csv FieldStart [] [] (join '','' (map csvEscape csv_header)) = [csv_header]"
    by (simp only: read_field_comma read_field_end) (simp add: csv_header_def)
  then show ?thesis by (simp only: header_escape)
qed

lemma read_header_newline:
  "read_csv FieldStart [] [] (join '','' csv_header @ newline_char # t) =
   csv_header # read_csv FieldStart [] [] t"
proof -
  have "join '','' (map csvEscape csv_header) @ newline_char # t =
      csvEscape ''source'' @ CHR '','' # csvEscape ''translation'' @ CHR '','' #
      csvEscape ''tags'' @ CHR '','' # csvEscape ''due'' @ newline_char # t"
    by (simp add: csv_header_def)
  then have "read_csv FieldStart [] [] (join '','' (map csvEscape csv_header) @ newline_char # t) =
      csv_header # read_csv FieldStart [] [] t"
    by (simp only: read_field_comma read_field_newline) (simp add: csv_header_def)
  then show ?thesis by (simp only: header_escape)
qed

lemma read_export:
  "read_csv FieldStart [] [] (cardsToCsv cs) = csv_header # map csv_fields cs"
proof (cases "cs = []")
  case True
  then show ?thesis
    by (simp only: cardsToCsv_def header_join list.map join.simps read_header_end)
next
  case False
  then have rows: "map csv_row cs \<noteq> []" by simp
  have "cardsToCsv cs = join '','' csv_header @ newline_char # join [newline_char] (map csv_row cs)"
    unfolding cardsToCsv_def header_join join_Cons [OF rows] by simp
  then show ?thesis by (simp only: read_header_newline read_rows [OF False])
qed

text \<open>The exported CSV is read back without loss by any reader that follows the quoting rules:
  the header first, then one record per card with its source text, its translation, its tags and
  its due time, whatever quotes, commas or line breaks the texts contain.\<close>

theorem csv_export_reads_back:
  "read_csv FieldStart [] [] (exportCsv s) =
   [''source'', ''translation'', ''tags'', ''due''] # map csv_fields (listCards s)"
  by (simp only: exportCsv_def listCards_def read_export csv_header_def)

end
