(* ===== verification/Vlm.thy ===== *)
theory Vlm
  imports Js_Text Protocol_Types
begin

text \<open>
  The gate in front of the vision model: \<open>apps/extension/features/vlm/gate.ts\<close> and
  \<open>review.ts\<close>. \<open>runVlmGate\<close> takes the corrector as an argument, as the code does;
  \<open>JSON.parse\<close> is an argument of \<open>parseVlmJson\<close>.
\<close>

record VlmCorrectionRequest =
  req_sourceText :: string
  req_draftText :: string
  req_question :: string
  req_frameRefs :: "string list"

datatype VlmErrorCategory = Deixis | VisibleText | EntityError | NoError | OtherError

record VlmCorrectionResponse =
  correctedTargetText :: string
  alignedSourceSpans :: "(nat \<times> nat) list"
  errorCategory :: VlmErrorCategory
  resp_confidence :: real
  evidenceSummary :: string

definition shouldInvokeVlm :: "real \<Rightarrow> bool \<Rightarrow> HardwareProfile \<Rightarrow> bool" where
  "shouldInvokeVlm conf flagged profile =
     (if profile = Lite then False else flagged \<and> conf < 0.55)"

definition mockVlmCorrection :: "VlmCorrectionRequest \<Rightarrow> VlmCorrectionResponse" where
  "mockVlmCorrection req =
     \<lparr>correctedTargetText = req_draftText req,
      alignedSourceSpans = [(0, length (req_sourceText req))],
      errorCategory = NoError, resp_confidence = 0.4,
      evidenceSummary = ''Stub VLM; question='' @ req_question req @ ''; frames=''
        @ nat_str (length (req_frameRefs req))\<rparr>"

text \<open>
  The parsed object is handed on as it is: the result is the JSON value when its two required
  fields have their types.
\<close>

definition parseVlmJson :: "(string \<Rightarrow> json option) \<Rightarrow> string \<Rightarrow> json option" where
  "parseVlmJson parse raw =
     (case parse raw of
        None \<Rightarrow> None
      | Some j \<Rightarrow>
          if str_of (json_field j ''correctedTargetText'') = None
             \<or> num_of (json_field j ''confidence'') = None
          then None else Some j)"

record AmbiguitySpan =
  sp_sourceText :: string
  sp_draftText :: string
  sp_confidence :: real
  flaggedAmbiguity :: bool
  sp_question :: string
  sp_frameRefs :: "string list"

record VlmEvidence =
  ev_summary :: string
  ev_errorCategory :: VlmErrorCategory
  ev_confidence :: real

record VlmGateResult =
  invoked :: bool
  gate_reason :: string
  targetText :: string
  evidence :: "VlmEvidence option"
  correction :: "VlmCorrectionResponse option"

definition DEIXIS_WORDS :: "string list" where
  "DEIXIS_WORDS = [''this'', ''that'', ''these'', ''those'', ''here'', ''there'', ''it'', ''eso'',
     ''esto'', ''aquel'', ''celle'', ''celui'']"

text \<open>\<open>DEIXIS_RE.test\<close>\<close>

definition deixis :: "string \<Rightarrow> bool" where
  "deixis s = has_word DEIXIS_WORDS (toLowerCase s)"

definition flagVisualAmbiguity :: "string \<Rightarrow> real \<Rightarrow> bool" where
  "flagVisualAmbiguity src draftConfidence \<longleftrightarrow> draftConfidence < 0.55 \<and> deixis src"

definition runVlmGate ::
  "AmbiguitySpan \<Rightarrow> HardwareProfile \<Rightarrow> (VlmCorrectionRequest \<Rightarrow> VlmCorrectionResponse) \<Rightarrow> VlmGateResult"
where
  "runVlmGate spn profile correct =
     (if \<not> shouldInvokeVlm (sp_confidence spn) (flaggedAmbiguity spn) profile then
        \<lparr>invoked = False,
         gate_reason = (if flaggedAmbiguity spn then ''gate-skipped-profile-or-confidence''
                        else ''no-ambiguity''),
         targetText = sp_draftText spn, evidence = None, correction = None\<rparr>
      else
        let frames = (if sp_frameRefs spn \<noteq> [] then sp_frameRefs spn else [''mock-frame:active-cue'']);
            corr = correct \<lparr>req_sourceText = sp_sourceText spn, req_draftText = sp_draftText spn,
                     req_question = sp_question spn, req_frameRefs = frames\<rparr>;
            target = (if errorCategory corr = NoError \<and> deixis (sp_sourceText spn)
                      then sp_draftText spn @ '' [visual-ref]'' else correctedTargetText corr)
        in \<lparr>invoked = True, gate_reason = ''ambiguity-gated'', targetText = target,
            evidence = Some \<lparr>ev_summary = evidenceSummary corr, ev_errorCategory = errorCategory corr,
                              ev_confidence = resp_confidence corr\<rparr>,
            correction = Some (corr\<lparr>correctedTargetText := target,
              errorCategory := (if errorCategory corr = NoError then Deixis else errorCategory corr)\<rparr>)\<rparr>)"

text \<open>Reading an array out of range gives \<open>undefined\<close>.\<close>

definition at_index :: "'a list \<Rightarrow> nat \<Rightarrow> 'a option" where
  "at_index xs i = (if i < length xs then Some (xs ! i) else None)"

record VlmBatch =
  texts :: "string list"
  evidenceByIndex :: "string list"
  invokedCount :: nat

definition gate_draft ::
  "string list \<Rightarrow> string list \<Rightarrow> real list option \<Rightarrow> HardwareProfile \<Rightarrow> nat \<Rightarrow> VlmGateResult" where
  "gate_draft sources drafts confidences profile i =
     (let src = opt_or (at_index sources i) [];
          draft = opt_or (at_index drafts i) src;
          conf = opt_or (case confidences of None \<Rightarrow> None | Some cs \<Rightarrow> at_index cs i) 0.5
      in runVlmGate
           \<lparr>sp_sourceText = src, sp_draftText = draft, sp_confidence = conf,
            flaggedAmbiguity = flagVisualAmbiguity src conf,
            sp_question = ''Resolve visual referent in: '' @ take 80 src, sp_frameRefs = []\<rparr>
           profile mockVlmCorrection)"

definition gate_push :: "VlmGateResult \<Rightarrow> VlmBatch \<Rightarrow> VlmBatch" where
  "gate_push r b =
     (let b = b\<lparr>texts := texts b @ [targetText r]\<rparr>
      in case (invoked r, evidence r) of
           (True, Some e) \<Rightarrow> b\<lparr>invokedCount := invokedCount b + 1,
                               evidenceByIndex := evidenceByIndex b @ [ev_summary e]\<rparr>
         | _ \<Rightarrow> b\<lparr>evidenceByIndex := evidenceByIndex b @ [[]]\<rparr>)"

definition applyVlmGateToDrafts ::
  "string list \<Rightarrow> string list \<Rightarrow> real list option \<Rightarrow> HardwareProfile option \<Rightarrow> VlmBatch" where
  "applyVlmGateToDrafts sources drafts confidences profile =
     fold (\<lambda>i. gate_push (gate_draft sources drafts confidences (opt_or profile Balanced) i))
       [0 ..< length sources] \<lparr>texts = [], evidenceByIndex = [], invokedCount = 0\<rparr>"

section \<open>Batches\<close>

lemma gate_result:
  "invoked (runVlmGate s p f) = shouldInvokeVlm (sp_confidence s) (flaggedAmbiguity s) p"
  "(evidence (runVlmGate s p f) = None) = (\<not> invoked (runVlmGate s p f))"
  by (simp_all add: runVlmGate_def Let_def)

lemma gate_draft_invoked:
  "invoked (gate_draft ss ds cs p i) \<longleftrightarrow> p \<noteq> Lite \<and>
     opt_or (case cs of None \<Rightarrow> None | Some cs \<Rightarrow> at_index cs i) 0.5 < 0.55 \<and>
     deixis (opt_or (at_index ss i) [])"
  by (auto simp: gate_draft_def Let_def gate_result shouldInvokeVlm_def flagVisualAmbiguity_def)

lemma gate_draft_text:
  "targetText (gate_draft ss ds cs p i) =
     opt_or (at_index ds i) (opt_or (at_index ss i) [])
     @ (if invoked (gate_draft ss ds cs p i) then '' [visual-ref]'' else [])"
  by (simp add: gate_draft_def runVlmGate_def Let_def mockVlmCorrection_def shouldInvokeVlm_def
      flagVisualAmbiguity_def)

definition gate_summary :: "VlmGateResult \<Rightarrow> string" where
  "gate_summary r = (case evidence r of None \<Rightarrow> [] | Some e \<Rightarrow> ev_summary e)"

lemma gate_push_fold:
  assumes "\<And>i. (evidence (g i) = None) = (\<not> invoked (g i))"
  shows "fold (\<lambda>i. gate_push (g i)) is b =
    b\<lparr>texts := texts b @ map (targetText \<circ> g) is,
      evidenceByIndex := evidenceByIndex b @ map (gate_summary \<circ> g) is,
      invokedCount := invokedCount b + length (filter (invoked \<circ> g) is)\<rparr>"
proof (induction "is" arbitrary: b)
  case (Cons i "is")
  then show ?case
    using assms [of i]
    by (auto simp: gate_push_def gate_summary_def Let_def split: option.split bool.split)
qed simp

lemma gate_draft_evidence:
  "(evidence (gate_draft ss ds cs p i) = None) = (\<not> invoked (gate_draft ss ds cs p i))"
  by (simp add: gate_draft_def Let_def gate_result)

lemma gate_draft_summary:
  "(gate_summary (gate_draft ss ds cs p i) \<noteq> []) = invoked (gate_draft ss ds cs p i)"
  by (simp add: gate_summary_def gate_draft_def runVlmGate_def Let_def mockVlmCorrection_def)

lemma batch_run:
  "applyVlmGateToDrafts ss ds cs p =
   \<lparr>texts = map (\<lambda>i. targetText (gate_draft ss ds cs (opt_or p Balanced) i)) [0 ..< length ss],
    evidenceByIndex = map (\<lambda>i. gate_summary (gate_draft ss ds cs (opt_or p Balanced) i)) [0 ..< length ss],
    invokedCount = length (filter (\<lambda>i. invoked (gate_draft ss ds cs (opt_or p Balanced) i)) [0 ..< length ss])\<rparr>"
  unfolding applyVlmGateToDrafts_def
  by (subst gate_push_fold) (simp_all add: gate_draft_evidence comp_def)

text \<open>
  A batch goes through the gate cue by cue: there is one text and one evidence entry per source,
  the text is the draft (the source where there is none), marked with the visual reference
  exactly where the gate let the model look, evidence is given exactly there, and the count says
  how often. The gate never opens on the lite profile or for a confident draft.\<close>

theorem vlm_gate_batch:
  "let b = applyVlmGateToDrafts ss ds cs p;
       opened = (\<lambda>i. opt_or p Balanced \<noteq> Lite \<and> deixis (ss ! i)
                  \<and> opt_or (case cs of None \<Rightarrow> None | Some cs \<Rightarrow> at_index cs i) 0.5 < 0.55)
   in texts b = map (\<lambda>i. opt_or (at_index ds i) (ss ! i) @ (if opened i then '' [visual-ref]'' else []))
                  [0 ..< length ss]
     \<and> map (\<lambda>e. e \<noteq> []) (evidenceByIndex b) = map opened [0 ..< length ss]
     \<and> invokedCount b = length (filter opened [0 ..< length ss])"
  unfolding batch_run Let_def
  by (auto simp: gate_draft_text gate_draft_invoked gate_draft_summary at_index_def
      intro!: arg_cong [of _ _ length] filter_cong)

end
