(* ===== verification/Js_Numbers.thy ===== *)
theory Js_Numbers
  imports Js_Text
begin

text \<open>
  \<open>Number(s)\<close> on strings, as the parsers of clock times use it: decimal literals with an optional
  sign, fraction and exponent, and the prefixed integers in base 16, 8 and 2. The answer is \<open>None\<close>
  where the code has \<open>NaN\<close> or an infinity.
\<close>

text \<open>Digits with at most one point among them, at least one digit; value and number of decimals.\<close>

definition split_point :: "string \<Rightarrow> string \<times> string" where
  "split_point s = (takeWhile (\<lambda>c. c \<noteq> CHR ''.'') s, drop 1 (dropWhile (\<lambda>c. c \<noteq> CHR ''.'') s))"

definition js_decimal :: "string \<Rightarrow> real option" where
  "js_decimal s =
     (let (a, b) = split_point s
      in if list_all is_digit a \<and> list_all is_digit b \<and> (a \<noteq> [] \<or> b \<noteq> [])
         then Some (real (digits_val a) + real (digits_val b) / 10 ^ length b) else None)"

definition js_exponent :: "string \<Rightarrow> int option" where
  "js_exponent s =
     (let (neg, ds) = (if take 1 s = ''-'' then (True, drop 1 s)
                       else if take 1 s = ''+'' then (False, drop 1 s) else (False, s))
      in if ds \<noteq> [] \<and> list_all is_digit ds
         then Some (if neg then - int (digits_val ds) else int (digits_val ds)) else None)"

definition scale10 :: "real \<Rightarrow> int \<Rightarrow> real" where
  "scale10 x e = (if 0 \<le> e then x * 10 ^ nat e else x / 10 ^ nat (- e))"

definition is_exp_mark :: "char \<Rightarrow> bool" where
  "is_exp_mark c \<longleftrightarrow> c = CHR ''e'' \<or> c = CHR ''E''"

definition js_unsigned :: "string \<Rightarrow> real option" where
  "js_unsigned s =
     (let m = takeWhile (\<lambda>c. \<not> is_exp_mark c) s; r = dropWhile (\<lambda>c. \<not> is_exp_mark c) s
      in if r = [] then js_decimal m
         else (case (js_decimal m, js_exponent (drop 1 r)) of
                 (Some x, Some e) \<Rightarrow> Some (scale10 x e)
               | _ \<Rightarrow> None))"

definition based_digit :: "char \<Rightarrow> nat" where
  "based_digit c = (if is_digit c then digit_val c
     else if 97 \<le> code (lower_char c) \<and> code (lower_char c) \<le> 102 then code (lower_char c) - 87 else 16)"

definition js_based :: "nat \<Rightarrow> string \<Rightarrow> real option" where
  "js_based b s =
     (if s \<noteq> [] \<and> list_all (\<lambda>c. based_digit c < b) s
      then Some (real (foldl (\<lambda>a c. b * a + based_digit c) 0 s)) else None)"

definition js_number :: "string \<Rightarrow> real option" where
  "js_number s =
     (let t = trim s; p = toLowerCase (take 2 t)
      in if t = [] then Some 0
         else if p = ''0x'' then js_based 16 (drop 2 t)
         else if p = ''0o'' then js_based 8 (drop 2 t)
         else if p = ''0b'' then js_based 2 (drop 2 t)
         else if take 1 t = ''-'' then map_option uminus (js_unsigned (drop 1 t))
         else if take 1 t = ''+'' then js_unsigned (drop 1 t)
         else js_unsigned t)"

section \<open>Printing with a fixed number of decimals\<close>

text \<open>
  \<open>x.toFixed(d)\<close>: the multiple of the last decimal nearest to \<open>x\<close>, the larger of two, with the sign
  in front.
\<close>

definition to_fixed :: "nat \<Rightarrow> real \<Rightarrow> string" where
  "to_fixed d x =
     (let n = nat \<lfloor>\<bar>x\<bar> * 10 ^ d + 1 / 2\<rfloor>; ds = nat_str (n mod 10 ^ d)
      in (if x < 0 then ''-'' else []) @ nat_str (n div 10 ^ d)
         @ (if d = 0 then [] else CHR ''.'' # replicate (d - length ds) (CHR ''0'') @ ds))"

section \<open>Integers in base 16\<close>

text \<open>\<open>parseInt(s, 16)\<close>: the longest prefix of digits after blanks, a sign and an optional \<open>0x\<close>.\<close>

definition parseInt16 :: "string \<Rightarrow> int option" where
  "parseInt16 s =
     (let t = trim_start s;
          u = (if take 1 t = ''-'' \<or> take 1 t = ''+'' then drop 1 t else t);
          ds = takeWhile (\<lambda>c. based_digit c < 16) (if toLowerCase (take 2 u) = ''0x'' then drop 2 u else u);
          v = int (foldl (\<lambda>a c. 16 * a + based_digit c) 0 ds)
      in if ds = [] then None else Some (if take 1 t = ''-'' then - v else v))"

section \<open>Plain numbers\<close>

lemma digit_facts:
  assumes "is_digit c"
  shows "\<not> is_exp_mark c" "c \<noteq> CHR ''.''" "c \<noteq> CHR ''-''" "c \<noteq> CHR ''+''" "\<not> is_ws c" "lower_char c = c"
proof -
  have marks: "\<not> is_digit (CHR ''e'')" "\<not> is_digit (CHR ''E'')" "\<not> is_digit (CHR ''.'')"
    "\<not> is_digit (CHR ''-'')" "\<not> is_digit (CHR ''+'')" by code_simp+
  with assms show "\<not> is_exp_mark c" "c \<noteq> CHR ''.''" "c \<noteq> CHR ''-''" "c \<noteq> CHR ''+''"
    by (auto simp: is_exp_mark_def)
  from assms show "\<not> is_ws c" "lower_char c = c" by (auto simp: is_digit_def is_ws_def lower_char_def)
qed

lemma digits_trim: "list_all is_digit s \<Longrightarrow> s \<noteq> [] \<Longrightarrow> trim s = s"
  by (rule trim_id) (auto simp: list_all_iff digit_facts)

lemma js_decimal_digits:
  assumes "list_all is_digit a" "list_all is_digit b" "a \<noteq> []"
  shows "js_decimal (a @ CHR ''.'' # b) = Some (real (digits_val a) + real (digits_val b) / 10 ^ length b)"
    and "js_decimal a = Some (real (digits_val a))"
proof -
  have no: "\<forall>c \<in> set a. c \<noteq> CHR ''.''" using assms(1) by (auto simp: list_all_iff digit_facts)
  then have tw: "takeWhile (\<lambda>c. c \<noteq> CHR ''.'') a = a" "dropWhile (\<lambda>c. c \<noteq> CHR ''.'') a = []"
    by (auto simp: takeWhile_eq_all_conv dropWhile_eq_Nil_conv)
  from no have ap: "takeWhile (\<lambda>c. c \<noteq> CHR ''.'') (a @ CHR ''.'' # b) = a"
    "dropWhile (\<lambda>c. c \<noteq> CHR ''.'') (a @ CHR ''.'' # b) = CHR ''.'' # b"
    by (simp_all add: takeWhile_append2 dropWhile_append2)
  show "js_decimal (a @ CHR ''.'' # b) = Some (real (digits_val a) + real (digits_val b) / 10 ^ length b)"
    using assms unfolding js_decimal_def split_point_def ap by simp
  show "js_decimal a = Some (real (digits_val a))"
    using assms unfolding js_decimal_def split_point_def tw by (simp add: digits_val_def)
qed

lemma js_number_plain:
  assumes "s \<noteq> []" "list_all (\<lambda>c. is_digit c \<or> c = CHR ''.'') s" "is_digit (hd s)" "is_digit (last s)"
  shows "js_number s = js_decimal s"
proof -
  have t: "trim s = s" using assms by (intro trim_id) (simp_all add: digit_facts)
  have dot: "\<not> is_exp_mark (CHR ''.'')" "lower_char (CHR ''.'') = CHR ''.''" by code_simp+
  then have ne: "\<forall>c \<in> set s. \<not> is_exp_mark c" "map lower_char s = s"
    using assms(2) by (auto simp: list_all_iff digit_facts intro!: map_idI)
  then have u: "js_unsigned s = js_decimal s"
    by (simp add: js_unsigned_def takeWhile_eq_all_conv dropWhile_eq_Nil_conv Let_def)
      (metis (mono_tags, lifting) dropWhile_eq_Nil_conv takeWhile_eq_all_conv)
  have letters: "\<not> is_digit (CHR ''x'')" "\<not> is_digit (CHR ''o'')" "\<not> is_digit (CHR ''b'')" by code_simp+
  have "toLowerCase (take 2 s) = take 2 s"
    using ne(2) by (metis take_map toLowerCase_def)
  moreover have "take 2 s \<noteq> [CHR ''0'', c]" if "\<not> is_digit c" "c \<noteq> CHR ''.''" for c
  proof
    assume "take 2 s = [CHR ''0'', c]"
    then have "c \<in> set s" by (metis in_set_takeD list.set_intros)
    with that assms(2) show False by (auto simp: list_all_iff)
  qed
  moreover have "take 1 s = [hd s]" using assms(1) by (cases s) auto
  ultimately show ?thesis
    using t u assms(1,3) letters by (simp add: js_number_def Let_def digit_facts)
qed

section \<open>Padded numbers\<close>

definition two_digits :: "nat \<Rightarrow> string" where
  "two_digits n = [digit_char (n div 10), digit_char (n mod 10)]"

definition three_digits :: "nat \<Rightarrow> string" where
  "three_digits n = [digit_char (n div 100), digit_char (n div 10 mod 10), digit_char (n mod 10)]"

lemma digit_char_less [simp]: "d < 10 \<Longrightarrow> is_digit (digit_char d)"
  by simp

lemma digits_val_two: "n < 100 \<Longrightarrow> digits_val (two_digits n) = n"
  by (simp add: digits_val_def two_digits_def)

lemma digits_val_three: "n < 1000 \<Longrightarrow> digits_val (three_digits n) = n"
proof -
  assume n: "n < 1000"
  have "n div 10 mod 10 < 10" "n mod 10 < 10" by simp_all
  moreover have "n div 100 < 10" using n by simp
  moreover have "10 * (10 * (n div 100) + n div 10 mod 10) + n mod 10 = n"
  proof -
    have "n div 100 = n div 10 div 10" by (simp add: div_mult2_eq flip: numeral_One)
    then show ?thesis by (metis div_mult_mod_eq mult.commute)
  qed
  ultimately show ?thesis by (simp add: digits_val_def three_digits_def)
qed

lemma padded_digits [simp]:
  "n < 100 \<Longrightarrow> list_all is_digit (two_digits n)" "n < 1000 \<Longrightarrow> list_all is_digit (three_digits n)"
  "length (two_digits n) = 2" "length (three_digits n) = 3"
  by (simp_all add: two_digits_def three_digits_def div_less_iff_less_mult)

lemma padded_ends [simp]:
  "two_digits n \<noteq> []" "three_digits n \<noteq> []"
  "n < 100 \<Longrightarrow> is_digit (hd (two_digits n))" "n < 100 \<Longrightarrow> is_digit (last (two_digits n))"
  "n < 1000 \<Longrightarrow> is_digit (last (three_digits n))"
  by (simp_all add: two_digits_def three_digits_def div_less_iff_less_mult)

lemma js_number_two: "n < 100 \<Longrightarrow> js_number (two_digits n) = Some (real n)"
proof -
  assume n: "n < 100"
  have "js_number (two_digits n) = js_decimal (two_digits n)"
    using n padded_digits(1) [OF n] by (intro js_number_plain) (auto simp: list_all_iff)
  with n show ?thesis by (simp add: js_decimal_digits(2) [of _ "[]"] digits_val_two)
qed

lemma js_number_seconds:
  assumes "a < 100" "b < 1000"
  shows "js_number (two_digits a @ CHR ''.'' # three_digits b) = Some (real a + real b / 1000)"
proof -
  have "js_number (two_digits a @ CHR ''.'' # three_digits b) = js_decimal (two_digits a @ CHR ''.'' # three_digits b)"
    using assms padded_digits(1) [OF assms(1)] padded_digits(2) [OF assms(2)]
    by (intro js_number_plain) (auto simp: list_all_iff hd_append)
  with assms show ?thesis by (simp add: js_decimal_digits(1) digits_val_two digits_val_three)
qed

end
