(* ===== verification/Cue_Math.thy ===== *)
theory Cue_Math
  imports Protocol_Types Js_Text
begin

text \<open>
  The timing arithmetic on cues of \<open>packages/protocol/src/cue-math.ts\<close>: durations, overlap,
  clamping, merging of neighbouring cues, lookup at a playback position and drift.
\<close>

definition cueDurationMs :: "Cue \<Rightarrow> millis" where
  "cueDurationMs c = max 0 (endMs c - startMs c)"

text \<open>\<open>None\<close> stands for \<open>Number.POSITIVE_INFINITY\<close>.\<close>

definition charactersPerSecond :: "Cue \<Rightarrow> real option" where
  "charactersPerSecond c =
     (let durationSec = real_of_int (cueDurationMs c) / 1000
      in if durationSec \<le> 0 then None else Some (real (length (cue_text c)) / durationSec))"

definition cuesOverlap :: "Cue \<Rightarrow> Cue \<Rightarrow> bool" where
  "cuesOverlap a b \<longleftrightarrow> startMs a < endMs b \<and> startMs b < endMs a"

definition overlapMs :: "Cue \<Rightarrow> Cue \<Rightarrow> millis" where
  "overlapMs a b =
     (let start = max (startMs a) (startMs b); fin = min (endMs a) (endMs b)
      in max 0 (fin - start))"

record ClampOptions =
  minDurationMs :: "millis option"
  maxDurationMs :: "millis option"
  timelineEndMs :: "millis option"

definition clampCueTiming :: "Cue \<Rightarrow> ClampOptions \<Rightarrow> Cue" where
  "clampCueTiming c opts =
     (let minDuration = opt_or (minDurationMs opts) 200;
          maxDuration = opt_or (maxDurationMs opts) 7000;
          s0 = max 0 (startMs c);
          e0 = max (s0 + minDuration) (endMs c);
          (s1, e1) = (case timelineEndMs opts of
              None \<Rightarrow> (s0, e0)
            | Some t \<Rightarrow>
                (let e = min e0 t; s = min s0 (max 0 (t - minDuration))
                 in (s, max (s + minDuration) e)));
          e2 = (if e1 - s1 > maxDuration then s1 + maxDuration else e1)
      in c\<lparr>startMs := s1, endMs := e2\<rparr>)"

definition merge_two :: "Cue \<Rightarrow> Cue \<Rightarrow> Cue" where
  "merge_two cur nxt =
     cur\<lparr>endMs := max (endMs cur) (endMs nxt),
         cue_text := trim (collapse_ws (cue_text cur @ '' '' @ cue_text nxt)),
         speaker := opt_else (speaker cur) (speaker nxt)\<rparr>"

fun merge_loop :: "millis \<Rightarrow> Cue \<Rightarrow> Cue list \<Rightarrow> Cue list" where
  "merge_loop maxGap cur [] = [cur]"
| "merge_loop maxGap cur (nxt # rest) =
     (if startMs nxt - endMs cur \<le> maxGap then merge_loop maxGap (merge_two cur nxt) rest
      else cur # merge_loop maxGap nxt rest)"

definition mergeAdjacentCues :: "Cue list \<Rightarrow> millis \<Rightarrow> Cue list" where
  "mergeAdjacentCues cues maxGapMs =
     (case sort_key startMs cues of
        [] \<Rightarrow> []
      | first # rest \<Rightarrow> merge_loop maxGapMs first rest)"

definition cuesAtTime :: "Cue list \<Rightarrow> millis \<Rightarrow> Cue list" where
  "cuesAtTime cues t = filter (\<lambda>c. startMs c \<le> t \<and> t < endMs c) cues"

definition shiftCue :: "Cue \<Rightarrow> millis \<Rightarrow> Cue" where
  "shiftCue c d = c\<lparr>startMs := max 0 (startMs c + d), endMs := max 0 (endMs c + d)\<rparr>"

definition drift_pair :: "Cue \<times> Cue \<Rightarrow> real" where
  "drift_pair p = real_of_int (\<bar>startMs (fst p) - startMs (snd p)\<bar>
     + \<bar>endMs (fst p) - endMs (snd p)\<bar>) / 2"

definition meanSyncDriftMs :: "Cue list \<Rightarrow> Cue list \<Rightarrow> real" where
  "meanSyncDriftMs reference hypothesized =
     (let n = min (length reference) (length hypothesized)
      in if n = 0 then 0
         else (\<Sum>p \<leftarrow> zip reference hypothesized. drift_pair p) / real n)"

section \<open>Merging\<close>

definition separated :: "millis \<Rightarrow> Cue list \<Rightarrow> bool" where
  "separated g = sorted_wrt (\<lambda>a b. startMs a \<le> startMs b \<and> g < startMs b - endMs a)"

abbreviation sorted_cues :: "Cue list \<Rightarrow> bool" where
  "sorted_cues cs \<equiv> sorted (map startMs cs)"

lemma merge_two_simps [simp]:
  "startMs (merge_two a b) = startMs a" "cue_id (merge_two a b) = cue_id a"
  "endMs (merge_two a b) = max (endMs a) (endMs b)"
  "provenance (merge_two a b) = provenance a"
  "words (cue_text (merge_two a b)) = words (cue_text a) @ words (cue_text b)"
  by (simp_all add: merge_two_def words_append_ws)

lemma merge_loop_starts:
  "sorted_cues (cur # cs) \<Longrightarrow> c \<in> set (merge_loop g cur cs) \<Longrightarrow> startMs cur \<le> startMs c"
  by (induction g cur cs rule: merge_loop.induct) (fastforce split: if_splits)+

lemma merge_loop_gap:
  assumes "sorted_cues (nxt # cs)" "g < startMs nxt - e" "c \<in> set (merge_loop g nxt cs)"
  shows "g < startMs c - e"
  using merge_loop_starts [OF assms(1,3)] assms(2) by linarith

lemma merge_loop_separated: "sorted_cues (cur # cs) \<Longrightarrow> separated g (merge_loop g cur cs)"
proof (induction g cur cs rule: merge_loop.induct)
  case (1 g cur)
  then show ?case by (simp add: separated_def)
next
  case (2 g cur nxt rest)
  then have srt: "sorted_cues (nxt # rest)" and le: "startMs cur \<le> startMs nxt" by auto
  show ?case
  proof (cases "startMs nxt - endMs cur \<le> g")
    case True
    with 2 show ?thesis by simp
  next
    case False
    then have "g < startMs nxt - endMs cur" by simp
    then have "startMs cur \<le> startMs c \<and> g < startMs c - endMs cur"
      if "c \<in> set (merge_loop g nxt rest)" for c
      using merge_loop_starts [OF srt that] merge_loop_gap [OF srt _ that] le by fastforce
    with 2 False srt show ?thesis by (simp add: separated_def)
  qed
qed

lemma merge_loop_covers:
  "sorted_cues (cur # cs) \<Longrightarrow> c \<in> set (cur # cs) \<Longrightarrow>
   \<exists>out \<in> set (merge_loop g cur cs). startMs out \<le> startMs c \<and> endMs c \<le> endMs out"
proof (induction g cur cs arbitrary: c rule: merge_loop.induct)
  case (1 g cur)
  then show ?case by simp
next
  case (2 g cur nxt rest)
  show ?case
  proof (cases "startMs nxt - endMs cur \<le> g")
    case False
    with 2 show ?thesis by auto
  next
    case True
    let ?m = "merge_two cur nxt"
    have srt: "sorted_cues (?m # rest)" using 2(3) by auto
    have IH: "\<exists>out \<in> set (merge_loop g ?m rest). startMs out \<le> startMs d \<and> endMs d \<le> endMs out"
      if "d \<in> set (?m # rest)" for d
      using 2(1) [OF True srt that] .
    show ?thesis
    proof (cases "c \<in> set rest")
      case True
      with IH [of c] \<open>startMs nxt - endMs cur \<le> g\<close> show ?thesis by simp
    next
      case False
      then have "startMs ?m \<le> startMs c \<and> endMs c \<le> endMs ?m" using 2(3,4) by auto
      with IH [of ?m] have "\<exists>out \<in> set (merge_loop g ?m rest).
          startMs out \<le> startMs c \<and> endMs c \<le> endMs out"
        by (meson list.set_intros(1) order_trans)
      with True show ?thesis by simp
    qed
  qed
qed

lemma merge_loop_words:
  "concat (map (\<lambda>c. words (cue_text c)) (merge_loop g cur cs)) =
   concat (map (\<lambda>c. words (cue_text c)) (cur # cs))"
  by (induction g cur cs rule: merge_loop.induct) simp_all

lemma merge_loop_separated_id:
  "separated g (cur # cs) \<Longrightarrow> merge_loop g cur cs = cur # cs"
  by (induction g cur cs rule: merge_loop.induct) (auto simp: separated_def)

lemma separated_sorted: "separated g cs \<Longrightarrow> sorted_cues cs"
  unfolding separated_def sorted_wrt_map
  by (rule sorted_wrt_mono_rel [rotated], assumption) simp

lemma mergeAdjacentCues_separated: "separated g (mergeAdjacentCues cs g)"
proof (cases "sort_key startMs cs")
  case Nil
  then show ?thesis by (simp add: mergeAdjacentCues_def separated_def)
next
  case (Cons a l)
  then have "sorted_cues (a # l)" by (metis sorted_sort_key)
  with Cons show ?thesis by (simp add: mergeAdjacentCues_def merge_loop_separated)
qed

lemma mergeAdjacentCues_fixpoint: "separated g cs \<Longrightarrow> mergeAdjacentCues cs g = cs"
  unfolding mergeAdjacentCues_def sort_key_id_if_sorted [OF separated_sorted]
  by (cases cs) (auto simp: merge_loop_separated_id)

lemma mergeAdjacentCues_words:
  "concat (map (\<lambda>c. words (cue_text c)) (mergeAdjacentCues cs g)) =
   concat (map (\<lambda>c. words (cue_text c)) (sort_key startMs cs))"
  by (cases "sort_key startMs cs") (simp_all add: mergeAdjacentCues_def merge_loop_words
      del: merge_loop.simps)

lemma mergeAdjacentCues_covers:
  assumes "c \<in> set cs"
  shows "\<exists>out \<in> set (mergeAdjacentCues cs g). startMs out \<le> startMs c \<and> endMs c \<le> endMs out"
proof (cases "sort_key startMs cs")
  case Nil
  then have "set cs = {}" by (metis set_empty set_sort)
  with assms show ?thesis by simp
next
  case (Cons a l)
  then have "sorted_cues (a # l)" and "c \<in> set (a # l)"
    using assms by (metis sorted_sort_key, metis set_sort)
  from merge_loop_covers [OF this] Cons show ?thesis by (simp add: mergeAdjacentCues_def)
qed

text \<open>The start and the end before the maximum duration is applied.\<close>

definition clamp_start :: "Cue \<Rightarrow> ClampOptions \<Rightarrow> millis" where
  "clamp_start c opts = (case timelineEndMs opts of None \<Rightarrow> max 0 (startMs c)
     | Some t \<Rightarrow> min (max 0 (startMs c)) (max 0 (t - opt_or (minDurationMs opts) 200)))"

definition clamp_end :: "Cue \<Rightarrow> ClampOptions \<Rightarrow> millis" where
  "clamp_end c opts =
     (let lo = opt_or (minDurationMs opts) 200; e = max (max 0 (startMs c) + lo) (endMs c)
      in case timelineEndMs opts of None \<Rightarrow> e | Some t \<Rightarrow> max (clamp_start c opts + lo) (min e t))"

lemma clampCueTiming_eq:
  "clampCueTiming c opts = c\<lparr>startMs := clamp_start c opts,
     endMs := (if opt_or (maxDurationMs opts) 7000 < clamp_end c opts - clamp_start c opts
               then clamp_start c opts + opt_or (maxDurationMs opts) 7000 else clamp_end c opts)\<rparr>"
proof (cases "timelineEndMs opts")
  case None
  show ?thesis
    unfolding clampCueTiming_def clamp_start_def clamp_end_def Let_def None option.case prod.case
    by (rule refl)
next
  case (Some t)
  show ?thesis
    unfolding clampCueTiming_def clamp_start_def clamp_end_def Let_def Some option.case prod.case
    by (rule refl)
qed

lemma cap_as_min: "(if h < e - s then s + h else e) = min e (s + (h::int))"
  by arith

lemma clampCueTiming_simps:
  "startMs (clampCueTiming c opts) = clamp_start c opts"
  "endMs (clampCueTiming c opts) =
     min (clamp_end c opts) (clamp_start c opts + opt_or (maxDurationMs opts) 7000)"
  by (simp_all only: clampCueTiming_eq cap_as_min) simp_all

lemma clamp_start_nonneg: "0 \<le> clamp_start c opts"
  by (auto simp: clamp_start_def split: option.splits)

lemma clamp_end_ge: "clamp_start c opts + opt_or (minDurationMs opts) 200 \<le> clamp_end c opts"
  by (cases "timelineEndMs opts") (simp_all only: clamp_start_def clamp_end_def Let_def option.case max.cobounded1 )

lemma clamp_end_le:
  "timelineEndMs opts = Some t \<Longrightarrow> 0 \<le> opt_or (minDurationMs opts) 200 \<Longrightarrow>
   opt_or (minDurationMs opts) 200 \<le> t \<Longrightarrow> clamp_end c opts \<le> t"
  by (simp only: clamp_start_def clamp_end_def Let_def option.case) linarith

section \<open>Properties\<close>

text \<open>C32: The cues \<open>mergeAdjacentCues\<close> returns are in order of their start and more than the
  gap apart from one another (so none could be merged further), and together they cover the
  time of every cue that went in.\<close>

theorem merge_separates_and_covers:
  "separated g (mergeAdjacentCues cs g) \<and>
   (\<forall>c \<in> set cs. \<exists>out \<in> set (mergeAdjacentCues cs g).
      startMs out \<le> startMs c \<and> endMs c \<le> endMs out)"
  by (simp add: mergeAdjacentCues_separated mergeAdjacentCues_covers)

definition demo_cue :: "string \<Rightarrow> millis \<Rightarrow> millis \<Rightarrow> string \<Rightarrow> Cue" where
  "demo_cue i a b t = \<lparr>cue_id = i, startMs = a, endMs = b, cue_text = t, speaker = None,
     provenance = HumanCaption\<rparr>"

theorem merge_separates_and_covers_witness:
  "\<exists>out \<in> set (mergeAdjacentCues [demo_cue ''b'' 1050 2000 ''x'', demo_cue ''a'' 0 1000 ''y''] 80).
     startMs out \<le> 1050 \<and> 2000 \<le> endMs out"
  using merge_separates_and_covers [of 80 "[demo_cue ''b'' 1050 2000 ''x'', demo_cue ''a'' 0 1000 ''y'']"]
  by (simp add: demo_cue_def)

text \<open>
  Merging neither loses, repeats nor reorders a word: the words of the merged texts,
  read in order, are the words of the input cues in order of their start.\<close>

theorem merge_keeps_words:
  "concat (map (\<lambda>c. words (cue_text c)) (mergeAdjacentCues cs g)) =
   concat (map (\<lambda>c. words (cue_text c)) (sort_key startMs cs))"
  by (rule mergeAdjacentCues_words)

text \<open>
  Merging is idempotent: a second pass with the same gap changes nothing, text and
  identifiers included.\<close>

theorem merge_idempotent:
  "mergeAdjacentCues (mergeAdjacentCues cs g) g = mergeAdjacentCues cs g"
  by (rule mergeAdjacentCues_fixpoint) (rule mergeAdjacentCues_separated)

text \<open>A clamped cue starts at or after zero, lasts at least the minimum and at most the
  maximum duration, and ends within the timeline whenever the timeline can hold a cue of
  minimal length.\<close>

theorem clamp_bounds:
  assumes "0 \<le> opt_or (minDurationMs opts) 200"
    and "opt_or (minDurationMs opts) 200 \<le> opt_or (maxDurationMs opts) 7000"
    and "case timelineEndMs opts of None \<Rightarrow> True | Some t \<Rightarrow> opt_or (minDurationMs opts) 200 \<le> t"
  shows "0 \<le> startMs (clampCueTiming c opts)
    \<and> opt_or (minDurationMs opts) 200 \<le> cueDurationMs (clampCueTiming c opts)
    \<and> cueDurationMs (clampCueTiming c opts) \<le> opt_or (maxDurationMs opts) 7000
    \<and> (case timelineEndMs opts of None \<Rightarrow> True | Some t \<Rightarrow> endMs (clampCueTiming c opts) \<le> t)"
proof -
  have d: "cueDurationMs (clampCueTiming c opts) = min (clamp_end c opts - clamp_start c opts)
      (opt_or (maxDurationMs opts) 7000)"
    using clamp_end_ge [of c opts] assms(1,2)
    by (simp add: clampCueTiming_simps cueDurationMs_def)
  show ?thesis
    using assms clamp_start_nonneg [of c opts] clamp_end_ge [of c opts] clamp_end_le [of opts _ c]
    unfolding d by (auto simp: clampCueTiming_simps min_le_iff_disj split: option.splits)
qed

theorem clamp_bounds_witness:
  "endMs (clampCueTiming (demo_cue ''a'' 9900 20000 ''hi'')
     \<lparr>minDurationMs = None, maxDurationMs = Some 1000, timelineEndMs = Some 10000\<rparr>) \<le> 10000"
  using clamp_bounds [of "\<lparr>minDurationMs = None, maxDurationMs = Some 1000, timelineEndMs = Some 10000\<rparr>"
      "demo_cue ''a'' 9900 20000 ''hi''"]
  by simp

end
