(* ===== verification/Hash.thy ===== *)
theory Hash
  imports Prelude
begin

text \<open>
  The FNV-1a hash of \<open>packages/page-translate/src/hash.ts\<close> and \<open>packages/lyrics/src/hash.ts\<close>
  on 16-bit code units with 32-bit arithmetic, and the cache keys built from it.
  \<open>new URL(href)\<close> is a host object: the parser and printer of addresses are arguments of
  \<open>canonicalUrl\<close>.
\<close>

unbundle bit_operations_syntax

section \<open>The hash\<close>

definition fnv_step :: "16 word \<Rightarrow> 32 word \<Rightarrow> 32 word" where
  "fnv_step c h = (h XOR ucast c) * 0x01000193"

definition fnv_hash :: "16 word list \<Rightarrow> 32 word" where
  "fnv_hash us = fold fnv_step us 0x811c9dc5"

text \<open>\<open>(hash >>> 0).toString(16).padStart(8, "0")\<close>\<close>

fun hex_str :: "nat \<Rightarrow> string" where
  "hex_str n = (if n < 16 then [hex_digit n] else hex_str (n div 16) @ [hex_digit (n mod 16)])"

declare hex_str.simps [simp del]

definition padStart :: "nat \<Rightarrow> char \<Rightarrow> string \<Rightarrow> string" where
  "padStart n c s = replicate (n - length s) c @ s"

definition fnv1a_units :: "16 word list \<Rightarrow> string" where
  "fnv1a_units us = padStart 8 (CHR ''0'') (hex_str (unat (fnv_hash us)))"

text \<open>\<open>charCodeAt\<close> of every character.\<close>

definition code_units :: "string \<Rightarrow> 16 word list" where
  "code_units s = map (\<lambda>c. of_nat (code c)) s"

definition fnv1a :: "string \<Rightarrow> string" where
  "fnv1a t = fnv1a_units (code_units t)"

definition fnv1aLike :: "string \<Rightarrow> string" where
  "fnv1aLike t = fnv1a_units (code_units t)"

section \<open>Cache keys\<close>

record CacheKeyInput =
  ck_canonicalUrl :: string
  ck_modelId :: string
  ck_modelRevision :: string
  ck_sourceLang :: string
  ck_targetLang :: string
  ck_textHash :: string

definition segmentCacheKey :: "CacheKeyInput \<Rightarrow> string" where
  "segmentCacheKey i = join ''|'' [ck_canonicalUrl i, ck_modelId i, ck_modelRevision i,
     ck_sourceLang i, ck_targetLang i, ck_textHash i]"

record Url =
  url_base :: string
  url_params :: "(string \<times> string) list"
  url_hash :: string

definition tracking_param :: "string \<Rightarrow> bool" where
  "tracking_param k \<longleftrightarrow> startsWith k ''utm_'' \<or> k = ''fbclid'' \<or> k = ''gclid'' \<or> k = ''si''"

definition canonicalUrl :: "(string \<Rightarrow> Url option) \<Rightarrow> (Url \<Rightarrow> string) \<Rightarrow> string \<Rightarrow> string" where
  "canonicalUrl parse_url print_url href =
     (case parse_url href of
        None \<Rightarrow> href
      | Some u \<Rightarrow> print_url (fold (\<lambda>k u. if tracking_param k
                     then u\<lparr>url_params := filter (\<lambda>p. fst p \<noteq> k) (url_params u)\<rparr> else u)
                   (map fst (url_params u)) (u\<lparr>url_hash := []\<rparr>)))"

section \<open>Printing\<close>

lemma hex_digit_inject: "d < 16 \<Longrightarrow> e < 16 \<Longrightarrow> hex_digit d = hex_digit e \<longleftrightarrow> d = e"
  by (auto simp: hex_digit_def split: if_splits)

definition hex_digits :: "nat \<Rightarrow> nat \<Rightarrow> string" where
  "hex_digits k n = map (\<lambda>i. hex_digit (n div 16 ^ i mod 16)) (rev [0 ..< k])"

lemma hex_digits_Suc: "hex_digits (Suc k) n = hex_digits k (n div 16) @ [hex_digit (n mod 16)]"
proof -
  have "rev [0 ..< Suc k] = map Suc (rev [0 ..< k]) @ [0]"
    by (metis map_Suc_upt rev.simps(2) rev_map upt_conv_Cons zero_less_Suc One_nat_def)
  then show ?thesis by (simp add: hex_digits_def div_mult2_eq del: upt_Suc)
qed

lemma hex_digits_zero: "hex_digits k 0 = replicate k (CHR ''0'')"
proof -
  have "hex_digit 0 = CHR ''0''" by code_simp
  then show ?thesis by (simp add: hex_digits_def map_replicate_const)
qed

lemma pad_hex_str: "0 < k \<Longrightarrow> n < 16 ^ k \<Longrightarrow> padStart k (CHR ''0'') (hex_str n) = hex_digits k n"
proof (induction k arbitrary: n)
  case (Suc k)
  show ?case
  proof (cases "n < 16")
    case True
    then show ?thesis
      by (simp add: hex_str.simps [of n] padStart_def hex_digits_Suc hex_digits_zero)
  next
    case False
    then have "k \<noteq> 0" using Suc.prems by (cases k) auto
    moreover have "n div 16 < 16 ^ k" using Suc.prems by (simp add: div_less_iff_less_mult mult.commute)
    ultimately show ?thesis
      using Suc.IH [of "n div 16"] False
      by (simp add: hex_str.simps [of n] hex_digits_Suc padStart_def flip: append_assoc)
  qed
qed simp

lemma hex_digits_inject:
  "m < 16 ^ k \<Longrightarrow> n < 16 ^ k \<Longrightarrow> hex_digits k m = hex_digits k n \<Longrightarrow> m = n"
proof (induction k arbitrary: m n)
  case (Suc k)
  then have "m div 16 = n div 16" "m mod 16 = n mod 16"
    by (auto simp: hex_digits_Suc hex_digit_inject div_less_iff_less_mult mult.commute)
  then show ?case by (metis div_mult_mod_eq)
qed simp

lemma unat_hash: "unat (w :: 32 word) < 16 ^ 8"
  using unsigned_less [of w] by simp

lemma fnv_print: "fnv1a_units us = hex_digits 8 (unat (fnv_hash us))"
  unfolding fnv1a_units_def by (rule pad_hex_str) (simp_all add: unat_hash del: power_numeral)

lemma fnv1a_units_eq: "fnv1a_units us = fnv1a_units vs \<longleftrightarrow> fnv_hash us = fnv_hash vs"
  using hex_digits_inject [OF unat_hash unat_hash, of "fnv_hash us" "fnv_hash vs"]
  by (auto simp: fnv_print word_unat_eq_iff)

section \<open>Mixing\<close>

lemma fnv_prime_inverse: "0x01000193 * 899433627 = (1 :: 32 word)"
  by code_simp

lemma fnv_prime_cancel: "(a :: 32 word) * 0x01000193 = b * 0x01000193 \<longleftrightarrow> a = b"
proof
  assume "a * 0x01000193 = b * 0x01000193"
  then have "a * (0x01000193 * 899433627) = b * (0x01000193 * 899433627)"
    by (simp only: mult.assoc [symmetric])
  then show "a = b" by (simp only: fnv_prime_inverse mult_1_right)
qed simp

lemma fnv_step_inject: "fnv_step c h = fnv_step c h' \<longleftrightarrow> h = h'"
proof -
  have "h XOR x = h' XOR x \<longleftrightarrow> h = h'" for x :: "32 word"
    by (metis xor.assoc xor_self_eq xor.right_neutral)
  then show ?thesis by (simp add: fnv_step_def fnv_prime_cancel)
qed

lemma fnv_step_inject_unit: "fnv_step c h = fnv_step d h \<longleftrightarrow> c = d"
proof -
  have "h XOR x = h XOR y \<longleftrightarrow> x = y" for x y :: "32 word"
    by (metis xor.assoc xor_self_eq xor.left_neutral)
  moreover have "ucast c = (ucast d :: 32 word) \<longleftrightarrow> c = d"
    by transfer (simp add: take_bit_take_bit min_def)
  ultimately show ?thesis by (simp add: fnv_step_def fnv_prime_cancel)
qed

lemma fold_fnv_inject: "fold fnv_step us h = fold fnv_step us h' \<longleftrightarrow> h = h'"
  by (induction us arbitrary: h h') (simp_all add: fnv_step_inject)

text \<open>The hash is a word of eight hexadecimal digits, and two texts that differ in exactly one code
  unit never have the same hash: no single-character edit of a cached segment or a lyrics line
  goes unnoticed.\<close>

theorem one_edit_changes_hash:
  "length (fnv1a_units (u @ c # v)) = 8 \<and> list_all is_hex (fnv1a_units (u @ c # v)) \<and>
   (fnv1a_units (u @ c # v) = fnv1a_units (u @ d # v) \<longleftrightarrow> c = d)"
proof -
  have "fnv_hash (u @ c # v) = fnv_hash (u @ d # v) \<longleftrightarrow> c = d"
    by (simp add: fnv_hash_def fold_fnv_inject fnv_step_inject_unit)
  moreover have "list_all is_hex (hex_digits 8 n)" for n
    by (auto simp: hex_digits_def list_all_iff intro!: is_hex_digit)
  ultimately show ?thesis
    by (simp add: fnv1a_units_eq) (simp add: fnv_print hex_digits_def)
qed

end
