(* ===== verification/Lyrics.thy ===== *)
theory Lyrics
  imports Js_Numbers Cue_Math Hash
begin

text \<open>
  Lyrics: the parsers and the timeline of \<open>packages/lyrics/src/parse.ts\<close>, the karaoke cursor
  of \<open>karaoke.ts\<close>, the song heuristics of \<open>detect.ts\<close>, the track choice of \<open>lrclib.ts\<close> and
  the resolver \<open>apps/extension/features/lyrics/resolve.ts\<close>. The TTML extractor is an argument
  of the resolver, under the contract \<open>line_parser\<close> the other two parsers are shown to meet;
  the clock is an argument.
\<close>

section \<open>Parsing\<close>

definition parseTimestampMs :: "string \<Rightarrow> string \<Rightarrow> string option \<Rightarrow> int" where
  "parseTimestampMs mm ss fr =
     (let minutes = int (digits_val mm); seconds = int (digits_val ss);
          f = opt_or fr [];
          ms = (if f \<noteq> [] then
                  int (digits_val (if length f = 1 then f @ ''00''
                       else if length f = 2 then f @ ''0'' else take 3 f))
                else 0)
      in (minutes * 60 + seconds) * 1000 + ms)"

record ParsedLine =
  pl_startMs :: int
  pl_text :: string

text \<open>
  One match of \<open>/\[(\d{1,2}):(\d{2})(?:[.:](\d{1,3}))?]/\<close> at the start of a text: its groups and
  the text after it. A group of digits is followed by a character that is none, so it is a
  maximal run.
\<close>

type_synonym stamp = "string \<times> string \<times> string option"

definition stamp_end :: "string \<Rightarrow> string option" where
  "stamp_end s = (case s of [] \<Rightarrow> None | c # rest \<Rightarrow> if c = CHR '']'' then Some rest else None)"

definition stamp_frac :: "string \<Rightarrow> (string option \<times> string) option" where
  "stamp_frac s =
     (case s of
        [] \<Rightarrow> None
      | c # r \<Rightarrow>
          if c = CHR ''.'' \<or> c = CHR '':'' then
            let f = takeWhile is_digit r
            in if 1 \<le> length f \<and> length f \<le> 3
               then map_option (Pair (Some f)) (stamp_end (dropWhile is_digit r)) else None
          else map_option (Pair None) (stamp_end s))"

definition stamp_at :: "string \<Rightarrow> (stamp \<times> string) option" where
  "stamp_at s =
     (case s of
        [] \<Rightarrow> None
      | c # r \<Rightarrow>
          let mm = takeWhile is_digit r; r1 = dropWhile is_digit r;
              ss = takeWhile is_digit (tl r1); r2 = dropWhile is_digit (tl r1)
          in if c = CHR ''['' \<and> 1 \<le> length mm \<and> length mm \<le> 2 \<and> take 1 r1 = '':'' \<and> length ss = 2
             then map_option (\<lambda>(f, rest). ((mm, ss, f), rest)) (stamp_frac r2) else None)"

text \<open>
  \<open>raw.matchAll(TS)\<close> and \<open>raw.replace(TS, "")\<close> run over the same matches: the stamps, and
  the text without them. The fuel is the length of the text; each step consumes a character.
\<close>

fun lrc_scan :: "nat \<Rightarrow> string \<Rightarrow> stamp list \<times> string" where
  "lrc_scan _ [] = ([], [])"
| "lrc_scan 0 (c # s) = ([], c # s)"
| "lrc_scan (Suc n) (c # s) =
     (case stamp_at (c # s) of
        Some (t, rest) \<Rightarrow> (let (ts, x) = lrc_scan n rest in (t # ts, x))
      | None \<Rightarrow> (let (ts, x) = lrc_scan n s in (ts, c # x)))"

definition lrc_line :: "string \<Rightarrow> ParsedLine list" where
  "lrc_line raw =
     (let (stamps, stripped) = lrc_scan (length raw) raw; textPart = trim stripped
      in map (\<lambda>(mm, ss, f). \<lparr>pl_startMs = parseTimestampMs mm ss f, pl_text = textPart\<rparr>) stamps)"

definition parseLrc :: "string \<Rightarrow> ParsedLine list" where
  "parseLrc content =
     filter (\<lambda>l. pl_text l \<noteq> [])
       (sort_key pl_startMs (concat (map lrc_line (split_lines content))))"

definition parsePlain :: "string \<Rightarrow> int \<Rightarrow> ParsedLine list" where
  "parsePlain content lineDurationMs =
     (let rows = filter (\<lambda>l. l \<noteq> []) (map trim (split_lines content))
      in map (\<lambda>i. \<lparr>pl_startMs = int i * lineDurationMs, pl_text = rows ! i\<rparr>) [0 ..< length rows])"

section \<open>Timelines\<close>

definition line_cue :: "string \<Rightarrow> Provenance \<Rightarrow> int \<Rightarrow> ParsedLine list \<Rightarrow> nat \<Rightarrow> Cue" where
  "line_cue videoId prov defaultDurationMs lines i =
     (let line = lines ! i
      in \<lparr>cue_id = ''lyr_'' @ fnv1aLike (videoId @ '':'' @ nat_str i @ '':'' @ int_str (pl_startMs line)
                   @ '':'' @ pl_text line),
          startMs = pl_startMs line,
          endMs = (if Suc i < length lines
                   then max (pl_startMs (lines ! Suc i)) (pl_startMs line + 200)
                   else pl_startMs line + defaultDurationMs),
          cue_text = pl_text line, speaker = None, provenance = prov\<rparr>)"

definition linesToTimeline ::
  "string \<Rightarrow> ParsedLine list \<Rightarrow> Provenance \<Rightarrow> int \<Rightarrow> SourceTimeline" where
  "linesToTimeline videoId lines prov defaultDurationMs =
     (let cs = map (line_cue videoId prov defaultDurationMs lines) [0 ..< length lines]
      in \<lparr>tl_videoId = videoId, tl_cues = cs,
          sourceHash = fnv1aLike (join [char_of (10::nat)] (map cue_text cs)),
          immutable = True,
          captionSource = Some (if prov = Asr then SourceAsrImport else SourceHuman),
          tl_language = None, developmentFallback = None\<rparr>)"

definition attributionFor :: "LyricsSourceKind \<Rightarrow> millis \<Rightarrow> LyricsAttribution" where
  "attributionFor src now =
     \<lparr>la_source = src, la_provider = None, la_url = None, fetchedAtMs = Some now, licenseNote = None\<rparr>"

section \<open>Karaoke\<close>

record KaraokeState =
  activeCueId :: "string option"
  activeIndex :: int
  previousId :: "string option"
  nextId :: "string option"

fun active_loop :: "int \<Rightarrow> int \<Rightarrow> Cue list \<Rightarrow> millis \<Rightarrow> int" where
  "active_loop i active [] t = active"
| "active_loop i active (c # cs) t =
     (if startMs c \<le> t \<and> t < endMs c then i
      else active_loop (i + 1) (if startMs c \<le> t then i else active) cs t)"

definition cue_id_at :: "Cue list \<Rightarrow> int \<Rightarrow> string option" where
  "cue_id_at cs i = (if 0 \<le> i \<and> i < int (length cs) then Some (cue_id (cs ! nat i)) else None)"

definition karaokeAt :: "Cue list \<Rightarrow> millis \<Rightarrow> KaraokeState" where
  "karaokeAt cs t =
     (if cs = [] then \<lparr>activeCueId = None, activeIndex = -1, previousId = None, nextId = None\<rparr>
      else
        let a = active_loop 0 (-1) cs t
        in if a < 0 then
             \<lparr>activeCueId = None, activeIndex = -1, previousId = None, nextId = cue_id_at cs 0\<rparr>
           else
             \<lparr>activeCueId = cue_id_at cs a, activeIndex = a, previousId = cue_id_at cs (a - 1),
              nextId = cue_id_at cs (a + 1)\<rparr>)"

definition syncDriftMs :: "int \<Rightarrow> int \<Rightarrow> int" where
  "syncDriftMs expectedStartMs actualStartMs = \<bar>expectedStartMs - actualStartMs\<bar>"

section \<open>Song detection\<close>

record SongDetectInput =
  sg_href :: string
  sg_title :: "string option"
  sg_channel :: "string option"
  sg_category :: "string option"
  treatAsSong :: "bool option"

text \<open>\<open>a\s*b\<close> at the start of a text.\<close>

definition spaced :: "string \<Rightarrow> string \<Rightarrow> string \<Rightarrow> bool" where
  "spaced a b s \<longleftrightarrow> startsWith s a \<and> startsWith (dropWhile is_ws (drop (length a) s)) b"

definition title_marker :: "string \<Rightarrow> bool" where
  "title_marker = search (\<lambda>s. spaced ''official'' ''audio'' s \<or> spaced ''lyric'' ''video'' s
     \<or> spaced ''lyrics'' ''video'' s
     \<or> (startsWith s ''topic'' \<and> \<not> list_ex is_word_char (take 1 (drop 5 s))))"

definition detectSongContext :: "SongDetectInput \<Rightarrow> SongDetectionResult" where
  "detectSongContext i =
     (if treatAsSong i = Some True then
        \<lparr>isSong = True, sd_confidence = 1, reasons = [''user-override'']\<rparr>
      else
        let href = toLowerCase (sg_href i);
            title = toLowerCase (opt_or (sg_title i) []);
            channel = toLowerCase (opt_or (sg_channel i) []);
            category = toLowerCase (opt_or (sg_category i) []);
            hits = filter (fst \<circ> snd)
              [(''youtube-music-host'', str_includes href ''music.youtube.com'', 0.55),
               (''title-marker'', title_marker title, 0.25),
               (''topic-channel'', str_includes channel '' - topic'' \<or> endsWith channel ''topic'', 0.2),
               (''music-category'', str_includes category ''music'', 0.25),
               (''lyrics-in-title'', has_word [''lyric'', ''lyrics''] title, 0.1)];
            confidence = min 1 (sum_list (map (snd \<circ> snd) hits))
        in \<lparr>isSong = (0.45 \<le> confidence), sd_confidence = confidence, reasons = map fst hits\<rparr>)"

definition LYRICS_SOURCE_PRIORITY :: "LyricsSourceKind list" where
  "LYRICS_SOURCE_PRIORITY = [PageCaption, PageEmbedded, LrcLib, UserImport, AsrLyrics]"

section \<open>LRCLIB tracks\<close>

record LrcLibTrack =
  track_id :: int
  trackName :: string
  artistName :: string
  albumName :: "string option"
  track_duration :: "real option"
  instrumental :: "bool option"
  plainLyrics :: "string option"
  syncedLyrics :: "string option"

text \<open>The loop of \<open>pickBestTrack\<close>; \<open>None\<close> is the infinite initial distance.\<close>

fun pick_loop :: "real \<Rightarrow> LrcLibTrack \<Rightarrow> real option \<Rightarrow> LrcLibTrack list \<Rightarrow> LrcLibTrack" where
  "pick_loop d best delta [] = best"
| "pick_loop d best delta (t # ts) =
     (case track_duration t of
        None \<Rightarrow> pick_loop d best delta ts
      | Some x \<Rightarrow>
          if (case delta of None \<Rightarrow> True | Some b \<Rightarrow> \<bar>x - d\<bar> < b)
          then pick_loop d t (Some \<bar>x - d\<bar>) ts else pick_loop d best delta ts)"

definition pickBestTrack :: "LrcLibTrack list \<Rightarrow> real option \<Rightarrow> LrcLibTrack option" where
  "pickBestTrack tracks durationSec =
     (case tracks of
        [] \<Rightarrow> None
      | t # ts \<Rightarrow>
          (case durationSec of None \<Rightarrow> Some t | Some d \<Rightarrow> Some (pick_loop d t None tracks)))"

section \<open>Resolving\<close>

datatype LyricsNext = NextLrclib | NextImport | NextAsr | NextNone

record LyricsFailure =
  lf_reason :: string
  lf_next :: LyricsNext

record LyricsFound =
  lr_timeline :: SourceTimeline
  lr_attribution :: LyricsAttribution
  requiresConfirmation :: "bool option"

record LyricsResolveInput =
  in_href :: string
  in_videoId :: string
  in_title :: "string option"
  in_channel :: "string option"
  in_category :: "string option"
  pageCaptionTimeline :: "SourceTimeline option"
  pageEmbeddedLrc :: "string option"
  lrclibTrack :: "LrcLibTrack option"
  imported :: "(LyricsFormat \<times> string) option"
  in_treatAsSong :: "bool option"

definition resolveImportedLyrics ::
  "(string \<Rightarrow> ParsedLine list) \<Rightarrow> string \<Rightarrow> LyricsFormat \<Rightarrow> string \<Rightarrow> SourceTimeline" where
  "resolveImportedLyrics parseTtml videoId format content =
     (let lines = (case format of FmtLrc \<Rightarrow> parseLrc content | FmtTtml \<Rightarrow> parseTtml content
                   | FmtPlain \<Rightarrow> parsePlain content 3000)
      in linesToTimeline videoId lines LyricsImport 3000)"

text \<open>The sources after the page's own captions.\<close>

definition resolve_rest ::
  "(string \<Rightarrow> ParsedLine list) \<Rightarrow> LyricsResolveInput \<Rightarrow> millis \<Rightarrow> LyricsFailure + LyricsFound" where
  "resolve_rest parseTtml i now =
     (let embedded = opt_or (pageEmbeddedLrc i) [];
          synced = (case lrclibTrack i of None \<Rightarrow> [] | Some t \<Rightarrow> opt_or (syncedLyrics t) [])
      in if embedded \<noteq> [] then
           Inr \<lparr>lr_timeline = linesToTimeline (in_videoId i) (parseLrc embedded) LyricsImport 3000,
                lr_attribution = attributionFor PageEmbedded now, requiresConfirmation = None\<rparr>
         else if synced \<noteq> [] then
           Inr \<lparr>lr_timeline = linesToTimeline (in_videoId i) (parseLrc synced) LyricsOpenApi 3000,
                lr_attribution = (attributionFor LrcLib now)\<lparr>la_provider := Some ''LRCLIB'',
                  la_url := Some ''https://lrclib.net/'',
                  licenseNote := Some ''User-fetched open API lyrics; clearable cache.''\<rparr>,
                requiresConfirmation = None\<rparr>
         else case imported i of
           Some (format, content) \<Rightarrow>
             Inr \<lparr>lr_timeline = resolveImportedLyrics parseTtml (in_videoId i) format content,
                  lr_attribution = attributionFor UserImport now, requiresConfirmation = None\<rparr>
         | None \<Rightarrow> Inl \<lparr>lf_reason = ''need-user-asr-or-import'', lf_next = NextAsr\<rparr>)"

definition resolveLyricsLocal ::
  "(string \<Rightarrow> ParsedLine list) \<Rightarrow> LyricsResolveInput \<Rightarrow> millis \<Rightarrow> LyricsFailure + LyricsFound" where
  "resolveLyricsLocal parseTtml i now =
     (if \<not> isSong (detectSongContext
            \<lparr>sg_href = in_href i, sg_title = in_title i, sg_channel = in_channel i,
             sg_category = in_category i, treatAsSong = in_treatAsSong i\<rparr>)
         \<and> in_treatAsSong i \<noteq> Some True
      then Inl \<lparr>lf_reason = ''not-song-context'', lf_next = NextNone\<rparr>
      else case pageCaptionTimeline i of
        Some tmln \<Rightarrow>
          if tl_cues tmln \<noteq> []
          then Inr \<lparr>lr_timeline = tmln, lr_attribution = attributionFor PageCaption now,
                     requiresConfirmation = Some True\<rparr>
          else resolve_rest parseTtml i now
      | None \<Rightarrow> resolve_rest parseTtml i now)"

section \<open>The contract of the parsers\<close>

text \<open>
  A line parser gives trimmed texts that are not blank. What the timeline makes of such lines is
  proved once.
\<close>

locale line_parser =
  fixes parse :: "string \<Rightarrow> ParsedLine list"
  assumes text_trimmed: "l \<in> set (parse content) \<Longrightarrow> pl_text l \<noteq> [] \<and> trim (pl_text l) = pl_text l"
begin

lemma timeline_texts:
  assumes "c \<in> set (tl_cues (linesToTimeline v (parse content) p d))"
  shows "cue_text c \<noteq> [] \<and> trim (cue_text c) = cue_text c \<and> provenance c = p"
proof -
  obtain i where "i < length (parse content)" "c = line_cue v p d (parse content) i"
    using assms by (auto simp: linesToTimeline_def Let_def)
  with text_trimmed [OF nth_mem] show ?thesis by (simp add: line_cue_def Let_def)
qed

end

lemma parseLrc_trimmed: "l \<in> set (parseLrc content) \<Longrightarrow> pl_text l \<noteq> [] \<and> trim (pl_text l) = pl_text l"
  by (auto simp: parseLrc_def lrc_line_def split: prod.splits)

lemma parsePlain_trimmed: "l \<in> set (parsePlain content d) \<Longrightarrow> pl_text l \<noteq> [] \<and> trim (pl_text l) = pl_text l"
proof -
  assume "l \<in> set (parsePlain content d)"
  then obtain i where "i < length (filter (\<lambda>l. l \<noteq> []) (map trim (split_lines content)))"
    and l: "pl_text l = filter (\<lambda>l. l \<noteq> []) (map trim (split_lines content)) ! i"
    by (auto simp: parsePlain_def Let_def)
  then have "pl_text l \<in> set (filter (\<lambda>l. l \<noteq> []) (map trim (split_lines content)))"
    by (metis nth_mem)
  then show ?thesis by auto
qed

interpretation lrc: line_parser parseLrc
  by unfold_locales (rule parseLrc_trimmed)

interpretation plain: line_parser "\<lambda>c. parsePlain c 3000"
  by unfold_locales (rule parsePlain_trimmed)

section \<open>Reading back printed LRC\<close>

text \<open>A line in the notation of LRC files, for times below 100 minutes.\<close>

definition print_line :: "ParsedLine \<Rightarrow> string" where
  "print_line l =
     (let ms = nat (pl_startMs l)
      in CHR ''['' # two_digits (ms div 60000) @ CHR '':'' # two_digits (ms div 1000 mod 60) @ CHR ''.''
         # three_digits (ms mod 1000) @ CHR '']'' # pl_text l)"

definition printable :: "ParsedLine \<Rightarrow> bool" where
  "printable l \<longleftrightarrow> 0 \<le> pl_startMs l \<and> pl_startMs l < 6000000 \<and> pl_text l \<noteq> []
     \<and> trim (pl_text l) = pl_text l \<and> CHR ''['' \<notin> set (pl_text l) \<and> char_of (10::nat) \<notin> set (pl_text l)"

lemma brackets [simp]:
  "\<not> is_digit (CHR '':'')" "\<not> is_digit (CHR ''.'')" "\<not> is_digit (CHR '']'')" "\<not> is_digit (CHR ''['')"
  by code_simp+

lemma scan_plain: "CHR ''['' \<notin> set s \<Longrightarrow> length s \<le> n \<Longrightarrow> lrc_scan n s = ([], s)"
  by (induction n s rule: lrc_scan.induct) (auto simp: stamp_at_def Let_def)

lemma stamp_at_printed:
  assumes "a < 100" "b < 100" "c < 1000"
  shows "stamp_at (CHR ''['' # two_digits a @ CHR '':'' # two_digits b @ CHR ''.'' # three_digits c
            @ CHR '']'' # s)
       = Some ((two_digits a, two_digits b, Some (three_digits c)), s)"
  using assms
  by (simp add: stamp_at_def two_digits_def three_digits_def stamp_frac_def stamp_end_def Let_def
      div_less_iff_less_mult)

lemma lrc_line_printed:
  assumes "printable l"
  shows "lrc_line (print_line l) = [l]"
proof -
  define ms where "ms = nat (pl_startMs l)"
  have ms: "int ms = pl_startMs l" "ms < 6000000"
    using assms by (auto simp: ms_def printable_def)
  define a b c where "a = ms div 60000" and "b = ms div 1000 mod 60" and "c = ms mod 1000"
  have bounds: "a < 100" "b < 100" "c < 1000"
    using ms(2) by (auto simp: a_def b_def c_def div_less_iff_less_mult intro: less_trans [of _ 60])
  have time: "(a * 60 + b) * 1000 + c = ms"
  proof -
    have "ms div 60000 = ms div 1000 div 60" by (simp add: div_mult2_eq flip: numeral_One)
    then have "a * 60 + b = ms div 1000" by (simp add: a_def b_def)
    then show ?thesis by (simp add: c_def)
  qed
  have print: "print_line l = CHR ''['' # two_digits a @ CHR '':'' # two_digits b @ CHR ''.''
      # three_digits c @ CHR '']'' # pl_text l"
    by (simp add: print_line_def ms_def a_def b_def c_def Let_def)
  have scan: "lrc_scan (length (print_line l)) (print_line l)
      = ([(two_digits a, two_digits b, Some (three_digits c))], pl_text l)"
  proof -
    obtain n where n: "length (print_line l) = Suc n" "length (pl_text l) \<le> n"
      by (auto simp: print)
    have "lrc_scan n (pl_text l) = ([], pl_text l)"
      using assms n by (intro scan_plain) (auto simp: printable_def)
    with n show ?thesis by (simp add: print stamp_at_printed [OF bounds])
  qed
  have "parseTimestampMs (two_digits a) (two_digits b) (Some (three_digits c)) = int ms"
    using time bounds
    by (simp add: parseTimestampMs_def Let_def digits_val_two digits_val_three flip: of_nat_mult of_nat_add)
  with scan ms assms show ?thesis
    by (simp add: lrc_line_def printable_def)
qed

lemma print_line_chars:
  assumes "printable l"
  shows "char_of (10::nat) \<notin> set (print_line l)" "last (print_line l) \<noteq> char_of (13::nat)"
    "print_line l \<noteq> []"
proof -
  have nl: "\<not> is_digit (char_of (10::nat))" "char_of (10::nat) \<noteq> CHR ''[''" "char_of (10::nat) \<noteq> CHR '']''"
    "char_of (10::nat) \<noteq> CHR '':''" "char_of (10::nat) \<noteq> CHR ''.''" "is_ws (char_of (13::nat))"
    by code_simp+
  have dig: "c \<noteq> char_of (10::nat)" if "is_digit c" for c
    using that nl(1) by auto
  have ms: "nat (pl_startMs l) < 6000000" using assms by (auto simp: printable_def)
  have "nat (pl_startMs l) div 60000 div 10 < 10" "nat (pl_startMs l) div 1000 mod 60 div 10 < 10"
    "nat (pl_startMs l) mod 1000 div 100 < 10"
    using ms by (auto simp: div_less_iff_less_mult intro: less_trans [of _ 60])
  then have "is_digit c" if "c \<in> set (two_digits (nat (pl_startMs l) div 60000))
      \<union> set (two_digits (nat (pl_startMs l) div 1000 mod 60)) \<union> set (three_digits (nat (pl_startMs l) mod 1000))" for c
    using that by (auto simp: two_digits_def three_digits_def)
  with assms nl dig show "char_of (10::nat) \<notin> set (print_line l)"
    by (auto simp: print_line_def Let_def printable_def)
  have "last (print_line l) = last (pl_text l)"
    using assms by (simp add: print_line_def Let_def printable_def)
  with assms nl(6) last_trim [of "pl_text l"] show "last (print_line l) \<noteq> char_of (13::nat)"
    by (auto simp: printable_def)
  show "print_line l \<noteq> []" by (simp add: print_line_def Let_def)
qed

lemma parse_printed:
  assumes "list_all printable ls" "sorted (map pl_startMs ls)"
  shows "parseLrc (join [char_of (10::nat)] (map print_line ls)) = ls"
proof (cases "ls = []")
  case True
  then show ?thesis by (simp add: parseLrc_def split_lines_def lrc_line_def)
next
  case False
  have "split_lines (join [char_of (10::nat)] (map print_line ls)) = map print_line ls"
    using False assms(1) by (intro split_lines_join) (auto simp: list_all_iff print_line_chars)
  moreover have "concat (map lrc_line (map print_line ls)) = ls"
    using assms(1) by (induction ls) (simp_all add: lrc_line_printed)
  moreover have "sort_key pl_startMs ls = ls"
    using assms(2) by (simp add: sort_key_id_if_sorted)
  moreover have "filter (\<lambda>l. pl_text l \<noteq> []) ls = ls"
    using assms(1) by (auto simp: list_all_iff printable_def intro!: filter_True)
  ultimately show ?thesis by (simp add: parseLrc_def)
qed

text \<open>C36:
  LRC round trip: lines in the order of their times, below 100 minutes, with trimmed texts
  without brackets or line breaks, printed in the notation of LRC files, are parsed back exactly,
  times to the millisecond.\<close>

theorem lrc_round_trip:
  assumes "list_all printable ls" "sorted (map pl_startMs ls)"
  shows "parseLrc (join [char_of (10::nat)] (map print_line ls)) = ls"
  using assms by (rule parse_printed)

theorem lrc_round_trip_witness:
  "parseLrc (join [char_of (10::nat)] (map print_line
     [\<lparr>pl_startMs = 1500, pl_text = ''one''\<rparr>, \<lparr>pl_startMs = 61007, pl_text = ''two''\<rparr>]))
   = [\<lparr>pl_startMs = 1500, pl_text = ''one''\<rparr>, \<lparr>pl_startMs = 61007, pl_text = ''two''\<rparr>]"
  by (rule lrc_round_trip; code_simp)

section \<open>The cursor on a lyrics timeline\<close>

text \<open>Cues one after another: each ends no later than the next one starts.\<close>

definition consecutive :: "Cue list \<Rightarrow> bool" where
  "consecutive = sorted_wrt (\<lambda>a b. startMs a \<le> startMs b \<and> endMs a \<le> startMs b)"

lemma active_loop_count:
  "consecutive cs \<Longrightarrow>
   active_loop i a cs t =
     (let k = length (filter (\<lambda>c. startMs c \<le> t) cs) in if k = 0 then a else i + int k - 1)"
proof (induction i a cs t rule: active_loop.induct)
  case (2 i active c cs t)
  have later: "filter (\<lambda>c. startMs c \<le> t) cs = []" if "t < endMs c \<or> t < startMs c"
    using 2(2) that by (fastforce simp: consecutive_def filter_empty_conv)
  have "consecutive cs" using 2(2) by (simp add: consecutive_def)
  with 2(1) later show ?case by (auto simp: Let_def)
qed simp

lemma timeline_nth:
  "i < length ls \<Longrightarrow> tl_cues (linesToTimeline v ls p d) ! i = line_cue v p d ls i"
  "length (tl_cues (linesToTimeline v ls p d)) = length ls"
  by (simp_all add: linesToTimeline_def Let_def)

definition spaced_lines :: "ParsedLine list \<Rightarrow> bool" where
  "spaced_lines = sorted_wrt (\<lambda>a b. pl_startMs a + 200 \<le> pl_startMs b)"

lemma spaced_nth: "spaced_lines ls \<Longrightarrow> i < j \<Longrightarrow> j < length ls \<Longrightarrow>
    pl_startMs (ls ! i) + 200 \<le> pl_startMs (ls ! j)"
  by (simp add: spaced_lines_def sorted_wrt_iff_nth_less)

lemma timeline_consecutive:
  assumes "spaced_lines ls"
  shows "consecutive (tl_cues (linesToTimeline v ls p d))"
  unfolding consecutive_def sorted_wrt_iff_nth_less
proof (intro allI impI)
  fix i j assume ij: "i < j" "j < length (tl_cues (linesToTimeline v ls p d))"
  then have j: "j < length ls" by (simp add: timeline_nth)
  have "pl_startMs (ls ! i) + 200 \<le> pl_startMs (ls ! Suc i)"
    using spaced_nth [OF assms, of i "Suc i"] ij j by simp
  moreover have "pl_startMs (ls ! Suc i) \<le> pl_startMs (ls ! j)"
    using spaced_nth [OF assms, of "Suc i" j] ij j by (cases "j = Suc i") auto
  ultimately show "startMs (tl_cues (linesToTimeline v ls p d) ! i) \<le> startMs (tl_cues (linesToTimeline v ls p d) ! j)
     \<and> endMs (tl_cues (linesToTimeline v ls p d) ! i) \<le> startMs (tl_cues (linesToTimeline v ls p d) ! j)"
    using ij j by (simp add: timeline_nth line_cue_def Let_def)
qed

lemma count_starts:
  "length (filter (\<lambda>c. startMs c \<le> t) (tl_cues (linesToTimeline v ls p d)))
   = length (filter (\<lambda>l. pl_startMs l \<le> t) ls)"
proof -
  have "map startMs (tl_cues (linesToTimeline v ls p d)) = map pl_startMs ls"
    by (rule nth_equalityI) (simp_all add: timeline_nth line_cue_def Let_def)
  then have "length (filter (\<lambda>x. x \<le> t) (map startMs (tl_cues (linesToTimeline v ls p d))))
      = length (filter (\<lambda>x. x \<le> t) (map pl_startMs ls))" by simp
  then show ?thesis by (simp add: filter_map comp_def)
qed

lemma filter_le_length: "length (filter P xs) \<le> length xs"
  by simp

text \<open>
  On the timeline built from lyrics lines at least 200 ms apart, the karaoke cursor is on the
  last line that has started (none before the first), names its cue, and offers the lines before
  and after it.\<close>

theorem karaoke_follows_lines:
  assumes "spaced_lines ls"
  shows "let cs = tl_cues (linesToTimeline v ls p d);
             n = int (length (filter (\<lambda>l. pl_startMs l \<le> t) ls)); k = karaokeAt cs t
         in activeIndex k = n - 1 \<and> activeCueId k = cue_id_at cs (n - 1)
            \<and> previousId k = cue_id_at cs (n - 2) \<and> nextId k = cue_id_at cs n"
proof -
  let ?cs = "tl_cues (linesToTimeline v ls p d)"
  let ?n = "length (filter (\<lambda>l. pl_startMs l \<le> t) ls)"
  have "active_loop 0 (-1) ?cs t = int ?n - 1"
    by (simp add: active_loop_count [OF timeline_consecutive [OF assms]] count_starts Let_def)
  moreover have "?cs = [] \<longleftrightarrow> ls = []" by (metis length_0_conv timeline_nth(2))
  ultimately show ?thesis
    by (auto simp: karaokeAt_def Let_def cue_id_at_def)
qed

theorem karaoke_follows_lines_witness:
  "activeIndex (karaokeAt (tl_cues (linesToTimeline ''v''
     [\<lparr>pl_startMs = 1000, pl_text = ''one''\<rparr>, \<lparr>pl_startMs = 2000, pl_text = ''two''\<rparr>] LyricsImport 3000)) 1500) = 0"
  using karaoke_follows_lines [of "[\<lparr>pl_startMs = 1000, pl_text = ''one''\<rparr>, \<lparr>pl_startMs = 2000, pl_text = ''two''\<rparr>]"
      "''v''" LyricsImport 3000 1500]
  by (simp add: Let_def spaced_lines_def)

section \<open>Detection, tracks and priority\<close>

text \<open>
  Song detection stays between 0 and 1 and calls a page a song exactly when the user says so, or
  the host is YouTube Music, or at least two of the three markers (title, topic channel, music
  category) are there; the word "lyrics" in the title alone never tips the balance.\<close>

theorem song_detection:
  "let r = detectSongContext i;
       href = toLowerCase (sg_href i); title = toLowerCase (opt_or (sg_title i) []);
       channel = toLowerCase (opt_or (sg_channel i) []); category = toLowerCase (opt_or (sg_category i) []);
       markers = filter id [title_marker title,
                            str_includes channel '' - topic'' \<or> endsWith channel ''topic'',
                            str_includes category ''music'']
   in 0 \<le> sd_confidence r \<and> sd_confidence r \<le> 1 \<and>
      (isSong r \<longleftrightarrow> treatAsSong i = Some True \<or> str_includes href ''music.youtube.com''
                  \<or> 2 \<le> length markers)"
proof (cases "treatAsSong i = Some True")
  case True
  then show ?thesis by (simp add: detectSongContext_def Let_def)
next
  case False
  have core: "(0::real) \<le> min 1 (sum_list (map (snd \<circ> snd) hits)) \<and>
      min 1 (sum_list (map (snd \<circ> snd) hits)) \<le> 1 \<and>
      (0.45 \<le> min 1 (sum_list (map (snd \<circ> snd) hits)) \<longleftrightarrow> a \<or> 2 \<le> length (filter id [b, c, d]))"
    if "hits = filter (fst \<circ> snd) [(''youtube-music-host'', a, 0.55), (''title-marker'', b, 0.25),
          (''topic-channel'', c, 0.2), (''music-category'', d, 0.25), (''lyrics-in-title'', e, 0.1)]"
    for a b c d e and hits :: "(string \<times> bool \<times> real) list"
    unfolding that by (cases a; cases b; cases c; cases d; cases e) simp_all
  show ?thesis
    unfolding detectSongContext_def Let_def if_not_P [OF False] SongDetectionResult.select_convs
    using core [OF refl] False by blast
qed

definition track_delta :: "real \<Rightarrow> LrcLibTrack \<Rightarrow> real option" where
  "track_delta d t = map_option (\<lambda>x. \<bar>x - d\<bar>) (track_duration t)"

text \<open>A distance no worse than another; a track without a duration is worse than any.\<close>

definition no_worse :: "real option \<Rightarrow> real option \<Rightarrow> bool" where
  "no_worse a b = (case b of None \<Rightarrow> True | Some y \<Rightarrow> (case a of None \<Rightarrow> False | Some x \<Rightarrow> x \<le> y))"

lemma no_worse_trans: "no_worse a b \<Longrightarrow> no_worse b c \<Longrightarrow> no_worse a c"
  by (auto simp: no_worse_def split: option.splits)

lemma no_worse_refl [simp]: "no_worse a a"
  by (auto simp: no_worse_def split: option.splits)

lemma pick_loop_best:
  "delta = track_delta d best \<or> delta = None \<Longrightarrow>
   let b = pick_loop d best delta ts
   in b \<in> set (best # ts) \<and> no_worse (track_delta d b) delta \<and>
      (\<forall>t \<in> set ts. no_worse (track_delta d b) (track_delta d t))"
proof (induction d best delta ts rule: pick_loop.induct)
  case (1 d best delta)
  then show ?case by (auto simp: no_worse_def split: option.splits)
next
  case (2 d best delta t ts)
  show ?case
  proof (cases "track_duration t")
    case None
    then have "no_worse z (track_delta d t)" for z by (simp add: track_delta_def no_worse_def)
    with None 2(1) [OF None 2(4)] show ?thesis by (auto simp: Let_def)
  next
    case (Some x)
    have dt: "track_delta d t = Some \<bar>x - d\<bar>" using Some by (simp add: track_delta_def)
    show ?thesis
    proof (cases "case delta of None \<Rightarrow> True | Some b \<Rightarrow> \<bar>x - d\<bar> < b")
      case True
      have "no_worse (track_delta d t) delta" using True dt by (auto simp: no_worse_def split: option.splits)
      with True Some dt 2(2) [OF Some True] show ?thesis
        by (auto simp: Let_def intro: no_worse_trans)
    next
      case False
      have "no_worse delta (track_delta d t)" using False dt by (auto simp: no_worse_def split: option.splits)
      with False Some 2(3) [OF Some False 2(4)] show ?thesis
        by (auto simp: Let_def intro: no_worse_trans)
    qed
  qed
qed

text \<open>The LRCLIB track chosen for a known duration is one of the tracks offered, and no track with a
  duration is closer to it; a track without a duration is only chosen when none has one.\<close>

theorem best_track_is_closest:
  "case pickBestTrack ts (Some d) of
     None \<Rightarrow> ts = []
   | Some b \<Rightarrow> b \<in> set ts \<and> list_all (\<lambda>t. no_worse (track_delta d b) (track_delta d t)) ts"
proof (cases ts)
  case Nil
  then show ?thesis by (simp add: pickBestTrack_def)
next
  case (Cons t r)
  then show ?thesis
    using pick_loop_best [of None d t ts]
    by (simp add: pickBestTrack_def Let_def list_all_iff del: pick_loop.simps)
qed

text \<open>Whether the input offers lyrics from a source.\<close>

definition offered :: "LyricsResolveInput \<Rightarrow> LyricsSourceKind \<Rightarrow> bool" where
  "offered i k = (case k of
     PageCaption \<Rightarrow> (case pageCaptionTimeline i of None \<Rightarrow> False | Some tm \<Rightarrow> tl_cues tm \<noteq> [])
   | PageEmbedded \<Rightarrow> opt_or (pageEmbeddedLrc i) [] \<noteq> []
   | LrcLib \<Rightarrow> (case lrclibTrack i of None \<Rightarrow> False | Some t \<Rightarrow> opt_or (syncedLyrics t) [] \<noteq> [])
   | UserImport \<Rightarrow> imported i \<noteq> None
   | AsrLyrics \<Rightarrow> False)"

definition song_input :: "LyricsResolveInput \<Rightarrow> bool" where
  "song_input i = isSong (detectSongContext
     \<lparr>sg_href = in_href i, sg_title = in_title i, sg_channel = in_channel i,
      sg_category = in_category i, treatAsSong = in_treatAsSong i\<rparr>)"

lemma song_override: "in_treatAsSong i = Some True \<Longrightarrow> song_input i"
  by (simp add: song_input_def detectSongContext_def)

text \<open>Lyrics are resolved only for songs, from the first source of the priority list that offers any;
  page captions, and only they, need the user's confirmation; lyrics parsed from LRC have no
  blank line; and when nothing is offered speech recognition is named as the next step.\<close>

theorem lyrics_priority:
  "let src = find (offered i) LYRICS_SOURCE_PRIORITY
   in (case resolveLyricsLocal ttml i now of
        Inl f \<Rightarrow> (if song_input i then src = None \<and> lf_next f = NextAsr else lf_next f = NextNone)
      | Inr r \<Rightarrow> song_input i \<and> src = Some (la_source (lr_attribution r))
          \<and> (requiresConfirmation r = Some True) = (src = Some PageCaption)
          \<and> (if src = Some PageEmbedded \<or> src = Some LrcLib
             then list_all (\<lambda>c. cue_text c \<noteq> [] \<and> trim (cue_text c) = cue_text c) (tl_cues (lr_timeline r))
             else True))"
proof -
  have song: "(\<not> isSong (detectSongContext
            \<lparr>sg_href = in_href i, sg_title = in_title i, sg_channel = in_channel i,
             sg_category = in_category i, treatAsSong = in_treatAsSong i\<rparr>)
         \<and> in_treatAsSong i \<noteq> Some True) = (\<not> song_input i)"
    using song_override by (auto simp: song_input_def)
  have clean: "list_all (\<lambda>c. cue_text c \<noteq> [] \<and> trim (cue_text c) = cue_text c)
      (tl_cues (linesToTimeline v (parseLrc s) p d))" for v s p d
    using lrc.timeline_texts by (auto simp: list_all_iff)
  show ?thesis
    unfolding resolveLyricsLocal_def song Let_def resolve_rest_def
    by (auto simp: offered_def LYRICS_SOURCE_PRIORITY_def attributionFor_def clean
        split: option.splits)
qed

end
