(* ===== verification/Js_Map.thy ===== *)
theory Js_Map
  imports Prelude
begin

text \<open>
  The contract of a keyed store, the interface between the tables of the program
  (\<open>Map\<close> objects, the restore table of a translated page, the caches) and their clients: a
  lookup after an insertion gives the inserted value for its key and the old answer for any
  other. The lemmas of the locale are about stores filled in a loop.
\<close>

locale keyed_store =
  fixes get :: "'s \<Rightarrow> 'k \<Rightarrow> 'v option"
    and put :: "'k \<Rightarrow> 'v \<Rightarrow> 's \<Rightarrow> 's"
  assumes get_put: "get (put k v s) j = (if j = k then Some v else get s j)"
begin

text \<open>Filling from a list: the last entry of a key wins.\<close>

lemma get_fill:
  "get (fold (\<lambda>e. put (key e) (val e)) es s) k =
   (case find (\<lambda>e. key e = k) (rev es) of Some e \<Rightarrow> Some (val e) | None \<Rightarrow> get s k)"
  by (induction es rule: rev_induct) (simp_all add: get_put)

lemma get_fill_source:
  "get (fold (\<lambda>e. put (key e) (val e)) es s) k = Some v \<Longrightarrow> get s k = None \<Longrightarrow>
   \<exists>e \<in> set es. key e = k \<and> val e = v"
  by (induction es rule: rev_induct) (auto simp: get_put split: if_splits)

lemma get_fill_key:
  "e \<in> set es \<Longrightarrow> get (fold (\<lambda>e. put (key e) (val e)) es s) (key e) \<noteq> None"
  by (induction es rule: rev_induct) (auto simp: get_put)

lemma get_fill_distinct:
  "distinct (map key es) \<Longrightarrow> e \<in> set es \<Longrightarrow>
   get (fold (\<lambda>e. put (key e) (val e)) es s) (key e) = Some (val e)"
  by (induction es rule: rev_induct) (auto simp: get_put, metis imageI)

lemma get_fill_other:
  "k \<notin> key ` set es \<Longrightarrow> get (fold (\<lambda>e. put (key e) (val e)) es s) k = get s k"
  by (induction es rule: rev_induct) (auto simp: get_put)

end

text \<open>The \<open>Map\<close> of JavaScript.\<close>

interpretation js: keyed_store map_of AList.update
  by unfold_locales (simp add: update_conv')

text \<open>\<open>new Map(entries)\<close> and \<open>map.values()\<close>.\<close>

lemma map_of_entries_fill:
  "map_of_entries es = fold (\<lambda>e. AList.update (fst e) (snd e)) es []"
  unfolding map_of_entries_def by (rule arg_cong [of _ _ "\<lambda>f. fold f es []"]) (auto simp: fun_eq_iff)

lemma distinct_fill:
  "distinct (map fst m) \<Longrightarrow> distinct (map fst (fold (\<lambda>e. AList.update (key e) (val e)) es m))"
  by (induction es arbitrary: m) (simp_all add: distinct_update)

end
