(* ===== verification/Page_Segments.thy ===== *)
theory Page_Segments
  imports Js_Text Js_Map Hash Protocol_Types
begin

text \<open>
  The page segmenter: \<open>packages/page-translate/src/segmenter.ts\<close>. A document body is a tree of
  elements, text nodes and comments; a text node is known by the path of its position, as in
  the code. The walk collects segments and restore entries, and the lemmas show that paths tell
  text nodes apart.
\<close>

section \<open>The document\<close>

type_synonym attrs = "(string \<times> string) list"

datatype dom =
    TextNode string
  | CommentNode string
  | Element string attrs "dom list"

fun node_tag :: "dom \<Rightarrow> string" where
  "node_tag (Element tag _ _) = tag"
| "node_tag _ = ''#text''"

type_synonym path_parts = "(nat \<times> string) list"

definition buildNodePath :: "path_parts \<Rightarrow> string" where
  "buildNodePath parts = join ''/'' (map (\<lambda>(i, tag). nat_str i @ ''.'' @ tag) parts)"

text \<open>
  The path \<open>absoluteNodePath\<close> of the body: the root, then the body at its place among the
  children of the document element.
\<close>

definition body_parts :: "nat \<Rightarrow> dom \<Rightarrow> path_parts" where
  "body_parts bodyIndex body = [(0, ''ROOT''), (bodyIndex, node_tag body)]"

text \<open>The text nodes below a node, with their absolute paths, in document order.\<close>

fun text_nodes :: "path_parts \<Rightarrow> dom \<Rightarrow> (string \<times> string) list"
  and text_children :: "path_parts \<Rightarrow> nat \<Rightarrow> dom list \<Rightarrow> (string \<times> string) list" where
  "text_nodes ps (TextNode s) = [(buildNodePath ps, s)]"
| "text_nodes ps (CommentNode s) = []"
| "text_nodes ps (Element tag ats cs) = text_children ps 0 cs"
| "text_children ps i [] = []"
| "text_children ps i (c # cs) = text_nodes (ps @ [(i, node_tag c)]) c @ text_children ps (Suc i) cs"

section \<open>Segments\<close>

definition SKIP_TAGS :: "string list" where
  "SKIP_TAGS = [''SCRIPT'', ''STYLE'', ''NOSCRIPT'', ''TEXTAREA'', ''INPUT'', ''SELECT'', ''OPTION'',
     ''CODE'', ''PRE'', ''SVG'', ''MATH'', ''IFRAME'']"

record DomSegmentOptions =
  skipCodePre :: "bool option"
  includeContentEditable :: "bool option"
  minLength :: "nat option"

definition upper_char :: "char \<Rightarrow> char" where
  "upper_char c = (if 97 \<le> code c \<and> code c \<le> 122 then char_of (code c - 32) else c)"

definition shouldSkipElement :: "string \<Rightarrow> DomSegmentOptions \<Rightarrow> bool" where
  "shouldSkipElement tagName opts =
     (let tag = map upper_char tagName
      in if tag \<in> set SKIP_TAGS
         then \<not> ((tag = ''CODE'' \<or> tag = ''PRE'') \<and> skipCodePre opts = Some False)
         else False)"

definition makeSegment :: "string \<Rightarrow> string \<Rightarrow> PageSegment option" where
  "makeSegment path originalText =
     (let trimmed = trim (collapse_ws originalText)
      in if trimmed = [] then None
         else
           let h = fnv1a trimmed
           in Some \<lparr>seg_id = ''seg_'' @ fnv1a (path @ '':'' @ h), seg_path = path,
                     seg_originalText = trimmed, textHash = h\<rparr>)"

definition keep_segment :: "nat \<Rightarrow> PageSegment option \<Rightarrow> PageSegment option" where
  "keep_segment minLen s =
     (case s of None \<Rightarrow> None | Some seg \<Rightarrow> if minLen \<le> length (seg_originalText seg) then Some seg else None)"

definition segmentPlainBlocks :: "(string \<times> string) list \<Rightarrow> nat \<Rightarrow> PageSegment list" where
  "segmentPlainBlocks blocks minLen =
     List.map_filter (\<lambda>(path, text). keep_segment minLen (makeSegment path text)) blocks"

record RestoreEntry =
  segmentId :: string
  re_originalText :: string
  re_path :: string

definition collect_text :: "nat \<Rightarrow> string \<Rightarrow> string \<Rightarrow> (PageSegment \<times> RestoreEntry) list" where
  "collect_text minLen path text =
     (case keep_segment minLen (makeSegment path text) of
        None \<Rightarrow> []
      | Some seg \<Rightarrow> [(seg, \<lparr>segmentId = seg_id seg, re_originalText = text, re_path = path\<rparr>)])"

fun collect_walk :: "DomSegmentOptions \<Rightarrow> path_parts \<Rightarrow> dom \<Rightarrow> (PageSegment \<times> RestoreEntry) list"
  and collect_children ::
    "DomSegmentOptions \<Rightarrow> path_parts \<Rightarrow> nat \<Rightarrow> dom list \<Rightarrow> (PageSegment \<times> RestoreEntry) list" where
  "collect_walk opts ps (TextNode s) = collect_text (opt_or (minLength opts) 1) (buildNodePath ps) s"
| "collect_walk opts ps (CommentNode s) = []"
| "collect_walk opts ps (Element tag ats cs) =
     (if shouldSkipElement tag opts then []
      else if map_of ats ''contenteditable'' = Some ''true''
              \<and> includeContentEditable opts \<noteq> Some True then []
      else collect_children opts ps 0 cs)"
| "collect_children opts ps i [] = []"
| "collect_children opts ps i (c # cs) =
     collect_walk opts (ps @ [(i, node_tag c)]) c @ collect_children opts ps (Suc i) cs"

definition collectTextSegments ::
  "DomSegmentOptions \<Rightarrow> path_parts \<Rightarrow> dom \<Rightarrow> PageSegment list \<times> RestoreEntry list" where
  "collectTextSegments opts ps node =
     (map fst (collect_walk opts ps node), map snd (collect_walk opts ps node))"

section \<open>The restore table\<close>

type_synonym RestoreTable = "(string, RestoreEntry) jsmap"

definition rt_set :: "RestoreEntry \<Rightarrow> RestoreTable \<Rightarrow> RestoreTable" where
  "rt_set e t = AList.update (segmentId e) e t"

definition newRestoreTable :: "RestoreEntry list \<Rightarrow> RestoreTable" where
  "newRestoreTable es = fold rt_set es []"

definition rt_get :: "RestoreTable \<Rightarrow> string \<Rightarrow> RestoreEntry option" where
  "rt_get t ident = map_of t ident"

definition originals :: "RestoreTable \<Rightarrow> (string, string) jsmap" where
  "originals t = fold (\<lambda>p. AList.update (fst p) (re_originalText (snd p))) t []"

definition originalsByPath :: "RestoreTable \<Rightarrow> (string, string) jsmap" where
  "originalsByPath t = fold (\<lambda>p. AList.update (re_path (snd p)) (re_originalText (snd p))) t []"

definition getByPath :: "RestoreTable \<Rightarrow> string \<Rightarrow> RestoreEntry option" where
  "getByPath t path = find (\<lambda>e. re_path e = path) (map snd t)"

definition rt_clear :: "RestoreTable \<Rightarrow> RestoreTable" where
  "rt_clear t = []"

definition rt_size :: "RestoreTable \<Rightarrow> nat" where
  "rt_size t = length t"

section \<open>Paths\<close>

lemma buildNodePath_snoc:
  "ps \<noteq> [] \<Longrightarrow> buildNodePath (ps @ [(i, t)]) = buildNodePath ps @ CHR ''/'' # nat_str i @ CHR ''.'' # t"
proof -
  have "xs \<noteq> [] \<Longrightarrow> join [c] (xs @ [x]) = join [c] xs @ c # x" for c :: char and xs x
  proof (induction xs)
    case (Cons a xs)
    then show ?case by (cases "xs = []") (simp_all add: join_Cons)
  qed simp
  then show "ps \<noteq> [] \<Longrightarrow> ?thesis" by (simp add: buildNodePath_def)
qed

text \<open>Every path below a child goes on with the child's index.\<close>

lemma text_paths_extend:
  "ps \<noteq> [] \<Longrightarrow> (p, s) \<in> set (text_nodes ps d) \<Longrightarrow> \<exists>r. p = buildNodePath ps @ r"
  "ps \<noteq> [] \<Longrightarrow> (p, s) \<in> set (text_children ps i cs) \<Longrightarrow>
     \<exists>j r. i \<le> j \<and> p = buildNodePath ps @ CHR ''/'' # nat_str j @ CHR ''.'' # r"
proof (induction ps d and ps i cs rule: text_nodes_text_children.induct)
  case (3 ps tag ats cs)
  then show ?case by fastforce
next
  case (5 ps i c cs)
  from 5(4) consider "(p, s) \<in> set (text_nodes (ps @ [(i, node_tag c)]) c)"
    | "(p, s) \<in> set (text_children ps (Suc i) cs)" by auto
  then show ?case
  proof cases
    case 1
    with 5(1) obtain r where "p = buildNodePath (ps @ [(i, node_tag c)]) @ r" by auto
    with 5(3) have "p = buildNodePath ps @ CHR ''/'' # nat_str i @ CHR ''.'' # node_tag c @ r"
      by (simp add: buildNodePath_snoc)
    then show ?thesis by blast
  next
    case 2
    with 5(2,3) obtain j r where "Suc i \<le> j" "p = buildNodePath ps @ CHR ''/'' # nat_str j @ CHR ''.'' # r"
      by blast
    then show ?thesis using Suc_leD by blast
  qed
qed auto

lemma sibling_paths_differ:
  assumes "ps \<noteq> []" "(p, s) \<in> set (text_nodes (ps @ [(i, node_tag c)]) c)"
    and "(q, t) \<in> set (text_children ps (Suc i) cs)"
  shows "p \<noteq> q"
proof
  assume "p = q"
  obtain r where p: "p = buildNodePath ps @ CHR ''/'' # nat_str i @ CHR ''.'' # r"
    using text_paths_extend(1) [OF _ assms(2)] assms(1) by (auto simp: buildNodePath_snoc)
  obtain j r' where q: "Suc i \<le> j" "q = buildNodePath ps @ CHR ''/'' # nat_str j @ CHR ''.'' # r'"
    using text_paths_extend(2) [OF assms(1,3)] by blast
  have "\<not> is_digit (CHR ''.'')" by code_simp
  with p q \<open>p = q\<close> have "i = j"
    using nat_str_prefix_inject [of i "CHR ''.''" r j "CHR ''.''" r'] by simp
  with q show False by simp
qed

lemma distinct_paths:
  "ps \<noteq> [] \<Longrightarrow> distinct (map fst (text_nodes ps d))"
  "ps \<noteq> [] \<Longrightarrow> distinct (map fst (text_children ps i cs))"
proof (induction ps d and ps i cs rule: text_nodes_text_children.induct)
  case (5 ps i c cs)
  then show ?case using sibling_paths_differ [OF 5(3)] by (auto simp: disjoint_iff)
qed auto

lemma collect_from_text:
  "x \<in> set (collect_walk opts ps d) \<Longrightarrow>
     (re_path (snd x), re_originalText (snd x)) \<in> set (text_nodes ps d)"
  "x \<in> set (collect_children opts ps i cs) \<Longrightarrow>
     (re_path (snd x), re_originalText (snd x)) \<in> set (text_children ps i cs)"
  by (induction opts ps d and opts ps i cs rule: collect_walk_collect_children.induct)
    (auto simp: collect_text_def split: option.splits if_splits)

lemma collect_segment:
  "x \<in> set (collect_walk opts ps d) \<Longrightarrow>
     makeSegment (re_path (snd x)) (re_originalText (snd x)) = Some (fst x) \<and> segmentId (snd x) = seg_id (fst x)"
  "x \<in> set (collect_children opts ps i cs) \<Longrightarrow>
     makeSegment (re_path (snd x)) (re_originalText (snd x)) = Some (fst x) \<and> segmentId (snd x) = seg_id (fst x)"
  by (induction opts ps d and opts ps i cs rule: collect_walk_collect_children.induct)
    (auto simp: collect_text_def keep_segment_def split: option.splits if_splits)

section \<open>Tables filled from entries\<close>

lemma newRestoreTable_fill:
  "newRestoreTable es = fold (\<lambda>e. AList.update (segmentId e) e) es []"
  by (simp add: newRestoreTable_def rt_set_def [abs_def])

lemma restore_distinct: "distinct (map fst (newRestoreTable es))"
  by (simp add: newRestoreTable_fill distinct_fill [of "[]" segmentId "\<lambda>e. e"])

lemma rt_set_distinct: "distinct (map fst t) \<Longrightarrow> distinct (map fst (rt_set e t))"
  by (simp add: rt_set_def distinct_update)

lemma restore_member: "(k, e) \<in> set (newRestoreTable es) \<Longrightarrow> e \<in> set es \<and> segmentId e = k"
  using js.get_fill_source [of segmentId "\<lambda>e. e" es "[]" k e] restore_distinct [of es]
  by (auto simp: newRestoreTable_fill)

lemma originalsByPath_source:
  assumes "map_of (originalsByPath t) p = Some x"
  shows "\<exists>k e. (k, e) \<in> set t \<and> re_path e = p \<and> re_originalText e = x"
proof -
  have "\<exists>q \<in> set t. re_path (snd q) = p \<and> re_originalText (snd q) = x"
    using js.get_fill_source [of "\<lambda>q. re_path (snd q)" "\<lambda>q. re_originalText (snd q)" t "[]" p x] assms
    by (simp add: originalsByPath_def)
  then show ?thesis by (metis surjective_pairing)
qed

lemma originalsByPath_key:
  "(k, e) \<in> set t \<Longrightarrow> map_of (originalsByPath t) (re_path e) \<noteq> None"
  using js.get_fill_key [of "(k, e)" t "\<lambda>q. re_path (snd q)" "\<lambda>q. re_originalText (snd q)" "[]"]
  by (simp add: originalsByPath_def)

text \<open>
  A path identifies a text node: no two text nodes of a document have the same path, and every
  entry of the restore table records a text node at its path with the text it has there.\<close>

theorem paths_identify_text_nodes:
  "distinct (map fst (text_nodes (body_parts n body) body)) \<and>
   list_all (\<lambda>e. map_of (text_nodes (body_parts n body) body) (re_path e) = Some (re_originalText e))
     (snd (collectTextSegments opts (body_parts n body) body))"
proof -
  have d: "distinct (map fst (text_nodes (body_parts n body) body))"
    by (rule distinct_paths) (simp add: body_parts_def)
  then show ?thesis
    by (auto simp: collectTextSegments_def list_all_iff d dest: collect_from_text(1))
qed

end
