(* ===== verification/Fidelity.thy ===== *)
theory Fidelity
  imports Cue_Math
begin

text \<open>
  Machine-translation fidelity: \<open>packages/mt-core/src/fidelity.ts\<close>. The two global regular
  expressions are scanners: \<open>extractNumbers\<close> for \<open>/\d+(?:[.,]\d+)?/g\<close> and \<open>extractUrls\<close> for
  \<open>/https?:\/\/[^\s]+/gi\<close>. The lemmas show how the scanners behave on joined texts; the
  properties say when a translation passes and that the draft of the stub never fails a
  critical check.
\<close>

section \<open>The scanners\<close>

definition is_point :: "char \<Rightarrow> bool" where
  "is_point c \<longleftrightarrow> c = CHR ''.'' \<or> c = CHR '',''"

function extractNumbers :: "string \<Rightarrow> string list" where
  "extractNumbers [] = []"
| "extractNumbers (c # s) =
     (if \<not> is_digit c then extractNumbers s
      else
        let ds = takeWhile is_digit (c # s); rest = dropWhile is_digit s
        in if 2 \<le> length rest \<and> is_point (hd rest) \<and> is_digit (hd (tl rest))
           then (ds @ hd rest # takeWhile is_digit (tl rest)) # extractNumbers (dropWhile is_digit (tl rest))
           else ds # extractNumbers rest)"
  by pat_completeness auto
termination
  by (relation "measure length")
    (auto simp: Let_def intro!: le_imp_less_Suc order.trans [OF length_dropWhile_le]
      order.trans [OF diff_le_self])

definition url_prefix :: "string \<Rightarrow> nat option" where
  "url_prefix s =
     (if toLowerCase (take 8 s) = ''https://'' then Some 8
      else if toLowerCase (take 7 s) = ''http://'' then Some 7 else None)"

abbreviation non_ws :: "char \<Rightarrow> bool" where
  "non_ws c \<equiv> \<not> is_ws c"

function extractUrls :: "string \<Rightarrow> string list" where
  "extractUrls [] = []"
| "extractUrls (c # s) =
     (case url_prefix (c # s) of
        None \<Rightarrow> extractUrls s
      | Some n \<Rightarrow>
          let rest = drop n (c # s); body = takeWhile non_ws rest
          in if body = [] then extractUrls s
             else (take n (c # s) @ body) # extractUrls (dropWhile non_ws rest))"
  by pat_completeness auto
termination
proof (relation "measure length", goal_cases)
  case 1
  then show ?case by simp
next
  case (2 c s)
  then show ?case by simp
next
  case (3 c s n)
  then show ?case by simp
next
  case (4 c s n)
  then have "n > 0" by (auto simp: url_prefix_def split: if_splits)
  have "length (dropWhile non_ws (drop n (c # s))) \<le> length (drop n (c # s))"
    by (rule length_dropWhile_le)
  with 4 \<open>n > 0\<close> show ?case by simp
qed

section \<open>The checks\<close>

record FidelityInput =
  sourceCues :: "Cue list"
  targetTexts :: "string list"
  glossary :: "GlossaryEntry list option"

definition number_check :: "FidelityCheckKind \<Rightarrow> string list \<Rightarrow> FidelityCheck" where
  "number_check k ns =
     \<lparr>ck_kind = k, ck_passed = (ns = []),
      ck_detail = (if ns = [] then None else Some (join '', '' ns)), ck_cueIds = None\<rparr>"

definition plain_check :: "FidelityCheckKind \<Rightarrow> bool \<Rightarrow> FidelityCheck" where
  "plain_check k p = \<lparr>ck_kind = k, ck_passed = p, ck_detail = None, ck_cueIds = None\<rparr>"

definition glossary_check :: "string \<Rightarrow> GlossaryEntry \<Rightarrow> FidelityCheck" where
  "glossary_check target g =
     \<lparr>ck_kind = MissingName, ck_passed = str_includes target (gl_target g),
      ck_detail = Some (''glossary:'' @ gl_source g @ ''->'' @ gl_target g), ck_cueIds = None\<rparr>"

definition cue_count_ok :: "nat \<Rightarrow> nat \<Rightarrow> bool" where
  "cue_count_ok targets sources \<longleftrightarrow>
     targets = 0 \<or> \<bar>int targets - int sources\<bar> \<le> max 2 (int (sources div 2))"

definition fidelity_checks :: "FidelityInput \<Rightarrow> FidelityCheck list" where
  "fidelity_checks i =
     (let sourceJoined = join '' '' (map cue_text (sourceCues i));
          targetJoined = join '' '' (targetTexts i);
          srcNums = set_of_list (extractNumbers sourceJoined);
          tgtNums = set_of_list (extractNumbers targetJoined);
          missingNums = filter (\<lambda>n. n \<notin> set tgtNums) srcNums;
          extraNums = filter (\<lambda>n. n \<notin> set srcNums) tgtNums;
          srcUrls = set_of_list (map toLowerCase (extractUrls sourceJoined));
          tgtUrls = set_of_list (map toLowerCase (extractUrls targetJoined));
          urlOk = list_all (\<lambda>u. u \<in> set tgtUrls) srcUrls;
          isEmpty = list_ex (\<lambda>t. trim t = []) (targetTexts i)
      in [number_check MissingNumber missingNums, number_check ExtraNumber extraNums,
          plain_check UrlMismatch urlOk, plain_check EmptyOutput (\<not> isEmpty),
          plain_check CueCount (cue_count_ok (length (targetTexts i)) (length (sourceCues i)))]
         @ map (glossary_check targetJoined)
             (filter (\<lambda>g. gl_locked g = Some True) (opt_or (glossary i) [])))"

definition runFidelityChecks :: "FidelityInput \<Rightarrow> FidelityCheckResult" where
  "runFidelityChecks i =
     (let cs = fidelity_checks i;
          passed = length (filter ck_passed cs);
          sc = (if cs \<noteq> [] then real passed / real (length cs) else 1)
      in \<lparr>fr_ok = list_all ck_passed cs, checks = cs, score = sc\<rparr>)"

definition CRITICAL_CHECK_KINDS :: "FidelityCheckKind list" where
  "CRITICAL_CHECK_KINDS = [EmptyOutput, MissingNumber, UrlMismatch]"

definition hasCriticalFidelityFailure :: "FidelityCheckResult \<Rightarrow> bool" where
  "hasCriticalFidelityFailure r \<longleftrightarrow>
     list_ex (\<lambda>c. \<not> ck_passed c \<and> ck_kind c \<in> set CRITICAL_CHECK_KINDS) (checks r)"

primrec check_kind_str :: "FidelityCheckKind \<Rightarrow> string" where
  "check_kind_str MissingNumber = ''missing-number''"
| "check_kind_str ExtraNumber = ''extra-number''"
| "check_kind_str MissingName = ''missing-name''"
| "check_kind_str ExtraName = ''extra-name''"
| "check_kind_str UrlMismatch = ''url-mismatch''"
| "check_kind_str UnitMismatch = ''unit-mismatch''"
| "check_kind_str Negation = ''negation''"
| "check_kind_str PunctuationIntent = ''punctuation-intent''"
| "check_kind_str CueCount = ''cue-count''"
| "check_kind_str EmptyOutput = ''empty-output''"
| "check_kind_str ScriptMismatch = ''script-mismatch''"
| "check_kind_str TimingReadability = ''timing-readability''"
| "check_kind_str OtherCheck = ''other''"

definition formatFidelityEvidence :: "FidelityCheckResult \<Rightarrow> string" where
  "formatFidelityEvidence r = join ''; ''
     (map (\<lambda>c. check_kind_str (ck_kind c)
             @ (if opt_or (ck_detail c) [] \<noteq> [] then '': '' @ opt_or (ck_detail c) [] else []))
       (filter (\<lambda>c. \<not> ck_passed c) (checks r)))"

section \<open>Routing, drafts and windows\<close>

datatype MtAdapterId = HyMt2 | Madlad400 | MockMt

record MtRouteDecision =
  adapter :: MtAdapterId
  modelId :: string
  route_reason :: string
  licenseClass :: ModelLicenseClass

definition routeMt :: "HardwareProfile \<Rightarrow> bool option \<Rightarrow> MtRouteDecision" where
  "routeMt profile preferBroadCoverage =
     (if preferBroadCoverage = Some True then
        \<lparr>adapter = Madlad400,
         modelId = (if profile = Lite then ''madlad-400-3b''
                    else if profile = Workstation \<or> profile = Quality then ''madlad-400-10b''
                    else ''madlad-400-7b''),
         route_reason = ''broad-coverage-fallback'', licenseClass = CommercialDefault\<rparr>
      else
        (let size = (if profile = Lite then ''1.8b''
                     else if profile = Workstation then ''30b-a3b'' else ''7b'')
         in \<lparr>adapter = HyMt2, modelId = ''hy-mt2-'' @ size,
             route_reason = ''commercial-specialized-default'', licenseClass = CommercialDefault\<rparr>))"

definition mockMtDraft :: "string list \<Rightarrow> string \<Rightarrow> string list" where
  "mockMtDraft texts targetLang = map (\<lambda>t. ''['' @ targetLang @ ''] '' @ t) texts"

record CueWindow =
  window :: "Cue list"
  preceding :: "Cue list"
  following :: "Cue list"

definition windowCues :: "Cue list \<Rightarrow> int \<Rightarrow> int \<Rightarrow> CueWindow" where
  "windowCues cues centerIndex radius =
     (let n = int (length cues);
          a = max 0 (centerIndex - radius);
          b = min n (centerIndex + radius + 1)
      in \<lparr>window = js_slice cues a b, preceding = js_slice cues (max 0 (a - radius)) a,
          following = js_slice cues b (min n (b + radius))\<rparr>)"

section \<open>The scanners on joined texts\<close>

lemma extractNumbers_skip: "\<not> is_digit c \<Longrightarrow> extractNumbers (c # s) = extractNumbers s"
  by simp

text \<open>
  Numbers do not reach over a character that is neither a digit nor a decimal point, nor
  addresses over white space.
\<close>

lemma no_fraction:
  assumes "\<not> (2 \<le> length r \<and> is_point (hd r) \<and> is_digit (hd (tl r)))"
    and "\<not> is_digit c" "\<not> is_point c"
  shows "\<not> (2 \<le> length (r @ c # v) \<and> is_point (hd (r @ c # v)) \<and> is_digit (hd (tl (r @ c # v))))"
  using assms by (cases r; cases "tl r") auto

lemma extractNumbers_append:
  assumes "\<not> is_digit c" "\<not> is_point c"
  shows "extractNumbers (u @ c # v) = extractNumbers u @ extractNumbers v"
  using assms
proof (induction u rule: extractNumbers.induct)
  case 1
  then show ?case by simp
next
  case (2 d s)
  show ?case
  proof (cases "is_digit d")
    case False
    with 2 show ?thesis by simp
  next
    case True
    let ?rest = "dropWhile is_digit s"
    have drop: "dropWhile is_digit (s @ c # v) = ?rest @ c # v"
      using 2(4) by (induction s) auto
    have take: "takeWhile is_digit (s @ c # v) = takeWhile is_digit s"
      using 2(4) by (induction s) auto
    have drop': "dropWhile is_digit (t @ c # v) = dropWhile is_digit t @ c # v"
      and take': "takeWhile is_digit (t @ c # v) = takeWhile is_digit t" for t
      using 2(4) by (induction t) auto
    show ?thesis
    proof (cases "2 \<le> length ?rest \<and> is_point (hd ?rest) \<and> is_digit (hd (tl ?rest))")
      case point: True
      then obtain p q r where r: "?rest = p # q # r"
        by (cases ?rest; cases "tl ?rest") auto
      with point True 2(2) [OF _ refl refl] 2(4,5) show ?thesis
        by (simp add: Let_def drop take drop' take')
    next
      case no: False
      have "\<not> (2 \<le> length (?rest @ c # v) \<and> is_point (hd (?rest @ c # v))
              \<and> is_digit (hd (tl (?rest @ c # v))))"
        using no_fraction [OF no 2(4,5)] .
      with no True 2(3) [OF _ refl refl] 2(4,5) show ?thesis
        by (simp add: Let_def drop take del: length_append)
    qed
  qed
qed

lemma url_prefix_append:
  assumes "is_ws c"
  shows "url_prefix (u @ c # v) = url_prefix u"
proof -
  have ws: "lower_char c \<notin> set ''https://''"
    using assms by (auto simp: is_ws_def lower_char_def)
  have "map lower_char (take n (u @ c # v)) = p \<longleftrightarrow> map lower_char (take n u) = p"
    if "n = length p" "lower_char c \<notin> set p" for n p
  proof (cases "n \<le> length u")
    case True
    then show ?thesis by simp
  next
    case False
    then obtain k where k: "n - length u = Suc k" by (metis Suc_diff_Suc not_le)
    have "lower_char c \<in> set (map lower_char (take n (u @ c # v)))"
      using k by simp
    moreover have "length (map lower_char (take n u)) \<noteq> length p"
      using False that by simp
    ultimately show ?thesis using that by metis
  qed
  from this [of 8 "''https://''"] this [of 7 "''http://''"] ws show ?thesis
    by (simp add: url_prefix_def toLowerCase_def)
qed

lemma url_prefix_length: "url_prefix s = Some n \<Longrightarrow> n \<le> length s \<and> 0 < n"
  by (auto simp: url_prefix_def toLowerCase_def split: if_splits dest!: arg_cong [of _ _ length])

lemma takeWhile_append_stop:
  "\<not> P c \<Longrightarrow> takeWhile P (s @ c # v) = takeWhile P s"
  "\<not> P c \<Longrightarrow> dropWhile P (s @ c # v) = dropWhile P s @ c # v"
  by (induction s) auto

lemma extractUrls_append:
  assumes "is_ws c"
  shows "extractUrls (u @ c # v) = extractUrls u @ extractUrls v"
  using assms
proof (induction u rule: extractUrls.induct)
  case 1
  have "url_prefix (c # v) = None"
    using url_prefix_append [OF 1, of "[]" v] by (simp add: url_prefix_def toLowerCase_def)
  then show ?case by simp
next
  case (2 d s)
  note pre = url_prefix_append [OF 2(4), of "d # s" v, simplified]
  show ?case
  proof (cases "url_prefix (d # s)")
    case None
    with 2(1) 2(4) show ?thesis by (simp add: pre)
  next
    case (Some n)
    have dr: "drop n (d # s @ c # v) = drop n (d # s) @ c # v"
      using url_prefix_length [OF Some] by (cases n) auto
    have tk: "take n (d # s @ c # v) = take n (d # s)"
      using url_prefix_length [OF Some] by (cases n) auto
    show ?thesis
    proof (cases "takeWhile non_ws (drop n (d # s)) = []")
      case True
      with Some 2(2) [OF Some refl refl True] 2(4) show ?thesis
        by (simp add: pre dr Let_def takeWhile_append_stop del: takeWhile_eq_Nil_iff)
    next
      case False
      with Some 2(3) [OF Some refl refl False] 2(4) show ?thesis
        by (simp add: pre dr tk Let_def takeWhile_append_stop del: takeWhile_eq_Nil_iff)
    qed
  qed
qed

lemma extractNumbers_join:
  "ts \<noteq> [] \<Longrightarrow> extractNumbers (join '' '' ts) = concat (map extractNumbers ts)"
proof (induction ts)
  case (Cons t ts)
  have "\<not> is_digit (CHR '' '') \<and> \<not> is_point (CHR '' '')" by code_simp
  with Cons show ?case
    by (cases "ts = []") (simp_all add: join_Cons extractNumbers_append)
qed simp

lemma extractUrls_join:
  "ts \<noteq> [] \<Longrightarrow> extractUrls (join '' '' ts) = concat (map extractUrls ts)"
proof (induction ts)
  case (Cons t ts)
  have "is_ws (CHR '' '')" by code_simp
  with Cons show ?case
    by (cases "ts = []") (simp_all add: join_Cons extractUrls_append)
qed simp

section \<open>What a translation has to satisfy\<close>

lemma fr_ok_run [simp]: "fr_ok (runFidelityChecks i) = list_all ck_passed (fidelity_checks i)"
  and checks_run [simp]: "checks (runFidelityChecks i) = fidelity_checks i"
  by (simp_all add: runFidelityChecks_def Let_def)

lemma filter_set_of_list [simp]:
  "filter P (set_of_list xs) = [] \<longleftrightarrow> (\<forall>x \<in> set xs. \<not> P x)"
  by (metis filter_empty_conv set_of_list_set(1))

lemma fidelity_checks_nonempty [simp]: "fidelity_checks i \<noteq> []"
  by (simp add: fidelity_checks_def Let_def)

lemma score_run:
  "score (runFidelityChecks i) =
   real (length (filter ck_passed (fidelity_checks i))) / real (length (fidelity_checks i))"
  by (simp add: runFidelityChecks_def Let_def)


section \<open>The draft of the stub\<close>

lemma draft_bracket:
  "extractNumbers (''['' @ lang @ ''] '' @ t) = extractNumbers lang @ extractNumbers t"
  "set (extractUrls t) \<subseteq> set (extractUrls (''['' @ lang @ ''] '' @ t))"
proof -
  have c: "\<not> is_digit (CHR '']'') \<and> \<not> is_point (CHR '']'') \<and> \<not> is_digit (CHR ''['')
     \<and> \<not> is_digit (CHR '' '') \<and> is_ws (CHR '' '')" by code_simp
  then have "extractNumbers (lang @ CHR '']'' # CHR '' '' # t) = extractNumbers lang @ extractNumbers t"
    by (simp add: extractNumbers_append)
  with c show "extractNumbers (''['' @ lang @ ''] '' @ t) = extractNumbers lang @ extractNumbers t"
    by simp
  have "extractUrls ((''['' @ lang @ '']'') @ CHR '' '' # t)
      = extractUrls (''['' @ lang @ '']'') @ extractUrls t"
    using c by (intro extractUrls_append) simp
  then show "set (extractUrls t) \<subseteq> set (extractUrls (''['' @ lang @ ''] '' @ t))"
    by (simp del: extractUrls.simps)
qed

lemma draft_numbers:
  "set (extractNumbers (join '' '' (mockMtDraft ts lang))) =
   set (concat (map extractNumbers ts)) \<union> (if ts = [] then {} else set (extractNumbers lang))"
proof (cases "ts = []")
  case False
  then have ne: "mockMtDraft ts lang \<noteq> []" by (simp add: mockMtDraft_def)
  have "set (concat (map extractNumbers (mockMtDraft ts lang))) =
      (\<Union>t \<in> set ts. set (extractNumbers (''['' @ lang @ ''] '' @ t)))"
    by (simp add: mockMtDraft_def del: extractNumbers.simps)
  with False show ?thesis
    unfolding extractNumbers_join [OF ne] draft_bracket(1) by auto
qed (simp add: mockMtDraft_def)

lemma draft_urls:
  "set (extractUrls (join '' '' ts)) \<subseteq> set (extractUrls (join '' '' (mockMtDraft ts lang)))"
proof (cases "ts = []")
  case False
  then have ne: "mockMtDraft ts lang \<noteq> []" by (simp add: mockMtDraft_def)
  have "set (concat (map extractUrls ts)) \<subseteq> set (concat (map extractUrls (mockMtDraft ts lang)))"
    using draft_bracket(2) [of _ lang] by (fastforce simp: mockMtDraft_def simp del: extractUrls.simps)
  then show ?thesis by (simp only: extractUrls_join [OF False] extractUrls_join [OF ne])
qed (simp add: mockMtDraft_def)

lemma trim_bracket: "trim (CHR ''['' # s) \<noteq> []"
proof -
  have "\<not> is_ws (CHR ''['')" by code_simp
  then show ?thesis by (intro trim_nonempty [of "CHR ''[''"]) simp_all
qed

lemma draft_fields:
  "join '' '' (map cue_text cs) = S \<Longrightarrow>
   extractNumbers S = concat (map (\<lambda>c. extractNumbers (cue_text c)) cs)"
  by (cases "cs = []") (auto simp: extractNumbers_join simp del: extractNumbers.simps(2)
      intro!: arg_cong [of _ _ concat])

lemma draft_not_blank: "list_ex (\<lambda>t. trim t = []) (mockMtDraft ts lang) = False"
  by (simp add: mockMtDraft_def list_ex_iff trim_bracket)

lemma draft_nothing_missing:
  "filter (\<lambda>n. n \<notin> set (set_of_list (extractNumbers (join '' '' (mockMtDraft (map cue_text cs) lang)))))
     (set_of_list (extractNumbers (join '' '' (map cue_text cs)))) = []"
  "list_all (\<lambda>u. u \<in> set (set_of_list (map toLowerCase (extractUrls (join '' '' (mockMtDraft (map cue_text cs) lang))))))
     (set_of_list (map toLowerCase (extractUrls (join '' '' (map cue_text cs)))))"
proof -
  have "set (extractNumbers (join '' '' (map cue_text cs))) \<subseteq>
      set (extractNumbers (join '' '' (mockMtDraft (map cue_text cs) lang)))"
    unfolding draft_numbers draft_fields [OF refl] by (auto simp del: extractNumbers.simps)
  then show "filter (\<lambda>n. n \<notin> set (set_of_list (extractNumbers (join '' '' (mockMtDraft (map cue_text cs) lang)))))
     (set_of_list (extractNumbers (join '' '' (map cue_text cs)))) = []" by auto
  show "list_all (\<lambda>u. u \<in> set (set_of_list (map toLowerCase (extractUrls (join '' '' (mockMtDraft (map cue_text cs) lang))))))
     (set_of_list (map toLowerCase (extractUrls (join '' '' (map cue_text cs)))))"
    using draft_urls [of "map cue_text cs" lang] by (auto simp: list_all_iff)
qed

lemmas draft_checks = checks_run fr_ok_run fidelity_checks_def Let_def FidelityInput.select_convs
  draft_not_blank draft_nothing_missing(1)

lemma draft_counts:
  "length (mockMtDraft (map cue_text cs) lang) = length cs" "cue_count_ok (length cs) (length cs)"
  by (simp_all add: mockMtDraft_def cue_count_ok_def max_def)

lemma draft_passes_critical:
  "\<not> hasCriticalFidelityFailure (runFidelityChecks
        \<lparr>sourceCues = cs, targetTexts = mockMtDraft (map cue_text cs) lang, glossary = gl\<rparr>)"
  unfolding hasCriticalFidelityFailure_def draft_checks draft_counts(1)
  by (simp add: draft_nothing_missing(2) draft_counts(2) number_check_def plain_check_def
      CRITICAL_CHECK_KINDS_def list_ex_iff glossary_check_def del: set_of_list_set)

text \<open>The draft of the translation stub never fails a critical check, whatever the cues, the language
  tag and the glossary. Without a glossary it passes every check exactly when the digits in the
  language tag (as in es-419) bring no number that the source does not have.\<close>

theorem mock_draft_never_critical:
  "\<not> hasCriticalFidelityFailure (runFidelityChecks
        \<lparr>sourceCues = cs, targetTexts = mockMtDraft (map cue_text cs) lang, glossary = gl\<rparr>) \<and>
   (fr_ok (runFidelityChecks
        \<lparr>sourceCues = cs, targetTexts = mockMtDraft (map cue_text cs) lang, glossary = None\<rparr>)
     \<longleftrightarrow> cs = [] \<or> set (extractNumbers lang) \<subseteq> (\<Union>c \<in> set cs. set (extractNumbers (cue_text c))))"
proof -
  let ?ts = "map cue_text cs"
  let ?S = "join '' '' ?ts" and ?T = "join '' '' (mockMtDraft ?ts lang)"
  have numT: "set (extractNumbers ?T) = set (extractNumbers ?S) \<union> (if cs = [] then {} else set (extractNumbers lang))"
    unfolding draft_numbers draft_fields [OF refl] by (auto simp del: extractNumbers.simps)
  have numS: "set (extractNumbers ?S) = (\<Union>c \<in> set cs. set (extractNumbers (cue_text c)))"
    unfolding draft_fields [OF refl] by (simp del: extractNumbers.simps)
  have extra: "filter (\<lambda>n. n \<notin> set (set_of_list (extractNumbers ?S))) (set_of_list (extractNumbers ?T)) = []
      \<longleftrightarrow> cs = [] \<or> set (extractNumbers lang) \<subseteq> (\<Union>c \<in> set cs. set (extractNumbers (cue_text c)))"
    unfolding filter_set_of_list numT numS set_of_list_set by auto
  show ?thesis
    using draft_passes_critical [of cs lang gl]
    unfolding draft_checks draft_counts(1)
    by (simp add: draft_nothing_missing(2) draft_counts(2) number_check_def plain_check_def
        extra del: filter_set_of_list set_of_list_set)
qed

section \<open>Windows around a cue\<close>

lemma js_slice_nonneg:
  "0 \<le> a \<Longrightarrow> a \<le> b \<Longrightarrow> b \<le> int (length xs) \<Longrightarrow>
   js_slice xs a b = take (nat b - nat a) (drop (nat a) xs)"
  by (simp add: js_slice_def slice_index_def min_def nat_le_iff)

lemma slices_join:
  "a \<le> b \<Longrightarrow> take (b - a) (drop a xs) @ drop b xs = drop a xs"
  by (metis append_take_drop_id drop_drop le_add_diff_inverse2)

lemma four_slices:
  "a \<le> b \<Longrightarrow> b \<le> c \<Longrightarrow> c \<le> d \<Longrightarrow>
   take a xs @ take (b - a) (drop a xs) @ take (c - b) (drop b xs) @ take (d - c) (drop c xs) @ drop d xs = xs"
  by (simp add: slices_join)

lemma int_min_le: "int y \<le> r \<Longrightarrow> int (min x y) \<le> r"
  by simp

text \<open>
  The translation window around a cue: preceding, window and following are consecutive stretches
  of the cue list, the cue is in the window at its place, the window has at most
  \<open>2 * radius + 1\<close> cues and each side at most \<open>radius\<close> more.\<close>

theorem windows_are_consecutive:
  assumes "0 \<le> i" "i < int (length cues)" "0 \<le> r"
  shows "let w = windowCues cues i r; p = nat (max 0 (i - r)) in
    (\<exists>before after. cues = before @ preceding w @ window w @ following w @ after)
    \<and> window w ! (nat i - p) = cues ! nat i \<and> nat i - p < length (window w)
    \<and> int (length (window w)) \<le> 2 * r + 1
    \<and> int (length (preceding w)) \<le> r \<and> int (length (following w)) \<le> r"
proof -
  define n a b where "n = int (length cues)" and "a = max 0 (i - r)" and "b = min n (i + r + 1)"
  define a' b' where "a' = max 0 (a - r)" and "b' = min n (b + r)"
  have ord: "0 \<le> a'" "a' \<le> a" "a \<le> i" "i < b" "b \<le> b'" "b' \<le> n" "a - a' \<le> r" "b' - b \<le> r"
    "b - a \<le> 2 * r + 1"
    using assms by (auto simp: a'_def b'_def a_def b_def n_def)
  have w: "windowCues cues i r = \<lparr>window = take (nat b - nat a) (drop (nat a) cues),
      preceding = take (nat a - nat a') (drop (nat a') cues),
      following = take (nat b' - nat b) (drop (nat b) cues)\<rparr>"
    using ord by (simp add: windowCues_def Let_def js_slice_nonneg flip: n_def a_def b_def a'_def b'_def)
  have "cues = take (nat a') cues @ preceding (windowCues cues i r) @ window (windowCues cues i r)
      @ following (windowCues cues i r) @ drop (nat b') cues"
    using four_slices [of "nat a'" "nat a" "nat b" "nat b'" cues] ord by (simp add: w)
  then have "\<exists>before after. cues = before @ preceding (windowCues cues i r)
      @ window (windowCues cues i r) @ following (windowCues cues i r) @ after" by blast
  moreover have "nat i - nat a < nat b - nat a" "nat b \<le> length cues" "nat a \<le> nat i"
    using ord by (auto simp: n_def)
  moreover have "int (nat b - nat a) \<le> 2 * r + 1" "int (nat a - nat a') \<le> r" "int (nat b' - nat b) \<le> r"
    using ord assms by auto
  moreover have "nat i - nat a < length cues - nat a"
    using \<open>nat i - nat a < nat b - nat a\<close> \<open>nat b \<le> length cues\<close> by linarith
  moreover have "drop (nat a) cues ! (nat i - nat a) = cues ! nat i"
    using \<open>nat a \<le> nat i\<close> \<open>nat b \<le> length cues\<close> ord by (subst nth_drop) auto
  ultimately show ?thesis
    unfolding Let_def a_def [symmetric] by (simp only: w CueWindow.select_convs) (auto simp: int_min_le simp del: ex_simps)
qed

theorem windows_are_consecutive_witness:
  "let cues = [demo_cue ''1'' 0 100 ''a'', demo_cue ''2'' 100 200 ''b'', demo_cue ''3'' 200 300 ''c''];
       w = windowCues cues 1 1; p = nat (max 0 (1 - 1 :: int))
   in (\<exists>before after. cues = before @ preceding w @ window w @ following w @ after)
    \<and> window w ! (nat 1 - p) = cues ! nat 1 \<and> nat 1 - p < length (window w)
    \<and> int (length (window w)) \<le> 2 * 1 + 1
    \<and> int (length (preceding w)) \<le> 1 \<and> int (length (following w)) \<le> 1"
  unfolding Let_def
  by (rule windows_are_consecutive [unfolded Let_def]) simp_all

end
