(* ===== verification/Page_Translate.thy ===== *)
theory Page_Translate
  imports Page_Segments Fidelity
begin

text \<open>
  Page translation: display texts of \<open>packages/page-translate/src/apply.ts\<close> and the controller
  of \<open>apps/extension/features/page-translate/controller.ts\<close>. The translator is an argument, its
  rejected promise the left of a sum; the parser of addresses and the development flag are
  arguments. The observer's batch is the step \<open>onMutations\<close> on the positions of the added
  elements.
\<close>

section \<open>Display texts\<close>

definition resolveDisplayText :: "PageTranslateMode \<Rightarrow> string \<Rightarrow> string \<Rightarrow> string \<times> string option" where
  "resolveDisplayText mode original translated =
     (case mode of
        ModeOriginal \<Rightarrow> (original, None)
      | ModeTranslated \<Rightarrow> (translated, None)
      | ModeDual \<Rightarrow> (translated, Some original))"

record AppliedSegment =
  ap_id :: string
  displayText :: string
  ap_originalText :: string

definition buildAppliedMap ::
  "PageTranslateMode \<Rightarrow> RestoreTable \<Rightarrow> PageTranslateSegmentResult list \<Rightarrow> AppliedSegment list" where
  "buildAppliedMap mode restore results =
     (let byId = map_of_entries (map (\<lambda>r. (res_id r, r)) results)
      in map (\<lambda>(ident, entry).
           \<lparr>ap_id = ident,
            displayText = fst (resolveDisplayText mode entry
              (case map_of byId ident of None \<Rightarrow> entry | Some r \<Rightarrow> translatedText r)),
            ap_originalText = entry\<rparr>)
         (originals restore))"

text \<open>The case-sensitive \<open>/https?:\/\/\S+/g\<close> of the mock translator.\<close>

definition url_prefix_cs :: "string \<Rightarrow> nat" where
  "url_prefix_cs s = (if startsWith s ''https://'' then 8 else if startsWith s ''http://'' then 7 else 0)"

function match_urls :: "string \<Rightarrow> string list" where
  "match_urls [] = []"
| "match_urls (c # s) =
     (let n = url_prefix_cs (c # s); rest = drop n (c # s); body = takeWhile non_ws rest
      in if n = 0 \<or> body = [] then match_urls s
         else (take n (c # s) @ body) # match_urls (dropWhile non_ws rest))"
  by pat_completeness auto
termination
proof (relation "measure length", goal_cases)
  case 1
  then show ?case by simp
next
  case (2 c s n rest body)
  then show ?case by simp
next
  case (3 c s n rest body)
  have "length (dropWhile non_ws rest) \<le> length rest" by (rule length_dropWhile_le)
  moreover have "length rest < length (c # s)" using 3 by simp
  ultimately show ?case by simp
qed

definition add_missing :: "string list \<Rightarrow> string \<Rightarrow> string" where
  "add_missing us body = fold (\<lambda>u b. if str_includes b u then b else b @ '' '' @ u) us body"

definition mockTranslateSegment :: "string \<Rightarrow> string \<Rightarrow> string" where
  "mockTranslateSegment t targetLang =
     add_missing (extractNumbers t) (add_missing (match_urls t) (''['' @ targetLang @ ''] '' @ t))"

section \<open>Writing to the document\<close>

text \<open>
  A tree walker visits the text nodes below the body in document order; what is done to a node
  depends on its path and its text only: a new text and a change of the parent's attributes.
\<close>

type_synonym edit = "string \<Rightarrow> string \<Rightarrow> string \<times> (attrs \<Rightarrow> attrs)"

fun edit_attrs :: "edit \<Rightarrow> path_parts \<Rightarrow> nat \<Rightarrow> dom list \<Rightarrow> attrs \<Rightarrow> attrs" where
  "edit_attrs f ps i [] ats = ats"
| "edit_attrs f ps i (TextNode s # cs) ats =
     edit_attrs f ps (Suc i) cs (snd (f (buildNodePath (ps @ [(i, ''#text'')])) s) ats)"
| "edit_attrs f ps i (_ # cs) ats = edit_attrs f ps (Suc i) cs ats"

fun edit_node :: "edit \<Rightarrow> path_parts \<Rightarrow> dom \<Rightarrow> dom"
  and edit_children :: "edit \<Rightarrow> path_parts \<Rightarrow> nat \<Rightarrow> dom list \<Rightarrow> dom list" where
  "edit_node f ps (TextNode s) = TextNode (fst (f (buildNodePath ps) s))"
| "edit_node f ps (CommentNode s) = CommentNode s"
| "edit_node f ps (Element tag ats cs) = Element tag (edit_attrs f ps 0 cs ats) (edit_children f ps 0 cs)"
| "edit_children f ps i [] = []"
| "edit_children f ps i (c # cs) =
     edit_node f (ps @ [(i, node_tag c)]) c # edit_children f ps (Suc i) cs"

section \<open>The controller\<close>

datatype ProvisionalSource = ProvNone | CompanionMock | DevFallback

record Controller =
  doc_bodyIndex :: nat
  doc_body :: dom
  pc_mode :: PageTranslateMode
  restore :: RestoreTable
  results :: "PageTranslateSegmentResult list"
  targetLang :: string
  lastError :: "string option"
  lastProvisionalSource :: ProvisionalSource

text \<open>The controller created over a document; with the document's own address.\<close>

definition createPageTranslateController :: "nat \<Rightarrow> dom \<Rightarrow> Controller" where
  "createPageTranslateController bodyIndex body =
     \<lparr>doc_bodyIndex = bodyIndex, doc_body = body, pc_mode = ModeOriginal, restore = [], results = [],
      targetLang = ''en'', lastError = None, lastProvisionalSource = ProvNone\<rparr>"

abbreviation doc_parts :: "Controller \<Rightarrow> path_parts" where
  "doc_parts st \<equiv> body_parts (doc_bodyIndex st) (doc_body st)"

definition displayByPath :: "Controller \<Rightarrow> (string, string) jsmap" where
  "displayByPath st =
     fold (\<lambda>seg m. case rt_get (restore st) (ap_id seg) of
         None \<Rightarrow> m | Some e \<Rightarrow> AList.update (re_path e) (displayText seg) m)
       (buildAppliedMap (pc_mode st) (restore st) (results st)) []"

definition apply_edit :: "Controller \<Rightarrow> edit" where
  "apply_edit st path content =
     (case map_of (displayByPath st) path of
        None \<Rightarrow> (content, \<lambda>a. a)
      | Some display \<Rightarrow>
          if content = display then (content, \<lambda>a. a)
          else
            let original = opt_or (map_of (originalsByPath (restore st)) path) content;
                (text, title) = resolveDisplayText (pc_mode st) original display
            in (text, case title of
                  None \<Rightarrow> \<lambda>a. a
                | Some t \<Rightarrow> if t = [] then \<lambda>a. a
                            else AList.update ''data-llm-original'' original \<circ> AList.update ''title'' t))"

definition applyToDom :: "Controller \<Rightarrow> Controller" where
  "applyToDom st =
     (if pc_mode st = ModeOriginal then st
      else st\<lparr>doc_body := edit_node (apply_edit st) (doc_parts st) (doc_body st)\<rparr>)"

type_synonym translator =
  "PageSegment list \<Rightarrow> string \<Rightarrow> string \<Rightarrow> string + PageTranslateSegmentResult list"

definition runTranslation ::
  "translator \<Rightarrow> bool \<Rightarrow> string \<Rightarrow> PageSegment list \<Rightarrow> string \<Rightarrow> Controller \<Rightarrow>
   (string + PageTranslateSegmentResult list) \<times> Controller" where
  "runTranslation translate dev url segments lang st =
     (case translate segments lang url of
        Inr batch \<Rightarrow>
          (Inr batch, st\<lparr>lastProvisionalSource :=
             (if list_ex res_provisional batch then CompanionMock else ProvNone)\<rparr>)
      | Inl message \<Rightarrow>
          if dev then
            (Inr (map (\<lambda>s. \<lparr>res_id = seg_id s,
                        translatedText = mockTranslateSegment (seg_originalText s) lang,
                        res_confidence = 0.7, res_provisional = True\<rparr>) segments),
             st\<lparr>lastProvisionalSource := DevFallback\<rparr>)
          else (Inl message, st\<lparr>lastProvisionalSource := ProvNone\<rparr>))"

definition segment_options :: DomSegmentOptions where
  "segment_options = \<lparr>skipCodePre = Some True, includeContentEditable = None, minLength = None\<rparr>"

definition translateNow :: "translator \<Rightarrow> bool \<Rightarrow> string \<Rightarrow> string \<Rightarrow> Controller \<Rightarrow> Controller" where
  "translateNow translate dev url lang st =
     (let (segments, entries) = collectTextSegments segment_options (doc_parts st) (doc_body st);
          st = st\<lparr>targetLang := lang, lastError := None, restore := newRestoreTable entries\<rparr>;
          (r, st) = runTranslation translate dev url segments lang st
      in case r of
           Inr batch \<Rightarrow> applyToDom (st\<lparr>results := batch, pc_mode := ModeTranslated\<rparr>)
         | Inl e \<Rightarrow> st\<lparr>lastError := Some e, results := []\<rparr>)"

definition restore_edit :: "RestoreTable \<Rightarrow> edit" where
  "restore_edit t path content =
     (case map_of (originalsByPath t) path of
        None \<Rightarrow> (content, \<lambda>a. a)
      | Some original \<Rightarrow> (original, AList.delete ''data-llm-original'' \<circ> AList.delete ''title''))"

definition restoreOriginal :: "Controller \<Rightarrow> Controller" where
  "restoreOriginal st =
     st\<lparr>doc_body := edit_node (restore_edit (restore st)) (doc_parts st) (doc_body st),
        pc_mode := ModeOriginal\<rparr>"

definition setMode :: "PageTranslateMode \<Rightarrow> Controller \<Rightarrow> Controller" where
  "setMode m st =
     (let st = st\<lparr>pc_mode := m\<rparr>
      in if m = ModeOriginal then restoreOriginal st else applyToDom st)"

definition lastWasProvisional :: "Controller \<Rightarrow> bool" where
  "lastWasProvisional st \<longleftrightarrow> lastProvisionalSource st \<noteq> ProvNone"

section \<open>Mutations\<close>

text \<open>
  The elements the page added, as positions below the body. An element that is marked or below
  a marked one was handled before.
\<close>

fun node_at :: "path_parts \<Rightarrow> dom \<Rightarrow> nat list \<Rightarrow> (path_parts \<times> dom) option" where
  "node_at ps d [] = Some (ps, d)"
| "node_at ps (Element tag ats cs) (i # is) =
     (if i < length cs then node_at (ps @ [(i, node_tag (cs ! i))]) (cs ! i) is else None)"
| "node_at ps _ (i # is) = None"

fun marked :: "dom \<Rightarrow> bool" where
  "marked (Element tag ats cs) = (map_of ats ''data-llm-page-translated'' \<noteq> None)"
| "marked _ = False"

fun closest_marked :: "dom \<Rightarrow> nat list \<Rightarrow> bool" where
  "closest_marked d [] = marked d"
| "closest_marked (Element tag ats cs) (i # is) =
     (marked (Element tag ats cs) \<or> (i < length cs \<and> closest_marked (cs ! i) is))"
| "closest_marked _ (i # is) = False"

fun mark_at :: "nat list \<Rightarrow> dom \<Rightarrow> dom" where
  "mark_at [] (Element tag ats cs) = Element tag (AList.update ''data-llm-page-translated'' ''1'' ats) cs"
| "mark_at (i # is) (Element tag ats cs) =
     (if i < length cs then Element tag ats (cs[i := mark_at is (cs ! i)]) else Element tag ats cs)"
| "mark_at _ d = d"

definition add_root ::
  "nat list \<Rightarrow> Controller \<times> PageSegment list \<Rightarrow> Controller \<times> PageSegment list" where
  "add_root addr p =
     (case node_at (doc_parts (fst p)) (doc_body (fst p)) addr of
        None \<Rightarrow> p
      | Some (ps, node) \<Rightarrow>
          if closest_marked (doc_body (fst p)) addr then p
          else
            let st = fst p;
                (segments, entries) = collectTextSegments segment_options ps node;
                fresh = filter (\<lambda>s. \<not> list_ex (\<lambda>r. res_id r = seg_id s) (results st)) segments
            in (st\<lparr>restore := fold rt_set entries (restore st),
                   doc_body := mark_at addr (doc_body st)\<rparr>, snd p @ fresh))"

definition onMutations ::
  "translator \<Rightarrow> bool \<Rightarrow> string \<Rightarrow> nat list list \<Rightarrow> Controller \<Rightarrow> Controller" where
  "onMutations translate dev url addedRoots st =
     (if pc_mode st = ModeOriginal \<or> addedRoots = [] then st
      else
        let (st, newSegments) = fold add_root addedRoots (st, []);
            st = (if newSegments = [] then st
                  else (case runTranslation translate dev url newSegments (targetLang st) st of
                          (Inr batch, st) \<Rightarrow> st\<lparr>results := results st @ batch\<rparr>
                        | (Inl e, st) \<Rightarrow> st\<lparr>lastError := Some e\<rparr>))
        in applyToDom st)"

section \<open>Edits and texts\<close>

lemma node_tag_edit [simp]: "node_tag (edit_node f ps d) = node_tag d"
  by (cases d) auto

lemma text_nodes_edit:
  "text_nodes ps (edit_node f ps d) = map (\<lambda>(p, s). (p, fst (f p s))) (text_nodes ps d)"
  "text_children ps i (edit_children f ps i cs) = map (\<lambda>(p, s). (p, fst (f p s))) (text_children ps i cs)"
  by (induction f ps d and f ps i cs rule: edit_node_edit_children.induct) simp_all

text \<open>The text nodes of the controller's document.\<close>

abbreviation doc_texts :: "Controller \<Rightarrow> (string \<times> string) list" where
  "doc_texts st \<equiv> text_nodes (doc_parts st) (doc_body st)"

lemma body_parts_edit [simp]: "body_parts n (edit_node f ps d) = body_parts n d"
  by (simp add: body_parts_def)

lemma texts_restored:
  "doc_texts (restoreOriginal st) =
   map (\<lambda>(p, s). (p, opt_or (map_of (originalsByPath (restore st)) p) s)) (doc_texts st)"
  by (auto simp: restoreOriginal_def text_nodes_edit restore_edit_def split: option.splits)

lemma texts_applied:
  assumes "pc_mode st \<noteq> ModeOriginal"
  shows "doc_texts (applyToDom st) =
    map (\<lambda>(p, s). (p, opt_or (map_of (displayByPath st) p) s)) (doc_texts st)"
  using assms
  by (auto simp: applyToDom_def text_nodes_edit apply_edit_def resolveDisplayText_def Let_def
      split: option.splits PageTranslateMode.splits prod.splits)

lemma distinct_texts: "distinct (map fst (doc_texts st))"
  by (rule distinct_paths) (simp add: body_parts_def)

text \<open>Only texts with an entry in the restore table are ever replaced.\<close>

lemma displayByPath_restorable:
  assumes "map_of (displayByPath st) p \<noteq> None"
  shows "map_of (originalsByPath (restore st)) p \<noteq> None"
proof -
  have "map_of (fold (\<lambda>seg m. case rt_get t (ap_id seg) of
         None \<Rightarrow> m | Some e \<Rightarrow> AList.update (re_path e) (displayText seg) m) segs m) p \<noteq> None
      \<Longrightarrow> map_of m p \<noteq> None \<or> map_of (originalsByPath t) p \<noteq> None" for t m and segs :: "AppliedSegment list"
  proof (induction segs arbitrary: m)
    case (Cons seg segs)
    show ?case
    proof (cases "rt_get t (ap_id seg)")
      case None
      with Cons show ?thesis by simp
    next
      case (Some e)
      then have "map_of (originalsByPath t) (re_path e) \<noteq> None"
        using originalsByPath_key map_of_SomeD by (metis rt_get_def)
      with Cons.IH [of "AList.update (re_path e) (displayText seg) m"] Cons.prems Some
      show ?thesis by (auto simp: js.get_put split: if_splits)
    qed
  qed simp
  from this [of "restore st" "buildAppliedMap (pc_mode st) (restore st) (results st)" "[]"] assms
  show ?thesis by (simp add: displayByPath_def)
qed

section \<open>Restoring\<close>

text \<open>
  What the controller may do between two restorations: translate from the original text, switch
  the mode, restore.
\<close>

inductive page_step :: "Controller \<Rightarrow> Controller \<Rightarrow> bool" where
  Translate: "pc_mode st = ModeOriginal \<Longrightarrow> page_step st (translateNow translate dev url lang st)"
| Switch: "page_step st (setMode m st)"
| Restore: "page_step st (restoreOriginal st)"

inductive_cases page_stepE: "page_step st st'"

text \<open>
  The invariant, for the texts of the page as it was: every text is the original one or has an
  entry in the restore table, the table holds original texts, and in the original mode no text
  differs.
\<close>

definition agree :: "(string \<Rightarrow> bool) \<Rightarrow> string \<times> string \<Rightarrow> string \<times> string \<Rightarrow> bool" where
  "agree Q x y \<longleftrightarrow> fst x = fst y \<and> (snd x = snd y \<or> Q (fst x))"

definition restorable :: "(string \<times> string) list \<Rightarrow> Controller \<Rightarrow> bool" where
  "restorable T0 st \<longleftrightarrow>
     list_all2 (agree (\<lambda>p. map_of (originalsByPath (restore st)) p \<noteq> None)) (doc_texts st) T0
     \<and> (\<forall>p s. map_of (originalsByPath (restore st)) p = Some s \<longrightarrow> (p, s) \<in> set T0)
     \<and> (pc_mode st = ModeOriginal \<longrightarrow> doc_texts st = T0)"

lemma restorable_paths: "restorable T0 st \<Longrightarrow> map fst (doc_texts st) = map fst T0"
  by (auto simp: restorable_def list_all2_conv_all_nth agree_def intro!: nth_equalityI)

lemma restorable_texts:
  assumes "restorable T0 st"
  shows "map (\<lambda>(p, s). (p, opt_or (map_of (originalsByPath (restore st)) p) s)) (doc_texts st) = T0"
proof (rule nth_equalityI)
  have len: "length (doc_texts st) = length T0"
    using assms by (simp add: restorable_def list_all2_conv_all_nth)
  then show "length (map (\<lambda>(p, s). (p, opt_or (map_of (originalsByPath (restore st)) p) s)) (doc_texts st))
      = length T0" by simp
  fix i assume "i < length (map (\<lambda>(p, s). (p, opt_or (map_of (originalsByPath (restore st)) p) s)) (doc_texts st))"
  then have i: "i < length (doc_texts st)" "i < length T0" using len by simp_all
  obtain p s where ps: "doc_texts st ! i = (p, s)" by force
  obtain p0 s0 where ps0: "T0 ! i = (p0, s0)" by force
  have eq: "p = p0" "s = s0 \<or> map_of (originalsByPath (restore st)) p \<noteq> None"
    using assms i ps ps0 by (auto simp: restorable_def list_all2_conv_all_nth agree_def)
  have "distinct (map fst T0)"
    using restorable_paths [OF assms] distinct_texts [of st] by simp
  moreover have "(p, s0) \<in> set T0" using i ps0 eq nth_mem by metis
  ultimately have "map_of T0 p = Some s0" by simp
  moreover have "(p, t) \<in> set T0" if "map_of (originalsByPath (restore st)) p = Some t" for t
    using assms that by (simp add: restorable_def)
  ultimately have "t = s0" if "map_of (originalsByPath (restore st)) p = Some t" for t
    using that \<open>distinct (map fst T0)\<close> by (metis map_of_eq_Some_iff option.inject)
  with eq ps ps0 i show "map (\<lambda>(p, s). (p, opt_or (map_of (originalsByPath (restore st)) p) s)) (doc_texts st) ! i
      = T0 ! i"
    by (cases "map_of (originalsByPath (restore st)) p") auto
qed

lemma restore_gives_originals: "restorable T0 st \<Longrightarrow> doc_texts (restoreOriginal st) = T0"
  by (simp only: texts_restored restorable_texts)

lemma restore_keeps_table [simp]: "restore (restoreOriginal st) = restore st"
  "pc_mode (restoreOriginal st) = ModeOriginal"
  by (simp_all add: restoreOriginal_def)

lemma apply_keeps_table [simp]: "restore (applyToDom st) = restore st" "pc_mode (applyToDom st) = pc_mode st"
  by (simp_all add: applyToDom_def)

lemma agree_refl: "list_all2 (agree Q) T T"
  by (simp add: list_all2_refl agree_def)

lemma agree_replace:
  assumes "list_all2 (agree Q) T T0" "\<And>p. D p \<noteq> None \<Longrightarrow> Q p"
  shows "list_all2 (agree Q) (map (\<lambda>(p, s). (p, opt_or (D p) s)) T) T0"
  using assms(1)
proof (induction rule: list_all2_induct)
  case (Cons x xs y ys)
  then show ?case using assms(2) by (cases x; cases "D (fst x)") (auto simp: agree_def)
qed simp

lemma restorable_restore: "restorable T0 st \<Longrightarrow> restorable T0 (restoreOriginal st)"
  using restore_gives_originals [of T0 st] agree_refl
  unfolding restorable_def restore_keeps_table by auto

lemma restorable_apply:
  assumes "restorable T0 st" "pc_mode st \<noteq> ModeOriginal"
  shows "restorable T0 (applyToDom st)"
proof -
  have "list_all2 (agree (\<lambda>p. map_of (originalsByPath (restore st)) p \<noteq> None)) (doc_texts st) T0"
    using assms(1) by (simp only: restorable_def)
  from agree_replace [OF this, of "map_of (displayByPath st)", OF displayByPath_restorable]
  have "list_all2 (agree (\<lambda>p. map_of (originalsByPath (restore st)) p \<noteq> None))
      (doc_texts (applyToDom st)) T0"
    unfolding texts_applied [OF assms(2)] .
  with assms show ?thesis unfolding restorable_def apply_keeps_table by blast
qed

lemma restorable_setMode: "restorable T0 st \<Longrightarrow> restorable T0 (setMode m st)"
proof -
  assume r: "restorable T0 st"
  have any: "m' \<noteq> ModeOriginal \<Longrightarrow> restorable T0 (st\<lparr>pc_mode := m'\<rparr>)" for m'
    using r by (simp add: restorable_def)
  show ?thesis
  proof (cases "m = ModeOriginal")
    case True
    have "restoreOriginal (st\<lparr>pc_mode := m\<rparr>) = restoreOriginal st"
      by (simp add: restoreOriginal_def)
    with True r show ?thesis by (simp add: setMode_def restorable_restore)
  next
    case False
    with any show ?thesis by (simp add: setMode_def Let_def restorable_apply)
  qed
qed

text \<open>What a fresh restore table records of the page.\<close>

lemma collected_table:
  assumes "collectTextSegments opts (body_parts n d) d = (segs, es)"
    and "map_of (originalsByPath (newRestoreTable es)) p = Some s"
  shows "(p, s) \<in> set (text_nodes (body_parts n d) d)"
proof -
  obtain k e where "(k, e) \<in> set (newRestoreTable es)" "re_path e = p" "re_originalText e = s"
    using originalsByPath_source [OF assms(2)] by blast
  then obtain x where "x \<in> set (collect_walk opts (body_parts n d) d)" "snd x = e"
    using assms(1) restore_member by (force simp: collectTextSegments_def)
  with collect_from_text(1) [OF this(1)] \<open>re_path e = p\<close> \<open>re_originalText e = s\<close> show ?thesis by simp
qed

lemma runTranslation_keeps:
  "runTranslation tr dev url segs lang st = (r, st') \<Longrightarrow>
   st' = st\<lparr>lastProvisionalSource := lastProvisionalSource st'\<rparr>"
  by (auto simp: runTranslation_def split: sum.splits if_splits)

lemma translate_table:
  assumes T0: "doc_texts st = T0"
  shows "\<exists>es st2. restore st2 = newRestoreTable es \<and> doc_texts st2 = T0 \<and> pc_mode st2 = pc_mode st
    \<and> (\<forall>p s. map_of (originalsByPath (newRestoreTable es)) p = Some s \<longrightarrow> (p, s) \<in> set T0)
    \<and> (translateNow tr dev url lang st = st2
       \<or> (pc_mode st2 = pc_mode st \<and> (\<exists>batch. translateNow tr dev url lang st
            = applyToDom (st2\<lparr>results := batch, pc_mode := ModeTranslated\<rparr>))))"
proof -
  obtain segs es where c: "collectTextSegments segment_options (doc_parts st) (doc_body st) = (segs, es)"
    by force
  define st1 where "st1 = st\<lparr>targetLang := lang, lastError := None, restore := newRestoreTable es\<rparr>"
  obtain r st2 where run: "runTranslation tr dev url segs lang st1 = (r, st2)" by force
  have st2: "restore st2 = newRestoreTable es" "doc_texts st2 = T0" "pc_mode st2 = pc_mode st"
    by (subst runTranslation_keeps [OF run], simp add: st1_def T0)+
  have sub: "(p, s) \<in> set T0" if "map_of (originalsByPath (newRestoreTable es)) p = Some s" for p s
    using collected_table [OF c that] T0 by simp
  show ?thesis
  proof (cases r)
    case (Inl e)
    then have "translateNow tr dev url lang st = st2\<lparr>lastError := Some e, results := []\<rparr>"
      by (simp add: translateNow_def c run flip: st1_def)
    with st2 sub show ?thesis
      by (intro exI [of _ es] exI [of _ "st2\<lparr>lastError := Some e, results := []\<rparr>"]) simp
  next
    case (Inr batch)
    then have "translateNow tr dev url lang st = applyToDom (st2\<lparr>results := batch, pc_mode := ModeTranslated\<rparr>)"
      by (simp add: translateNow_def c run flip: st1_def)
    with st2 sub show ?thesis by (intro exI [of _ es] exI [of _ st2]) blast
  qed
qed

lemma restorable_translate:
  assumes "doc_texts st = T0"
  shows "restorable T0 (translateNow tr dev url lang st)"
proof -
  obtain es st2 where st2: "restore st2 = newRestoreTable es" "doc_texts st2 = T0"
    and sub: "\<forall>p s. map_of (originalsByPath (newRestoreTable es)) p = Some s \<longrightarrow> (p, s) \<in> set T0"
    and res: "translateNow tr dev url lang st = st2
       \<or> (\<exists>batch. translateNow tr dev url lang st
            = applyToDom (st2\<lparr>results := batch, pc_mode := ModeTranslated\<rparr>))"
    using translate_table [OF assms, of tr dev url lang] by blast
  have same: "restorable T0 st2" using st2 sub by (simp add: restorable_def agree_refl)
  then have "restorable T0 (st2\<lparr>results := batch, pc_mode := ModeTranslated\<rparr>)" for batch
    by (simp add: restorable_def)
  then have "restorable T0 (applyToDom (st2\<lparr>results := batch, pc_mode := ModeTranslated\<rparr>))" for batch
    by (simp add: restorable_apply)
  with same res show ?thesis by auto
qed

lemma restorable_mode: "restorable T0 st \<Longrightarrow> pc_mode st = ModeOriginal \<Longrightarrow> doc_texts st = T0"
  by (simp add: restorable_def)

lemma page_step_restorable: "page_step st st' \<Longrightarrow> restorable T0 st \<Longrightarrow> restorable T0 st'"
  by (induction rule: page_step.induct)
    (simp_all add: restorable_translate restorable_setMode restorable_restore restorable_mode)

lemma page_steps_restorable: "page_step\<^sup>*\<^sup>* st st' \<Longrightarrow> restorable T0 st \<Longrightarrow> restorable T0 st'"
  by (induction rule: rtranclp_induct) (auto intro: page_step_restorable)

lemma restorable_start: "restorable (doc_texts (createPageTranslateController n d)) (createPageTranslateController n d)"
  by (simp add: restorable_def agree_refl) (simp add: createPageTranslateController_def originalsByPath_def)

section \<open>Showing translations\<close>

lemma fill_distinct_keys:
  "distinct (map fst t) \<Longrightarrow> set (map fst t) \<inter> set (map fst m) = {} \<Longrightarrow>
   fold (\<lambda>p. AList.update (fst p) (f (snd p))) t m = m @ map (\<lambda>p. (fst p, f (snd p))) t"
proof (induction t arbitrary: m)
  case (Cons p t)
  have "k \<notin> set (map fst m) \<Longrightarrow> AList.update k v m = m @ [(k, v)]" for k v
    by (induction m) auto
  with Cons show ?case by auto
qed simp

lemma originals_list:
  "distinct (map fst t) \<Longrightarrow> originals t = map (\<lambda>p. (fst p, re_originalText (snd p))) t"
  unfolding originals_def by (subst fill_distinct_keys) simp_all

text \<open>The text of a translated segment: the answer of the translator, or the original.\<close>

definition shown_text :: "PageTranslateSegmentResult list \<Rightarrow> string \<Rightarrow> string \<Rightarrow> string" where
  "shown_text rs ident original =
     (case map_of (map_of_entries (map (\<lambda>r. (res_id r, r)) rs)) ident of
        None \<Rightarrow> original | Some r \<Rightarrow> translatedText r)"

lemma displayByPath_fill:
  assumes "distinct (map fst (restore st))" "pc_mode st \<noteq> ModeOriginal"
  shows "displayByPath st = fold (\<lambda>p. AList.update (re_path (snd p))
     (shown_text (results st) (fst p) (re_originalText (snd p)))) (restore st) []"
proof -
  have "rt_get (restore st) (fst p) = Some (snd p)" if "p \<in> set (restore st)" for p
    using that assms(1) by (simp add: rt_get_def)
  moreover have "fst (resolveDisplayText (pc_mode st) a b) = b" for a b
    using assms(2) by (simp add: resolveDisplayText_def split: PageTranslateMode.splits)
  ultimately show ?thesis
    unfolding displayByPath_def buildAppliedMap_def Let_def originals_list [OF assms(1)]
    by (simp add: fold_map comp_def shown_text_def case_prod_beta)
      (rule fold_cong; simp add: fun_eq_iff)
qed

text \<open>The entries of a fresh table have paths of their own.\<close>

lemma distinct_entry_paths:
  assumes "distinct (map re_path es)"
  shows "distinct (map (\<lambda>p. re_path (snd p)) (newRestoreTable es))"
proof -
  have "inj_on (\<lambda>p. re_path (snd p)) (set (newRestoreTable es))"
  proof (rule inj_onI)
    fix p q assume "p \<in> set (newRestoreTable es)" "q \<in> set (newRestoreTable es)"
      and eq: "re_path (snd p) = re_path (snd q)"
    then have m: "snd p \<in> set es" "segmentId (snd p) = fst p" "snd q \<in> set es" "segmentId (snd q) = fst q"
      using restore_member [of "fst p" "snd p" es] restore_member [of "fst q" "snd q" es] by simp_all
    then have "snd p = snd q" using assms eq by (simp add: distinct_map inj_on_def)
    with m show "p = q" by (metis prod_eqI)
  qed
  then show ?thesis
    using restore_distinct [of es] by (simp add: distinct_map)
qed

lemma collect_paths_distinct:
  "ps \<noteq> [] \<Longrightarrow> distinct (map (re_path \<circ> snd) (collect_walk opts ps d))"
  "ps \<noteq> [] \<Longrightarrow> distinct (map (re_path \<circ> snd) (collect_children opts ps i cs))"
proof (induction opts ps d and opts ps i cs rule: collect_walk_collect_children.induct)
  case (5 opts ps i c cs)
  have "re_path (snd x) \<noteq> re_path (snd y)"
    if "x \<in> set (collect_walk opts (ps @ [(i, node_tag c)]) c)"
      "y \<in> set (collect_children opts ps (Suc i) cs)" for x y
    using sibling_paths_differ [OF 5(3) collect_from_text(1) [OF that(1)] collect_from_text(2) [OF that(2)]] .
  with 5 show ?case by auto
qed (auto simp: collect_text_def split: option.splits)

lemma map_of_map_values:
  "map_of (map (\<lambda>(p, s). (p, f p s)) xs) p = map_option (f p) (map_of xs p)"
  by (induction xs) auto

lemma translated_page:
  assumes "collectTextSegments segment_options (doc_parts st) (doc_body st) = (segs, es)"
    and "tr segs lang url = Inr batch"
  shows "restore (translateNow tr dev url lang st) = newRestoreTable es"
    and "results (translateNow tr dev url lang st) = batch"
    and "doc_texts (translateNow tr dev url lang st) =
      map (\<lambda>(p, s). (p, opt_or (map_of (fold (\<lambda>q. AList.update (re_path (snd q))
          (shown_text batch (fst q) (re_originalText (snd q)))) (newRestoreTable es) []) p) s)) (doc_texts st)"
proof -
  define st3 where "st3 = st\<lparr>targetLang := lang, lastError := None, restore := newRestoreTable es,
    lastProvisionalSource := (if list_ex res_provisional batch then CompanionMock else ProvNone),
    results := batch, pc_mode := ModeTranslated\<rparr>"
  have t: "translateNow tr dev url lang st = applyToDom st3"
    by (simp add: translateNow_def assms runTranslation_def st3_def)
  then show "restore (translateNow tr dev url lang st) = newRestoreTable es"
    "results (translateNow tr dev url lang st) = batch"
    by (simp_all add: st3_def applyToDom_def)
  have "displayByPath st3 = fold (\<lambda>q. AList.update (re_path (snd q))
      (shown_text batch (fst q) (re_originalText (snd q)))) (newRestoreTable es) []"
    by (subst displayByPath_fill) (simp_all add: st3_def restore_distinct)
  with texts_applied [of st3] show "doc_texts (translateNow tr dev url lang st) =
      map (\<lambda>(p, s). (p, opt_or (map_of (fold (\<lambda>q. AList.update (re_path (snd q))
          (shown_text batch (fst q) (re_originalText (snd q)))) (newRestoreTable es) []) p) s)) (doc_texts st)"
    unfolding t by (simp add: st3_def)
qed

text \<open>C37:
  After a successful translation every text recorded in the restore table shows the translator's
  answer for its segment (or the original where there is none), and every other text of the page,
  in scripts, code or editable elements, is untouched.\<close>

theorem translation_is_shown:
  assumes "collectTextSegments segment_options (doc_parts st) (doc_body st) = (segs, es)"
    and "tr segs lang url = Inr batch"
  shows "let st' = translateNow tr dev url lang st in
    (\<forall>(k, e) \<in> set (restore st').
       map_of (doc_texts st') (re_path e) = Some (shown_text batch k (re_originalText e))) \<and>
    (\<forall>(p, s) \<in> set (doc_texts st).
       p \<notin> (\<lambda>q. re_path (snd q)) ` set (restore st') \<longrightarrow> map_of (doc_texts st') p = Some s)"
proof -
  let ?t = "newRestoreTable es"
  let ?D = "fold (\<lambda>q. AList.update (re_path (snd q)) (shown_text batch (fst q) (re_originalText (snd q)))) ?t []"
  have look: "map_of (map (\<lambda>(p, s). (p, opt_or (map_of ?D p) s)) (doc_texts st)) p
      = map_option (opt_or (map_of ?D p)) (map_of (doc_texts st) p)" for p
    by (rule map_of_map_values)
  have es: "es = map snd (collect_walk segment_options (doc_parts st) (doc_body st))"
    using assms(1) by (simp add: collectTextSegments_def)
  have paths: "distinct (map (\<lambda>q. re_path (snd q)) ?t)"
    using collect_paths_distinct(1) [of "doc_parts st" segment_options "doc_body st"]
    by (intro distinct_entry_paths) (simp add: es body_parts_def comp_def)
  have shown: "map_of ?D (re_path e) = Some (shown_text batch k (re_originalText e))" if "(k, e) \<in> set ?t" for k e
    using js.get_fill_distinct [OF paths that, of "\<lambda>q. shown_text batch (fst q) (re_originalText (snd q))" "[]"]
    by simp
  have orig: "map_of (doc_texts st) (re_path e) = Some (re_originalText e)" if "(k, e) \<in> set ?t" for k e
  proof -
    note member = that
    obtain x where x: "x \<in> set (collect_walk segment_options (doc_parts st) (doc_body st))" "snd x = e"
      using restore_member [OF member] es by auto
    with collect_from_text(1) [OF x(1)] show ?thesis by (simp add: distinct_texts)
  qed
  have other: "map_of ?D p = None" if "p \<notin> (\<lambda>q. re_path (snd q)) ` set ?t" for p
    using js.get_fill_other [OF that, of "\<lambda>q. shown_text batch (fst q) (re_originalText (snd q))" "[]"]
    by (simp only: map_of.simps)
  let ?st' = "translateNow tr dev url lang st"
  have new: "map_of (doc_texts ?st') p = map_option (opt_or (map_of ?D p)) (map_of (doc_texts st) p)" for p
    by (simp only: translated_page [of st segs es tr lang url batch dev, OF assms] look)
  have old: "map_of (doc_texts st) p = Some s" if "(p, s) \<in> set (doc_texts st)" for p s
    using that by (simp only: map_of_eq_Some_iff [OF distinct_texts])
  have tab: "restore ?st' = ?t" by (rule translated_page(1) [of st segs es tr lang url batch dev, OF assms])
  have "map_of (doc_texts ?st') (re_path e) = Some (shown_text batch k (re_originalText e))"
    if "(k, e) \<in> set ?t" for k e
    by (simp only: new shown [OF that] orig [OF that] option.map opt_or_simps)
  moreover have "map_of (doc_texts ?st') p = Some s"
    if "(p, s) \<in> set (doc_texts st)" "p \<notin> (\<lambda>q. re_path (snd q)) ` set ?t" for p s
    by (simp only: new old [OF that(1)] other [OF that(2)] option.map opt_or_simps)
  ultimately show ?thesis unfolding Let_def tab by blast
qed


definition demo_page :: dom where
  "demo_page = Element ''BODY'' [] [Element ''P'' [] [TextNode ''Hello'']]"

definition demo_translator :: translator where
  "demo_translator segs lang url = Inr (map (\<lambda>s. \<lparr>res_id = seg_id s,
     translatedText = lang @ '' '' @ seg_originalText s, res_confidence = 1, res_provisional = False\<rparr>) segs)"


lemma demo_segments:
  "collectTextSegments segment_options (body_parts 1 demo_page) demo_page =
   (let h = fnv1a ''Hello''; k = ''seg_'' @ fnv1a (''0.ROOT/1.BODY/0.P/0.#text'' @ '':'' @ h)
    in ([\<lparr>seg_id = k, seg_path = ''0.ROOT/1.BODY/0.P/0.#text'', seg_originalText = ''Hello'', textHash = h\<rparr>],
        [\<lparr>segmentId = k, re_originalText = ''Hello'', re_path = ''0.ROOT/1.BODY/0.P/0.#text''\<rparr>]))"
proof -
  have "trim (collapse_ws ''Hello'') = ''Hello''"
    and "buildNodePath [(0, ''ROOT''), (1, ''BODY''), (0, ''P''), (0, ''#text'')] = ''0.ROOT/1.BODY/0.P/0.#text''"
    and "shouldSkipElement ''BODY'' segment_options = False"
    and "shouldSkipElement ''P'' segment_options = False"
    by code_simp+
  then show ?thesis
    by (simp add: collectTextSegments_def demo_page_def body_parts_def collect_text_def makeSegment_def
        keep_segment_def Let_def) (simp add: segment_options_def)
qed

theorem translation_is_shown_witness:
  "map_of (doc_texts (translateNow demo_translator False ''u'' ''de'' (createPageTranslateController 1 demo_page)))
     ''0.ROOT/1.BODY/0.P/0.#text'' = Some ''de Hello''"
proof -
  let ?st = "createPageTranslateController 1 demo_page"
  let ?p = "''0.ROOT/1.BODY/0.P/0.#text''"
  define k where "k = ''seg_'' @ fnv1a (?p @ '':'' @ fnv1a ''Hello'')"
  define segs es where "segs = [\<lparr>seg_id = k, seg_path = ?p, seg_originalText = ''Hello'', textHash = fnv1a ''Hello''\<rparr>]"
    and "es = [\<lparr>segmentId = k, re_originalText = ''Hello'', re_path = ?p\<rparr>]"
  have c: "collectTextSegments segment_options (doc_parts ?st) (doc_body ?st) = (segs, es)"
    using demo_segments by (simp add: createPageTranslateController_def segs_def es_def k_def Let_def)
  define batch where "batch = [\<lparr>res_id = k, translatedText = ''de Hello'', res_confidence = 1, res_provisional = False\<rparr>]"
  have b: "demo_translator segs ''de'' ''u'' = Inr batch"
    by (simp add: demo_translator_def segs_def batch_def)
  have t: "newRestoreTable es = [(k, \<lparr>segmentId = k, re_originalText = ''Hello'', re_path = ?p\<rparr>)]"
    by (simp add: newRestoreTable_def rt_set_def es_def)
  have "shown_text batch k ''Hello'' = ''de Hello''"
    by (simp add: shown_text_def batch_def map_of_entries_def)
  then show ?thesis
    using translation_is_shown [of ?st segs es demo_translator "''de''" "''u''" batch False, OF c b]
      translated_page(1) [of ?st segs es demo_translator "''de''" "''u''" batch False, OF c b] t
    by (simp add: Let_def)
qed

text \<open>Restoring undoes exactly the last translation: it brings back the texts the page had when
  \<open>translateNow\<close> was called. On a page already translated, where the toolbar lets the user choose
  another language, that is the first translation; the original texts are no longer recorded
  anywhere.\<close>

theorem restore_undoes_last_translation:
  "doc_texts (restoreOriginal (translateNow tr dev url lang st)) = doc_texts st"
  by (rule restore_gives_originals [OF restorable_translate [OF refl]])

end
