(* ===== verification/Js_Values.thy ===== *)
theory Js_Values
  imports Prelude
begin

text \<open>
  Dynamic values as the messages of the extension use them: reading fields of values that may be
  missing or \<open>null\<close>, object literals some of whose fields are \<open>undefined\<close> (a serialised message
  does not carry those), and \<open>String(v)\<close>.
\<close>

text \<open>\<open>v?.k\<close> on a value that may be missing, and a field read under \<open>??\<close>.\<close>

definition sub_field :: "json option \<Rightarrow> string \<Rightarrow> json option" where
  "sub_field j k = (case j of None \<Rightarrow> None | Some v \<Rightarrow> json_field v k)"

definition field_or :: "json \<Rightarrow> string \<Rightarrow> json option" where
  "field_or j k = (case json_field j k of Some JNull \<Rightarrow> None | v \<Rightarrow> v)"

lemma sub_field_simps [simp]: "sub_field None k = None" "sub_field (Some v) k = json_field v k"
  by (simp_all add: sub_field_def)

text \<open>An object literal; fields that are \<open>undefined\<close> are left out.\<close>

primrec obj_fields :: "(string \<times> json option) list \<Rightarrow> (string \<times> json) list" where
  "obj_fields [] = []"
| "obj_fields (f # fs) =
     (case snd f of None \<Rightarrow> obj_fields fs | Some v \<Rightarrow> (fst f, v) # obj_fields fs)"

definition js_obj :: "(string \<times> json option) list \<Rightarrow> json" where
  "js_obj fs = JObj (obj_fields fs)"

lemma obj_fields_none: "k \<notin> fst ` set fs \<Longrightarrow> map_of (obj_fields fs) k = None"
  by (induction fs) (auto split: option.split)

lemma field_js_obj:
  "distinct (map fst fs) \<Longrightarrow> (k, v) \<in> set fs \<Longrightarrow> json_field (js_obj fs) k = v"
  by (induction fs) (auto simp: js_obj_def obj_fields_none split: option.splits; force)+

lemma js_obj_eval [simp]:
  "json_field (js_obj []) k = None"
  "json_field (js_obj ((k', None) # fs)) k = json_field (js_obj fs) k"
  "json_field (js_obj ((k', Some v) # fs)) k = (if k = k' then Some v else json_field (js_obj fs) k)"
  by (auto simp: js_obj_def)

text \<open>
  \<open>String(v)\<close>; numbers are printed by the argument. Inside an array \<open>null\<close> is printed as
  nothing, as \<open>Array.prototype.join\<close> does.
\<close>

fun js_string :: "(real \<Rightarrow> string) \<Rightarrow> json \<Rightarrow> string" where
  "js_string num JNull = ''null''"
| "js_string num (JBool b) = (if b then ''true'' else ''false'')"
| "js_string num (JNum x) = num x"
| "js_string num (JStr s) = s"
| "js_string num (JArr xs) =
     join '','' (map (\<lambda>x. case x of JNull \<Rightarrow> [] | _ \<Rightarrow> js_string num x) xs)"
| "js_string num (JObj fs) = ''[object Object]''"

definition js_join :: "(real \<Rightarrow> string) \<Rightarrow> string \<Rightarrow> json list \<Rightarrow> string" where
  "js_join num sep xs = join sep (map (\<lambda>x. case x of JNull \<Rightarrow> [] | _ \<Rightarrow> js_string num x) xs)"

lemma js_join_strings: "js_join num sep (map JStr ss) = join sep ss"
  by (simp add: js_join_def comp_def)

text \<open>A text field of a message: the value of the field under \<open>??\<close>, printed.\<close>

definition text_field :: "(real \<Rightarrow> string) \<Rightarrow> json \<Rightarrow> string \<Rightarrow> string \<Rightarrow> string" where
  "text_field num m k d = (case field_or m k of None \<Rightarrow> d | Some v \<Rightarrow> js_string num v)"

end
