(* ===== verification/Captions.thy ===== *)
theory Captions
  imports Js_Values Js_Text Js_Map Hash Protocol_Types
begin

text \<open>
  Captions: the source router, the timed-text parsers, the reader of the player response and the
  page classifier of \<open>apps/extension/features/captions/\<close> (\<open>source-router.ts\<close>,
  \<open>parser.ts\<close>, \<open>player-response.ts\<close>, \<open>spa.ts\<close>). \<open>JSON.parse\<close> and the \<open>URL\<close> parser
  are arguments; so is the WebVTT parser in the format dispatch. Every parser meets the contract
  \<open>caption_parser\<close>.
\<close>

section \<open>The source router\<close>

datatype CaptionTrackKind = TrackHuman | TrackAuto | AsrNone

datatype TimedtextFormat = Json3 | Srv3 | Vtt | Srv1 | UnknownFormat

record CaptionTrackMeta =
  ct_id :: string
  ct_language :: string
  ct_kind :: CaptionTrackKind
  ct_label :: string
  ct_baseUrl :: "string option"
  ct_format :: "TimedtextFormat option"

datatype SourceDecision =
    UseCaption CaptionTrackMeta string
  | AskTabCapture string
  | OfferImport string

definition preferCaptionTrack ::
  "CaptionTrackMeta list \<Rightarrow> string option \<Rightarrow> CaptionTrackMeta option" where
  "preferCaptionTrack tracks userSelectedId =
     (let selected = (case userSelectedId of
            None \<Rightarrow> None
          | Some i \<Rightarrow> if i = [] then None else find (\<lambda>t. ct_id t = i) tracks)
      in case selected of
           Some t \<Rightarrow> Some t
         | None \<Rightarrow>
             (case find (\<lambda>t. ct_kind t = TrackHuman) tracks of
                Some t \<Rightarrow> Some t
              | None \<Rightarrow> find (\<lambda>t. ct_kind t = TrackAuto) tracks))"

fun track_kind_str :: "CaptionTrackKind \<Rightarrow> string" where
  "track_kind_str TrackHuman = ''human''"
| "track_kind_str TrackAuto = ''auto''"
| "track_kind_str AsrNone = ''asr-none''"

definition routeCaptionSource ::
  "CaptionTrackMeta list \<Rightarrow> string option \<Rightarrow> bool \<Rightarrow> bool \<Rightarrow> SourceDecision" where
  "routeCaptionSource tracks userSelectedId userGestureForCapture hasOwnedMedia =
     (let fallback =
            (if userGestureForCapture then AskTabCapture ''no-usable-captions-user-gesture''
             else if hasOwnedMedia then OfferImport ''owned-media-available''
             else AskTabCapture ''no-usable-captions-awaiting-gesture'')
      in case preferCaptionTrack tracks userSelectedId of
           Some track \<Rightarrow>
             if ct_kind track \<noteq> AsrNone
             then UseCaption track (''prefer-'' @ track_kind_str (ct_kind track) @ ''-caption'')
             else fallback
         | None \<Rightarrow> fallback)"

definition wouldAutoStartCapture :: "SourceDecision \<Rightarrow> bool" where
  "wouldAutoStartCapture d \<longleftrightarrow> False \<and> (case d of AskTabCapture _ \<Rightarrow> True | _ \<Rightarrow> False)"

section \<open>Timed text\<close>

record YtTimedtextEvent =
  tStartMs :: "int option"
  dDurationMs :: "int option"
  segs :: "string option list option"

text \<open>\<open>(h >>> 0).toString(16)\<close>, without padding.\<close>

definition simpleHash :: "string \<Rightarrow> string" where
  "simpleHash s = hex_str (unat (fnv_hash (code_units s)))"

definition timelineFromCues :: "string \<Rightarrow> Cue list \<Rightarrow> Provenance \<Rightarrow> SourceTimeline" where
  "timelineFromCues videoId cs prov =
     \<lparr>tl_videoId = videoId, tl_cues = cs, sourceHash = simpleHash (join ''|'' (map cue_text cs)),
      immutable = True, captionSource = Some (if prov = HumanCaption then SourceHuman else SourceAuto),
      tl_language = None, developmentFallback = None\<rparr>"

definition emptyTimeline :: "string \<Rightarrow> Provenance \<Rightarrow> SourceTimeline" where
  "emptyTimeline videoId prov = timelineFromCues videoId [] prov"

definition event_text :: "YtTimedtextEvent \<Rightarrow> string" where
  "event_text e =
     trim (map (\<lambda>c. if c = char_of (10::nat) then CHR '' '' else c)
       (concat (map (\<lambda>s. opt_or s []) (opt_or (segs e) []))))"

definition event_cue :: "string \<Rightarrow> Provenance \<Rightarrow> nat \<Rightarrow> YtTimedtextEvent \<Rightarrow> Cue" where
  "event_cue videoId prov i e =
     (let startMs = opt_or (tStartMs e) 0
      in \<lparr>cue_id = ''yt_'' @ videoId @ ''_'' @ nat_str i @ ''_'' @ int_str startMs,
          startMs = startMs, endMs = startMs + opt_or (dDurationMs e) 2000,
          cue_text = event_text e, speaker = None, provenance = prov\<rparr>)"

fun event_cues :: "string \<Rightarrow> Provenance \<Rightarrow> nat \<Rightarrow> YtTimedtextEvent list \<Rightarrow> Cue list" where
  "event_cues v p i [] = []"
| "event_cues v p i (e # es) =
     (if event_text e = [] then event_cues v p (Suc i) es
      else event_cue v p i e # event_cues v p (Suc i) es)"

definition parseTimedtextEvents ::
  "string \<Rightarrow> YtTimedtextEvent list \<Rightarrow> Provenance \<Rightarrow> SourceTimeline" where
  "parseTimedtextEvents videoId events prov =
     timelineFromCues videoId (event_cues videoId prov 0 events) prov"

text \<open>
  \<open>JSON.parse\<close> with the unchecked cast to the event list: \<open>None\<close> where it throws, the events
  where the field is an array, none otherwise.
\<close>

definition parseJson3Timedtext ::
  "(string \<Rightarrow> YtTimedtextEvent list option) \<Rightarrow> string \<Rightarrow> string \<Rightarrow> Provenance \<Rightarrow> SourceTimeline" where
  "parseJson3Timedtext parse videoId body prov =
     (if trim body = [] then emptyTimeline videoId prov
      else (case parse (trim body) of
              None \<Rightarrow> emptyTimeline videoId prov
            | Some events \<Rightarrow> parseTimedtextEvents videoId events prov))"

text \<open>
  The XML reader. \<open>replace_all p r\<close> is a replacement of every occurrence of a literal;
  \<open>drop_tags\<close> of \<open>/<[^>]+>/g\<close>; \<open>replace_br\<close> of \<open>/<br\s*\/?>/gi\<close>. The fuel is the length of the text.
\<close>

fun replace_all :: "nat \<Rightarrow> string \<Rightarrow> string \<Rightarrow> string \<Rightarrow> string" where
  "replace_all _ p r [] = []"
| "replace_all 0 p r (c # s) = c # s"
| "replace_all (Suc n) p r (c # s) =
     (if p \<noteq> [] \<and> startsWith (c # s) p then r @ replace_all n p r (drop (length p) (c # s))
      else c # replace_all n p r s)"

definition replace_str :: "string \<Rightarrow> string \<Rightarrow> string \<Rightarrow> string" where
  "replace_str p r s = replace_all (length s) p r s"

definition br_end :: "string \<Rightarrow> string option" where
  "br_end s =
     (if toLowerCase (take 3 s) = ''<br'' then
        let r = dropWhile is_ws (drop 3 s); r = (if take 1 r = ''/'' then drop 1 r else r)
        in if take 1 r = ''>'' then Some (drop 1 r) else None
      else None)"

definition tag_end :: "string \<Rightarrow> string option" where
  "tag_end s =
     (if take 1 s = ''<'' then
        let body = takeWhile (\<lambda>c. c \<noteq> CHR ''>'') (drop 1 s);
            r = dropWhile (\<lambda>c. c \<noteq> CHR ''>'') (drop 1 s)
        in if body \<noteq> [] \<and> r \<noteq> [] then Some (tl r) else None
      else None)"

fun replace_match :: "nat \<Rightarrow> (string \<Rightarrow> string option) \<Rightarrow> string \<Rightarrow> string \<Rightarrow> string" where
  "replace_match _ m r [] = []"
| "replace_match 0 m r (c # s) = c # s"
| "replace_match (Suc n) m r (c # s) =
     (case m (c # s) of
        Some rest \<Rightarrow> r @ replace_match n m r rest
      | None \<Rightarrow> c # replace_match n m r s)"

definition stripXml :: "string \<Rightarrow> string" where
  "stripXml s =
     (let s = replace_match (length s) br_end '' '' s;
          s = replace_match (length s) tag_end [] s;
          s = replace_str ''&amp;'' ''&'' s;
          s = replace_str ''&lt;'' ''<'' s;
          s = replace_str ''&gt;'' ''>'' s;
          s = replace_str ''&quot;'' [char_of (34::nat)] s
      in replace_str ''&#39;'' [char_of (39::nat)] s)"

text \<open>\<open>new RegExp(`\\b${name}="(\\d+)"`, "i")\<close>: the digits of the first match; \<open>before\<close> is the
  character before the rest of the text.\<close>

fun attrNumber_at :: "string \<Rightarrow> bool \<Rightarrow> string \<Rightarrow> int option" where
  "attrNumber_at name prev_word [] = None"
| "attrNumber_at name prev_word (c # s) =
     (let n = length name; rest = drop n (c # s); digits = takeWhile is_digit (drop 2 rest)
      in if \<not> prev_word \<and> toLowerCase (take n (c # s)) = name
            \<and> take 2 rest = [CHR ''='', char_of (34::nat)] \<and> digits \<noteq> []
            \<and> take 1 (dropWhile is_digit (drop 2 rest)) = [char_of (34::nat)]
         then Some (int (digits_val digits))
         else attrNumber_at name (is_word_char c) s)"

definition attrNumber :: "string \<Rightarrow> string \<Rightarrow> int option" where
  "attrNumber attrs name = attrNumber_at name False attrs"

text \<open>The text up to the first \<open></p>\<close> and the text after it, in any case.\<close>

fun up_to_close :: "string \<Rightarrow> (string \<times> string) option" where
  "up_to_close [] = None"
| "up_to_close (c # s) =
     (if toLowerCase (take 4 (c # s)) = ''</p>'' then Some ([], drop 4 (c # s))
      else map_option (\<lambda>(a, b). (c # a, b)) (up_to_close s))"

text \<open>One match of \<open>/<p\b([^>]*)>([\s\S]*?)<\/p>/i\<close> at the start of a text: attributes, content, rest.\<close>

definition p_at :: "string \<Rightarrow> (string \<times> string \<times> string) option" where
  "p_at s =
     (if toLowerCase (take 2 s) = ''<p'' \<and> \<not> list_ex is_word_char (take 1 (drop 2 s)) then
        let attrs = takeWhile (\<lambda>c. c \<noteq> CHR ''>'') (drop 2 s);
            r = dropWhile (\<lambda>c. c \<noteq> CHR ''>'') (drop 2 s)
        in if r = [] then None
           else map_option (\<lambda>(inner, rest). (attrs, inner, rest)) (up_to_close (tl r))
      else None)"

fun p_elements :: "nat \<Rightarrow> string \<Rightarrow> (string \<times> string) list" where
  "p_elements _ [] = []"
| "p_elements 0 (c # s) = []"
| "p_elements (Suc n) (c # s) =
     (case p_at (c # s) of
        Some (attrs, inner, rest) \<Rightarrow> (attrs, inner) # p_elements n rest
      | None \<Rightarrow> p_elements n s)"

definition srv3_text :: "string \<Rightarrow> string" where
  "srv3_text inner = trim (collapse_ws (stripXml inner))"

definition srv3_cue :: "string \<Rightarrow> Provenance \<Rightarrow> nat \<Rightarrow> string \<times> string \<Rightarrow> Cue" where
  "srv3_cue v prov i p =
     (let t = opt_or (attrNumber (fst p) ''t'') 0; d = opt_or (attrNumber (fst p) ''d'') 2000
      in \<lparr>cue_id = ''yt_'' @ v @ ''_srv3_'' @ nat_str i @ ''_'' @ int_str t, startMs = t, endMs = t + d,
          cue_text = srv3_text (snd p), speaker = None, provenance = prov\<rparr>)"

fun srv3_cues :: "string \<Rightarrow> Provenance \<Rightarrow> nat \<Rightarrow> (string \<times> string) list \<Rightarrow> Cue list" where
  "srv3_cues v prov i [] = []"
| "srv3_cues v prov i (p # ps) =
     (if srv3_text (snd p) = [] then srv3_cues v prov i ps
      else srv3_cue v prov i p # srv3_cues v prov (Suc i) ps)"

definition parseSrv3Timedtext :: "string \<Rightarrow> string \<Rightarrow> Provenance \<Rightarrow> SourceTimeline" where
  "parseSrv3Timedtext videoId body prov =
     (let trimmed = trim body
      in if trimmed = [] then emptyTimeline videoId prov
         else timelineFromCues videoId
           (srv3_cues videoId prov 0 (p_elements (length trimmed) trimmed)) prov)"

definition detectFormat :: "string \<Rightarrow> TimedtextFormat" where
  "detectFormat body =
     (let t = trim body
      in if startsWith t ''{'' \<or> startsWith t ''['' then Json3
         else if str_includes t ''WEBVTT'' then Vtt
         else if str_includes t ''<p '' \<or> str_includes t ''<transcript'' \<or> str_includes t ''<?xml'' then Srv3
         else UnknownFormat)"

definition looks_like_time :: "string \<Rightarrow> bool" where
  "looks_like_time s \<longleftrightarrow> 5 \<le> length s \<and> list_all is_digit (take 2 s) \<and> s ! 2 = CHR '':''
     \<and> list_all is_digit (take 2 (drop 3 s))"

definition parseTimedtextBody ::
  "(string \<Rightarrow> YtTimedtextEvent list option) \<Rightarrow> (string \<Rightarrow> string \<Rightarrow> Provenance \<Rightarrow> SourceTimeline) \<Rightarrow>
   string \<Rightarrow> string \<Rightarrow> Provenance \<Rightarrow> TimedtextFormat option \<Rightarrow> SourceTimeline" where
  "parseTimedtextBody parse parseVtt videoId body prov formatHint =
     (let trimmed = trim body
      in if trimmed = [] then emptyTimeline videoId prov
         else
           let fallback =
             (if startsWith trimmed ''{'' then parseJson3Timedtext parse videoId trimmed prov
              else if str_includes trimmed ''WEBVTT'' \<or> looks_like_time trimmed
              then parseVtt videoId trimmed prov
              else if str_includes trimmed ''<p '' \<or> str_includes trimmed ''<transcript''
              then parseSrv3Timedtext videoId trimmed prov
              else parseJson3Timedtext parse videoId trimmed prov)
           in (case opt_or formatHint (detectFormat trimmed) of
                 Vtt \<Rightarrow> parseVtt videoId trimmed prov
               | Srv3 \<Rightarrow> parseSrv3Timedtext videoId trimmed prov
               | Srv1 \<Rightarrow> parseSrv3Timedtext videoId trimmed prov
               | Json3 \<Rightarrow> fallback
               | UnknownFormat \<Rightarrow> fallback))"

definition activeCueAt :: "SourceTimeline \<Rightarrow> millis \<Rightarrow> Cue option" where
  "activeCueAt timeline t = find (\<lambda>c. startMs c \<le> t \<and> t < endMs c) (tl_cues timeline)"

section \<open>The player response\<close>

fun name_text :: "json \<Rightarrow> string option" where
  "name_text (JStr s) = Some s"
| "name_text j = (case str_of (json_field j ''simpleText'') of
     Some s \<Rightarrow> if s = [] then None else Some s | None \<Rightarrow> None)"

text \<open>The label: the name or, failing that, the language's name.\<close>

definition labelOf :: "json \<Rightarrow> string" where
  "labelOf t =
     (case (case opt_else (field_or t ''name'') (field_or t ''languageName'') of
              None \<Rightarrow> None | Some n \<Rightarrow> name_text n) of
        Some s \<Rightarrow> s
      | None \<Rightarrow> opt_or (opt_else (str_of (json_field t ''languageCode'')) (str_of (json_field t ''vssId'')))
                 ''caption'')"

definition kindOf :: "json \<Rightarrow> CaptionTrackKind" where
  "kindOf t =
     (if toLowerCase (opt_or (str_of (json_field t ''kind'')) []) = ''asr'' then TrackAuto
      else if str_includes (opt_or (str_of (json_field t ''vssId'')) []) ''.a.'' then TrackAuto
      else TrackHuman)"

text \<open>\<open>/[?&]fmt=X\b/i\<close>\<close>

definition has_fmt :: "string \<Rightarrow> string \<Rightarrow> bool" where
  "has_fmt url x = search (\<lambda>s. (startsWith s ''?'' \<or> startsWith s ''&'')
     \<and> toLowerCase (take (4 + length x) (drop 1 s)) = ''fmt='' @ x
     \<and> \<not> list_ex is_word_char (take 1 (drop (5 + length x) s))) url"

definition formatHintFromUrl :: "string option \<Rightarrow> TimedtextFormat option" where
  "formatHintFromUrl baseUrl =
     (case baseUrl of
        None \<Rightarrow> None
      | Some u \<Rightarrow>
          if u = [] then None
          else if has_fmt u ''json3'' then Some Json3
          else if has_fmt u ''srv3'' then Some Srv3
          else if has_fmt u ''vtt'' then Some Vtt
          else if has_fmt u ''srv1'' then Some Srv1
          else Some UnknownFormat)"

definition sets_fmt :: "string \<Rightarrow> bool" where
  "sets_fmt = search (\<lambda>s. (startsWith s ''?'' \<or> startsWith s ''&'')
     \<and> toLowerCase (take 4 (drop 1 s)) = ''fmt='')"

definition preferJson3Url :: "string \<Rightarrow> string" where
  "preferJson3Url baseUrl =
     (if sets_fmt baseUrl then baseUrl
      else if str_includes baseUrl ''?'' then baseUrl @ ''&fmt=json3'' else baseUrl @ ''?fmt=json3'')"

definition player_track :: "nat \<Rightarrow> json \<Rightarrow> CaptionTrackMeta" where
  "player_track i t =
     (let language = opt_or (str_of (json_field t ''languageCode'')) ''und''; kind = kindOf t;
          baseUrl = opt_or (str_of (json_field t ''baseUrl'')) []
      in \<lparr>ct_id = opt_or (str_of (json_field t ''vssId''))
            (language @ ''-'' @ track_kind_str kind @ ''-'' @ nat_str i),
          ct_language = language, ct_kind = kind, ct_label = labelOf t, ct_baseUrl = Some baseUrl,
          ct_format = formatHintFromUrl (Some baseUrl)\<rparr>)"

definition tracksFromPlayerResponse :: "json option \<Rightarrow> CaptionTrackMeta list" where
  "tracksFromPlayerResponse pr =
     (case arr_of (sub_field (sub_field (sub_field pr ''captions'') ''playerCaptionsTracklistRenderer'')
             ''captionTracks'') of
        None \<Rightarrow> []
      | Some raw \<Rightarrow>
          let kept = filter (\<lambda>t. opt_or (str_of (json_field t ''baseUrl'')) [] \<noteq> []) raw
          in map (\<lambda>(i, t). player_track i t) (zip [0 ..< length kept] kept))"

text \<open>
  The scan of \<open>extractJsonObject\<close>: depth, inside a string, after a backslash, and the number of
  characters read; the result is the length of the object.
\<close>

fun json_scan :: "nat \<Rightarrow> bool \<Rightarrow> bool \<Rightarrow> nat \<Rightarrow> string \<Rightarrow> nat option" where
  "json_scan depth inString escape n [] = None"
| "json_scan depth inString escape n (c # s) =
     (if inString then
        (if escape then json_scan depth True False (Suc n) s
         else if code c = 92 then json_scan depth True True (Suc n) s
         else if code c = 34 then json_scan depth False False (Suc n) s
         else json_scan depth True False (Suc n) s)
      else if code c = 34 then json_scan depth True False (Suc n) s
      else if c = CHR ''{'' then json_scan (Suc depth) False False (Suc n) s
      else if c = CHR ''}'' then
        (if depth = 1 then Some (Suc n) else json_scan (depth - 1) False False (Suc n) s)
      else json_scan depth False False (Suc n) s)"

definition extractJsonObject :: "string \<Rightarrow> nat \<Rightarrow> string option" where
  "extractJsonObject source start =
     (if take 1 (drop start source) \<noteq> ''{'' then None
      else map_option (\<lambda>n. take n (drop start source)) (json_scan 0 False False 0 (drop start source)))"

text \<open>\<open>text.indexOf(p, from)\<close>\<close>

fun index_from :: "string \<Rightarrow> nat \<Rightarrow> string \<Rightarrow> nat option" where
  "index_from p n [] = (if p = [] then Some n else None)"
| "index_from p n (c # s) = (if startsWith (c # s) p then Some n else index_from p (Suc n) s)"

definition extractPlayerResponseFromScript :: "(string \<Rightarrow> json option) \<Rightarrow> string \<Rightarrow> json option" where
  "extractPlayerResponseFromScript parse t =
     (case index_from ''ytInitialPlayerResponse'' 0 t of
        None \<Rightarrow> None
      | Some idx \<Rightarrow>
          (case index_from ''='' idx (drop idx t) of
             None \<Rightarrow> None
           | Some eq \<Rightarrow>
               let i = eq + 1 + length (takeWhile is_ws (drop (eq + 1) t))
               in (case extractJsonObject t i of None \<Rightarrow> None | Some j \<Rightarrow> parse j)))"

section \<open>Pages\<close>

datatype YtPageKind = PgWatch | PgShorts | PgLive | PgMusic | PgOther

definition classifyYtPage :: "string \<Rightarrow> YtPageKind" where
  "classifyYtPage href =
     (let u = toLowerCase href
      in if str_includes u ''music.youtube.com'' then PgMusic
         else if str_includes u ''/shorts/'' then PgShorts
         else if str_includes u ''/live/'' \<or> str_includes u ''live=1'' then PgLive
         else if str_includes u ''/watch'' then PgWatch
         else PgOther)"

record PageUrl =
  hostname :: string
  pathname :: string
  searchParams :: "(string \<times> string) list"

text \<open>\<open>/^\/X\/([^/?]+)/\<close>\<close>

definition path_id :: "string \<Rightarrow> string \<Rightarrow> string option" where
  "path_id pre path =
     (if startsWith path pre then
        let v = takeWhile (\<lambda>c. c \<noteq> CHR ''/'' \<and> c \<noteq> CHR ''?'') (drop (length pre) path)
        in if v = [] then None else Some v
      else None)"

definition extractVideoId :: "(string \<Rightarrow> PageUrl option) \<Rightarrow> string \<Rightarrow> string option" where
  "extractVideoId parse_url href =
     (case parse_url href of
        None \<Rightarrow> None
      | Some u \<Rightarrow>
          let yt = str_includes (hostname u) ''youtube.com'';
              short = (if yt then path_id ''/shorts/'' (pathname u) else None);
              live = (if yt then path_id ''/live/'' (pathname u) else None)
          in if yt \<and> pathname u = ''/watch'' then map_of (searchParams u) ''v''
             else if short \<noteq> None then short
             else if live \<noteq> None then live
             else if hostname u = ''youtu.be'' then
               (if drop 1 (pathname u) = [] then None else Some (drop 1 (pathname u)))
             else if str_includes (hostname u) ''music.youtube.com'' then map_of (searchParams u) ''v''
             else None)"

text \<open>The navigation watcher: a notification only when the address changes.\<close>

definition nav_emit :: "string \<Rightarrow> string \<Rightarrow> string \<times> string list" where
  "nav_emit prev href = (if href = prev then (prev, []) else (href, [href]))"

section \<open>Routing\<close>

text \<open>The track the user selected, where there is one.\<close>

definition selected_track :: "CaptionTrackMeta list \<Rightarrow> string option \<Rightarrow> CaptionTrackMeta option" where
  "selected_track tracks sel = (case sel of
     None \<Rightarrow> None | Some i \<Rightarrow> if i = [] then None else find (\<lambda>t. ct_id t = i) tracks)"

lemma find_in: "find P xs = Some x \<Longrightarrow> x \<in> set xs \<and> P x"
  by (metis find_Some_iff nth_mem)

text \<open>Captions come first: whenever the user selected a usable track that one is used; otherwise a
  human track, and an automatic one only when there is no human track; capture or import is
  proposed only when no track is usable, or when the user selected a placeholder without captions
  (even if other tracks are usable). Capture never starts by itself.\<close>

theorem captions_first:
  "\<not> wouldAutoStartCapture (routeCaptionSource tracks sel gesture owned) \<and>
   (case routeCaptionSource tracks sel gesture owned of
      UseCaption t _ \<Rightarrow>
        t \<in> set tracks \<and> ct_kind t \<noteq> AsrNone \<and>
        (case selected_track tracks sel of
           Some u \<Rightarrow> t = u
         | None \<Rightarrow> ct_kind t = TrackHuman \<or> filter (\<lambda>u. ct_kind u = TrackHuman) tracks = [])
    | _ \<Rightarrow>
        (case selected_track tracks sel of
           Some u \<Rightarrow> ct_kind u = AsrNone
         | None \<Rightarrow> list_all (\<lambda>u. ct_kind u = AsrNone) tracks))"
proof -
  have pref: "preferCaptionTrack tracks sel =
     (case selected_track tracks sel of Some t \<Rightarrow> Some t
      | None \<Rightarrow> (case find (\<lambda>t. ct_kind t = TrackHuman) tracks of
                Some t \<Rightarrow> Some t | None \<Rightarrow> find (\<lambda>t. ct_kind t = TrackAuto) tracks))"
    by (simp add: preferCaptionTrack_def selected_track_def Let_def)
  have sel_in: "u \<in> set tracks" if "selected_track tracks sel = Some u" for u
    using that find_in by (fastforce simp: selected_track_def split: option.splits if_splits)
  have none: "list_all (\<lambda>u. ct_kind u = AsrNone) tracks"
    if "find (\<lambda>t. ct_kind t = TrackHuman) tracks = None" "find (\<lambda>t. ct_kind t = TrackAuto) tracks = None"
    using that by (auto simp: list_all_iff find_None_iff) (metis CaptionTrackKind.exhaust)
  show ?thesis
  proof (cases "selected_track tracks sel")
    case (Some u)
    then show ?thesis
      using sel_in by (simp add: wouldAutoStartCapture_def routeCaptionSource_def pref Let_def)
  next
    case sel: None
    show ?thesis
    proof (cases "find (\<lambda>t. ct_kind t = TrackHuman) tracks")
      case (Some h)
      with find_in [OF Some] sel show ?thesis
        by (simp add: wouldAutoStartCapture_def routeCaptionSource_def pref Let_def)
    next
      case human: None
      then have no_human: "filter (\<lambda>u. ct_kind u = TrackHuman) tracks = []"
        by (simp add: find_None_iff filter_empty_conv)
      show ?thesis
      proof (cases "find (\<lambda>t. ct_kind t = TrackAuto) tracks")
        case (Some a)
        with find_in [OF Some] sel human no_human show ?thesis
          by (simp add: wouldAutoStartCapture_def routeCaptionSource_def pref Let_def)
      next
        case None
        with none [OF human None] sel human show ?thesis
          by (simp add: wouldAutoStartCapture_def routeCaptionSource_def pref Let_def)
      qed
    qed
  qed
qed

section \<open>The contract of the caption parsers\<close>

text \<open>
  A caption parser answers with an immutable timeline of the video asked for, whose cues have
  trimmed texts that are not blank, the provenance asked for and identifiers of their own. The
  text at a position is then never blank and its cue is found again by its identifier.
\<close>

definition timeline_ok :: "string \<Rightarrow> Provenance \<Rightarrow> SourceTimeline \<Rightarrow> bool" where
  "timeline_ok v prov tm \<longleftrightarrow>
     tl_videoId tm = v \<and> immutable tm \<and> distinct (map cue_id (tl_cues tm))
     \<and> list_all (\<lambda>c. cue_text c \<noteq> [] \<and> trim (cue_text c) = cue_text c \<and> provenance c = prov) (tl_cues tm)
     \<and> sourceHash tm = simpleHash (join ''|'' (map cue_text (tl_cues tm)))"

locale caption_parser =
  fixes parser :: "string \<Rightarrow> string \<Rightarrow> Provenance \<Rightarrow> SourceTimeline"
  assumes parser_ok: "timeline_ok v prov (parser v body prov)"
begin

lemma active_found:
  assumes "activeCueAt (parser v body prov) t = Some c"
  shows "cue_text c \<noteq> [] \<and> find (\<lambda>d. cue_id d = cue_id c) (tl_cues (parser v body prov)) = Some c"
proof -
  have c: "c \<in> set (tl_cues (parser v body prov))"
    using assms find_in by (fastforce simp: activeCueAt_def)
  then obtain d where d: "find (\<lambda>d. cue_id d = cue_id c) (tl_cues (parser v body prov)) = Some d"
    by (cases "find (\<lambda>d. cue_id d = cue_id c) (tl_cues (parser v body prov))") (auto simp: find_None_iff)
  have "d = c"
    using find_in [OF d] c parser_ok [of v prov body] by (auto simp: timeline_ok_def distinct_map dest: inj_onD)
  with c d parser_ok [of v prov body] show ?thesis by (auto simp: timeline_ok_def list_all_iff)
qed

end

lemma timelineFromCues_ok:
  "distinct (map cue_id cs) \<Longrightarrow>
   list_all (\<lambda>c. cue_text c \<noteq> [] \<and> trim (cue_text c) = cue_text c \<and> provenance c = p) cs \<Longrightarrow>
   timeline_ok v p (timelineFromCues v cs p)"
  by (simp add: timeline_ok_def timelineFromCues_def)

lemma emptyTimeline_ok: "timeline_ok v p (emptyTimeline v p)"
  by (simp add: emptyTimeline_def timelineFromCues_ok)

text \<open>An index printed into an identifier tells the cues apart.\<close>

lemma numbered_ids:
  assumes "pre @ nat_str i @ CHR ''_'' # x = pre @ nat_str j @ CHR ''_'' # y"
  shows "i = j"
proof -
  have "\<not> is_digit (CHR ''_'')" by code_simp
  then show ?thesis using nat_str_prefix_inject [of i "CHR ''_''" x j "CHR ''_''" y] assms by simp
qed

lemma event_cues_from:
  "c \<in> set (event_cues v p i es) \<Longrightarrow>
   \<exists>j e. i \<le> j \<and> c = event_cue v p j e \<and> event_text e \<noteq> []"
  by (induction v p i es rule: event_cues.induct) (fastforce split: if_splits dest: Suc_leD)+

lemma event_cue_id:
  "cue_id (event_cue v p i e) = (''yt_'' @ v @ ''_'') @ nat_str i @ CHR ''_'' # int_str (opt_or (tStartMs e) 0)"
  by (simp add: event_cue_def Let_def)

lemma event_ids_distinct: "distinct (map cue_id (event_cues v p i es))"
proof (induction v p i es rule: event_cues.induct)
  case (2 v p i e es)
  have "cue_id (event_cue v p i e) \<noteq> cue_id c" if c: "c \<in> set (event_cues v p (Suc i) es)" for c
  proof
    obtain j e' where "Suc i \<le> j" "c = event_cue v p j e'" using event_cues_from [OF c] by blast
    moreover assume "cue_id (event_cue v p i e) = cue_id c"
    ultimately show False using numbered_ids [of "''yt_'' @ v @ ''_''" i _ j] by (simp add: event_cue_id)
  qed
  with 2 show ?case by auto
qed simp

lemma event_texts_ok:
  "list_all (\<lambda>c. cue_text c \<noteq> [] \<and> trim (cue_text c) = cue_text c \<and> provenance c = p) (event_cues v p i es)"
  by (auto simp: list_all_iff event_cue_def event_text_def Let_def dest!: event_cues_from)

lemma json3_ok: "timeline_ok v p (parseJson3Timedtext parse v body p)"
  by (simp add: parseJson3Timedtext_def emptyTimeline_ok parseTimedtextEvents_def timelineFromCues_ok
      event_ids_distinct event_texts_ok split: option.split)

lemma srv3_cues_from:
  "c \<in> set (srv3_cues v p i ps) \<Longrightarrow> \<exists>j q. i \<le> j \<and> c = srv3_cue v p j q \<and> srv3_text (snd q) \<noteq> []"
  by (induction v p i ps rule: srv3_cues.induct) (fastforce split: if_splits dest: Suc_leD)+

lemma srv3_ids_distinct: "distinct (map cue_id (srv3_cues v p i ps))"
proof (induction v p i ps rule: srv3_cues.induct)
  case (2 v p i q ps)
  have "cue_id (srv3_cue v p i q) \<noteq> cue_id c" if c: "c \<in> set (srv3_cues v p (Suc i) ps)" for c
  proof
    obtain j q' where "Suc i \<le> j" "c = srv3_cue v p j q'" using srv3_cues_from [OF c] by blast
    moreover assume "cue_id (srv3_cue v p i q) = cue_id c"
    ultimately show False
      using numbered_ids [of "''yt_'' @ v @ ''_srv3_''" i _ j] by (simp add: srv3_cue_def Let_def)
  qed
  with 2 show ?case by auto
qed simp

lemma srv3_ok: "timeline_ok v p (parseSrv3Timedtext v body p)"
proof -
  have "list_all (\<lambda>c. cue_text c \<noteq> [] \<and> trim (cue_text c) = cue_text c \<and> provenance c = p)
      (srv3_cues v p i ps)" for i ps
    by (auto simp: list_all_iff srv3_cue_def srv3_text_def Let_def dest!: srv3_cues_from)
  then show ?thesis
    by (simp add: parseSrv3Timedtext_def Let_def emptyTimeline_ok timelineFromCues_ok srv3_ids_distinct)
qed

interpretation json3: caption_parser "parseJson3Timedtext parse" for parse
  by unfold_locales (rule json3_ok)

interpretation srv3: caption_parser parseSrv3Timedtext
  by unfold_locales (rule srv3_ok)

text \<open>A body in the dispatch is handled by one of the parsers, so the contract carries over.\<close>

lemma body_ok:
  assumes "\<And>v body p. timeline_ok v p (vtt v body p)"
  shows "timeline_ok v p (parseTimedtextBody parse vtt v body p hint)"
  by (auto simp: parseTimedtextBody_def Let_def emptyTimeline_ok json3_ok srv3_ok assms
      split: TimedtextFormat.split)

text \<open>
  A timed-text body that is not recognised as WebVTT is parsed into an immutable timeline of its
  video whose cues have trimmed, non-blank texts, the right provenance and distinct identifiers,
  whatever the body holds and whatever the JSON parser answers; a broken body gives a timeline
  without cues, not an exception.\<close>

theorem timedtext_wellformed:
  "timeline_ok v p (parseTimedtextBody parse (\<lambda>v _ p. emptyTimeline v p) v body p hint) \<and>
   timeline_ok v p (parseJson3Timedtext parse v body p) \<and>
   timeline_ok v p (parseSrv3Timedtext v body p) \<and>
   tl_cues (parseJson3Timedtext (\<lambda>_. None) v body p) = []"
  by (simp add: body_ok emptyTimeline_ok json3_ok srv3_ok)
    (simp add: parseJson3Timedtext_def emptyTimeline_def timelineFromCues_def)

section \<open>Cutting out an object\<close>

text \<open>
  JSON text: quotes and backslashes in strings are escaped by a backslash. Numbers are printed
  as integers; the scan does not look at them.
\<close>

fun escape_json :: "string \<Rightarrow> string" where
  "escape_json [] = []"
| "escape_json (c # s) =
     (if code c = 34 \<or> code c = 92 then char_of (92::nat) # c # escape_json s else c # escape_json s)"

definition print_string :: "string \<Rightarrow> string" where
  "print_string s = char_of (34::nat) # escape_json s @ [char_of (34::nat)]"

fun print_json :: "json \<Rightarrow> string" where
  "print_json JNull = ''null''"
| "print_json (JBool b) = (if b then ''true'' else ''false'')"
| "print_json (JNum x) = int_str \<lfloor>x\<rfloor>"
| "print_json (JStr s) = print_string s"
| "print_json (JArr xs) = ''['' @ join '','' (map print_json xs) @ '']''"
| "print_json (JObj fs) = ''{'' @ join '','' (map (\<lambda>(k, v). print_string k @ '':'' @ print_json v) fs) @ ''}''"

text \<open>A stretch of text the scan passes over without a change.\<close>

definition passes :: "string \<Rightarrow> bool" where
  "passes w \<longleftrightarrow> (\<forall>d n s. 1 \<le> d \<longrightarrow>
     json_scan d False False n (w @ s) = json_scan d False False (n + length w) s)"

lemma passes_Nil [simp]: "passes []"
  by (simp add: passes_def)

lemma passes_append [intro]: "passes u \<Longrightarrow> passes w \<Longrightarrow> passes (u @ w)"
  by (simp add: passes_def add.assoc)

definition quiet :: "char \<Rightarrow> bool" where
  "quiet c \<longleftrightarrow> code c \<noteq> 34 \<and> c \<noteq> CHR ''{'' \<and> c \<noteq> CHR ''}''"

lemma passes_quiet: "list_all quiet w \<Longrightarrow> passes w"
proof (induction w)
  case (Cons c w)
  then show ?case by (simp add: passes_def quiet_def)
qed simp

lemma scan_string:
  "json_scan d True False n (escape_json s @ char_of (34::nat) # t)
   = json_scan d False False (n + length (escape_json s) + 1) t"
  by (induction s arbitrary: n) simp_all

lemma passes_string: "passes (print_string s)"
  by (simp add: passes_def print_string_def scan_string)

lemma passes_join: "(\<And>x. x \<in> set xs \<Longrightarrow> passes x) \<Longrightarrow> passes (join '','' xs)"
proof (induction xs)
  case (Cons x xs)
  have comma: "passes '',''" by (rule passes_quiet) (simp add: quiet_def)
  show ?case
  proof (cases "xs = []")
    case False
    moreover have "passes x" "passes (join '','' xs)" using Cons by simp_all
    ultimately have "passes (x @ '','' @ join '','' xs)" using comma by (intro passes_append)
    with False show ?thesis by (simp add: join_Cons)
  qed (use Cons in simp)
qed simp

lemma passes_braces: "passes w \<Longrightarrow> passes (''{'' @ w @ ''}'')"
  by (auto simp: passes_def)

lemma passes_json: "passes (print_json j)"
proof (induction j)
  case (JNum x)
  have "quiet c" if "c \<in> set (int_str i)" for c i
  proof -
    have "is_digit c \<or> c = CHR ''-''"
      using that nat_str_digits by (auto simp: int_str_def split: if_splits)
    then show ?thesis by (auto simp: quiet_def is_digit_def)
  qed
  then show ?case by (auto simp: list_all_iff intro!: passes_quiet)
next
  case (JStr s)
  then show ?case by (simp add: passes_string)
next
  case (JArr xs)
  have "passes ''[''" "passes '']''" by (rule passes_quiet; simp add: quiet_def)+
  moreover have "passes (join '','' (map print_json xs))"
    using JArr by (intro passes_join) auto
  ultimately show ?case by (simp only: print_json.simps) (intro passes_append)
next
  case (JObj fs)
  have colon: "passes '':''" by (rule passes_quiet) (simp add: quiet_def)
  have "passes (join '','' (map (\<lambda>(k, v). print_string k @ '':'' @ print_json v) fs))"
  proof (rule passes_join)
    fix x assume "x \<in> set (map (\<lambda>(k, v). print_string k @ '':'' @ print_json v) fs)"
    then obtain k v where kv: "(k, v) \<in> set fs" "x = print_string k @ '':'' @ print_json v" by auto
    then have "passes (print_json v)" using JObj [of "(k, v)" v] by simp
    with colon show "passes x" unfolding kv(2) by (intro passes_append passes_string)
  qed
  then show ?case by (simp only: print_json.simps passes_braces)
qed (rule passes_quiet; simp add: quiet_def)+

lemma scan_object:
  "json_scan 0 False False 0 (print_json (JObj fs) @ rest) = Some (length (print_json (JObj fs)))"
proof -
  let ?body = "join '','' (map (\<lambda>(k, v). print_string k @ '':'' @ print_json v) fs)"
  have "passes (''{'' @ ?body @ ''}'')" using passes_json [of "JObj fs"] by (simp only: print_json.simps)
  have "passes ?body"
  proof (rule passes_join)
    fix x assume "x \<in> set (map (\<lambda>(k, v). print_string k @ '':'' @ print_json v) fs)"
    then obtain k v where "x = print_string k @ '':'' @ print_json v" by auto
    moreover have "passes '':''" by (rule passes_quiet) (simp add: quiet_def)
    ultimately show "passes x" by (simp only:) (intro passes_append passes_string passes_json)
  qed
  then have "json_scan 1 False False 1 (?body @ ''}'' @ rest) = Some (length ?body + 2)"
    by (simp add: passes_def)
  then show ?thesis by simp
qed

lemma extract_printed:
  "extractJsonObject (pre @ print_json (JObj fs) @ rest) (length pre) = Some (print_json (JObj fs))"
  unfolding extractJsonObject_def by (simp add: scan_object del: print_json.simps) simp

lemma startsWith_longer:
  "length p \<le> length s \<Longrightarrow> startsWith (s @ x) p = startsWith s p"
  by (simp add: startsWith_def)

lemma index_from_found:
  "p \<noteq> [] \<Longrightarrow> index_from p n (a @ p) = Some (n + length a) \<Longrightarrow> index_from p n (a @ p @ x) = Some (n + length a)"
proof (induction a arbitrary: n)
  case Nil
  have "startsWith (p @ x) p" by (simp add: startsWith_def)
  with Nil show ?case by (cases p) simp_all
next
  case (Cons c a)
  have same: "startsWith (c # a @ p @ x) p = startsWith (c # a @ p) p"
    using startsWith_longer [of p "c # a @ p" x] by simp
  show ?case
  proof (cases "startsWith (c # a @ p) p")
    case True
    with Cons.prems show ?thesis by simp
  next
    case False
    with Cons.prems have "index_from p (Suc n) (a @ p) = Some (Suc n + length a)" by simp
    from Cons.IH [OF Cons.prems(1) this] False same show ?thesis by simp
  qed
qed

lemma index_from_char: "c \<notin> set u \<Longrightarrow> index_from [c] n (u @ c # s) = Some (n + length u)"
  by (induction u arbitrary: n) (auto simp: startsWith_def)

definition player_marker :: string where
  "player_marker = ''ytInitialPlayerResponse''"

text \<open>
  A player response assigned in a script is found and cut out exactly, whatever braces, quotes and
  backslashes its strings hold and whatever text follows it: if the JSON parser reads back printed
  JSON, the object comes out as it went in.\<close>

theorem player_response_extracted:
  assumes "index_from player_marker 0 (pre @ player_marker) = Some (length pre)"
    and "list_all is_ws w1" "list_all is_ws w2"
    and "parse (print_json (JObj fs)) = Some (JObj fs)"
  shows "extractPlayerResponseFromScript parse
     (pre @ player_marker @ w1 @ ''='' @ w2 @ print_json (JObj fs) @ rest) = Some (JObj fs)"
proof -
  let ?t = "pre @ player_marker @ w1 @ ''='' @ w2 @ print_json (JObj fs) @ rest"
  have eq_ws: "\<not> is_ws (CHR ''='')" "\<not> is_ws (CHR ''{'')" by code_simp+
  have idx: "index_from player_marker 0 ?t = Some (length pre)"
    using index_from_found [of player_marker 0 pre] assms(1) by (simp add: player_marker_def)
  have "CHR ''='' \<notin> set (player_marker @ w1)"
    using assms(2) eq_ws by (auto simp: player_marker_def list_all_iff)
  from index_from_char [OF this]
  have eq: "index_from ''='' (length pre) (drop (length pre) ?t)
      = Some (length pre + length (player_marker @ w1))" by simp
  let ?e = "length pre + length (player_marker @ w1)"
  have split: "?t = (pre @ player_marker @ w1 @ ''='') @ w2 @ print_json (JObj fs) @ rest" by simp
  have len: "length (pre @ player_marker @ w1 @ ''='') = ?e + 1" by simp
  have drop_len: "drop (length a) (a @ b) = b" for a b :: string by simp
  have rest: "drop (?e + 1) ?t = w2 @ print_json (JObj fs) @ rest"
    unfolding split len [symmetric] by (rule drop_len)
  have "takeWhile is_ws (w2 @ print_json (JObj fs) @ rest) = w2"
    using assms(3) eq_ws(2) by (simp add: list_all_iff takeWhile_append)
  then have start: "?e + 1 + length (takeWhile is_ws (drop (?e + 1) ?t))
      = length (pre @ player_marker @ w1 @ ''='' @ w2)"
    unfolding rest by simp
  have "extractJsonObject ?t (length (pre @ player_marker @ w1 @ ''='' @ w2)) = Some (print_json (JObj fs))"
    using extract_printed [of "pre @ player_marker @ w1 @ ''='' @ w2" fs rest] by simp
  then show ?thesis
    unfolding extractPlayerResponseFromScript_def player_marker_def [symmetric] idx option.case eq Let_def start
    using assms(4) by (simp only: option.case)
qed

theorem player_response_extracted_witness:
  "extractPlayerResponseFromScript (\<lambda>s. if s = ''{}'' then Some (JObj []) else None)
     (''var '' @ player_marker @ '' '' @ ''='' @ '' '' @ print_json (JObj []) @ '';}'') = Some (JObj [])"
  by (rule player_response_extracted) (simp_all add: player_marker_def startsWith_def is_ws_def)

end
