(* ===== verification/Companion.thy ===== *)
theory Companion
  imports Handshake Messages Js_Map
begin

text \<open>
  The companion client \<open>apps/extension/features/companion/client.ts\<close>: the connection states and
  their listeners, the handshake over the socket, the bounded reconnect, and the inbox of a
  session, which pairs incoming messages with the callers of \<open>waitType\<close>. Promises are numbered
  calls with an outcome, timers are events; what the native host and the socket answer is an
  argument of each attempt.
\<close>

section \<open>The connection state\<close>

datatype ConnectionState =
    Disconnected | NativeOnly | Connecting | Ready | Degraded | Incompatible | Failed

text \<open>The module's state, with a log of the states the listeners were told and of the sleeps.\<close>

record Conn =
  connectionState :: ConnectionState
  told :: "ConnectionState list"
  reconnectAttempt :: nat
  sleeps :: "nat list"

definition setConnectionState :: "ConnectionState \<Rightarrow> Conn \<Rightarrow> Conn" where
  "setConnectionState next c =
     (if connectionState c = next then c else c\<lparr>connectionState := next, told := told c @ [next]\<rparr>)"

definition reset_connection :: "Conn \<Rightarrow> Conn" where
  "reset_connection c = c\<lparr>connectionState := Disconnected, reconnectAttempt := 0, told := []\<rparr>"

definition backoffMs :: "nat \<Rightarrow> nat" where
  "backoffMs attempt = min 30000 (500 * 2 ^ min attempt 6)"

definition sleep :: "nat \<Rightarrow> Conn \<Rightarrow> Conn" where
  "sleep ms c = c\<lparr>sleeps := sleeps c @ [ms]\<rparr>"

text \<open>Socket events of an established session.\<close>

definition on_close :: "Conn \<Rightarrow> Conn" where
  "on_close c = (if connectionState c = Ready \<or> connectionState c = Degraded
                 then setConnectionState Disconnected c else c)"

definition on_error :: "Conn \<Rightarrow> Conn" where
  "on_error c = setConnectionState Failed c"

section \<open>Bootstrap and handshake\<close>

record BootstrapInfo =
  boot_port :: json
  boot_token :: json

text \<open>The native host's answer, \<open>None\<close> where the call is rejected.\<close>

definition nativeBootstrap :: "json option \<Rightarrow> string + BootstrapInfo" where
  "nativeBootstrap reply =
     (case reply of
        None \<Rightarrow> Inl ''native messaging failed''
      | Some res \<Rightarrow>
          (case (json_field res ''port'', json_field res ''bootstrapToken'') of
             (Some p, Some t) \<Rightarrow>
               if truthy (json_field res ''ok'') \<and> truthy (Some p) \<and> truthy (Some t)
               then Inr \<lparr>boot_port = p, boot_token = t\<rparr>
               else Inl (opt_or (str_of (json_field res ''error'')) ''companion bootstrap failed'')
           | _ \<Rightarrow> Inl (opt_or (str_of (json_field res ''error'')) ''companion bootstrap failed'')))"

record CompanionSession =
  cs_token :: "json option"
  cs_expiresAtMs :: "json option"
  cs_port :: real

text \<open>
  What the socket does in one attempt: whether it opens, and the first message after the
  request was sent (\<open>None\<close> where none comes in time or it is no JSON).
\<close>

record SocketEnv =
  sock_opens :: bool
  sock_reply :: "json option"

definition major_of :: "string \<Rightarrow> string" where
  "major_of v = hd (split_on (CHR ''.'') v)"

definition connectCompanion ::
  "real \<Rightarrow> SocketEnv \<Rightarrow> Conn \<Rightarrow> (string + CompanionSession) \<times> Conn" where
  "connectCompanion port env c =
     (if port \<le> 0 \<or> port > 65535 then (Inl ''invalid companion port'', c)
      else
        let c = setConnectionState Connecting c
        in if \<not> sock_opens env then (Inl ''ws error'', c)
           else (case sock_reply env of
             None \<Rightarrow> (Inl ''ws message timeout'', c)
           | Some response \<Rightarrow>
               if \<not> isWsMessage response \<or> \<not> isAuthHandshakeResponse response
               then (Inl ''companion handshake failed'', setConnectionState Failed c)
               else (case str_of (json_field response ''protocolVersion'') of
                 None \<Rightarrow> (Inl ''TypeError'', c)
               | Some v \<Rightarrow>
                   if major_of v \<noteq> major_of PROTOCOL_VERSION
                   then (Inl ''protocol major mismatch'', setConnectionState Incompatible c)
                   else (Inr \<lparr>cs_token = json_field response ''sessionToken'',
                              cs_expiresAtMs = json_field response ''expiresAtMs'', cs_port = port\<rparr>,
                         setConnectionState Ready (c\<lparr>reconnectAttempt := 0\<rparr>)))))"

section \<open>Reconnecting\<close>

record AttemptEnv =
  at_native :: "json option"
  at_socket :: SocketEnv

text \<open>One pass of the loop: bootstrap, then connect. A port that is no number compares as no port.\<close>

definition attempt_once :: "AttemptEnv \<Rightarrow> Conn \<Rightarrow> (string + CompanionSession) \<times> Conn" where
  "attempt_once env c =
     (case nativeBootstrap (at_native env) of
        Inl e \<Rightarrow> (Inl e, c)
      | Inr boot \<Rightarrow>
          (case num_of (Some (boot_port boot)) of
             None \<Rightarrow> (Inl ''invalid companion port'', c)
           | Some p \<Rightarrow> connectCompanion p (at_socket env) c))"

function attempts :: "nat \<Rightarrow> (nat \<Rightarrow> AttemptEnv) \<Rightarrow> string \<Rightarrow> Conn \<Rightarrow>
    (string + CompanionSession) \<times> Conn" where
  "attempts attempt env lastError c =
     (if attempt < 5 then
        (case attempt_once (env attempt) c of
           (Inr s, c) \<Rightarrow> (Inr s, c)
         | (Inl e, c) \<Rightarrow>
             let c = c\<lparr>reconnectAttempt := attempt + 1\<rparr>;
                 c = (if attempt < 4
                      then sleep (backoffMs (reconnectAttempt c)) (setConnectionState Degraded c) else c)
             in attempts (attempt + 1) env e c)
      else (Inl lastError, c))"
  by pat_completeness auto
termination
  by (relation "measure (\<lambda>(attempt, _). 5 - attempt)") auto

declare attempts.simps [simp del]

text \<open>
  \<open>ensureCompanionSession\<close>: the existing session with whether its socket is open, the clock, the
  environment of the five attempts, and the native host's answer to the last bootstrap.
\<close>

definition session_usable :: "(CompanionSession \<times> bool) option \<Rightarrow> real \<Rightarrow> CompanionSession option" where
  "session_usable existing now =
     (case existing of
        None \<Rightarrow> None
      | Some (s, isOpen) \<Rightarrow>
          (case num_of (cs_expiresAtMs s) of
             None \<Rightarrow> None
           | Some t \<Rightarrow> if now + 5000 < t \<and> isOpen then Some s else None))"

definition ensureCompanionSession ::
  "(CompanionSession \<times> bool) option \<Rightarrow> real \<Rightarrow> (nat \<Rightarrow> AttemptEnv) \<Rightarrow> json option \<Rightarrow> Conn \<Rightarrow>
   (string + CompanionSession) \<times> Conn" where
  "ensureCompanionSession existing now env lastBoot c =
     (case session_usable existing now of
        Some s \<Rightarrow> (Inr s, c)
      | None \<Rightarrow>
          (case attempts 0 env ''companion connect failed'' c of
             (Inr s, c) \<Rightarrow> (Inr s, c)
           | (Inl e, c) \<Rightarrow>
               (case nativeBootstrap lastBoot of
                  Inr _ \<Rightarrow> (Inl e, setConnectionState NativeOnly c)
                | Inl _ \<Rightarrow> (Inl e, setConnectionState Failed c))))"

section \<open>The inbox of a session\<close>

definition FAN_IN_TYPES :: "string list" where
  "FAN_IN_TYPES = [''timeline.source'', ''timeline.translation'', ''job.progress'', ''error'',
     ''lyrics.timeline'', ''job.result'']"

definition msg_type :: "json \<Rightarrow> string" where
  "msg_type m = opt_or (str_of (json_field m ''type'')) []"

definition dispatchFanIn :: "json \<Rightarrow> json list" where
  "dispatchFanIn m = (if msg_type m \<noteq> [] \<and> msg_type m \<in> set FAN_IN_TYPES then [m] else [])"

datatype Outcome = Resolved json | TimedOut string

text \<open>
  Waiting calls by type, queued messages, running timers, the number of the next call, and what
  was told so far: the outcome of calls and the messages handed to the fan-in handlers.
\<close>

record Inbox =
  pending :: "(string, nat) jsmap"
  queue :: "json list"
  timers :: "(nat \<times> string) list"
  next_call :: nat
  settled :: "(nat \<times> Outcome) list"
  fanned :: "json list"

definition new_inbox :: Inbox where
  "new_inbox = \<lparr>pending = [], queue = [], timers = [], next_call = 0, settled = [], fanned = []\<rparr>"

definition inbox_message :: "json option \<Rightarrow> Inbox \<Rightarrow> Inbox" where
  "inbox_message body s =
     (case body of
        None \<Rightarrow> s
      | Some parsed \<Rightarrow>
          let ty = msg_type parsed;
              waiter = (if ty \<noteq> [] then map_of (pending s) ty else None)
          in case waiter of
               Some w \<Rightarrow> s\<lparr>timers := filter (\<lambda>t. fst t \<noteq> w) (timers s), pending := AList.delete ty (pending s),
                           settled := settled s @ [(w, Resolved parsed)]\<rparr>
             | None \<Rightarrow> s\<lparr>fanned := fanned s @ dispatchFanIn parsed, queue := queue s @ [parsed]\<rparr>)"

definition waitType :: "string \<Rightarrow> Inbox \<Rightarrow> Inbox" where
  "waitType ty s =
     (let call = next_call s; s = s\<lparr>next_call := call + 1\<rparr>
      in case find_index (\<lambda>m. json_field m ''type'' = Some (JStr ty)) (queue s) of
           Some i \<Rightarrow> s\<lparr>queue := take i (queue s) @ drop (Suc i) (queue s),
                        settled := settled s @ [(call, Resolved (queue s ! i))]\<rparr>
         | None \<Rightarrow> s\<lparr>timers := timers s @ [(call, ty)], pending := AList.update ty call (pending s)\<rparr>)"

definition fire_timer :: "nat \<Rightarrow> Inbox \<Rightarrow> Inbox" where
  "fire_timer call s =
     (case map_of (timers s) call of
        None \<Rightarrow> s
      | Some ty \<Rightarrow> s\<lparr>timers := filter (\<lambda>t. fst t \<noteq> call) (timers s),
                     pending := AList.delete ty (pending s),
                     settled := settled s @ [(call, TimedOut ty)]\<rparr>)"

datatype InboxEvent = Arrive "json option" | Wait string | Timeout nat

primrec inbox_step :: "InboxEvent \<Rightarrow> Inbox \<Rightarrow> Inbox" where
  "inbox_step (Arrive body) s = inbox_message body s"
| "inbox_step (Wait ty) s = waitType ty s"
| "inbox_step (Timeout call) s = fire_timer call s"

definition inbox_run :: "InboxEvent list \<Rightarrow> Inbox" where
  "inbox_run es = fold inbox_step es new_inbox"

section \<open>Sending\<close>

definition submitJob ::
  "SessionToken \<Rightarrow> JobId \<Rightarrow> JobKind \<Rightarrow> VideoId \<Rightarrow> (string \<times> json) list option \<Rightarrow> WsMessage" where
  "submitJob token job kind video payload = createJobSubmit token job kind video payload"

text \<open>The base-64 alphabet, and \<open>btoa\<close> on the bytes of a chunk.\<close>

definition b64_digit :: "nat \<Rightarrow> char" where
  "b64_digit n = (if n < 26 then char_of (65 + n) else if n < 52 then char_of (71 + n)
     else if n < 62 then char_of (n - 4) else if n = 62 then CHR ''+'' else CHR ''/'')"

fun btoa :: "8 word list \<Rightarrow> string" where
  "btoa [] = []"
| "btoa [a] = [b64_digit (unat a div 4), b64_digit (unat a mod 4 * 16), CHR ''='', CHR ''='']"
| "btoa [a, b] = [b64_digit (unat a div 4), b64_digit (unat a mod 4 * 16 + unat b div 16),
     b64_digit (unat b mod 16 * 4), CHR ''='']"
| "btoa (a # b # c # bs) =
     [b64_digit (unat a div 4), b64_digit (unat a mod 4 * 16 + unat b div 16),
      b64_digit (unat b mod 16 * 4 + unat c div 64), b64_digit (unat c mod 64)] @ btoa bs"

definition sendAudioChunk :: "SessionToken \<Rightarrow> JobId \<Rightarrow> real \<Rightarrow> nat \<Rightarrow> 8 word list \<Rightarrow> WsMessage" where
  "sendAudioChunk token job rate sequence bytes = MAudioChunk token job rate sequence (btoa bytes)"

section \<open>Reconnecting ends\<close>

lemma setConnectionState_simps [simp]:
  "connectionState (setConnectionState x c) = x" "sleeps (setConnectionState x c) = sleeps c"
  "reconnectAttempt (setConnectionState x c) = reconnectAttempt c"
  by (simp_all add: setConnectionState_def)

lemma sleep_simps [simp]:
  "connectionState (sleep ms c) = connectionState c" "sleeps (sleep ms c) = sleeps c @ [ms]"
  "reconnectAttempt (sleep ms c) = reconnectAttempt c"
  by (simp_all add: sleep_def)

lemma connect_sleeps:
  "sleeps (snd (connectCompanion p env c)) = sleeps c"
  by (auto simp: connectCompanion_def Let_def split: option.split)

lemma connect_ready:
  "connectCompanion p env c = (Inr s, c') \<Longrightarrow>
   connectionState c' = Ready \<and> reconnectAttempt c' = 0 \<and> cs_port s = p \<and> 0 < p \<and> p \<le> 65535"
  by (auto simp: connectCompanion_def Let_def split: if_splits option.splits)

lemma attempt_sleeps: "sleeps (snd (attempt_once env c)) = sleeps c"
  by (simp add: attempt_once_def connect_sleeps split: sum.split option.split)

lemma attempt_ready:
  "attempt_once env c = (Inr s, c') \<Longrightarrow>
   connectionState c' = Ready \<and> reconnectAttempt c' = 0 \<and> 0 < cs_port s \<and> cs_port s \<le> 65535"
  by (auto simp: attempt_once_def split: sum.splits option.splits dest!: connect_ready)

text \<open>The failures of the attempts do not depend on the state they start in.\<close>

lemma connect_result_state: "fst (connectCompanion p env c) = fst (connectCompanion p env d)"
  by (auto simp: connectCompanion_def Let_def split: option.split)

lemma attempt_result_state: "fst (attempt_once env c) = fst (attempt_once env d)"
  using connect_result_state by (auto simp: attempt_once_def split: sum.split option.split)

definition attempt_fails :: "AttemptEnv \<Rightarrow> bool" where
  "attempt_fails env = (case fst (attempt_once env \<lparr>connectionState = Disconnected, told = [],
     reconnectAttempt = 0, sleeps = []\<rparr>) of Inl _ \<Rightarrow> True | Inr _ \<Rightarrow> False)"

lemma attempt_fails_iff:
  "attempt_fails env \<longleftrightarrow> (case fst (attempt_once env c) of Inl _ \<Rightarrow> True | Inr _ \<Rightarrow> False)"
  unfolding attempt_fails_def by (subst attempt_result_state [of env _ c]) simp

definition delays :: "nat \<Rightarrow> nat \<Rightarrow> nat list" where
  "delays a b = map (\<lambda>i. backoffMs (i + 1)) [a ..< min b 4]"

text \<open>
  The attempts from number \<open>a\<close> on: they stop at the first that succeeds, number \<open>k\<close>, having slept
  after each failure before the last.
\<close>

lemma attempts_spec:
  "a \<le> 5 \<Longrightarrow>
   (case attempts a env e c of
      (Inr s, c') \<Rightarrow> (\<exists>k. a \<le> k \<and> k < 5 \<and> (\<forall>i. a \<le> i \<and> i < k \<longrightarrow> attempt_fails (env i))
          \<and> \<not> attempt_fails (env k) \<and> sleeps c' = sleeps c @ delays a k)
        \<and> connectionState c' = Ready \<and> reconnectAttempt c' = 0 \<and> 0 < cs_port s \<and> cs_port s \<le> 65535
    | (Inl e', c') \<Rightarrow> (\<forall>i. a \<le> i \<and> i < 5 \<longrightarrow> attempt_fails (env i))
        \<and> sleeps c' = sleeps c @ delays a 5)"
proof (induction a env e c rule: attempts.induct)
  case (1 a env e c)
  show ?case
  proof (cases "a < 5")
    case False
    with 1(2) have "a = 5" by simp
    then show ?thesis by (auto simp: attempts.simps [of 5] delays_def)
  next
    case True
    obtain r c1 where run: "attempt_once (env a) c = (r, c1)" by force
    have sl: "sleeps c1 = sleeps c" using attempt_sleeps [of "env a" c] by (simp add: run)
    have fail: "attempt_fails (env a) \<longleftrightarrow> (case r of Inl _ \<Rightarrow> True | Inr _ \<Rightarrow> False)"
      using attempt_fails_iff [of "env a" c] by (simp add: run)
    show ?thesis
    proof (cases r)
      case (Inr s)
      with run attempt_ready [of "env a" c s c1] sl fail True show ?thesis
        by (auto simp: attempts.simps [of a] delays_def intro!: exI [of _ a])
    next
      case (Inl e1)
      define c2 where "c2 = c1\<lparr>reconnectAttempt := a + 1\<rparr>"
      define c3 where "c3 = (if a < 4 then sleep (backoffMs (reconnectAttempt c2)) (setConnectionState Degraded c2) else c2)"
      have step: "attempts a env e c = attempts (a + 1) env e1 c3"
        using True run Inl by (simp add: attempts.simps [of a] c3_def c2_def Let_def)
      have sl3: "sleeps c3 = sleeps c @ delays a (a + 1)"
        using sl True by (auto simp: c3_def c2_def delays_def)
      have join: "delays a (a + 1) @ delays (a + 1) b = delays a b" if "a < b" for b
      proof -
        have "[a ..< min b 4] = [a ..< min (a + 1) 4] @ [a + 1 ..< min b 4]" if "a < 4"
          using that \<open>a < b\<close> by (simp add: upt_conv_Cons)
        then show ?thesis using that by (cases "a < 4") (simp_all add: delays_def)
      qed
      have IH: "case attempts (a + 1) env e1 c3 of
          (Inr s, c') \<Rightarrow> (\<exists>k. a + 1 \<le> k \<and> k < 5 \<and> (\<forall>i. a + 1 \<le> i \<and> i < k \<longrightarrow> attempt_fails (env i))
            \<and> \<not> attempt_fails (env k) \<and> sleeps c' = sleeps c3 @ delays (a + 1) k)
            \<and> connectionState c' = Ready \<and> reconnectAttempt c' = 0 \<and> 0 < cs_port s \<and> cs_port s \<le> 65535
        | (Inl e', c') \<Rightarrow> (\<forall>i. a + 1 \<le> i \<and> i < 5 \<longrightarrow> attempt_fails (env i))
            \<and> sleeps c' = sleeps c3 @ delays (a + 1) 5"
        using 1(1) [OF True run [symmetric] Inl c2_def c3_def] True by simp
      have fa: "attempt_fails (env a)" using fail Inl by simp
      obtain r' c' where res: "attempts (a + 1) env e1 c3 = (r', c')" by force
      show ?thesis
      proof (cases r')
        case (Inl e')
        then have "\<forall>i. a + 1 \<le> i \<and> i < 5 \<longrightarrow> attempt_fails (env i)" "sleeps c' = sleeps c3 @ delays (a + 1) 5"
          using IH unfolding res Inl by simp_all
        moreover have "\<forall>i. a \<le> i \<and> i < 5 \<longrightarrow> attempt_fails (env i)"
          using calculation(1) fa by (metis Suc_eq_plus1 Suc_leI le_neq_implies_less)
        moreover have "sleeps c3 @ delays (a + 1) 5 = sleeps c @ delays a 5"
          unfolding sl3 append_assoc join [OF True] ..
        ultimately show ?thesis unfolding step res Inl by simp
      next
        case (Inr s)
        then obtain k where k: "a + 1 \<le> k" "k < 5" "\<forall>i. a + 1 \<le> i \<and> i < k \<longrightarrow> attempt_fails (env i)"
          "\<not> attempt_fails (env k)" "sleeps c' = sleeps c3 @ delays (a + 1) k"
          and st: "connectionState c' = Ready" "reconnectAttempt c' = 0" "0 < cs_port s" "cs_port s \<le> 65535"
          using IH unfolding res Inr by auto
        have "\<forall>i. a \<le> i \<and> i < k \<longrightarrow> attempt_fails (env i)"
          using k(3) fa by (metis le_neq_implies_less Suc_eq_plus1 Suc_leI)
        moreover have "sleeps c' = sleeps c @ delays a k"
          using k(1,5) sl3 join [of k] by simp
        ultimately show ?thesis using k(1,2,4) st unfolding step res Inr
          by (auto intro!: exI [of _ k])
      qed
    qed
  qed
qed

text \<open>C4:
  Getting a session ends after at most five attempts: with the existing session while it is
  usable; otherwise with the session of the first attempt that succeeds, in state ready with the
  counter reset and on a valid port, having slept after each failure before it; or, when all five
  fail, in state native-only or failed after sleeping 15 seconds in all.\<close>

theorem reconnect_is_bounded:
  "case ensureCompanionSession existing now env lastBoot c of
     (Inr s, c') \<Rightarrow>
       (case session_usable existing now of
          Some s0 \<Rightarrow> s = s0 \<and> c' = c
        | None \<Rightarrow> (\<exists>k < 5. list_all (\<lambda>i. attempt_fails (env i)) [0 ..< k] \<and> \<not> attempt_fails (env k)
                    \<and> sleeps c' = sleeps c @ map (\<lambda>i. backoffMs (i + 1)) [0 ..< k])
                  \<and> connectionState c' = Ready \<and> reconnectAttempt c' = 0
                  \<and> 0 < cs_port s \<and> cs_port s \<le> 65535)
   | (Inl e, c') \<Rightarrow>
       session_usable existing now = None
       \<and> list_all (\<lambda>i. attempt_fails (env i)) [0, 1, 2, 3, 4]
       \<and> connectionState c' \<in> {NativeOnly, Failed}
       \<and> sleeps c' = sleeps c @ [1000, 2000, 4000, 8000]"
proof (cases "session_usable existing now")
  case (Some s0)
  then show ?thesis by (simp add: ensureCompanionSession_def)
next
  case None
  obtain r c1 where run: "attempts 0 env ''companion connect failed'' c = (r, c1)" by force
  note spec = attempts_spec [where a = 0 and env = env and e = "''companion connect failed''" and c = c, unfolded run]
  show ?thesis
  proof (cases r)
    case (Inl e)
    have "sleeps c1 = sleeps c @ delays 0 5" and f: "\<forall>i<5. attempt_fails (env i)"
      using spec by (simp_all add: Inl)
    moreover have "delays 0 5 = [1000, 2000, 4000, 8000]"
      by (simp add: delays_def backoffMs_def upt_rec)
    moreover have "list_all (\<lambda>i. attempt_fails (env i)) [0, 1, 2, 3, 4]"
      using f by simp
    ultimately show ?thesis
      unfolding ensureCompanionSession_def None run Inl option.case prod.case sum.case
      by (cases "nativeBootstrap lastBoot") simp_all
  next
    case (Inr s)
    then obtain k where k: "k < 5" "\<forall>i<k. attempt_fails (env i)" "\<not> attempt_fails (env k)"
      "sleeps c1 = sleeps c @ delays 0 k"
      and st: "connectionState c1 = Ready" "reconnectAttempt c1 = 0" "0 < cs_port s" "cs_port s \<le> 65535"
      using spec by auto
    have "delays 0 k = map (\<lambda>i. backoffMs (i + 1)) [0 ..< k]"
      using k(1) by (simp add: delays_def min_def)
    then have "\<exists>k<5. list_all (\<lambda>i. attempt_fails (env i)) [0 ..< k] \<and> \<not> attempt_fails (env k)
                    \<and> sleeps c1 = sleeps c @ map (\<lambda>i. backoffMs (i + 1)) [0 ..< k]"
      using k by (intro exI [of _ k]) (simp add: list_all_iff)
    with st show ?thesis by (simp add: ensureCompanionSession_def None run Inr)
  qed
qed

section \<open>The inbox\<close>

fun value_of :: "nat \<times> Outcome \<Rightarrow> json list" where
  "value_of (_, Resolved j) = [j]"
| "value_of (_, TimedOut _) = []"

text \<open>The messages callers were given, in order, and those that arrived.\<close>

definition delivered :: "Inbox \<Rightarrow> json list" where
  "delivered s = concat (map value_of (settled s))"

fun arrived :: "InboxEvent list \<Rightarrow> json list" where
  "arrived [] = []"
| "arrived (Arrive (Some j) # es) = j # arrived es"
| "arrived (_ # es) = arrived es"

lemma arrived_append [simp]: "arrived (es @ fs) = arrived es @ arrived fs"
  by (induction es rule: arrived.induct) simp_all

text \<open>
  What holds of every inbox: a type somebody waits for has no message in the queue; every call
  was settled once or has its one timer running, and the pending entries belong to such calls.
\<close>

definition inbox_ok :: "Inbox \<Rightarrow> bool" where
  "inbox_ok s \<longleftrightarrow>
     (\<forall>ty w. map_of (pending s) ty = Some w \<longrightarrow>
        (w, ty) \<in> set (timers s) \<and>
        (ty \<noteq> [] \<longrightarrow> filter (\<lambda>m. json_field m ''type'' = Some (JStr ty)) (queue s) = []))
     \<and> mset (map fst (settled s @ map (\<lambda>t. (fst t, TimedOut [])) (timers s))) = mset [0 ..< next_call s]"

lemma type_msg: "ty \<noteq> [] \<Longrightarrow> msg_type m = ty \<longleftrightarrow> json_field m ''type'' = Some (JStr ty)"
  by (cases "json_field m ''type''" rule: str_of.cases) (auto simp: msg_type_def)

lemma inbox_ok_calls:
  "inbox_ok s \<Longrightarrow> mset (map fst (settled s) @ map fst (timers s)) = mset [0 ..< next_call s]"
  by (simp add: inbox_ok_def comp_def)

lemma inbox_ok_timers:
  "inbox_ok s \<Longrightarrow> distinct (map fst (timers s))"
proof -
  assume "inbox_ok s"
  then have "mset (map fst (settled s) @ map fst (timers s)) = mset [0 ..< next_call s]"
    by (rule inbox_ok_calls)
  then have "distinct (map fst (settled s) @ map fst (timers s))"
    by (metis distinct_upt mset_eq_imp_distinct_iff)
  then show ?thesis by simp
qed

lemma mset_filter_out:
  assumes "distinct (map fst ts)" "(w, ty) \<in> set ts"
  shows "mset (map fst ts) = add_mset w (mset (map fst (filter (\<lambda>t. fst t \<noteq> w) ts)))"
  using assms
proof (induction ts)
  case (Cons t ts)
  show ?case
  proof (cases "fst t = w")
    case True
    then have "w \<notin> fst ` set ts" using Cons.prems by auto
    then have "filter (\<lambda>t. fst t \<noteq> w) ts = ts" by (auto intro!: filter_True)
    with True show ?thesis by simp
  next
    case False
    with Cons show ?thesis by auto
  qed
qed simp

lemma inbox_ok_message:
  assumes "inbox_ok s"
  shows "inbox_ok (inbox_message body s)"
proof (cases body)
  case None
  with assms show ?thesis by (simp add: inbox_message_def)
next
  case (Some m)
  let ?ty = "msg_type m"
  show ?thesis
  proof (cases "if ?ty \<noteq> [] then map_of (pending s) ?ty else None")
    case None
    have "json_field m ''type'' \<noteq> Some (JStr ty)" if "map_of (pending s) ty = Some w" "ty \<noteq> []" for ty w
      using None that by (auto simp: msg_type_def split: if_splits)
    with None Some assms show ?thesis
      by (auto simp: inbox_message_def inbox_ok_def Let_def)
  next
    case w: (Some w)
    then have ne: "?ty \<noteq> []" and p: "map_of (pending s) ?ty = Some w" by (auto split: if_splits)
    have t: "(w, ?ty) \<in> set (timers s)" using assms p by (simp add: inbox_ok_def)
    have uniq: "ty = ?ty" if "(w, ty) \<in> set (timers s)" for ty
      using eq_key_imp_eq_value [OF inbox_ok_timers [OF assms] that t] .
    have "mset (map fst (timers s)) = add_mset w (mset (map fst (filter (\<lambda>t. fst t \<noteq> w) (timers s))))"
      by (rule mset_filter_out [OF inbox_ok_timers [OF assms] t])
    moreover have "v \<noteq> w" if "map_of (pending s) ty = Some v" "ty \<noteq> ?ty" for ty v
      using assms that uniq by (auto simp: inbox_ok_def)
    ultimately show ?thesis
      using assms p ne Some
      by (auto simp: inbox_message_def inbox_ok_def Let_def delete_conv' comp_def split: if_splits)
  qed
qed

lemma inbox_ok_wait:
  assumes "inbox_ok s"
  shows "inbox_ok (waitType ty s)"
proof (cases "find_index (\<lambda>m. json_field m ''type'' = Some (JStr ty)) (queue s)")
  case (Some i)
  have sub: "set (take i (queue s) @ drop (Suc i) (queue s)) \<subseteq> set (queue s)"
    by (auto dest: in_set_takeD in_set_dropD)
  have "filter P (take i (queue s)) = []" "filter P (drop (Suc i) (queue s)) = []" if "filter P (queue s) = []" for P
    using that by (auto simp: filter_empty_conv dest: in_set_takeD in_set_dropD)
  with assms Some show ?thesis
    by (simp add: waitType_def Let_def inbox_ok_def comp_def del: filter_False)
next
  case None
  then have "filter (\<lambda>m. json_field m ''type'' = Some (JStr ty)) (queue s) = []"
    by (simp add: find_index_None filter_empty_conv)
  with assms None show ?thesis
    by (auto simp: waitType_def Let_def inbox_ok_def js.get_put comp_def split: if_splits)
qed

lemma inbox_ok_timeout:
  assumes "inbox_ok s"
  shows "inbox_ok (fire_timer call s)"
proof (cases "map_of (timers s) call")
  case None
  with assms show ?thesis by (simp add: fire_timer_def)
next
  case (Some ty)
  have t: "(call, ty) \<in> set (timers s)" using Some by (rule map_of_SomeD)
  have "mset (map fst (timers s)) = add_mset call (mset (map fst (filter (\<lambda>t. fst t \<noteq> call) (timers s))))"
    by (rule mset_filter_out [OF inbox_ok_timers [OF assms] t])
  moreover have "v \<noteq> call" if "map_of (pending s) ty' = Some v" "ty' \<noteq> ty" for ty' v
    using assms that eq_key_imp_eq_value [OF inbox_ok_timers [OF assms] _ t] by (auto simp: inbox_ok_def)
  ultimately show ?thesis
    using assms Some
    by (auto simp: fire_timer_def inbox_ok_def delete_conv' comp_def split: if_splits)
qed

lemma inbox_ok_step: "inbox_ok s \<Longrightarrow> inbox_ok (inbox_step e s)"
  by (cases e) (simp_all add: inbox_ok_message inbox_ok_wait inbox_ok_timeout)

lemma inbox_ok_run: "inbox_ok (inbox_run es)"
  unfolding inbox_run_def
  by (induction es rule: rev_induct) (simp_all add: inbox_ok_step, simp add: inbox_ok_def new_inbox_def)

text \<open>Nothing is lost: what arrived was delivered or is queued, per type in the order of arrival.\<close>

definition of_type :: "string \<Rightarrow> json list \<Rightarrow> json list" where
  "of_type ty = filter (\<lambda>m. json_field m ''type'' = Some (JStr ty))"

lemma delivered_snoc [simp]:
  "delivered (s\<lparr>timers := t, pending := p, settled := settled s @ [x]\<rparr>) = delivered s @ value_of x"
  "delivered (s\<lparr>next_call := n, queue := q, settled := settled s @ [x]\<rparr>) = delivered s @ value_of x"
  "delivered (s\<lparr>fanned := f, queue := q\<rparr>) = delivered s"
  "delivered (s\<lparr>next_call := n, timers := t, pending := p\<rparr>) = delivered s"
  by (simp_all add: delivered_def)

lemma pick_first:
  assumes "find_index P xs = Some i"
  shows "filter P xs = xs ! i # filter P (take i xs @ drop (Suc i) xs)"
    and "P (xs ! i)" and "mset xs = add_mset (xs ! i) (mset (take i xs @ drop (Suc i) xs))"
proof -
  have i: "i < length xs" "P (xs ! i)" "\<forall>j<i. \<not> P (xs ! j)" using find_index_Some [OF assms] by auto
  have split: "xs = take i xs @ xs ! i # drop (Suc i) xs" using i(1) by (rule id_take_nth_drop)
  have none: "filter P (take i xs) = []"
    using i by (auto simp: filter_empty_conv in_set_conv_nth)
  have "filter P xs = filter P (take i xs @ xs ! i # drop (Suc i) xs)" using split by simp
  with none i(2) show "filter P xs = xs ! i # filter P (take i xs @ drop (Suc i) xs)" by simp
  show "P (xs ! i)" by (rule i(2))
  have "mset xs = mset (take i xs @ xs ! i # drop (Suc i) xs)" using split by simp
  then show "mset xs = add_mset (xs ! i) (mset (take i xs @ drop (Suc i) xs))" by simp
qed

definition accounted :: "json list \<Rightarrow> Inbox \<Rightarrow> bool" where
  "accounted arr s \<longleftrightarrow> mset arr = mset (delivered s) + mset (queue s) \<and>
     (\<forall>ty. ty \<noteq> [] \<longrightarrow> of_type ty arr = of_type ty (delivered s) @ of_type ty (queue s))"

lemma accounted_message:
  assumes "accounted arr s" "inbox_ok s"
  shows "accounted (arr @ [m]) (inbox_message (Some m) s)"
proof (cases "if msg_type m \<noteq> [] then map_of (pending s) (msg_type m) else None")
  case None
  with assms(1) show ?thesis
    by (auto simp: inbox_message_def Let_def accounted_def of_type_def)
next
  case (Some w)
  then have "msg_type m \<noteq> []" "map_of (pending s) (msg_type m) = Some w" by (auto split: if_splits)
  then have "of_type (msg_type m) (queue s) = []" "json_field m ''type'' = Some (JStr (msg_type m))"
    using assms(2) type_msg [of "msg_type m" m] by (auto simp: inbox_ok_def of_type_def)
  moreover have "of_type ty [m] = []" if "ty \<noteq> msg_type m" "ty \<noteq> []" for ty
    using that type_msg [of ty m] by (auto simp: of_type_def)
  ultimately show ?thesis
    using assms(1) Some by (auto simp: inbox_message_def Let_def accounted_def of_type_def)
qed

lemma accounted_wait: "accounted arr s \<Longrightarrow> accounted arr (waitType ty s)"
proof (cases "find_index (\<lambda>m. json_field m ''type'' = Some (JStr ty)) (queue s)")
  case None
  assume "accounted arr s"
  with None show ?thesis by (simp add: waitType_def Let_def accounted_def)
next
  case (Some i)
  assume acc: "accounted arr s"
  let ?q = "take i (queue s) @ drop (Suc i) (queue s)"
  note pick = pick_first [OF Some]
  have "of_type ty' (queue s) = of_type ty' [queue s ! i] @ of_type ty' ?q" for ty'
  proof (cases "ty' = ty")
    case True
    with pick(1,2) show ?thesis by (simp add: of_type_def)
  next
    case False
    then have "\<not> json_field (queue s ! i) ''type'' = Some (JStr ty')" using pick(2) by simp
    moreover have "i < length (queue s)" using find_index_Some [OF Some] by simp
    ultimately show ?thesis
      by (subst id_take_nth_drop [of i "queue s"]) (simp_all add: of_type_def)
  qed
  with acc pick(3) Some show ?thesis
    by (simp add: waitType_def Let_def accounted_def) (simp add: of_type_def)
qed

lemma accounted_timeout: "accounted arr s \<Longrightarrow> accounted arr (fire_timer c s)"
  by (auto simp: fire_timer_def accounted_def split: option.split)

lemma accounted_run: "accounted (arrived es) (inbox_run es)"
proof (induction es rule: rev_induct)
  case Nil
  then show ?case by (simp add: accounted_def inbox_run_def new_inbox_def delivered_def of_type_def)
next
  case (snoc e es)
  have step: "inbox_run (es @ [e]) = inbox_step e (inbox_run es)" for e by (simp add: inbox_run_def)
  show ?case
  proof (cases e)
    case (Arrive body)
    with snoc show ?thesis
      by (cases body) (simp_all add: step accounted_message inbox_ok_run inbox_message_def [of None])
  qed (use snoc in \<open>simp_all add: step accounted_wait accounted_timeout\<close>)
qed

text \<open>C5:
  No message is lost, doubled or overtaken: after any interleaving of arrivals, waits and
  timeouts, the messages given to callers and the messages still queued are together exactly those
  that arrived, and for each type they come in the order of arrival, the delivered ones first.\<close>

theorem inbox_keeps_every_message:
  "let s = inbox_run es
   in mset (arrived es) = mset (delivered s) + mset (queue s) \<and>
      of_type (c # cs) (arrived es) = of_type (c # cs) (delivered s) @ of_type (c # cs) (queue s)"
  using accounted_run [of es] by (simp add: accounted_def Let_def)

lemma fire_timers:
  "inbox_ok s \<Longrightarrow> timers (fold fire_timer (map fst (timers s)) s) = [] \<and>
     next_call (fold fire_timer (map fst (timers s)) s) = next_call s \<and>
     inbox_ok (fold fire_timer (map fst (timers s)) s)"
proof (induction "timers s" arbitrary: s)
  case Nil
  then show ?case by (simp flip: Nil(1))
next
  case (Cons t ts)
  obtain c ty where t: "t = (c, ty)" by force
  have d: "distinct (map fst (timers s))" by (rule inbox_ok_timers [OF Cons.prems])
  have "map_of (timers s) c = Some ty" using Cons.hyps(2) t by (metis map_of_Cons_code(2))
  then have "timers (fire_timer c s) = filter (\<lambda>t. fst t \<noteq> c) (timers s)"
    "next_call (fire_timer c s) = next_call s"
    by (simp_all add: fire_timer_def)
  moreover have "filter (\<lambda>t. fst t \<noteq> c) (timers s) = ts"
    using d Cons.hyps(2) t by (auto simp flip: Cons.hyps(2) intro!: filter_True)
  ultimately show ?case
    using Cons.hyps(1) [of "fire_timer c s"] inbox_ok_timeout [OF Cons.prems, of c] t
    by (simp flip: Cons.hyps(2))
qed

text \<open>C29:
  Every wait ends, exactly once: at any time each call of \<open>waitType\<close> has one outcome or one
  running timer, never both, and once the running timers have fired every call has exactly one
  outcome.\<close>

theorem every_wait_ends_once:
  "let s = inbox_run es; s' = fold fire_timer (map fst (timers s)) s
   in mset (map fst (settled s) @ map fst (timers s)) = mset [0 ..< next_call s]
    \<and> timers s' = [] \<and> mset (map fst (settled s')) = mset [0 ..< next_call s]"
  using fire_timers [OF inbox_ok_run, of es] inbox_ok_calls [OF inbox_ok_run, of es]
    inbox_ok_calls [of "fold fire_timer (map fst (timers (inbox_run es))) (inbox_run es)"]
  unfolding Let_def by (metis append_Nil2 list.map(1))

text \<open>
  Two waits for the same type do not both get an answer even if it comes: the second takes the
  place of the first, and the timeout of the first removes the second, so the message that arrives
  afterwards stays in the queue while both calls time out.\<close>

theorem overlapping_waits_lose_reply:
  "let m = JObj [(''type'', JStr ''retention.status'')];
       s = inbox_run [Wait ''retention.status'', Wait ''retention.status'', Timeout 0, Arrive (Some m), Timeout 1]
   in settled s = [(0, TimedOut ''retention.status''), (1, TimedOut ''retention.status'')] \<and> queue s = [m]"
  by code_simp

text \<open>
  The close event of a socket that was replaced arrives after the new session is ready: it is
  not told apart from a close of the current one.
\<close>

lemma late_close_disconnects:
  "connectCompanion p env c = (Inr s, c') \<Longrightarrow> connectionState (on_close c') = Disconnected"
  by (auto simp: on_close_def dest: connect_ready)

end
