(* ===== verification/Runtime.thy ===== *)
theory Runtime
  imports Js_Values Protocol_Types
begin

text \<open>
  The messaging helpers of popup and side panel, \<open>apps/extension/features/companion/runtime.ts\<close>:
  the requests they send to the background script and what they make of its answers. The sender
  is an argument: from the message to the answer, \<open>None\<close> where none comes. \<open>JSON.parse\<close>,
  \<open>JSON.stringify\<close> and the printing of numbers are arguments too.
\<close>

type_synonym RuntimeSend = "json \<Rightarrow> json option"

definition defaultSend :: "RuntimeSend \<Rightarrow> json \<Rightarrow> json" where
  "defaultSend send message =
     (case send message of
        None \<Rightarrow> js_obj [(''ok'', Some (JBool False))]
      | Some JNull \<Rightarrow> js_obj [(''ok'', Some (JBool False))]
      | Some response \<Rightarrow> response)"

section \<open>Answers\<close>

record CompanionPingResult =
  cp_ok :: bool
  cp_ready :: bool
  cp_degraded :: bool
  cp_port :: "real option"
  cp_error :: "string option"

definition interpretCompanionPing :: "json option \<Rightarrow> CompanionPingResult" where
  "interpretCompanionPing res =
     (if \<not> truthy res \<or> sub_field res ''ok'' \<noteq> Some (JBool True)
      then \<lparr>cp_ok = False, cp_ready = False, cp_degraded = False, cp_port = None,
            cp_error = str_of (sub_field res ''error'')\<rparr>
      else if sub_field res ''ws'' = Some (JBool False)
           \<or> (truthy (sub_field res ''bootstrap'') \<and> \<not> truthy (sub_field res ''port'')
              \<and> sub_field res ''ws'' \<noteq> Some (JBool True))
      then \<lparr>cp_ok = True, cp_ready = False, cp_degraded = True,
            cp_port = num_of (sub_field res ''port''), cp_error = None\<rparr>
      else \<lparr>cp_ok = True, cp_ready = True, cp_degraded = False,
            cp_port = num_of (sub_field res ''port''), cp_error = None\<rparr>)"

definition pingCompanion :: "RuntimeSend \<Rightarrow> CompanionPingResult" where
  "pingCompanion send =
     interpretCompanionPing (Some (defaultSend send (js_obj [(''type'', Some (JStr ''companion.ping''))])))"

text \<open>The answer of the settings requests.\<close>

record RuntimeResult =
  rr_ok :: bool
  rr_error :: "string option"
  rr_result :: "json option"

definition is_ok :: "json \<Rightarrow> bool" where
  "is_ok res \<longleftrightarrow> json_field res ''ok'' = Some (JBool True)"

definition error_of :: "json \<Rightarrow> string option" where
  "error_of res = str_of (json_field res ''error'')"

primrec preset_str :: "RetentionPreset \<Rightarrow> string" where
  "preset_str RetSession = ''session''"
| "preset_str RetDays7 = ''days7''"
| "preset_str RetDays30 = ''days30''"
| "preset_str RetKeep = ''keep''"

primrec scope_str :: "WipeScope \<Rightarrow> string" where
  "scope_str ScAll = ''all''"
| "scope_str ScTranscripts = ''transcripts''"
| "scope_str ScTranslations = ''translations''"
| "scope_str ScLyrics = ''lyrics''"
| "scope_str ScPageCache = ''page-cache''"
| "scope_str ScStudy = ''study''"
| "scope_str ScDictionaries = ''dictionaries''"

definition setRetention :: "RetentionPreset \<Rightarrow> RuntimeSend \<Rightarrow> RuntimeResult" where
  "setRetention preset send =
     (let res = defaultSend send (js_obj [(''type'', Some (JStr ''retention.set'')),
                  (''preset'', Some (JStr (preset_str preset)))])
      in \<lparr>rr_ok = is_ok res, rr_error = error_of res, rr_result = json_field res ''result''\<rparr>)"

text \<open>\<open>getRetention\<close>: the preset is passed on when it is truthy, whatever it is.\<close>

definition getRetention :: "RuntimeSend \<Rightarrow> bool \<times> json option \<times> string option" where
  "getRetention send =
     (let res = defaultSend send (js_obj [(''type'', Some (JStr ''retention.get''))]);
          preset = sub_field (json_field res ''result'') ''preset''
      in (is_ok res, if truthy preset then preset else None, error_of res))"

definition wipePrivacy :: "WipeScope \<Rightarrow> RuntimeSend \<Rightarrow> RuntimeResult" where
  "wipePrivacy scope send =
     (let res = defaultSend send (js_obj [(''type'', Some (JStr ''privacy.wipe'')),
                  (''scope'', Some (JStr (scope_str scope)))])
      in \<lparr>rr_ok = is_ok res, rr_error = error_of res, rr_result = json_field res ''result''\<rparr>)"

record HydrateResult =
  hr_ok :: bool
  hr_timeline :: "json option"
  hr_translation :: "json option"
  hr_error :: "string option"

definition hydrateTimeline :: "string \<Rightarrow> string option \<Rightarrow> RuntimeSend \<Rightarrow> HydrateResult" where
  "hydrateTimeline video srcHash send =
     (let res = defaultSend send (js_obj [(''type'', Some (JStr ''timeline.hydrate'')),
                  (''videoId'', Some (JStr video)), (''sourceHash'', map_option JStr srcHash)]);
          result = json_field res ''result''
      in if \<not> is_ok res
         then \<lparr>hr_ok = False, hr_timeline = None, hr_translation = None, hr_error = error_of res\<rparr>
         else \<lparr>hr_ok = True, hr_timeline = sub_field result ''timeline'',
               hr_translation = sub_field result ''translation'', hr_error = None\<rparr>)"

section \<open>Dictionaries\<close>

record LookupResult =
  lr_ok :: bool
  lr_entries :: "json list"
  lr_error :: "string option"

definition lookupDictionary :: "string \<Rightarrow> RuntimeSend \<Rightarrow> LookupResult" where
  "lookupDictionary word send =
     (let res = defaultSend send (js_obj [(''type'', Some (JStr ''dictionary.lookup'')),
                  (''surface'', Some (JStr word))])
      in if \<not> is_ok res then \<lparr>lr_ok = False, lr_entries = [], lr_error = error_of res\<rparr>
         else \<lparr>lr_ok = True,
               lr_entries = opt_or (arr_of (sub_field (json_field res ''result'') ''entries'')) [],
               lr_error = None\<rparr>)"

definition entry_json :: "DictImportEntry \<Rightarrow> json" where
  "entry_json e = js_obj [(''id'', Some (JStr (die_id e))), (''surface'', Some (JStr (die_surface e))),
     (''reading'', map_option JStr (die_reading e)), (''glossaryJson'', map_option JStr (glossaryJson e))]"

record DictionaryImport =
  di_id :: string
  di_name :: string
  di_language :: string
  di_license :: string
  di_entries :: "DictImportEntry list"

definition importDictionary ::
  "DictionaryImport \<Rightarrow> RuntimeSend \<Rightarrow> bool \<times> real option \<times> string option" where
  "importDictionary input send =
     (let res = defaultSend send (js_obj [(''type'', Some (JStr ''dictionary.import'')),
                  (''id'', Some (JStr (di_id input))), (''name'', Some (JStr (di_name input))),
                  (''language'', Some (JStr (di_language input))),
                  (''license'', Some (JStr (di_license input))),
                  (''entries'', Some (JArr (map entry_json (di_entries input))))])
      in if \<not> is_ok res then (False, None, error_of res)
         else (True, Some (opt_or (num_of (sub_field (json_field res ''result'') ''imported''))
                             (real (length (di_entries input)))), None))"

definition dictionaryStats ::
  "RuntimeSend \<Rightarrow> bool \<times> real option \<times> real option \<times> string option" where
  "dictionaryStats send =
     (let res = defaultSend send (js_obj [(''type'', Some (JStr ''dictionary.stats''))]);
          result = json_field res ''result''
      in if \<not> is_ok res then (False, None, None, error_of res)
         else (True, num_of (sub_field result ''dictionaries''),
               num_of (sub_field result ''entries''), None))"

text \<open>Entries of a language kit's lexicon, and the rows the companion imports.\<close>

record LexiconRow =
  lex_id :: string
  lex_lemma :: string
  lex_readings :: "string list option"
  lex_senses :: "string list list"

definition first_reading :: "LexiconRow \<Rightarrow> string option" where
  "first_reading e =
     (case lex_readings e of Some (r # _) \<Rightarrow> if r = [] then None else Some r | _ \<Rightarrow> None)"

definition lexiconToCompanionEntries ::
  "(json \<Rightarrow> string) \<Rightarrow> LexiconRow list \<Rightarrow> int \<Rightarrow> DictImportEntry list" where
  "lexiconToCompanionEntries stringify entries limit =
     map (\<lambda>e. \<lparr>die_id = lex_id e, die_surface = lex_lemma e, die_reading = first_reading e,
               glossaryJson = Some (stringify (JArr (map JStr (concat (lex_senses e)))))\<rparr>)
       (js_slice entries 0 limit)"

definition hit_gloss :: "(string \<Rightarrow> json option) \<Rightarrow> (real \<Rightarrow> string) \<Rightarrow> string option \<Rightarrow> string" where
  "hit_gloss parse num g =
     (case g of
        None \<Rightarrow> []
      | Some s \<Rightarrow>
          if s = [] then []
          else (case parse s of
                  None \<Rightarrow> s
                | Some (JArr xs) \<Rightarrow> js_join num ''; '' xs
                | Some (JStr t) \<Rightarrow> t
                | Some _ \<Rightarrow> []))"

definition formatLookupHit ::
  "(string \<Rightarrow> json option) \<Rightarrow> (real \<Rightarrow> string) \<Rightarrow> DictImportEntry \<Rightarrow> string" where
  "formatLookupHit parse num e =
     (let gloss = hit_gloss parse num (glossaryJson e);
          reading = (case die_reading e of None \<Rightarrow> [] | Some r \<Rightarrow> if r = [] then [] else '' ['' @ r @ '']'')
      in if gloss \<noteq> [] then die_surface e @ reading @ '': '' @ gloss else die_surface e @ reading)"

section \<open>Lemmas\<close>

text \<open>The three verdicts of a ping exclude each other.\<close>

lemma ping_verdict:
  "let r = interpretCompanionPing res
   in cp_ok r = (cp_ready r \<noteq> cp_degraded r) \<and> (cp_error r = None \<or> \<not> cp_ok r)"
  by (simp add: interpretCompanionPing_def Let_def)

lemma first_reading_simps [simp]:
  "first_reading e \<noteq> Some []"
  by (simp add: first_reading_def split: option.split list.split)

text \<open>What the settings requests say when no answer comes.\<close>

lemma unanswered:
  "send = (\<lambda>_. None) \<Longrightarrow> \<not> cp_ok (pingCompanion send) \<and> \<not> rr_ok (setRetention p send)
     \<and> \<not> rr_ok (wipePrivacy sc send) \<and> \<not> hr_ok (hydrateTimeline v h send)
     \<and> \<not> lr_ok (lookupDictionary w send) \<and> \<not> fst (importDictionary i send)
     \<and> \<not> fst (dictionaryStats send) \<and> \<not> fst (getRetention send)"
  by (simp add: pingCompanion_def interpretCompanionPing_def setRetention_def wipePrivacy_def
      hydrateTimeline_def lookupDictionary_def importDictionary_def dictionaryStats_def
      getRetention_def defaultSend_def is_ok_def Let_def)

text \<open>What is imported is what is shown: the rows a lexicon is turned into are, in order, those of
  its first entries up to the limit, and each is displayed as its headword, its first reading in
  brackets and all the glosses of all its senses, provided JSON text that was printed is read
  back.\<close>

theorem imported_entry_is_shown:
  assumes "\<forall>e \<in> set (take n entries). stringify (glosses e) \<noteq> [] \<and> parse (stringify (glosses e)) = Some (glosses e)"
    and "glosses = (\<lambda>e. JArr (map JStr (concat (lex_senses e))))"
  shows "map (formatLookupHit parse num) (lexiconToCompanionEntries stringify entries (int n)) =
    map (\<lambda>e. let gloss = join ''; '' (concat (lex_senses e));
                 shown = lex_lemma e @ (case first_reading e of None \<Rightarrow> [] | Some r \<Rightarrow> '' ['' @ r @ '']'')
             in if gloss = [] then shown else shown @ '': '' @ gloss) (take n entries)"
proof -
  have slice: "js_slice entries 0 (int n) = take n entries"
    by (simp add: js_slice_def slice_index_def min_def)
  have gloss: "hit_gloss parse num (Some (stringify (glosses e))) = join ''; '' (concat (lex_senses e))"
    if "e \<in> set (take n entries)" for e
    using that assms by (simp add: hit_gloss_def js_join_strings)
  show ?thesis
    using gloss unfolding lexiconToCompanionEntries_def slice formatLookupHit_def map_map assms(2)
    by (auto simp: Let_def split: option.split)
qed

theorem imported_entry_is_shown_witness:
  "let e = \<lparr>lex_id = ''1'', lex_lemma = ''neko'', lex_readings = Some [''neko''],
            lex_senses = [[''cat''], [''shamisen'', ''geisha'']]\<rparr>;
       shown = map (formatLookupHit (\<lambda>s. Some (JArr (map JStr (split_on (CHR '','') (tl s))))) (\<lambda>_. []))
         (lexiconToCompanionEntries (\<lambda>j. case j of JArr xs \<Rightarrow> ''['' @ js_join (\<lambda>_. []) '','' xs | _ \<Rightarrow> []) [e] (int 3))
   in shown = [''neko [neko]: cat; shamisen; geisha'']"
  unfolding Let_def
  by (subst imported_entry_is_shown [OF _ refl]) code_simp+

end
