(* ===== verification/Background.thy ===== *)
theory Background
  imports Companion Runtime
begin

text \<open>
  The background script \<open>apps/extension/entrypoints/background.ts\<close>: its module state, the
  forwarding of companion events to the captured tab, and one definition per case of the message
  listener, each a step on the state that gives the answer handed to \<open>sendResponse\<close>. A case is
  one step: requests that interleave at an \<open>await\<close> are not modelled.
\<close>

section \<open>State and environment\<close>

text \<open>What is sent on the session: the typed messages of the client, or an object literal.\<close>

datatype Outgoing = Typed WsMessage | Literal json

text \<open>
  The module's variables, the connection, the stored lyrics permission, and logs of what was sent
  on sessions, to the extension's pages and to tabs.
\<close>

record Bg =
  session :: "CompanionSession option"
  captureJobId :: "string option"
  captureTabId :: "int option"
  audioSeq :: nat
  fanInRegistered :: bool
  conn :: Conn
  lyricsNetworkAllowed :: "json option"
  outbox :: "Outgoing list"
  pages :: "json list"
  tabs :: "(int \<times> json) list"

definition bg_start :: Bg where
  "bg_start = \<lparr>session = None, captureJobId = None, captureTabId = None, audioSeq = 0,
     fanInRegistered = False,
     conn = \<lparr>connectionState = Disconnected, told = [], reconnectAttempt = 0, sleeps = []\<rparr>,
     lyricsNetworkAllowed = None, outbox = [], pages = [], tabs = []\<rparr>"

text \<open>
  What the browser and the companion do during one request: whether the old socket is open, the
  clock, the attempts to reconnect and the last bootstrap, a fresh id, the tabs and windows, the
  side panel, the permission prompt, and for each type waited for when the wait ends and how.
  \<open>Inl\<close> is a rejected promise. Numbers are printed and read by the last two.
\<close>

record Env =
  sock_open :: bool
  clock :: real
  tries :: "nat \<Rightarrow> AttemptEnv"
  last_boot :: "json option"
  uuid :: string
  sender_tab :: "int option"
  active_tab :: "string + int option"
  sender_window :: "int option"
  current_window :: "string + int option"
  panel_open :: "(string + unit) option"
  offscreen_ready :: "string + unit"
  storage_set :: "string + unit"
  native_ping :: "string + json"
  granted :: "string + bool"
  awaited :: "string \<Rightarrow> nat \<times> (string + json)"
  num_str :: "real \<Rightarrow> string"
  to_num :: "json \<Rightarrow> real"

text \<open>The result of the code inside a \<open>try\<close>: the error or the answer, and the state.\<close>

type_synonym 'a attempt = "(string + 'a) \<times> Bg"

definition CONTENT_FAN_IN :: "string list" where
  "CONTENT_FAN_IN = [''timeline.source'', ''timeline.translation'', ''job.progress'', ''error'']"

definition isDemoVideoId :: "string \<Rightarrow> bool" where
  "isDemoVideoId video = startsWith video ''demo_''"

text \<open>
  \<open>registerCompanionFanIn\<close>, and the handler it registers, called with each message the session
  hands to the fan-in.
\<close>

definition registerCompanionFanIn :: "Bg \<Rightarrow> Bg" where
  "registerCompanionFanIn s = (if fanInRegistered s then s else s\<lparr>fanInRegistered := True\<rparr>)"

definition companion_event :: "json \<Rightarrow> json" where
  "companion_event event = js_obj [(''type'', Some (JStr ''companion.event'')), (''event'', Some event)]"

definition fan_in :: "json \<Rightarrow> Bg \<Rightarrow> Bg" where
  "fan_in event s =
     (case str_of (json_field event ''type'') of
        None \<Rightarrow> s
      | Some ty \<Rightarrow>
          if \<not> fanInRegistered s \<or> ty \<notin> set CONTENT_FAN_IN then s
          else (case captureTabId s of
                  None \<Rightarrow> s
                | Some tab \<Rightarrow> s\<lparr>tabs := tabs s @ [(tab, companion_event event)]\<rparr>))"

section \<open>Sessions, messages and answers\<close>

text \<open>\<open>session = await ensureCompanionSession(session); registerCompanionFanIn();\<close>\<close>

definition with_session :: "Env \<Rightarrow> (CompanionSession \<Rightarrow> Bg \<Rightarrow> 'a attempt) \<Rightarrow> Bg \<Rightarrow> 'a attempt" where
  "with_session env body s =
     (case ensureCompanionSession (map_option (\<lambda>x. (x, sock_open env)) (session s))
             (clock env) (tries env) (last_boot env) (conn s) of
        (Inl e, c) \<Rightarrow> (Inl e, s\<lparr>conn := c\<rparr>)
      | (Inr x, c) \<Rightarrow> body x (registerCompanionFanIn (s\<lparr>session := Some x, conn := c\<rparr>)))"

text \<open>The session's token; the companion promises a string.\<close>

definition session_token :: "CompanionSession \<Rightarrow> string" where
  "session_token x = opt_or (str_of (cs_token x)) []"

definition post :: "Outgoing \<Rightarrow> Bg \<Rightarrow> Bg" where
  "post m s = s\<lparr>outbox := outbox s @ [m]\<rparr>"

definition literal :: "string \<Rightarrow> CompanionSession \<Rightarrow> (string \<times> json option) list \<Rightarrow> Outgoing" where
  "literal ty x fs = Literal (js_obj ((''type'', Some (JStr ty)) # (''sessionToken'', cs_token x) # fs))"

definition to_page :: "json \<Rightarrow> Bg \<Rightarrow> Bg" where
  "to_page m s = s\<lparr>pages := pages s @ [m]\<rparr>"

definition ok_answer :: "(string \<times> json option) list \<Rightarrow> json" where
  "ok_answer fs = js_obj ((''ok'', Some (JBool True)) # fs)"

definition error_answer :: "string \<Rightarrow> json" where
  "error_answer e = js_obj [(''ok'', Some (JBool False)), (''error'', Some (JStr e))]"

text \<open>The \<open>catch\<close> of every case; an answer is given in either case.\<close>

definition answer :: "json attempt \<Rightarrow> json option \<times> Bg" where
  "answer r = (case r of (Inl e, s) \<Rightarrow> (Some (error_answer e), s) | (Inr j, s) \<Rightarrow> (Some j, s))"

text \<open>\<open>const result = await session.waitType(type); sendResponse({ ok: true, result });\<close>\<close>

definition wait_for :: "Env \<Rightarrow> string \<Rightarrow> string + json" where
  "wait_for env ty = snd (awaited env ty)"

definition result_of :: "Env \<Rightarrow> string \<Rightarrow> Bg \<Rightarrow> json attempt" where
  "result_of env ty s =
     (case wait_for env ty of
        Inl e \<Rightarrow> (Inl e, s)
      | Inr r \<Rightarrow> (Inr (ok_answer [(''result'', Some r)]), s))"

text \<open>\<open>Promise.race\<close>: the wait that ends first decides; on a tie, the first in the list.\<close>

definition race :: "Env \<Rightarrow> string \<Rightarrow> string \<Rightarrow> string + json" where
  "race env a b = (if fst (awaited env a) \<le> fst (awaited env b) then wait_for env a else wait_for env b)"

text \<open>\<open>message.k ?? d\<close>.\<close>

definition or_default :: "json \<Rightarrow> string \<Rightarrow> json \<Rightarrow> json" where
  "or_default m k d = opt_or (field_or m k) d"

section \<open>Captions of the fixtures\<close>

definition fixture_track :: "string \<Rightarrow> string \<Rightarrow> string \<Rightarrow> json" where
  "fixture_track i kind label = js_obj [(''id'', Some (JStr i)), (''language'', Some (JStr ''en'')),
     (''kind'', Some (JStr kind)), (''label'', Some (JStr label))]"

definition fixtureTracks :: "(string \<times> json list) list" where
  "fixtureTracks =
     [(''demo_human'', [fixture_track ''en-human'' ''human'' ''English (human)'']),
      (''demo_auto'', [fixture_track ''en-auto'' ''auto'' ''English (auto)'']),
      (''demo_none'', []),
      (''demo_empty'', [fixture_track ''en-empty'' ''human'' ''English''])]"

definition captions_list :: "Env \<Rightarrow> json \<Rightarrow> Bg \<Rightarrow> json option \<times> Bg" where
  "captions_list env m s =
     (let vid = text_field (num_str env) m ''videoId'' []
      in (Some (JArr (if isDemoVideoId vid then opt_or (map_of fixtureTracks vid) [] else [])), s))"

definition fixture_event :: "real \<Rightarrow> real \<Rightarrow> string \<Rightarrow> json" where
  "fixture_event start dur line = js_obj [(''tStartMs'', Some (JNum start)), (''dDurationMs'', Some (JNum dur)),
     (''segs'', Some (JArr [js_obj [(''utf8'', Some (JStr line))]]))]"

definition captions_fetch_events :: "Env \<Rightarrow> json \<Rightarrow> Bg \<Rightarrow> json option \<times> Bg" where
  "captions_fetch_events env m s =
     (let vid = text_field (num_str env) m ''videoId'' []
      in if \<not> isDemoVideoId vid then (Some (JArr []), s)
         else if vid = ''demo_empty'' \<or> vid = ''demo_none'' then (Some (JArr []), s)
         else if vid = ''demo_auto'' then (Some (JArr [fixture_event 0 1200 ''auto generated line'']), s)
         else (Some (JArr [fixture_event 0 2000 ''Hello from captions'',
                 fixture_event 2000 2000 ''Local inference stays offline'']), s))"

section \<open>Base-64 audio\<close>

definition b64_value :: "char \<Rightarrow> nat option" where
  "b64_value c =
     (if 65 \<le> code c \<and> code c \<le> 90 then Some (code c - 65)
      else if 97 \<le> code c \<and> code c \<le> 122 then Some (code c - 71)
      else if 48 \<le> code c \<and> code c \<le> 57 then Some (code c + 4)
      else if c = CHR ''+'' then Some 62 else if c = CHR ''/'' then Some 63 else None)"

fun b64_bytes :: "nat list \<Rightarrow> 8 word list" where
  "b64_bytes (a # b # c # d # vs) =
     [word_of_nat (a * 4 + b div 16), word_of_nat (b * 16 + c div 4), word_of_nat (c * 64 + d)] @ b64_bytes vs"
| "b64_bytes [a, b, c] = [word_of_nat (a * 4 + b div 16), word_of_nat (b * 16 + c div 4)]"
| "b64_bytes [a, b] = [word_of_nat (a * 4 + b div 16)]"
| "b64_bytes _ = []"

text \<open>
  \<open>atob\<close>: white space is dropped, then at most two padding characters of a text whose length is
  a multiple of four; \<open>None\<close> is the exception for a text of impossible length or with a foreign
  character.
\<close>

definition b64_space :: "char \<Rightarrow> bool" where
  "b64_space c \<longleftrightarrow> code c \<in> {9, 10, 12, 13, 32}"

definition drop_padding :: "string \<Rightarrow> string" where
  "drop_padding t =
     (if length t mod 4 = 0 \<and> t \<noteq> [] \<and> last t = CHR ''=''
      then (if butlast t \<noteq> [] \<and> last (butlast t) = CHR ''='' then butlast (butlast t) else butlast t)
      else t)"

definition atob :: "string \<Rightarrow> 8 word list option" where
  "atob s =
     (let t = drop_padding (filter (\<lambda>c. \<not> b64_space c) s)
      in if length t mod 4 = 1 \<or> \<not> list_all (\<lambda>c. b64_value c \<noteq> None) t then None
         else Some (b64_bytes (map (\<lambda>c. the (b64_value c)) t)))"

definition base64ToBytes :: "string \<Rightarrow> 8 word list option" where
  "base64ToBytes b64 = (if b64 = [] then Some [] else atob b64)"

section \<open>Capturing\<close>

definition capture_job :: "Env \<Rightarrow> json \<Rightarrow> CompanionSession \<Rightarrow> WsMessage" where
  "capture_job env m x =
     submitJob (session_token x) (uuid env) KAsr (text_field (num_str env) m ''videoId'' ''live'') None"

text \<open>The tab: the sender's or, failing that, the active one.\<close>

definition capture_tab :: "Env \<Rightarrow> string + int option" where
  "capture_tab env = (case sender_tab env of Some t \<Rightarrow> Inr (Some t) | None \<Rightarrow> active_tab env)"

definition capture_start :: "Env \<Rightarrow> json \<Rightarrow> Bg \<Rightarrow> json option \<times> Bg" where
  "capture_start env m s = answer (with_session env (\<lambda>x s.
     let jobId = uuid env; s = s\<lparr>captureJobId := Some jobId, audioSeq := 0\<rparr>
     in case capture_tab env of
          Inl e \<Rightarrow> (Inl e, s)
        | Inr tab \<Rightarrow>
            let s = post (Typed (capture_job env m x)) (s\<lparr>captureTabId := tab\<rparr>)
            in case offscreen_ready env of
                 Inl e \<Rightarrow> (Inl e, s)
               | Inr _ \<Rightarrow>
                   (Inr (ok_answer [(''active'', Some (JBool True)), (''jobId'', Some (JStr jobId))]),
                    to_page (js_obj [(''type'', Some (JStr ''offscreen.capture'')),
                      (''videoId'', json_field m ''videoId''), (''jobId'', Some (JStr jobId)),
                      (''tabId'', map_option (\<lambda>t. JNum (of_int t)) tab)]) s)) s)"

text \<open>\<open>message.jobId ?? captureJobId ?? ""\<close>, and the sampling rate.\<close>

definition chunk_job :: "Env \<Rightarrow> json \<Rightarrow> Bg \<Rightarrow> string" where
  "chunk_job env m s = text_field (num_str env) m ''jobId'' (opt_or (captureJobId s) [])"

definition chunk_rate :: "Env \<Rightarrow> json \<Rightarrow> real" where
  "chunk_rate env m =
     (case field_or m ''sampleRateHz'' of None \<Rightarrow> 48000 | Some (JNum x) \<Rightarrow> x | Some v \<Rightarrow> to_num env v)"

definition chunk_bytes :: "Env \<Rightarrow> json \<Rightarrow> 8 word list option" where
  "chunk_bytes env m = base64ToBytes (text_field (num_str env) m ''pcmI16LeBase64'' [])"

text \<open>The number is taken before the audio is decoded; the answer names the next number.\<close>

definition capture_chunk :: "Env \<Rightarrow> json \<Rightarrow> Bg \<Rightarrow> json option \<times> Bg" where
  "capture_chunk env m s = answer (with_session env (\<lambda>x s.
     let jobId = chunk_job env m s
     in if jobId = [] then (Inr (error_answer ''no-capture-job''), s)
        else
          let number = audioSeq s; s = s\<lparr>audioSeq := number + 1\<rparr>
          in case chunk_bytes env m of
               None \<Rightarrow> (Inl ''InvalidCharacterError'', s)
             | Some bytes \<Rightarrow>
                 (Inr (ok_answer [(''seq'', Some (JNum (of_nat (audioSeq s))))]),
                  post (Typed (sendAudioChunk (session_token x) jobId (chunk_rate env m) number bytes)) s)) s)"

text \<open>The signal to the running job, if there is one.\<close>

definition signal_job :: "string \<Rightarrow> Bg \<Rightarrow> Bg" where
  "signal_job ty s =
     (case (session s, captureJobId s) of
        (Some x, Some job) \<Rightarrow>
          if job = [] then s else post (literal ty x [(''jobId'', Some (JStr job))]) s
      | _ \<Rightarrow> s)"

definition page_signal :: "string \<Rightarrow> json" where
  "page_signal ty = js_obj [(''type'', Some (JStr ty))]"

definition capture_cancel :: "Bg \<Rightarrow> json option \<times> Bg" where
  "capture_cancel s =
     (Some (ok_answer []),
      (to_page (page_signal ''offscreen.stop'') (signal_job ''job.cancel'' s))
        \<lparr>captureJobId := None, captureTabId := None\<rparr>)"

definition capture_pause :: "Bg \<Rightarrow> json option \<times> Bg" where
  "capture_pause s =
     (Some (ok_answer []), to_page (page_signal ''offscreen.pause'') (signal_job ''job.pause'' s))"

definition capture_resume :: "Bg \<Rightarrow> json option \<times> Bg" where
  "capture_resume s =
     (Some (ok_answer []), to_page (page_signal ''offscreen.resume'') (signal_job ''job.resume'' s))"

section \<open>Companion and user interface\<close>

definition ping_session :: "Env \<Rightarrow> Bg \<Rightarrow> json attempt" where
  "ping_session env = with_session env (\<lambda>x s.
     let s = post (literal ''session.ping'' x [(''atMs'', Some (JNum (clock env)))]) s
     in case wait_for env ''session.pong'' of
          Inl e \<Rightarrow> (Inl e, s)
        | Inr _ \<Rightarrow> (Inr (ok_answer [(''ws'', Some (JBool True)), (''port'', Some (JNum (cs_port x))),
                       (''protocolVersion'', Some (JStr ''1.0.0''))]), s))"

definition companion_ping :: "Env \<Rightarrow> Bg \<Rightarrow> json option \<times> Bg" where
  "companion_ping env s =
     (case ping_session env s of
        (Inr j, s) \<Rightarrow> (Some j, s)
      | (Inl e, s) \<Rightarrow>
          (case native_ping env of
             Inr res \<Rightarrow> (Some (ok_answer [(''bootstrap'', Some res), (''ws'', Some (JBool False)),
                                 (''degraded'', Some (JBool True))]), s)
           | Inl _ \<Rightarrow> (Some (error_answer e), s)))"

definition ui_open_sidepanel :: "Env \<Rightarrow> Bg \<Rightarrow> json option \<times> Bg" where
  "ui_open_sidepanel env s = answer
     (case (case sender_window env of Some w \<Rightarrow> Inr (Some w) | None \<Rightarrow> current_window env) of
        Inl e \<Rightarrow> (Inl e, s)
      | Inr window \<Rightarrow>
          (case (window, panel_open env) of
             (Some _, Some (Inl e)) \<Rightarrow> (Inl e, s)
           | (Some _, Some (Inr _)) \<Rightarrow> (Inr (ok_answer []), s)
           | _ \<Rightarrow> (Inr (error_answer ''side-panel-unavailable''), s)))"

definition companion_translate :: "Env \<Rightarrow> json \<Rightarrow> Bg \<Rightarrow> json option \<times> Bg" where
  "companion_translate env m s = answer (with_session env (\<lambda>x s.
     result_of env ''timeline.translation''
       (post (Typed (submitJob (session_token x) (uuid env) KTranslate
          (text_field (num_str env) m ''videoId'' ''unknown'')
          (Some [(''texts'', or_default m ''texts'' (JArr [])),
                 (''targetLang'', or_default m ''targetLang'' (JStr ''en''))]))) s)) s)"

definition page_translate_request_permission :: "Env \<Rightarrow> Bg \<Rightarrow> json option \<times> Bg" where
  "page_translate_request_permission env s =
     (case granted env of Inl _ \<Rightarrow> (None, s) | Inr g \<Rightarrow> (Some (js_obj [(''granted'', Some (JBool g))]), s))"

definition page_translate_submit :: "Env \<Rightarrow> json \<Rightarrow> Bg \<Rightarrow> json option \<times> Bg" where
  "page_translate_submit env m s = answer (with_session env (\<lambda>x s.
     let jobId = uuid env;
         s = post (Typed (submitJob (session_token x) jobId KPageTranslate
               (text_field (num_str env) m ''canonicalUrl'' ''page'')
               (Some [(''segments'', or_default m ''segments'' (JArr [])),
                      (''targetLang'', or_default m ''targetLang'' (JStr ''en'')),
                      (''canonicalUrl'', or_default m ''canonicalUrl'' (JStr []))]))) s
     in case wait_for env ''page.translate.result'' of
          Inl e \<Rightarrow> (Inl e, s)
        | Inr r \<Rightarrow>
            (Inr (ok_answer [(''results'', Some (opt_or (json_field r ''results'') (JArr []))),
                    (''jobId'', Some (JStr jobId))]), s)) s)"

section \<open>Lyrics\<close>

definition lyrics_set_network :: "Env \<Rightarrow> json \<Rightarrow> Bg \<Rightarrow> json option \<times> Bg" where
  "lyrics_set_network env m s = answer
     (let allowed = JBool (truthy (json_field m ''allowed''))
      in case storage_set env of
           Inl e \<Rightarrow> (Inl e, s)
         | Inr _ \<Rightarrow> with_session env (\<lambda>x s.
             (Inr (ok_answer [(''allowed'', Some allowed)]),
              post (literal ''settings.lyrics.network'' x [(''allowed'', Some allowed)]) s))
             (s\<lparr>lyricsNetworkAllowed := Some allowed\<rparr>))"

definition lyrics_fetch_lrclib :: "Env \<Rightarrow> json \<Rightarrow> Bg \<Rightarrow> json option \<times> Bg" where
  "lyrics_fetch_lrclib env m s = answer
     (if \<not> truthy (lyricsNetworkAllowed s) then (Inr (error_answer ''lyrics-network-disabled''), s)
      else with_session env (\<lambda>x s.
        let s = post (literal ''settings.lyrics.network'' x [(''allowed'', Some (JBool True))]) s;
            s = post (literal ''lyrics.resolve'' x [(''jobId'', Some (JStr (uuid env))),
                  (''videoId'', Some (or_default m ''videoId'' (JStr ''unknown''))),
                  (''trackName'', Some (or_default m ''trackName'' (JStr []))),
                  (''artistName'', json_field m ''artistName'')]) s
        in case race env ''lyrics.timeline'' ''error'' of
             Inl e \<Rightarrow> (Inl e, s)
           | Inr r \<Rightarrow> (Inr (ok_answer [(''result'', Some r)]), s)) s)"

text \<open>A rejected query of the tabs leaves the request without an answer.\<close>

definition lyrics_import_lrc :: "Env \<Rightarrow> json \<Rightarrow> Bg \<Rightarrow> json option \<times> Bg" where
  "lyrics_import_lrc env m s =
     (case active_tab env of
        Inl _ \<Rightarrow> (None, s)
      | Inr tab \<Rightarrow>
          (Some (ok_answer []),
           (case tab of
              None \<Rightarrow> s
            | Some t \<Rightarrow>
                if t = 0 then s
                else s\<lparr>tabs := tabs s @ [(t, js_obj [(''type'', Some (JStr ''lyrics.import'')),
                       (''format'', Some (or_default m ''format'' (JStr ''lrc''))),
                       (''content'', Some (or_default m ''content'' (JStr []))),
                       (''videoId'', json_field m ''videoId'')])]\<rparr>)))"

section \<open>Requests passed on to the companion\<close>

text \<open>Send an object literal on the session and answer with the message waited for.\<close>

definition relay ::
  "Env \<Rightarrow> string \<Rightarrow> (string \<times> json option) list \<Rightarrow> string \<Rightarrow> Bg \<Rightarrow> json option \<times> Bg" where
  "relay env ty fs reply s =
     answer (with_session env (\<lambda>x s. result_of env reply (post (literal ty x fs) s)) s)"

definition study_sync :: "Env \<Rightarrow> json \<Rightarrow> Bg \<Rightarrow> json option \<times> Bg" where
  "study_sync env m = relay env ''study.sync''
     [(''op'', Some (or_default m ''op'' (JStr ''list''))), (''kind'', json_field m ''kind''),
      (''id'', json_field m ''id''), (''payload'', json_field m ''payload'')] ''study.sync.result''"

definition privacy_wipe :: "Env \<Rightarrow> json \<Rightarrow> Bg \<Rightarrow> json option \<times> Bg" where
  "privacy_wipe env m = relay env ''privacy.wipe''
     [(''scope'', Some (or_default m ''scope'' (JStr ''all'')))] ''privacy.wipe.result''"

definition retention_set :: "Env \<Rightarrow> json \<Rightarrow> Bg \<Rightarrow> json option \<times> Bg" where
  "retention_set env m = relay env ''retention.set''
     [(''preset'', Some (or_default m ''preset'' (JStr ''days7'')))] ''retention.status''"

definition retention_get :: "Env \<Rightarrow> Bg \<Rightarrow> json option \<times> Bg" where
  "retention_get env = relay env ''retention.get'' [] ''retention.status''"

definition timeline_hydrate :: "Env \<Rightarrow> json \<Rightarrow> Bg \<Rightarrow> json option \<times> Bg" where
  "timeline_hydrate env m = relay env ''timeline.hydrate''
     [(''videoId'', json_field m ''videoId''), (''sourceHash'', json_field m ''sourceHash'')]
     ''timeline.hydrated''"

definition dictionary_lookup :: "Env \<Rightarrow> json \<Rightarrow> Bg \<Rightarrow> json option \<times> Bg" where
  "dictionary_lookup env m = relay env ''dictionary.lookup''
     [(''surface'', Some (JStr (text_field (num_str env) m ''surface'' [])))] ''dictionary.lookup''"

definition dictionary_import :: "Env \<Rightarrow> json \<Rightarrow> Bg \<Rightarrow> json option \<times> Bg" where
  "dictionary_import env m = relay env ''dictionary.import''
     [(''id'', Some (JStr (text_field (num_str env) m ''id'' (uuid env)))),
      (''name'', Some (JStr (text_field (num_str env) m ''name'' ''imported''))),
      (''language'', Some (JStr (text_field (num_str env) m ''language'' ''und''))),
      (''license'', Some (JStr (text_field (num_str env) m ''license'' ''verify-before-redistribution''))),
      (''payloadPath'', json_field m ''payloadPath''),
      (''entries'', Some (or_default m ''entries'' (JArr [])))] ''dictionary.import''"

definition dictionary_stats :: "Env \<Rightarrow> Bg \<Rightarrow> json option \<times> Bg" where
  "dictionary_stats env = relay env ''dictionary.stats'' [] ''dictionary.stats''"

section \<open>The message listener\<close>

text \<open>The cases of the switch, in the order of the code; \<open>None\<close> is the default case.\<close>

datatype Request =
    CaptionsList | CaptionsFetchEvents | CaptureStart | CaptureChunk | CaptureCancel | CapturePause
  | CaptureResume | CompanionPing | OpenSidepanel | CompanionTranslate | LyricsSetNetwork
  | LyricsFetchLrclib | LyricsImportLrc | RequestPermission | PageTranslateSubmit | StudySync
  | PrivacyWipe | RetentionSet | RetentionGet | TimelineHydrate | DictionaryLookup
  | DictionaryImportReq | DictionaryStats

definition request_names :: "(string \<times> Request) list" where
  "request_names =
     [(''captions.list'', CaptionsList), (''captions.fetch-events'', CaptionsFetchEvents),
      (''capture.start'', CaptureStart), (''capture.chunk'', CaptureChunk),
      (''capture.cancel'', CaptureCancel), (''capture.pause'', CapturePause),
      (''capture.resume'', CaptureResume), (''companion.ping'', CompanionPing),
      (''ui.open-sidepanel'', OpenSidepanel), (''companion.translate'', CompanionTranslate),
      (''lyrics.set-network'', LyricsSetNetwork), (''lyrics.fetch-lrclib'', LyricsFetchLrclib),
      (''lyrics.import-lrc'', LyricsImportLrc), (''page-translate.request-permission'', RequestPermission),
      (''page-translate.submit'', PageTranslateSubmit), (''study.sync'', StudySync),
      (''privacy.wipe'', PrivacyWipe), (''retention.set'', RetentionSet),
      (''retention.get'', RetentionGet), (''timeline.hydrate'', TimelineHydrate),
      (''dictionary.lookup'', DictionaryLookup), (''dictionary.import'', DictionaryImportReq),
      (''dictionary.stats'', DictionaryStats)]"

definition request_of :: "json \<Rightarrow> Request option" where
  "request_of m =
     (case str_of (json_field m ''type'') of None \<Rightarrow> None | Some ty \<Rightarrow> map_of request_names ty)"

primrec handle_request :: "Request \<Rightarrow> Env \<Rightarrow> json \<Rightarrow> Bg \<Rightarrow> json option \<times> Bg" where
  "handle_request CaptionsList env m s = captions_list env m s"
| "handle_request CaptionsFetchEvents env m s = captions_fetch_events env m s"
| "handle_request CaptureStart env m s = capture_start env m s"
| "handle_request CaptureChunk env m s = capture_chunk env m s"
| "handle_request CaptureCancel env m s = capture_cancel s"
| "handle_request CapturePause env m s = capture_pause s"
| "handle_request CaptureResume env m s = capture_resume s"
| "handle_request CompanionPing env m s = companion_ping env s"
| "handle_request OpenSidepanel env m s = ui_open_sidepanel env s"
| "handle_request CompanionTranslate env m s = companion_translate env m s"
| "handle_request LyricsSetNetwork env m s = lyrics_set_network env m s"
| "handle_request LyricsFetchLrclib env m s = lyrics_fetch_lrclib env m s"
| "handle_request LyricsImportLrc env m s = lyrics_import_lrc env m s"
| "handle_request RequestPermission env m s = page_translate_request_permission env s"
| "handle_request PageTranslateSubmit env m s = page_translate_submit env m s"
| "handle_request StudySync env m s = study_sync env m s"
| "handle_request PrivacyWipe env m s = privacy_wipe env m s"
| "handle_request RetentionSet env m s = retention_set env m s"
| "handle_request RetentionGet env m s = retention_get env s"
| "handle_request TimelineHydrate env m s = timeline_hydrate env m s"
| "handle_request DictionaryLookup env m s = dictionary_lookup env m s"
| "handle_request DictionaryImportReq env m s = dictionary_import env m s"
| "handle_request DictionaryStats env m s = dictionary_stats env s"

definition handle :: "Env \<Rightarrow> json \<Rightarrow> Bg \<Rightarrow> json option \<times> Bg" where
  "handle env m s =
     (case request_of m of
        None \<Rightarrow> (Some (error_answer ''unknown-message''), s)
      | Some r \<Rightarrow> handle_request r env m s)"

text \<open>Requests and pushed companion messages, in any order.\<close>

datatype BgEvent = Asked Env json | Pushed json

primrec bg_step :: "BgEvent \<Rightarrow> Bg \<Rightarrow> Bg" where
  "bg_step (Asked env m) s = snd (handle env m s)"
| "bg_step (Pushed event) s = fan_in event s"

definition bg_run :: "BgEvent list \<Rightarrow> Bg \<Rightarrow> Bg" where
  "bg_run es s = fold bg_step es s"

end
