(* ===== verification/Background_Props.thy ===== *)
theory Background_Props
  imports Background
begin

text \<open>
  What holds of the background script: requests that leave the capture alone, relations that
  hold along every run of requests and pushed messages, the numbering of audio chunks, the lyrics
  permission, the silence after a cancel, the answer to the popup's ping, and base-64 audio.
\<close>


section \<open>Sessions\<close>

text \<open>A request on the session: the connection fails and nothing else changes, or the body runs.\<close>

lemma with_session_cases:
  obtains (failed) e c where "with_session env body s = (Inl e, s\<lparr>conn := c\<rparr>)"
    | (runs) x c where "with_session env body s =
        body x (s\<lparr>session := Some x, conn := c, fanInRegistered := True\<rparr>)"
proof -
  have reg: "registerCompanionFanIn t = t\<lparr>fanInRegistered := True\<rparr>" for t
    by (simp add: registerCompanionFanIn_def)
  obtain r c where "ensureCompanionSession (map_option (\<lambda>x. (x, sock_open env)) (session s))
             (clock env) (tries env) (last_boot env) (conn s) = (r, c)" by force
  then show thesis using that by (cases r) (simp_all add: with_session_def reg)
qed

lemma with_session_attempt:
  assumes "\<And>e c. Q (Inl e, s\<lparr>conn := c\<rparr>)"
    and "\<And>x c. Q (body x (s\<lparr>session := Some x, conn := c, fanInRegistered := True\<rparr>))"
  shows "Q (with_session env body s)"
  by (rule with_session_cases [of env body s]) (simp_all add: assms)

lemma with_session_rule:
  assumes "\<And>c. P (s\<lparr>conn := c\<rparr>)"
    and "\<And>x c. P (snd (body x (s\<lparr>session := Some x, conn := c, fanInRegistered := True\<rparr>)))"
  shows "P (snd (with_session env body s))"
  by (rule with_session_cases [of env body s]) (simp_all add: assms)

lemma answer_state [simp]: "snd (answer r) = snd r"
  by (simp add: answer_def split: prod.split sum.split)

lemma post_simps [simp]:
  "session (post m s) = session s" "captureJobId (post m s) = captureJobId s"
  "captureTabId (post m s) = captureTabId s" "audioSeq (post m s) = audioSeq s"
  "lyricsNetworkAllowed (post m s) = lyricsNetworkAllowed s" "tabs (post m s) = tabs s"
  "outbox (post m s) = outbox s @ [m]" "fanInRegistered (post m s) = fanInRegistered s"
  by (simp_all add: post_def)

lemma to_page_simps [simp]:
  "session (to_page m s) = session s" "captureJobId (to_page m s) = captureJobId s"
  "captureTabId (to_page m s) = captureTabId s" "audioSeq (to_page m s) = audioSeq s"
  "lyricsNetworkAllowed (to_page m s) = lyricsNetworkAllowed s" "tabs (to_page m s) = tabs s"
  "outbox (to_page m s) = outbox s" "fanInRegistered (to_page m s) = fanInRegistered s"
  by (simp_all add: to_page_def)

lemma result_of_state [simp]: "snd (result_of env ty s) = s"
  by (simp add: result_of_def split: sum.split)

section \<open>What a request leaves alone\<close>

text \<open>The sequence numbers of the audio chunks, and the requests to look lyrics up in the network.\<close>

definition chunk_number :: "Outgoing \<Rightarrow> nat list" where
  "chunk_number m = (case m of Typed (MAudioChunk _ _ _ n _) \<Rightarrow> [n] | _ \<Rightarrow> [])"

definition chunk_numbers :: "Outgoing list \<Rightarrow> nat list" where
  "chunk_numbers ms = concat (map chunk_number ms)"

fun has_type :: "string list \<Rightarrow> Outgoing \<Rightarrow> bool" where
  "has_type tys (Literal j) = (\<exists>ty \<in> set tys. json_field j ''type'' = Some (JStr ty))"
| "has_type tys (Typed _) = False"

text \<open>
  A step that sends messages without audio, lookups or signals, and touches neither the capture
  nor the stored permission nor the tabs.
\<close>

definition SIGNALS :: "string list" where
  "SIGNALS = [''job.cancel'', ''job.pause'', ''job.resume'']"

definition plain :: "Outgoing \<Rightarrow> bool" where
  "plain m \<longleftrightarrow> chunk_number m = [] \<and> \<not> has_type (''lyrics.resolve'' # SIGNALS) m"

definition quiet :: "Bg \<Rightarrow> Bg \<Rightarrow> bool" where
  "quiet s s' \<longleftrightarrow> audioSeq s' = audioSeq s \<and> captureJobId s' = captureJobId s
     \<and> captureTabId s' = captureTabId s \<and> lyricsNetworkAllowed s' = lyricsNetworkAllowed s
     \<and> tabs s' = tabs s \<and> (\<exists>ms. outbox s' = outbox s @ ms \<and> list_all plain ms)"

lemma quiet_refl [simp, intro]: "quiet s s"
  by (simp add: quiet_def)

lemma quiet_post: "plain m \<Longrightarrow> quiet s (post m s)"
  by (simp add: quiet_def)

lemma quiet_session:
  assumes "\<And>x s. quiet s (snd (body x s))"
  shows "quiet s (snd (with_session env body s))"
proof (rule with_session_rule [where P = "quiet s"])
  fix x c
  show "quiet s (snd (body x (s\<lparr>session := Some x, conn := c, fanInRegistered := True\<rparr>)))"
    using assms [of "s\<lparr>session := Some x, conn := c, fanInRegistered := True\<rparr>" x]
    by (simp add: quiet_def)
qed (simp add: quiet_def)

lemma plain_literal:
  "plain (literal ty x fs) \<longleftrightarrow> ty \<notin> set (''lyrics.resolve'' # SIGNALS)"
  by (simp add: plain_def literal_def chunk_number_def)

lemma plain_submit [simp]: "plain (Typed (submitJob t j k v p))"
  by (simp add: plain_def submitJob_def createJobSubmit_def chunk_number_def)

lemma quiet_relay:
  "ty \<notin> set (''lyrics.resolve'' # SIGNALS) \<Longrightarrow> quiet s (snd (relay env ty fs reply s))"
  by (simp add: relay_def quiet_session quiet_post plain_literal)

lemmas quiet_relays = study_sync_def privacy_wipe_def retention_set_def retention_get_def
  timeline_hydrate_def dictionary_lookup_def dictionary_import_def dictionary_stats_def

text \<open>The requests that are quiet.\<close>

definition is_quiet :: "Request \<Rightarrow> bool" where
  "is_quiet r \<longleftrightarrow> r \<notin> {CaptureStart, CaptureChunk, CaptureCancel, CapturePause, CaptureResume,
     LyricsSetNetwork, LyricsFetchLrclib, LyricsImportLrc}"

lemma quiet_ping: "quiet s (snd (companion_ping env s))"
proof -
  have "quiet s (snd (ping_session env s))"
    unfolding ping_session_def by (rule quiet_session)
      (simp add: Let_def quiet_post plain_literal SIGNALS_def split: sum.split)
  then show ?thesis by (auto simp: companion_ping_def split: prod.split sum.split)
qed

lemma quiet_request: "is_quiet r \<Longrightarrow> quiet s (snd (handle_request r env m s))"
proof (cases r)
  case CompanionTranslate
  then show ?thesis by (simp add: companion_translate_def quiet_session quiet_post)
next
  case PageTranslateSubmit
  then show ?thesis unfolding handle_request.simps PageTranslateSubmit page_translate_submit_def answer_state
    by (intro quiet_session) (simp add: Let_def quiet_post split: sum.split)
qed (simp_all add: is_quiet_def captions_list_def captions_fetch_events_def quiet_ping
    ui_open_sidepanel_def page_translate_request_permission_def quiet_relays quiet_relay SIGNALS_def
    Let_def split: sum.split prod.split option.split)


section \<open>Runs\<close>

text \<open>
  The contract of a property of runs: a relation between the state before and after that holds of
  no step, composes, and holds of every single step the events allow, holds of every run.
\<close>

locale run_relation =
  fixes rel :: "Bg \<Rightarrow> Bg \<Rightarrow> bool" and allowed :: "BgEvent \<Rightarrow> bool"
  assumes rel_refl: "rel s s"
    and rel_trans: "rel s t \<Longrightarrow> rel t u \<Longrightarrow> rel s u"
    and rel_step: "allowed e \<Longrightarrow> rel s (bg_step e s)"
begin

lemma rel_run: "list_all allowed es \<Longrightarrow> rel s (bg_run es s)"
  unfolding bg_run_def by (induction es arbitrary: s) (auto intro: rel_refl rel_trans rel_step)

end

text \<open>The request an event makes.\<close>

definition asks :: "Request \<Rightarrow> BgEvent \<Rightarrow> bool" where
  "asks r e = (case e of Asked env m \<Rightarrow> request_of m = Some r | Pushed _ \<Rightarrow> False)"

text \<open>Events by what they do: pushed messages, quiet requests, and the others.\<close>

lemma event_cases:
  obtains (pushed) j where "e = Pushed j"
    | (quiet) env m where "e = Asked env m" "\<And>s. quiet s (bg_step e s)"
    | (other) env m r where "e = Asked env m" "request_of m = Some r" "\<not> is_quiet r"
        "\<And>s. bg_step e s = snd (handle_request r env m s)"
proof (cases e)
  case (Asked env m)
  show thesis
  proof (cases "request_of m")
    case None
    then show thesis by (intro quiet [OF Asked]) (simp add: Asked handle_def)
  next
    case (Some r)
    have step: "bg_step e s = snd (handle_request r env m s)" for s
      by (simp add: Asked handle_def Some)
    show thesis
    proof (cases "is_quiet r")
      case True
      then show thesis using quiet_request by (intro quiet [OF Asked]) (simp add: step)
    qed (use other Asked Some step in blast)
  qed
qed (use pushed in blast)

lemma not_quiet:
  "\<not> is_quiet r \<longleftrightarrow> r = CaptureStart \<or> r = CaptureChunk \<or> r = CaptureCancel \<or> r = CapturePause
     \<or> r = CaptureResume \<or> r = LyricsSetNetwork \<or> r = LyricsFetchLrclib \<or> r = LyricsImportLrc"
  by (auto simp: is_quiet_def)

section \<open>The numbers of the audio chunks\<close>

lemma chunk_numbers_append [simp]: "chunk_numbers (ms @ ns) = chunk_numbers ms @ chunk_numbers ns"
  by (simp add: chunk_numbers_def)

lemma chunk_numbers_plain: "list_all plain ms \<Longrightarrow> chunk_numbers ms = []"
  by (induction ms) (simp_all add: chunk_numbers_def plain_def)

lemma chunk_number_eval [simp]:
  "chunk_number (literal ty x fs) = []"
  "chunk_number (Typed (submitJob t j k v p)) = []"
  "chunk_number (Typed (sendAudioChunk t j r n bs)) = [n]"
  by (simp_all add: chunk_number_def literal_def submitJob_def createJobSubmit_def sendAudioChunk_def)

lemma chunk_numbers_eval [simp]:
  "chunk_numbers [] = []" "chunk_numbers [m] = chunk_number m"
  "chunk_numbers (m # ms) = chunk_number m @ chunk_numbers ms"
  by (simp_all add: chunk_numbers_def)

definition sent_numbers :: "Bg \<Rightarrow> Bg \<Rightarrow> nat list" where
  "sent_numbers s s' = chunk_numbers (drop (length (outbox s)) (outbox s'))"

text \<open>The numbers used between two states, and the case without gaps.\<close>

definition numbered :: "bool \<Rightarrow> Bg \<Rightarrow> Bg \<Rightarrow> bool" where
  "numbered clean s s' \<longleftrightarrow> audioSeq s \<le> audioSeq s' \<and>
     (\<exists>ms. outbox s' = outbox s @ ms \<and>
       (if clean then chunk_numbers ms = [audioSeq s ..< audioSeq s']
        else sorted_wrt (<) (chunk_numbers ms) \<and> set (chunk_numbers ms) \<subseteq> {audioSeq s ..< audioSeq s'}))"

lemma numbered_trans:
  assumes "numbered b s t" "numbered b t u"
  shows "numbered b s u"
proof -
  obtain ms ns where ms: "outbox t = outbox s @ ms" "outbox u = outbox t @ ns"
    and le: "audioSeq s \<le> audioSeq t" "audioSeq t \<le> audioSeq u"
    and num: "if b then chunk_numbers ms = [audioSeq s ..< audioSeq t] \<and> chunk_numbers ns = [audioSeq t ..< audioSeq u]
      else sorted_wrt (<) (chunk_numbers ms) \<and> set (chunk_numbers ms) \<subseteq> {audioSeq s ..< audioSeq t}
        \<and> sorted_wrt (<) (chunk_numbers ns) \<and> set (chunk_numbers ns) \<subseteq> {audioSeq t ..< audioSeq u}"
    using assms by (cases b) (auto simp: numbered_def)
  have "if b then chunk_numbers (ms @ ns) = [audioSeq s ..< audioSeq u]
      else sorted_wrt (<) (chunk_numbers (ms @ ns)) \<and> set (chunk_numbers (ms @ ns)) \<subseteq> {audioSeq s ..< audioSeq u}"
  proof (cases b)
    case True
    then show ?thesis using num le upt_add_eq_append [of "audioSeq s" "audioSeq t" "audioSeq u - audioSeq t"]
      by simp
  next
    case False
    then show ?thesis using num le by (fastforce simp: sorted_wrt_append)
  qed
  then show ?thesis using ms le by (simp add: numbered_def)
qed

lemma numbered_quiet: "quiet s s' \<Longrightarrow> numbered b s s'"
  by (auto simp: numbered_def quiet_def chunk_numbers_plain)

text \<open>Steps that send no audio and leave the counter.\<close>

lemma numbered_same:
  "audioSeq s' = audioSeq s \<Longrightarrow> outbox s' = outbox s @ ms \<Longrightarrow> chunk_numbers ms = [] \<Longrightarrow> numbered b s s'"
  by (simp add: numbered_def)

lemma fan_in_simps [simp]:
  "audioSeq (fan_in j s) = audioSeq s" "outbox (fan_in j s) = outbox s"
  "captureTabId (fan_in j s) = captureTabId s" "captureJobId (fan_in j s) = captureJobId s"
  "lyricsNetworkAllowed (fan_in j s) = lyricsNetworkAllowed s" "session (fan_in j s) = session s"
  by (simp_all add: fan_in_def split: option.split)

lemma signal_simps [simp]:
  "audioSeq (signal_job ty s) = audioSeq s" "captureTabId (signal_job ty s) = captureTabId s"
  "captureJobId (signal_job ty s) = captureJobId s" "tabs (signal_job ty s) = tabs s"
  "lyricsNetworkAllowed (signal_job ty s) = lyricsNetworkAllowed s"
  by (simp_all add: signal_job_def split: option.split)

lemma signal_outbox: "\<exists>ms. outbox (signal_job ty s) = outbox s @ ms \<and> chunk_numbers ms = []"
  by (auto simp: signal_job_def split: option.split)

text \<open>A chunk takes one number; it is sent with it unless its audio cannot be decoded.\<close>

lemma numbered_chunk:
  assumes "b \<longrightarrow> chunk_bytes env m \<noteq> None"
  shows "numbered b s (snd (capture_chunk env m s))"
  unfolding capture_chunk_def answer_state
  by (rule with_session_rule [where P = "numbered b s"])
    (use assms in \<open>auto simp: numbered_def Let_def split: option.split\<close>)

lemma numbered_refl [simp]: "numbered b s s"
  by (simp add: numbered_quiet)

lemma numbered_post: "numbered b s t \<Longrightarrow> chunk_number m = [] \<Longrightarrow> numbered b s (post m t)"
  by (rule numbered_trans) (auto intro: numbered_same)

lemma numbered_fields [simp]:
  "numbered b s (s\<lparr>session := x, conn := c, fanInRegistered := f\<rparr>)"
  "numbered b s (s\<lparr>conn := c\<rparr>)" "numbered b s (s\<lparr>tabs := ts\<rparr>)"
  by (simp_all add: numbered_def)

lemma numbered_lyrics:
  "numbered b s (snd (lyrics_set_network env m s))" "numbered b s (snd (lyrics_fetch_lrclib env m s))"
  "numbered b s (snd (lyrics_import_lrc env m s))"
proof -
  have "numbered b s (snd (with_session env (\<lambda>x s. (Inr (j x), post (literal ty x (fs x)) s))
          (s\<lparr>lyricsNetworkAllowed := a\<rparr>)))" for a j ty fs
    by (rule with_session_rule [where P = "numbered b s"]) (simp_all add: numbered_def)
  then show "numbered b s (snd (lyrics_set_network env m s))"
    unfolding lyrics_set_network_def Let_def answer_state by (cases "storage_set env") auto
  have "numbered b s (snd (with_session env (\<lambda>x s.
        let s = post (literal ty1 x (fs1 x)) s; s = post (literal ty2 x (fs2 x)) s
        in case r of Inl e \<Rightarrow> (Inl e, s) | Inr j \<Rightarrow> (Inr (f j), s)) s))" for ty1 ty2 fs1 fs2 r f
    by (rule with_session_rule [where P = "numbered b s"])
      (simp_all add: Let_def numbered_post split: sum.split)
  then show "numbered b s (snd (lyrics_fetch_lrclib env m s))"
    unfolding lyrics_fetch_lrclib_def answer_state by (cases "truthy (lyricsNetworkAllowed s)") auto
  show "numbered b s (snd (lyrics_import_lrc env m s))"
    by (simp add: lyrics_import_lrc_def split: sum.split option.split)
qed

definition keeps_numbers :: "bool \<Rightarrow> BgEvent \<Rightarrow> bool" where
  "keeps_numbers clean e \<longleftrightarrow> \<not> asks CaptureStart e \<and>
     (clean \<longrightarrow> (case e of Asked env m \<Rightarrow> request_of m = Some CaptureChunk \<longrightarrow> chunk_bytes env m \<noteq> None
                        | Pushed _ \<Rightarrow> True))"

lemma numbered_step:
  assumes "keeps_numbers b e"
  shows "numbered b s (bg_step e s)"
proof (cases rule: event_cases [of e])
  case (pushed j)
  then show ?thesis by (simp add: numbered_same [where ms = "[]"])
next
  case (quiet env m)
  then show ?thesis using numbered_quiet by blast
next
  case (other env m r)
  note sig = signal_outbox [of "''job.cancel''" s] signal_outbox [of "''job.pause''" s]
    signal_outbox [of "''job.resume''" s]
  from other(3) show ?thesis
    unfolding not_quiet
    by (elim disjE)
      (use other assms sig in \<open>auto simp: keeps_numbers_def asks_def numbered_chunk numbered_lyrics
         capture_cancel_def capture_pause_def capture_resume_def intro: numbered_same\<close>)
qed

interpretation numbers: run_relation "numbered b" "keeps_numbers b" for b
proof
  fix s t u e
  show "numbered b s s" by (simp add: numbered_quiet)
  show "numbered b s t \<Longrightarrow> numbered b t u \<Longrightarrow> numbered b s u" by (rule numbered_trans)
  show "keeps_numbers b e \<Longrightarrow> numbered b s (bg_step e s)" by (rule numbered_step)
qed

text \<open>C8:
  After a capture was started, and until the next start, the audio chunks sent to the companion
  carry strictly increasing numbers below the counter, whatever other requests and pushed messages
  come in between; if the audio of every chunk can be decoded the numbers are 0, 1, 2 and so on
  without a gap.\<close>

theorem audio_chunks_numbered:
  assumes "capture_start env m s0 = (Some j, s)" "is_ok j"
    and "list_all (\<lambda>e. \<not> asks CaptureStart e) es"
  shows "let s' = bg_run es s; numbers = sent_numbers s s'
         in sorted_wrt (<) numbers \<and> set numbers \<subseteq> {0 ..< audioSeq s'}
            \<and> (list_all (keeps_numbers True) es \<longrightarrow> numbers = [0 ..< audioSeq s'])"
proof -
  have "case capture_start env m s0 of (None, t) \<Rightarrow> False | (Some i, t) \<Rightarrow> is_ok i \<longrightarrow> audioSeq t = 0"
    unfolding capture_start_def
    by (rule with_session_attempt) (simp_all add: answer_def is_ok_def error_answer_def Let_def split: sum.split)
  then have start: "audioSeq s = 0" using assms(1,2) by simp
  have "list_all (keeps_numbers False) es"
    using assms(3) by (simp add: keeps_numbers_def cong: list.pred_cong)
  then have "numbered False s (bg_run es s)" by (rule numbers.rel_run)
  moreover have "numbered True s (bg_run es s)" if "list_all (keeps_numbers True) es"
    using that by (rule numbers.rel_run)
  ultimately show ?thesis by (auto simp: numbered_def sent_numbers_def start Let_def)
qed


section \<open>What is sent\<close>

text \<open>Everything sent between two states satisfies a predicate.\<close>

definition sends :: "(Outgoing \<Rightarrow> bool) \<Rightarrow> Bg \<Rightarrow> Bg \<Rightarrow> bool" where
  "sends P s s' \<longleftrightarrow> (\<exists>ms. outbox s' = outbox s @ ms \<and> list_all P ms)"

lemma sends_same [simp]: "outbox s' = outbox s \<Longrightarrow> sends P s s'"
  by (simp add: sends_def)

lemma sends_post: "sends P s t \<Longrightarrow> P m \<Longrightarrow> sends P s (post m t)"
  by (auto simp: sends_def)

lemma sends_trans: "sends P s t \<Longrightarrow> sends P t u \<Longrightarrow> sends P s u"
  by (auto simp: sends_def)

lemma sends_weaken: "sends P s t \<Longrightarrow> (\<And>m. P m \<Longrightarrow> Q m) \<Longrightarrow> sends Q s t"
  by (auto simp: sends_def list_all_iff)

lemma sends_new: "sends P s s' \<longleftrightarrow> prefix (outbox s) (outbox s') \<and> list_all P (drop (length (outbox s)) (outbox s'))"
  by (auto simp: sends_def prefix_def)

lemma sends_fields [simp]:
  "sends P s (to_page j t) = sends P s t"
  "sends P s (t\<lparr>captureJobId := a, captureTabId := b\<rparr>) = sends P s t"
  by (simp_all add: sends_def)

lemma quiet_sends: "quiet s s' \<Longrightarrow> sends plain s s'"
  by (simp add: quiet_def sends_def)

lemma plain_types: "plain m \<Longrightarrow> ty \<in> set (''lyrics.resolve'' # SIGNALS) \<Longrightarrow> \<not> has_type [ty] m"
  by (cases m) (auto simp: plain_def)

lemma plain_signals: "plain m \<Longrightarrow> \<not> has_type SIGNALS m"
  by (cases m) (auto simp: plain_def)

lemma has_type_eval [simp]:
  "has_type tys (Typed w) = False" "has_type tys (literal ty x fs) = (ty \<in> set tys)"
  by (auto simp: literal_def)

section \<open>The lyrics permission\<close>

text \<open>The relation of runs that do not grant the permission.\<close>

definition ungranted :: "Bg \<Rightarrow> Bg \<Rightarrow> bool" where
  "ungranted s s' \<longleftrightarrow> (\<not> truthy (lyricsNetworkAllowed s) \<longrightarrow>
     \<not> truthy (lyricsNetworkAllowed s') \<and> sends (\<lambda>m. \<not> has_type [''lyrics.resolve''] m) s s')"

definition grants :: "BgEvent \<Rightarrow> bool" where
  "grants e = (case e of
     Asked env m \<Rightarrow> request_of m = Some LyricsSetNetwork \<and> truthy (json_field m ''allowed'')
   | Pushed _ \<Rightarrow> False)"

lemma sends_signal:
  "ty \<in> set SIGNALS \<Longrightarrow> sends (\<lambda>m. \<not> has_type [''lyrics.resolve''] m) s (signal_job ty s)"
  by (auto simp: signal_job_def SIGNALS_def intro: sends_post split: option.split)

lemma ungranted_set_network:
  "\<not> truthy (json_field m ''allowed'') \<Longrightarrow> ungranted s (snd (lyrics_set_network env m s))"
  unfolding lyrics_set_network_def Let_def answer_state
  by (cases "storage_set env")
    (simp add: ungranted_def, simp, rule with_session_rule,
      simp_all add: ungranted_def sends_post)

lemma ungranted_capture:
  "ungranted s (snd (capture_start env m s))" "ungranted s (snd (capture_chunk env m s))"
  subgoal unfolding capture_start_def answer_state
    by (rule with_session_rule [where P = "ungranted s"])
      (simp_all add: ungranted_def Let_def sends_post split: sum.split)
  subgoal unfolding capture_chunk_def answer_state
    by (rule with_session_rule [where P = "ungranted s"])
      (simp_all add: ungranted_def Let_def sends_post split: option.split)
  done

lemma ungranted_step:
  assumes "\<not> grants e"
  shows "ungranted s (bg_step e s)"
proof (cases rule: event_cases [of e])
  case (pushed j)
  then show ?thesis by (simp add: ungranted_def)
next
  case (quiet env m)
  have "quiet s (bg_step e s)" by (rule quiet(2))
  then show ?thesis
    using sends_weaken [OF quiet_sends plain_types] by (simp add: ungranted_def) (simp add: quiet_def)
next
  case (other env m r)
  from other(3) show ?thesis
    unfolding not_quiet
    by (elim disjE)
      (use other assms in \<open>simp_all add: grants_def ungranted_capture ungranted_set_network\<close>,
       simp_all add: ungranted_def capture_cancel_def capture_pause_def capture_resume_def
         lyrics_fetch_lrclib_def lyrics_import_lrc_def sends_signal SIGNALS_def
         split: sum.split option.split)
qed

interpretation ungranted: run_relation ungranted "\<lambda>e. \<not> grants e"
proof
  fix s t u e
  show "ungranted s s" by (simp add: ungranted_def)
  show "ungranted s t \<Longrightarrow> ungranted t u \<Longrightarrow> ungranted s u"
    using sends_trans by (auto simp: ungranted_def)
  show "\<not> grants e \<Longrightarrow> ungranted s (bg_step e s)" by (rule ungranted_step)
qed

text \<open>C10:
  Lyrics are never looked up in the network without permission: in every run from the start in
  which no request grants it, no \<open>lyrics.resolve\<close> message is sent to the companion.\<close>

theorem lyrics_only_with_permission:
  assumes "list_all (\<lambda>e. \<not> grants e) es"
  shows "list_all (\<lambda>m. \<not> has_type [''lyrics.resolve''] m) (outbox (bg_run es bg_start))"
proof -
  have "ungranted bg_start (bg_run es bg_start)" using assms by (rule ungranted.rel_run)
  then show ?thesis by (simp add: ungranted_def sends_new bg_start_def)
qed

section \<open>After a cancel\<close>

definition is_event :: "int \<times> json \<Rightarrow> bool" where
  "is_event t \<longleftrightarrow> json_field (snd t) ''type'' = Some (JStr ''companion.event'')"

definition events_to_tabs :: "Bg \<Rightarrow> (int \<times> json) list" where
  "events_to_tabs s = filter is_event (tabs s)"

definition no_capture :: "Bg \<Rightarrow> bool" where
  "no_capture s \<longleftrightarrow> captureTabId s = None \<and> captureJobId s = None"

definition idle :: "Bg \<Rightarrow> Bg \<Rightarrow> bool" where
  "idle s s' \<longleftrightarrow> (no_capture s \<longrightarrow> no_capture s' \<and> events_to_tabs s' = events_to_tabs s
     \<and> sends (\<lambda>m. \<not> has_type SIGNALS m) s s')"

lemma idle_quiet: "quiet s s' \<Longrightarrow> idle s s'"
  using sends_weaken [OF quiet_sends plain_signals]
  by (simp add: idle_def) (simp add: no_capture_def quiet_def events_to_tabs_def)

lemma idle_fields [simp]:
  "idle s (s\<lparr>session := x, conn := c, fanInRegistered := f\<rparr>)" "idle s (s\<lparr>conn := c\<rparr>)"
  "idle s (s\<lparr>lyricsNetworkAllowed := a\<rparr>)" "idle s (s\<lparr>audioSeq := n\<rparr>)"
  "idle s s"
  by (simp_all add: idle_def no_capture_def events_to_tabs_def)

lemma idle_trans: "idle s t \<Longrightarrow> idle t u \<Longrightarrow> idle s u"
  using sends_trans by (auto simp: idle_def)

lemma idle_post: "idle s t \<Longrightarrow> \<not> has_type SIGNALS m \<Longrightarrow> idle s (post m t)"
  by (auto simp: idle_def no_capture_def events_to_tabs_def intro: sends_post)

lemma idle_session:
  assumes "\<And>x s. idle s (snd (body x s))"
  shows "idle s (snd (with_session env body s))"
  by (rule with_session_rule [where P = "idle s"]) (auto intro: assms idle_trans [OF idle_fields(1)])

lemma idle_signal: "no_capture s \<Longrightarrow> signal_job ty s = s"
  by (simp add: no_capture_def signal_job_def split: option.split)

lemma idle_import: "idle s (snd (lyrics_import_lrc env m s))"
  by (simp add: lyrics_import_lrc_def split: sum.split option.split)
    (simp add: idle_def no_capture_def events_to_tabs_def is_event_def)

lemma idle_requests:
  "idle s (snd (capture_chunk env m s))" "idle s (snd (lyrics_set_network env m s))"
  "idle s (snd (lyrics_fetch_lrclib env m s))"
  subgoal unfolding capture_chunk_def answer_state
    by (rule idle_session) (auto simp: Let_def intro: idle_post split: option.split)
  subgoal unfolding lyrics_set_network_def Let_def answer_state
    by (cases "storage_set env")
      (auto intro!: idle_trans [OF idle_fields(3) idle_session] idle_post simp: SIGNALS_def)
  subgoal unfolding lyrics_fetch_lrclib_def answer_state
    by (cases "truthy (lyricsNetworkAllowed s)")
      (auto intro!: idle_session idle_post simp: Let_def SIGNALS_def split: sum.split)
  done

lemma idle_step:
  assumes "\<not> asks CaptureStart e"
  shows "idle s (bg_step e s)"
proof (cases rule: event_cases [of e])
  case (pushed j)
  then show ?thesis
    by (simp add: idle_def no_capture_def events_to_tabs_def fan_in_def split: option.split)
next
  case (quiet env m)
  then show ?thesis using idle_quiet by blast
next
  case (other env m r)
  from other(3) show ?thesis
    unfolding not_quiet
    by (elim disjE)
      (use other assms in \<open>simp_all add: asks_def idle_requests idle_import\<close>,
       simp_all add: idle_def idle_signal capture_cancel_def capture_pause_def capture_resume_def
         no_capture_def events_to_tabs_def)
qed

interpretation idle: run_relation idle "\<lambda>e. \<not> asks CaptureStart e"
  by unfold_locales (auto intro: idle_step idle_trans)

text \<open>C28:
  Once a capture is cancelled, and until another is started, no companion event is forwarded to a
  tab and no cancel, pause or resume of a job is sent, whatever requests and pushed messages
  come; chunks of the old capture that do not name their job are answered with an error.\<close>

theorem cancel_silences_capture:
  assumes "list_all (\<lambda>e. \<not> asks CaptureStart e) es"
    and "s = snd (capture_cancel s0)" "s' = bg_run es s"
  shows "events_to_tabs s' = events_to_tabs s
    \<and> list_all (\<lambda>m. \<not> has_type SIGNALS m) (drop (length (outbox s)) (outbox s'))
    \<and> (field_or m ''jobId'' = None \<longrightarrow>
        (case fst (capture_chunk env m s') of Some j \<Rightarrow> \<not> is_ok j | None \<Rightarrow> False))"
proof -
  have "no_capture s" by (simp add: assms(2) capture_cancel_def no_capture_def)
  then have idle: "no_capture s'" "events_to_tabs s' = events_to_tabs s"
      "sends (\<lambda>m. \<not> has_type SIGNALS m) s s'"
    using idle.rel_run [OF assms(1), of s] by (simp_all add: assms(3) idle_def)
  have "case fst (capture_chunk env m s') of Some j \<Rightarrow> \<not> is_ok j | None \<Rightarrow> False"
    if "field_or m ''jobId'' = None"
    unfolding capture_chunk_def
    by (rule with_session_attempt)
      (use idle(1) that in \<open>simp_all add: answer_def is_ok_def error_answer_def chunk_job_def
         text_field_def no_capture_def\<close>)
  then show ?thesis using idle by (simp add: sends_new)
qed


section \<open>Base 64\<close>

lemma b64_value_digit [simp]: "n < 64 \<Longrightarrow> b64_value (b64_digit n) = Some n"
  by (auto simp: b64_value_def b64_digit_def)

lemma b64_value_plain: "b64_value c = Some n \<Longrightarrow> \<not> b64_space c \<and> c \<noteq> CHR ''=''"
  by (auto simp: b64_value_def b64_space_def split: if_splits)

text \<open>What \<open>btoa\<close> prints: the digits of the six-bit groups, padded to a multiple of four.\<close>

fun b64_groups :: "8 word list \<Rightarrow> nat list" where
  "b64_groups [] = []"
| "b64_groups [a] = [unat a div 4, unat a mod 4 * 16]"
| "b64_groups [a, b] = [unat a div 4, unat a mod 4 * 16 + unat b div 16, unat b mod 16 * 4]"
| "b64_groups (a # b # c # bs) =
     [unat a div 4, unat a mod 4 * 16 + unat b div 16, unat b mod 16 * 4 + unat c div 64, unat c mod 64]
     @ b64_groups bs"

definition b64_padding :: "nat \<Rightarrow> string" where
  "b64_padding n = (if n mod 3 = 0 then [] else if n mod 3 = 1 then ''=='' else ''='')"

lemma btoa_groups: "btoa bs = map b64_digit (b64_groups bs) @ b64_padding (length bs)"
  by (induction bs rule: btoa.induct) (simp_all add: b64_padding_def)

lemma byte_bound: "unat (a :: 8 word) < 256"
proof -
  have "unat a < 2 ^ LENGTH(8)" by (rule unsigned_less)
  then show ?thesis by simp
qed

lemma sextets:
  fixes a b :: "8 word"
  shows "unat a div 4 < 64" "unat a mod 4 * 16 + unat b div 16 < 64" "unat a mod 16 * 4 + unat b div 64 < 64"
    "unat a mod 4 * 16 < 64" "unat a mod 16 * 4 < 64"
  using byte_bound [of a] byte_bound [of b] by linarith+

lemma groups_bound: "list_all (\<lambda>v. v < 64) (b64_groups bs)"
  by (induction bs rule: b64_groups.induct) (simp_all add: sextets)

lemma groups_length:
  "length (b64_groups bs) mod 4 = (if length bs mod 3 = 0 then 0 else length bs mod 3 + 1)"
  by (induction bs rule: b64_groups.induct) simp_all

text \<open>Joining the groups gives the bytes back.\<close>

lemma word_of_nat_carry: "(word_of_nat (256 * k + unat b) :: 8 word) = b"
proof -
  have "(word_of_nat 256 :: 8 word) = 0" by simp
  then show ?thesis by (simp only: of_nat_add of_nat_mult) simp
qed

lemma join_groups:
  "word_of_nat (unat (a :: 8 word) div 4 * 4 + (unat a mod 4 * 16 + unat (b :: 8 word) div 16) div 16) = a"
  "word_of_nat ((unat a mod 4 * 16 + unat b div 16) * 16 + (unat b mod 16 * 4 + unat (c :: 8 word) div 64) div 4) = b"
  "word_of_nat ((unat b mod 16 * 4 + unat c div 64) * 64 + unat c mod 64) = c"
proof -
  have small: "(x * 16 + unat b div 16) div 16 = x" "(x * 4 + unat c div 64) div 4 = x" for x
    using byte_bound [of b] byte_bound [of c] by simp_all
  have split: "y div k * k + y mod k = y" for y k :: nat by simp
  have "unat a div 4 * 4 + (unat a mod 4 * 16 + unat b div 16) div 16 = unat a"
    by (simp only: small split)
  moreover have "(unat a mod 4 * 16 + unat b div 16) * 16 + (unat b mod 16 * 4 + unat c div 64) div 4 = 256 * (unat a mod 4) + unat b"
    using split [of "unat b" 16] by (simp only: small) (simp add: algebra_simps)
  moreover have "(unat b mod 16 * 4 + unat c div 64) * 64 + unat c mod 64 = 256 * (unat b mod 16) + unat c"
    using split [of "unat c" 64] by (simp add: algebra_simps)
  ultimately show "word_of_nat (unat a div 4 * 4 + (unat a mod 4 * 16 + unat b div 16) div 16) = a"
    "word_of_nat ((unat a mod 4 * 16 + unat b div 16) * 16 + (unat b mod 16 * 4 + unat c div 64) div 4) = b"
    "word_of_nat ((unat b mod 16 * 4 + unat c div 64) * 64 + unat c mod 64) = c"
    by (simp_all only: word_of_nat_carry) simp
qed

lemma bytes_groups: "b64_bytes (b64_groups bs) = bs"
proof (induction bs rule: b64_groups.induct)
  case (2 a)
  then show ?case using join_groups(1) [of a 0] by simp
next
  case (3 a b)
  then show ?case using join_groups(1) [of a b] join_groups(2) [of a b 0] by simp
next
  case (4 a b c bs)
  then show ?case using join_groups(1) [of a b] join_groups(2) [of a b c] join_groups(3) [of b c]
    by (simp only: b64_groups.simps append.simps b64_bytes.simps)
qed simp

lemma drop_padding_btoa: "drop_padding (btoa bs) = map b64_digit (b64_groups bs)"
proof -
  let ?ds = "map b64_digit (b64_groups bs)"
  have last: "ds = [] \<or> last ds \<noteq> CHR ''=''" if "ds = ?ds" for ds
  proof (cases "b64_groups bs = []")
    case False
    then have "last (b64_groups bs) < 64" using groups_bound [of bs] by (simp add: list_all_iff)
    then show ?thesis using False that b64_value_plain [OF b64_value_digit] by (simp add: last_map)
  qed (simp add: that)
  have "length bs mod 3 = 0 \<or> length bs mod 3 = 1 \<or> length bs mod 3 = 2" by linarith
  then show ?thesis
    using last [OF refl] groups_length [of bs]
    by (elim disjE) (auto simp: drop_padding_def btoa_groups b64_padding_def butlast_append last_append mod_Suc)
qed

lemma base64_round_trip: "base64ToBytes (btoa bs) = Some bs"
proof -
  have digits: "list_all (\<lambda>c. b64_value c \<noteq> None) (map b64_digit (b64_groups bs))"
    and groups: "map (\<lambda>c. the (b64_value c)) (map b64_digit (b64_groups bs)) = b64_groups bs"
    using groups_bound [of bs] by (simp_all add: list_all_iff map_idI)
  have "list_all (\<lambda>c. \<not> b64_space c) (btoa bs)"
    using digits b64_value_plain
    by (auto simp: btoa_groups list_all_iff b64_padding_def b64_space_def)
  then have "filter (\<lambda>c. \<not> b64_space c) (btoa bs) = btoa bs"
    by (simp add: list_all_iff)
  moreover have "length (b64_groups bs) mod 4 \<noteq> 1"
    by (simp add: groups_length)
  ultimately have "atob (btoa bs) = Some bs"
    using digits groups by (simp add: atob_def Let_def drop_padding_btoa bytes_groups)
  moreover have "btoa bs = [] \<longleftrightarrow> bs = []" by (cases bs rule: btoa.cases) simp_all
  ultimately show ?thesis by (auto simp: base64ToBytes_def)
qed


section \<open>Concrete requests\<close>

text \<open>A session that is up, a browser that agrees to everything, and two requests.\<close>

definition demo_bg :: Bg where
  "demo_bg = bg_start\<lparr>session := Some \<lparr>cs_token = Some (JStr ''tok''), cs_expiresAtMs = Some (JNum 100000),
     cs_port = 4100\<rparr>\<rparr>"

definition demo_env :: Env where
  "demo_env = \<lparr>sock_open = True, clock = 0, tries = (\<lambda>_. \<lparr>at_native = None, at_socket = \<lparr>sock_opens = False, sock_reply = None\<rparr>\<rparr>),
     last_boot = None, uuid = ''job-1'', sender_tab = Some 7, active_tab = Inr (Some 7),
     sender_window = Some 1, current_window = Inr (Some 1), panel_open = Some (Inr ()),
     offscreen_ready = Inr (), storage_set = Inr (), native_ping = Inr (JObj []), granted = Inr True,
     awaited = (\<lambda>_. (0, Inr (JObj []))), num_str = (\<lambda>_. []), to_num = (\<lambda>_. 0)\<rparr>"

definition ask :: "string \<Rightarrow> (string \<times> json) list \<Rightarrow> json" where
  "ask ty fs = JObj ((''type'', JStr ty) # fs)"

lemma demo_session [simp]:
  "with_session demo_env body demo_bg = body (the (session demo_bg)) (demo_bg\<lparr>fanInRegistered := True\<rparr>)"
  by (simp add: with_session_def demo_env_def demo_bg_def bg_start_def ensureCompanionSession_def
      session_usable_def registerCompanionFanIn_def)

lemma demo_env_simps [simp]:
  "sender_tab demo_env = Some 7" "uuid demo_env = ''job-1''" "offscreen_ready demo_env = Inr ()"
  by (simp_all add: demo_env_def)

lemma request_of_ask [simp]: "request_of (ask ty fs) = map_of request_names ty"
  by (simp add: request_of_def ask_def)

text \<open>The state after the demo capture was started.\<close>

definition demo_capturing :: Bg where
  "demo_capturing = snd (capture_start demo_env (ask ''capture.start'' []) demo_bg)"

definition demo_events :: "BgEvent list" where
  "demo_events =
     [Asked demo_env (ask ''capture.chunk'' [(''pcmI16LeBase64'', JStr (btoa [1, 2, 3]))]),
      Pushed (ask ''job.progress'' []),
      Asked demo_env (ask ''capture.chunk'' [(''pcmI16LeBase64'', JStr (btoa [4]))]),
      Asked demo_env (ask ''capture.pause'' [])]"

lemma demo_events_ok:
  "list_all (\<lambda>e. \<not> asks CaptureStart e) demo_events" "list_all (\<lambda>e. \<not> grants e) demo_events"
  by (simp_all add: demo_events_def asks_def grants_def request_names_def)

theorem audio_chunks_numbered_witness:
  "let s' = bg_run demo_events demo_capturing; numbers = sent_numbers demo_capturing s'
   in sorted_wrt (<) numbers \<and> set numbers \<subseteq> {0 ..< audioSeq s'} \<and>
      (list_all (keeps_numbers True) demo_events \<longrightarrow> numbers = [0 ..< audioSeq s'])"
proof (rule audio_chunks_numbered)
  show "capture_start demo_env (ask ''capture.start'' []) demo_bg =
      (Some (ok_answer [(''active'', Some (JBool True)), (''jobId'', Some (JStr ''job-1''))]), demo_capturing)"
    by (simp add: demo_capturing_def capture_start_def answer_def capture_tab_def Let_def)
qed (simp_all add: demo_events_ok is_ok_def ok_answer_def)

theorem lyrics_only_with_permission_witness:
  "list_all (\<lambda>m. \<not> has_type [''lyrics.resolve''] m) (outbox (bg_run demo_events bg_start))"
  by (rule lyrics_only_with_permission) (rule demo_events_ok)

theorem cancel_silences_capture_witness:
  "let s = snd (capture_cancel demo_capturing); s' = bg_run demo_events s
   in events_to_tabs s' = events_to_tabs s
    \<and> list_all (\<lambda>m. \<not> has_type SIGNALS m) (drop (length (outbox s)) (outbox s'))
    \<and> (field_or (ask ''capture.chunk'' []) ''jobId'' = None \<longrightarrow>
        (case fst (capture_chunk demo_env (ask ''capture.chunk'' []) s') of Some j \<Rightarrow> \<not> is_ok j | None \<Rightarrow> False))"
  unfolding Let_def by (rule cancel_silences_capture [OF demo_events_ok(1) refl refl])

section \<open>The ping of the popup\<close>

text \<open>Whether the request got a session, and its port.\<close>

definition session_port :: "Env \<Rightarrow> Bg \<Rightarrow> real option" where
  "session_port env s =
     (case fst (with_session env (\<lambda>x s. (Inr (cs_port x), s)) s) of Inl _ \<Rightarrow> None | Inr p \<Rightarrow> Some p)"

definition is_right :: "'a + 'b \<Rightarrow> bool" where
  "is_right x = (case x of Inl _ \<Rightarrow> False | Inr _ \<Rightarrow> True)"

text \<open>C11:
  What the popup reports is what happened: asked through the background script, the companion is
  ready exactly when a session was obtained and answered the ping, with that session's port; it is
  degraded exactly when that failed but the native host answers; and down, with an error text,
  when both fail.\<close>

theorem popup_reports_connection:
  "let r = pingCompanion (\<lambda>m. fst (handle env m s));
       up = (session_port env s \<noteq> None \<and> is_right (wait_for env ''session.pong''))
   in (cp_ready r \<longleftrightarrow> up) \<and> (cp_degraded r \<longleftrightarrow> \<not> up \<and> is_right (native_ping env))
    \<and> (cp_ok r \<longleftrightarrow> up \<or> is_right (native_ping env)) \<and> (cp_error r \<noteq> None \<longleftrightarrow> \<not> cp_ok r)
    \<and> cp_port r = (if up then session_port env s else None)"
proof -
  let ?m = "js_obj [(''type'', Some (JStr ''companion.ping''))]"
  have req: "request_of ?m = Some CompanionPing"
    by (simp add: request_of_def request_names_def)
  have send: "pingCompanion (\<lambda>m. fst (handle env m s)) =
      interpretCompanionPing (Some (defaultSend (\<lambda>_. fst (companion_ping env s)) ?m))"
    by (simp add: pingCompanion_def defaultSend_def handle_def req)
  obtain r c where ensure: "ensureCompanionSession (map_option (\<lambda>x. (x, sock_open env)) (session s))
             (clock env) (tries env) (last_boot env) (conn s) = (r, c)" by force
  note evals = with_session_def ensure companion_ping_def ping_session_def session_port_def is_right_def
    interpretCompanionPing_def defaultSend_def ok_answer_def error_answer_def Let_def
  show ?thesis
    unfolding send
    by (cases r; cases "wait_for env ''session.pong''"; cases "native_ping env") (simp_all add: evals js_obj_def)
qed

section \<open>Audio\<close>

text \<open>Audio reaches the companion unchanged: decoding what \<open>btoa\<close> encoded gives the bytes back, for
  any bytes, and the chunk a request is turned into carries the very text the request came with.\<close>

theorem audio_passes_unchanged:
  "base64ToBytes (btoa bs) = Some bs \<and>
   (let (_, s') = capture_chunk env (ask ''capture.chunk'' [(''pcmI16LeBase64'', JStr (btoa bs))]) s
    in sends (\<lambda>m. \<exists>tok rate. m = Typed (MAudioChunk tok (opt_or (captureJobId s) []) rate (audioSeq s) (btoa bs))) s s')"
proof -
  let ?m = "ask ''capture.chunk'' [(''pcmI16LeBase64'', JStr (btoa bs))]"
  let ?P = "\<lambda>m. \<exists>tok rate. m = Typed (MAudioChunk tok (opt_or (captureJobId s) []) rate (audioSeq s) (btoa bs))"
  have fields: "field_or ?m ''jobId'' = None" "field_or ?m ''pcmI16LeBase64'' = Some (JStr (btoa bs))"
    by (simp_all add: ask_def field_or_def)
  have "sends ?P s (snd (capture_chunk env ?m s))"
    unfolding capture_chunk_def answer_state
    by (rule with_session_rule [where P = "sends ?P s"])
      (simp_all add: Let_def chunk_job_def chunk_bytes_def text_field_def fields base64_round_trip
        sendAudioChunk_def sends_post)
  then show ?thesis by (simp add: base64_round_trip case_prod_beta)
qed

text \<open>
  Audio that cannot be decoded still takes a number: the next chunk leaves a gap.
\<close>

lemma broken_audio_leaves_gap:
  "let bad = ask ''capture.chunk'' [(''pcmI16LeBase64'', JStr ''*'')]; (r, s) = capture_chunk env bad s0
   in audioSeq s0 < audioSeq s \<longrightarrow> outbox s = outbox s0 \<and> r = Some (error_answer ''InvalidCharacterError'')"
proof -
  have bad: "chunk_bytes env (ask ''capture.chunk'' [(''pcmI16LeBase64'', JStr ''*'')]) = None"
    by (simp add: chunk_bytes_def text_field_def ask_def field_or_def base64ToBytes_def atob_def
        b64_space_def drop_padding_def Let_def)
  show ?thesis
    unfolding Let_def capture_chunk_def
    by (rule with_session_attempt) (simp_all add: answer_def bad)
qed

end
