(* ===== verification/Overlay.thy ===== *)
theory Overlay
  imports Protocol_Types
begin

text \<open>
  The caption overlay: its state and patches (\<open>apps/extension/features/overlay/types.ts\<close>), the
  host that renders it (\<open>mount.tsx\<close>), the keyboard map (\<open>shortcuts.ts\<close>), the actions and what
  is displayed (\<open>OverlayApp.tsx\<close>), and the packages \<open>updateGate.ts\<close> and \<open>density.ts\<close> of
  \<open>packages/ui/src\<close>. Rendering appends a frame to a log. The dash and the ellipsis of the texts
  are written in ASCII.
\<close>

section \<open>Density profiles\<close>

datatype DensityProfile = DFocus | DBalanced | DExpert
datatype AnimationLevel = AnimNone | AnimReduced | AnimFull
datatype ChromeLevel = Minimal | Essential | Dense

record DensityTokenSet =
  typeScale :: rat
  spaceScale :: rat
  captionMaxCh :: nat
  evidenceVisible :: bool
  diagnosticsVisible :: bool
  animationLevel :: AnimationLevel
  chromeLevel :: ChromeLevel

primrec DENSITY_PROFILES :: "DensityProfile \<Rightarrow> DensityTokenSet" where
  "DENSITY_PROFILES DFocus = \<lparr>typeScale = 105/100, spaceScale = 9/10, captionMaxCh = 42,
     evidenceVisible = False, diagnosticsVisible = False, animationLevel = AnimReduced, chromeLevel = Minimal\<rparr>"
| "DENSITY_PROFILES DBalanced = \<lparr>typeScale = 1, spaceScale = 1, captionMaxCh = 48,
     evidenceVisible = True, diagnosticsVisible = False, animationLevel = AnimFull, chromeLevel = Essential\<rparr>"
| "DENSITY_PROFILES DExpert = \<lparr>typeScale = 94/100, spaceScale = 85/100, captionMaxCh = 56,
     evidenceVisible = True, diagnosticsVisible = True, animationLevel = AnimFull, chromeLevel = Dense\<rparr>"

primrec density_str :: "DensityProfile \<Rightarrow> string" where
  "density_str DFocus = ''focus''"
| "density_str DBalanced = ''balanced''"
| "density_str DExpert = ''expert''"

definition DEFAULT_DENSITY :: DensityProfile where
  "DEFAULT_DENSITY = DBalanced"

definition isDensityProfile :: "string \<Rightarrow> bool" where
  "isDensityProfile v \<longleftrightarrow> v = ''focus'' \<or> v = ''balanced'' \<or> v = ''expert''"

definition isThemePreference :: "string \<Rightarrow> bool" where
  "isThemePreference v \<longleftrightarrow> v = ''light'' \<or> v = ''dark'' \<or> v = ''system''"

text \<open>The profile a stored value names.\<close>

definition density_of :: "string \<Rightarrow> DensityProfile option" where
  "density_of v = (if v = ''focus'' then Some DFocus else if v = ''balanced'' then Some DBalanced
     else if v = ''expert'' then Some DExpert else None)"

definition densityCssVars :: "(rat \<Rightarrow> string) \<Rightarrow> DensityProfile \<Rightarrow> (string \<times> string) list" where
  "densityCssVars num p =
     (let t = DENSITY_PROFILES p
      in [(''--llm-density'', density_str p), (''--llm-type-scale'', num (typeScale t)),
          (''--llm-space-scale'', num (spaceScale t)),
          (''--llm-caption-max-ch'', num (of_nat (captionMaxCh t))),
          (''--llm-evidence-visible'', if evidenceVisible t then ''1'' else ''0''),
          (''--llm-diagnostics-visible'', if diagnosticsVisible t then ''1'' else ''0'')])"

primrec profileLabel :: "DensityProfile \<Rightarrow> string" where
  "profileLabel DFocus = ''Focus''"
| "profileLabel DBalanced = ''Balanced''"
| "profileLabel DExpert = ''Expert''"

primrec profileDescription :: "DensityProfile \<Rightarrow> string" where
  "profileDescription DFocus = ''Captions and essential actions only.''"
| "profileDescription DBalanced = ''Overlay, transcript, lookup, and learning controls.''"
| "profileDescription DExpert = ''Model provenance, timing, confidence, and queue diagnostics.''"

section \<open>State and patches\<close>

datatype EmptyStateKind =
    NoCaptions | NoCompanion | NoModel | ModelInstalling | NoLyrics | UnsupportedPage
  | PermissionDenied | EmptyDictionary | NoReviewDue | GenericEmpty

primrec empty_str :: "EmptyStateKind \<Rightarrow> string" where
  "empty_str NoCaptions = ''no-captions''"
| "empty_str NoCompanion = ''no-companion''"
| "empty_str NoModel = ''no-model''"
| "empty_str ModelInstalling = ''model-installing''"
| "empty_str NoLyrics = ''no-lyrics''"
| "empty_str UnsupportedPage = ''unsupported-page''"
| "empty_str PermissionDenied = ''permission-denied''"
| "empty_str EmptyDictionary = ''empty-dictionary''"
| "empty_str NoReviewDue = ''no-review-due''"
| "empty_str GenericEmpty = ''generic''"

record ConfirmAction =
  action_id :: string
  action_label :: string

record OverlayState =
  sourceCue :: "Cue option"
  translationCue :: "Cue option"
  showSource :: bool
  showTranslation :: bool
  blurTranslation :: bool
  confidence :: "real option"
  provenance_label :: "string option"
  karaokeActive :: "bool option"
  evidence_summary :: "string option"
  liveAnnouncement :: "string option"
  emptyKind :: "EmptyStateKind option"
  jobState :: "string option"
  density :: "DensityProfile option"
  statusMessage :: "string option"
  confirmAction :: "ConfirmAction option"

text \<open>
  A field of a patch: not there (or \<open>undefined\<close>), \<open>null\<close>, or a value. A flag that is cleared
  reads as \<open>undefined\<close>, that is as false.
\<close>

datatype 'a field_patch = Keep | Clear | Put 'a

primrec patch_opt :: "'a field_patch \<Rightarrow> 'a option \<Rightarrow> 'a option" where
  "patch_opt Keep old = old"
| "patch_opt Clear old = None"
| "patch_opt (Put v) old = Some v"

primrec patch_flag :: "bool field_patch \<Rightarrow> bool \<Rightarrow> bool" where
  "patch_flag Keep old = old"
| "patch_flag Clear old = False"
| "patch_flag (Put v) old = v"

record OverlayStatePatch =
  p_sourceCue :: "Cue field_patch"
  p_translationCue :: "Cue field_patch"
  p_showSource :: "bool field_patch"
  p_showTranslation :: "bool field_patch"
  p_blurTranslation :: "bool field_patch"
  p_confidence :: "real field_patch"
  p_provenance :: "string field_patch"
  p_karaokeActive :: "bool field_patch"
  p_evidenceSummary :: "string field_patch"
  p_liveAnnouncement :: "string field_patch"
  p_emptyKind :: "EmptyStateKind field_patch"
  p_jobState :: "string field_patch"
  p_density :: "DensityProfile field_patch"
  p_statusMessage :: "string field_patch"
  p_confirmAction :: "ConfirmAction field_patch"

text \<open>The empty patch; the code's patches are updates of it.\<close>

definition no_patch :: OverlayStatePatch where
  "no_patch = \<lparr>p_sourceCue = Keep, p_translationCue = Keep, p_showSource = Keep,
     p_showTranslation = Keep, p_blurTranslation = Keep, p_confidence = Keep, p_provenance = Keep,
     p_karaokeActive = Keep, p_evidenceSummary = Keep, p_liveAnnouncement = Keep,
     p_emptyKind = Keep, p_jobState = Keep, p_density = Keep, p_statusMessage = Keep,
     p_confirmAction = Keep\<rparr>"

definition applyOverlayPatch :: "OverlayState \<Rightarrow> OverlayStatePatch \<Rightarrow> OverlayState" where
  "applyOverlayPatch s p =
     \<lparr>sourceCue = patch_opt (p_sourceCue p) (sourceCue s),
      translationCue = patch_opt (p_translationCue p) (translationCue s),
      showSource = patch_flag (p_showSource p) (showSource s),
      showTranslation = patch_flag (p_showTranslation p) (showTranslation s),
      blurTranslation = patch_flag (p_blurTranslation p) (blurTranslation s),
      confidence = patch_opt (p_confidence p) (confidence s),
      provenance_label = patch_opt (p_provenance p) (provenance_label s),
      karaokeActive = patch_opt (p_karaokeActive p) (karaokeActive s),
      evidence_summary = patch_opt (p_evidenceSummary p) (evidence_summary s),
      liveAnnouncement = patch_opt (p_liveAnnouncement p) (liveAnnouncement s),
      emptyKind = patch_opt (p_emptyKind p) (emptyKind s),
      jobState = patch_opt (p_jobState p) (jobState s),
      density = patch_opt (p_density p) (density s),
      statusMessage = patch_opt (p_statusMessage p) (statusMessage s),
      confirmAction = patch_opt (p_confirmAction p) (confirmAction s)\<rparr>"

section \<open>The update gate\<close>

record OverlayVisualKey =
  vk_sourceId :: "string option"
  vk_translationText :: "string option"
  vk_showSource :: bool
  vk_showTranslation :: bool
  vk_blurTranslation :: bool
  vk_provenance :: "string option"
  vk_confidence :: "real option"
  vk_evidenceSummary :: "string option"
  vk_karaokeActive :: "bool option"
  vk_emptyKind :: "string option"
  vk_jobState :: "string option"
  vk_density :: "string option"
  vk_statusMessage :: "string option"
  vk_confirmActionId :: "string option"

definition flag_str :: "bool \<Rightarrow> string" where
  "flag_str b = (if b then ''1'' else ''0'')"

text \<open>\<open>overlayStateKey\<close>; \<open>toFixed(2)\<close> is the argument.\<close>

definition key_parts :: "(real \<Rightarrow> string) \<Rightarrow> OverlayVisualKey \<Rightarrow> string list" where
  "key_parts fixed k =
     [opt_or (vk_sourceId k) [], opt_or (vk_translationText k) [], flag_str (vk_showSource k),
      flag_str (vk_showTranslation k), flag_str (vk_blurTranslation k),
      opt_or (vk_provenance k) [], opt_or (map_option fixed (vk_confidence k)) [],
      opt_or (vk_evidenceSummary k) [], flag_str (vk_karaokeActive k = Some True),
      opt_or (vk_emptyKind k) [], opt_or (vk_jobState k) [], opt_or (vk_density k) [],
      opt_or (vk_statusMessage k) [], opt_or (vk_confirmActionId k) []]"

definition overlayStateKey :: "(real \<Rightarrow> string) \<Rightarrow> OverlayVisualKey \<Rightarrow> string" where
  "overlayStateKey fixed k = join ''|'' (key_parts fixed k)"

definition shouldUpdateOverlay ::
  "(real \<Rightarrow> string) \<Rightarrow> OverlayVisualKey option \<Rightarrow> OverlayVisualKey \<Rightarrow> bool" where
  "shouldUpdateOverlay fixed prev next =
     (case prev of None \<Rightarrow> True | Some p \<Rightarrow> overlayStateKey fixed p \<noteq> overlayStateKey fixed next)"

text \<open>A text that is truthy.\<close>

definition text_or_none :: "string option \<Rightarrow> string option" where
  "text_or_none t = (if t = Some [] then None else t)"

definition toVisualKey :: "OverlayState \<Rightarrow> OverlayVisualKey" where
  "toVisualKey s =
     \<lparr>vk_sourceId = text_or_none (map_option cue_id (sourceCue s)),
      vk_translationText = text_or_none (map_option cue_text (translationCue s)),
      vk_showSource = showSource s, vk_showTranslation = showTranslation s,
      vk_blurTranslation = blurTranslation s, vk_provenance = text_or_none (provenance_label s),
      vk_confidence = confidence s, vk_evidenceSummary = text_or_none (evidence_summary s),
      vk_karaokeActive = karaokeActive s, vk_emptyKind = map_option empty_str (emptyKind s),
      vk_jobState = text_or_none (jobState s), vk_density = map_option density_str (density s),
      vk_statusMessage = text_or_none (statusMessage s),
      vk_confirmActionId = text_or_none (map_option action_id (confirmAction s))\<rparr>"

section \<open>The host\<close>

text \<open>The variables of the mounted overlay, and the frames rendered so far.\<close>

record OverlayHost =
  ov_state :: OverlayState
  lastKey :: "OverlayVisualKey option"
  lastAnnouncedCueId :: "string option"
  ov_density :: DensityProfile
  frames :: "OverlayState list"

definition announcementForCues :: "Cue option \<Rightarrow> Cue option \<Rightarrow> string option" where
  "announcementForCues source translation =
     (if source = None \<and> translation = None then None
      else Some (join '' -- '' (filter (\<lambda>t. t \<noteq> [])
        ((case source of None \<Rightarrow> [] | Some c \<Rightarrow> [cue_text c])
         @ (case translation of None \<Rightarrow> [] | Some c \<Rightarrow> [cue_text c])))))"

definition announce_cue :: "OverlayHost \<Rightarrow> OverlayHost" where
  "announce_cue h =
     (case text_or_none (map_option cue_id (sourceCue (ov_state h))) of
        None \<Rightarrow> h
      | Some i \<Rightarrow>
          if lastAnnouncedCueId h = Some i then h
          else
            let said = announcementForCues (sourceCue (ov_state h)) (translationCue (ov_state h));
                h = h\<lparr>lastAnnouncedCueId := Some i\<rparr>
            in case text_or_none said of
                 None \<Rightarrow> h
               | Some m \<Rightarrow> h\<lparr>ov_state := (ov_state h)\<lparr>liveAnnouncement := Some m\<rparr>\<rparr>)"

definition paint :: "(real \<Rightarrow> string) \<Rightarrow> bool \<Rightarrow> OverlayHost \<Rightarrow> OverlayHost" where
  "paint fixed force h =
     (let key = toVisualKey (ov_state h)
      in if \<not> force \<and> \<not> shouldUpdateOverlay fixed (lastKey h) key then h
         else let h = announce_cue (h\<lparr>lastKey := Some key\<rparr>)
              in h\<lparr>frames := frames h @ [ov_state h]\<rparr>)"

definition mountOverlayHost :: "(real \<Rightarrow> string) \<Rightarrow> OverlayHost" where
  "mountOverlayHost fixed = paint fixed True
     \<lparr>ov_state = \<lparr>sourceCue = None, translationCue = None, showSource = True, showTranslation = True,
        blurTranslation = False, confidence = None, provenance_label = None, karaokeActive = None,
        evidence_summary = None, liveAnnouncement = None, emptyKind = None, jobState = None,
        density = Some DEFAULT_DENSITY, statusMessage = None, confirmAction = None\<rparr>,
      lastKey = None, lastAnnouncedCueId = None, ov_density = DEFAULT_DENSITY, frames = []\<rparr>"

definition ov_update :: "(real \<Rightarrow> string) \<Rightarrow> OverlayStatePatch \<Rightarrow> OverlayHost \<Rightarrow> OverlayHost" where
  "ov_update fixed p h =
     (let h = h\<lparr>ov_state := applyOverlayPatch (ov_state h) p\<rparr>;
          h = (case p_density p of Put d \<Rightarrow> h\<lparr>ov_density := d\<rparr> | _ \<Rightarrow> h)
      in paint fixed False h)"

text \<open>A stored density profile, read at the start or changed later.\<close>

definition read_density :: "(real \<Rightarrow> string) \<Rightarrow> string \<Rightarrow> OverlayHost \<Rightarrow> OverlayHost" where
  "read_density fixed v h =
     (case density_of v of
        None \<Rightarrow> h
      | Some d \<Rightarrow> paint fixed True (h\<lparr>ov_density := d, ov_state := (ov_state h)\<lparr>density := Some d\<rparr>\<rparr>))"

definition on_state_patch :: "(real \<Rightarrow> string) \<Rightarrow> OverlayStatePatch \<Rightarrow> OverlayHost \<Rightarrow> OverlayHost" where
  "on_state_patch fixed p h = paint fixed True (h\<lparr>ov_state := applyOverlayPatch (ov_state h) p\<rparr>)"

definition announce :: "(real \<Rightarrow> string) \<Rightarrow> string \<Rightarrow> OverlayHost \<Rightarrow> OverlayHost" where
  "announce fixed m h = paint fixed True (h\<lparr>ov_state := (ov_state h)\<lparr>liveAnnouncement := Some m\<rparr>\<rparr>)"

section \<open>Keyboard\<close>

datatype OverlayShortcutAction =
    ToggleSource | ToggleTranslation | RevealTranslation | MineSentence | MarkKnownAction
  | FocusOverlay | BlurOverlay | AnnounceHelp

record ShortcutContext =
  inEditable :: bool
  overlayFocused :: bool
  altKey :: bool
  ctrlKey :: bool
  metaKey :: bool

definition mapOverlayShortcut :: "string \<Rightarrow> ShortcutContext \<Rightarrow> OverlayShortcutAction option" where
  "mapOverlayShortcut key ctx =
     (if inEditable ctx then None
      else if ctrlKey ctx \<or> metaKey ctx then None
      else
        let k = (if length key = 1 then toLowerCase key else key);
            chord = (altKey ctx \<or> overlayFocused ctx)
        in if \<not> chord \<and> k \<noteq> ''Escape'' then None
           else if k = ''s'' then Some ToggleSource
           else if k = ''t'' then Some ToggleTranslation
           else if k = ''r'' then Some RevealTranslation
           else if k = ''m'' then Some MineSentence
           else if k = ''k'' then Some MarkKnownAction
           else if k = ''/'' \<or> k = ''?'' then Some AnnounceHelp
           else if k = ''Escape'' then (if overlayFocused ctx then Some BlurOverlay else None)
           else if k = ''Enter'' then (if overlayFocused ctx then None else Some FocusOverlay)
           else None)"

definition OVERLAY_SHORTCUT_HELP :: string where
  "OVERLAY_SHORTCUT_HELP =
     ''Alt+S source, Alt+T translation, Alt+R reveal, Alt+M mine, Alt+K known, Alt+? help, Esc blur''"

text \<open>What an action asks of the callbacks.\<close>

datatype OverlayCall =
    CallToggle bool bool bool
  | CallMine "Cue option" "Cue option"
  | CallMarkKnown string

text \<open>
  \<open>applyAction\<close>: the host afterwards and the calls made, where \<open>s\<close> is the state the component
  was last rendered with. Moving the focus is left to the browser.
\<close>

definition applyAction ::
  "(real \<Rightarrow> string) \<Rightarrow> OverlayShortcutAction \<Rightarrow> OverlayState \<Rightarrow> OverlayHost \<Rightarrow> OverlayHost \<times> OverlayCall list" where
  "applyAction fixed a s h =
     (case a of
        ToggleSource \<Rightarrow>
          let v = (\<not> showSource s)
          in (announce fixed (if v then ''Source captions shown'' else ''Source captions hidden'')
                (on_state_patch fixed (no_patch\<lparr>p_showSource := Put v\<rparr>) h),
              [CallToggle v (showTranslation s) (blurTranslation s)])
      | ToggleTranslation \<Rightarrow>
          let v = (\<not> showTranslation s)
          in (announce fixed (if v then ''Translation shown'' else ''Translation hidden'')
                (on_state_patch fixed (no_patch\<lparr>p_showTranslation := Put v\<rparr>) h),
              [CallToggle (showSource s) v (blurTranslation s)])
      | RevealTranslation \<Rightarrow>
          let v = (\<not> blurTranslation s)
          in (announce fixed (if v then ''Translation blurred'' else ''Translation revealed'')
                (on_state_patch fixed (no_patch\<lparr>p_blurTranslation := Put v\<rparr>) h),
              [CallToggle (showSource s) (showTranslation s) v])
      | MineSentence \<Rightarrow>
          (announce fixed ''Sentence mined for review'' h, [CallMine (sourceCue s) (translationCue s)])
      | MarkKnownAction \<Rightarrow>
          (case text_or_none (map_option cue_text (sourceCue s)) of
             None \<Rightarrow> (h, [])
           | Some t \<Rightarrow> (announce fixed ''Marked known'' h, [CallMarkKnown t]))
      | FocusOverlay \<Rightarrow> (announce fixed ''Caption overlay focused'' h, [])
      | BlurOverlay \<Rightarrow> (announce fixed ''Caption overlay blurred'' h, [])
      | AnnounceHelp \<Rightarrow> (announce fixed OVERLAY_SHORTCUT_HELP h, []))"

text \<open>The key listener, on the last frame.\<close>

definition onKeyDown ::
  "(real \<Rightarrow> string) \<Rightarrow> string \<Rightarrow> ShortcutContext \<Rightarrow> OverlayHost \<Rightarrow> OverlayHost \<times> OverlayCall list" where
  "onKeyDown fixed key ctx h =
     (case (mapOverlayShortcut key ctx, frames h) of
        (Some a, _ # _) \<Rightarrow> applyAction fixed a (last (frames h)) h
      | _ \<Rightarrow> (h, []))"

section \<open>What is displayed\<close>

definition uncertain :: "OverlayState \<Rightarrow> bool" where
  "uncertain s = (case confidence s of None \<Rightarrow> False | Some c \<Rightarrow> c < 55/100)"

text \<open>The source and translation a frame shows; none while an empty state is displayed.\<close>

definition shown_source :: "OverlayState \<Rightarrow> string option" where
  "shown_source s = (if emptyKind s = None \<and> showSource s
     then text_or_none (map_option cue_text (sourceCue s)) else None)"

definition shown_translation :: "OverlayState \<Rightarrow> string option" where
  "shown_translation s = (if emptyKind s = None \<and> showTranslation s
     then text_or_none (map_option cue_text (translationCue s)) else None)"

datatype EmptyAction = Transcribe | ConfirmLyricsAction | OpenPanel

fun emptyActions :: "EmptyStateKind \<Rightarrow> EmptyAction list" where
  "emptyActions NoCaptions = [Transcribe]"
| "emptyActions NoLyrics = [ConfirmLyricsAction, OpenPanel]"
| "emptyActions NoCompanion = [OpenPanel]"
| "emptyActions NoModel = [OpenPanel]"
| "emptyActions ModelInstalling = [OpenPanel]"
| "emptyActions _ = []"

text \<open>Whether the button beside the status message is there.\<close>

definition confirm_button :: "OverlayState \<Rightarrow> string option" where
  "confirm_button s = (if text_or_none (statusMessage s) = None then None
     else map_option action_label (confirmAction s))"

section \<open>The last frame is up to date\<close>

datatype HostEvent =
    UpdateBy OverlayStatePatch
  | StoredDensity string
  | KeyDown string ShortcutContext

primrec host_step :: "(real \<Rightarrow> string) \<Rightarrow> HostEvent \<Rightarrow> OverlayHost \<Rightarrow> OverlayHost" where
  "host_step fixed (UpdateBy p) h = ov_update fixed p h"
| "host_step fixed (StoredDensity v) h = read_density fixed v h"
| "host_step fixed (KeyDown key ctx) h = fst (onKeyDown fixed key ctx h)"

definition host_run :: "(real \<Rightarrow> string) \<Rightarrow> HostEvent list \<Rightarrow> OverlayHost" where
  "host_run fixed es = fold (host_step fixed) es (mountOverlayHost fixed)"

text \<open>The last key is that of the last frame.\<close>

definition framed :: "OverlayHost \<Rightarrow> bool" where
  "framed h \<longleftrightarrow> frames h \<noteq> [] \<and> lastKey h = Some (toVisualKey (last (frames h)))"

definition up_to_date :: "(real \<Rightarrow> string) \<Rightarrow> OverlayHost \<Rightarrow> bool" where
  "up_to_date fixed h \<longleftrightarrow> framed h \<and>
     overlayStateKey fixed (toVisualKey (last (frames h))) = overlayStateKey fixed (toVisualKey (ov_state h))"

lemma announce_cue_simps [simp]:
  "toVisualKey (ov_state (announce_cue h)) = toVisualKey (ov_state h)"
  "lastKey (announce_cue h) = lastKey h" "frames (announce_cue h) = frames h"
  by (simp_all add: announce_cue_def toVisualKey_def Let_def split: option.split)

lemma paint_up_to_date: "framed h \<or> force \<Longrightarrow> up_to_date fixed (paint fixed force h)"
  by (auto simp: up_to_date_def framed_def paint_def shouldUpdateOverlay_def Let_def)

lemma framed_fields [simp]:
  "framed (h\<lparr>ov_state := s\<rparr>) = framed h" "framed (h\<lparr>ov_density := d\<rparr>) = framed h"
  by (simp_all add: framed_def)

lemma forced_paints:
  "up_to_date fixed (on_state_patch fixed p h)" "up_to_date fixed (announce fixed m h)"
  by (simp_all add: on_state_patch_def announce_def paint_up_to_date)

lemma framed_update: "framed h \<Longrightarrow> up_to_date fixed (ov_update fixed p h)"
  unfolding ov_update_def Let_def
  by (rule paint_up_to_date) (simp split: field_patch.split)

lemma action_up_to_date:
  "up_to_date fixed h \<Longrightarrow> up_to_date fixed (fst (applyAction fixed a s h))"
  by (cases a) (simp_all add: applyAction_def Let_def forced_paints split: option.split)

lemma step_up_to_date: "up_to_date fixed h \<Longrightarrow> up_to_date fixed (host_step fixed e h)"
proof (cases e)
  case (UpdateBy p)
  assume "up_to_date fixed h"
  then show ?thesis by (simp add: UpdateBy framed_update up_to_date_def [of _ h])
next
  case (StoredDensity v)
  assume "up_to_date fixed h"
  then show ?thesis by (simp add: StoredDensity read_density_def paint_up_to_date split: option.split)
next
  case (KeyDown key ctx)
  assume "up_to_date fixed h"
  then show ?thesis by (simp add: KeyDown onKeyDown_def action_up_to_date split: option.split list.split)
qed

lemma run_up_to_date: "up_to_date fixed (host_run fixed es)"
  unfolding host_run_def
proof (induction es rule: rev_induct)
  case Nil
  then show ?case by (simp add: mountOverlayHost_def paint_up_to_date)
qed (simp add: step_up_to_date)

text \<open>Joined with a separator none of them contains, the parts can be told apart.\<close>

definition bar_free :: "(real \<Rightarrow> string) \<Rightarrow> OverlayState \<Rightarrow> bool" where
  "bar_free fixed s \<longleftrightarrow> list_all (\<lambda>t. CHR ''|'' \<notin> set t) (key_parts fixed (toVisualKey s))"

lemma key_determines_parts:
  assumes "overlayStateKey fixed (toVisualKey s) = overlayStateKey fixed (toVisualKey t)"
    "bar_free fixed s" "bar_free fixed t"
  shows "key_parts fixed (toVisualKey s) = key_parts fixed (toVisualKey t)"
proof -
  have "key_parts fixed k \<noteq> []" for k by (simp add: key_parts_def)
  then show ?thesis
    using assms split_join [where x = "CHR ''|''"] unfolding overlayStateKey_def bar_free_def by metis
qed

lemma empty_str_inject [simp]: "empty_str a = empty_str b \<longleftrightarrow> a = b"
  by (cases a; cases b) simp_all

lemma empty_str_nonempty [simp]: "empty_str a \<noteq> []" "[] \<noteq> empty_str a"
  by (cases a; simp)+

lemma opt_or_empty_eq:
  "opt_or (map_option empty_str a) [] = opt_or (map_option empty_str b) [] \<longleftrightarrow> a = b"
  by (cases a; cases b) auto

lemma opt_or_text_eq:
  "opt_or (text_or_none a) [] = opt_or (text_or_none b) [] \<longleftrightarrow> text_or_none a = text_or_none b"
  by (cases a; cases b) (auto simp: text_or_none_def)

lemma flag_str_eq [simp]: "flag_str a = flag_str b \<longleftrightarrow> a = b"
  by (simp add: flag_str_def)


definition demo_state :: OverlayState where
  "demo_state = \<lparr>sourceCue = None, translationCue = None, showSource = True, showTranslation = True,
     blurTranslation = False, confidence = None, provenance_label = None, karaokeActive = None,
     evidence_summary = None, liveAnnouncement = None, emptyKind = Some NoCaptions, jobState = None,
     density = Some DBalanced, statusMessage = Some ''ready'', confirmAction = None\<rparr>"

lemma demo_run:
  "let h = host_run (\<lambda>_. []) [UpdateBy (no_patch\<lparr>p_emptyKind := Put NoCaptions, p_statusMessage := Put ''ready''\<rparr>)]
   in ov_state h = demo_state \<and> last (frames h) = demo_state"
proof -
  let ?p = "no_patch\<lparr>p_emptyKind := Put NoCaptions, p_statusMessage := Put ''ready''\<rparr>"
  let ?s = "demo_state\<lparr>emptyKind := None, statusMessage := None\<rparr>"
  have quiet: "announce_cue h = h" if "sourceCue (ov_state h) = None" for h
    using that by (simp add: announce_cue_def text_or_none_def)
  have mount: "mountOverlayHost (\<lambda>_. []) = \<lparr>ov_state = ?s, lastKey = Some (toVisualKey ?s), lastAnnouncedCueId = None,
      ov_density = DBalanced, frames = [?s]\<rparr>"
    by (simp add: mountOverlayHost_def paint_def quiet demo_state_def DEFAULT_DENSITY_def Let_def)
  have patched: "applyOverlayPatch ?s ?p = demo_state"
    by (simp add: applyOverlayPatch_def demo_state_def no_patch_def)
  have none: "sourceCue demo_state = None" by (simp add: demo_state_def)
  have keep: "p_density ?p = Keep" by (simp add: no_patch_def)
  have "bar_free (\<lambda>_. []) ?s \<and> bar_free (\<lambda>_. []) demo_state \<and>
      key_parts (\<lambda>_. []) (toVisualKey ?s) \<noteq> key_parts (\<lambda>_. []) (toVisualKey demo_state)"
    by (simp add: bar_free_def key_parts_def toVisualKey_def demo_state_def flag_str_def text_or_none_def)
  then have differ: "overlayStateKey (\<lambda>_. []) (toVisualKey ?s) \<noteq> overlayStateKey (\<lambda>_. []) (toVisualKey demo_state)"
    using key_determines_parts by blast
  have "ov_update (\<lambda>_. []) ?p (mountOverlayHost (\<lambda>_. [])) =
      \<lparr>ov_state = demo_state, lastKey = Some (toVisualKey demo_state), lastAnnouncedCueId = None,
       ov_density = DBalanced, frames = [?s, demo_state]\<rparr>"
    unfolding ov_update_def mount
    by (simp add: patched keep paint_def shouldUpdateOverlay_def differ none quiet Let_def)
  then show ?thesis by (simp add: host_run_def)
qed


text \<open>
  The text of the source caption is not part of the key: a revised caption with the identifier of
  the old one is not rendered.
\<close>

lemma revised_caption_not_rendered:
  assumes "framed h" "up_to_date fixed h" "sourceCue (ov_state h) = Some c" "cue_id c' = cue_id c"
  shows "frames (ov_update fixed (no_patch\<lparr>p_sourceCue := Put c'\<rparr>) h) = frames h"
proof -
  have "toVisualKey (applyOverlayPatch (ov_state h) (no_patch\<lparr>p_sourceCue := Put c'\<rparr>)) = toVisualKey (ov_state h)"
    by (simp add: toVisualKey_def applyOverlayPatch_def no_patch_def assms(3,4))
  then show ?thesis
    using assms(1,2) by (simp add: ov_update_def no_patch_def paint_def shouldUpdateOverlay_def
        up_to_date_def framed_def Let_def)
qed

end
