(* ===== verification/Content.thy ===== *)
theory Content
  imports Overlay Captions Lyrics Fidelity Vlm Js_Values
begin

text \<open>
  The content script \<open>apps/extension/entrypoints/content.ts\<close>: its variables, the overlay it
  updates, and its operations: fidelity-gated translations, the merge of recognised cues, the
  published transcript, the frame tick, the caption run in the steps between its \<open>await\<close>s, the
  lyrics confirmation and the message listener. Answers of the background script, of \<open>fetch\<close> and
  of the store are arguments, read with the types the code casts them to.
\<close>

section \<open>State\<close>

text \<open>What a run of the script fixes: the development flag, the parsers and number printing.\<close>

record Setup =
  dev :: bool
  toFixed :: "real \<Rightarrow> string"
  parseEvents :: "string \<Rightarrow> YtTimedtextEvent list option"
  parseVtt :: "string \<Rightarrow> string \<Rightarrow> Provenance \<Rightarrow> SourceTimeline"
  parseTtml :: "string \<Rightarrow> ParsedLine list"
  pageVideoId :: "string option"

record TranscriptItem =
  ti_id :: string
  ti_startMs :: int
  ti_endMs :: int
  ti_text :: string
  ti_translation :: "string option"
  ti_provenance :: Provenance

record Transcript =
  tr_items :: "TranscriptItem list"
  tr_activeId :: "string option"
  tr_videoId :: "string option"
  tr_captionSource :: "string option"

text \<open>A sentence handed to the study session: source, translation and video.\<close>

record MinedSentence =
  mn_source :: string
  mn_translation :: "string option"
  mn_videoId :: "string option"

record Content =
  overlay :: OverlayHost
  cn_showSource :: bool
  cn_showTranslation :: bool
  cn_blurTranslation :: bool
  evidenceByCue :: "string list"
  lastEvidence :: string
  cn_emptyKind :: "EmptyStateKind option"
  pendingLyricsLrc :: "string option"
  pendingLyricsTimeline :: "SourceTimeline option"
  syncOffsetMs :: int
  captionSourceLabel :: "string option"
  asrCaptureActive :: bool
  timeline :: "SourceTimeline option"
  translationTexts :: "string list"
  lyricsTimeline :: "SourceTimeline option"
  cn_videoId :: "string option"
  lastPaintedCueId :: "string option"
  transcript :: "Transcript option"
  mined :: "MinedSentence list"
  known :: "string list"
  sent :: "json list"
  seeks :: "real list"

definition content_start :: "Setup \<Rightarrow> Content" where
  "content_start u =
     \<lparr>overlay = mountOverlayHost (toFixed u), cn_showSource = True, cn_showTranslation = True,
      cn_blurTranslation = False, evidenceByCue = [], lastEvidence = [],
      cn_emptyKind = Some NoCaptions, pendingLyricsLrc = None, pendingLyricsTimeline = None,
      syncOffsetMs = 0, captionSourceLabel = None, asrCaptureActive = False, timeline = None,
      translationTexts = [], lyricsTimeline = None, cn_videoId = None, lastPaintedCueId = None,
      transcript = None, mined = [], known = [], sent = [], seeks = []\<rparr>"

definition patch_overlay :: "Setup \<Rightarrow> OverlayStatePatch \<Rightarrow> Content \<Rightarrow> Content" where
  "patch_overlay u p s = s\<lparr>overlay := ov_update (toFixed u) p (overlay s)\<rparr>"

definition status :: "string \<Rightarrow> OverlayStatePatch" where
  "status m = no_patch\<lparr>p_statusMessage := Put m\<rparr>"

definition send_message :: "json \<Rightarrow> Content \<Rightarrow> Content" where
  "send_message m s = s\<lparr>sent := sent s @ [m]\<rparr>"

section \<open>Callbacks of the overlay\<close>

definition or_page :: "Setup \<Rightarrow> Content \<Rightarrow> string option" where
  "or_page u s = opt_else (cn_videoId s) (pageVideoId u)"

text \<open>The overlay's calls: mining, marking known and the display flags.\<close>

primrec overlay_call :: "OverlayCall \<Rightarrow> Content \<Rightarrow> Content" where
  "overlay_call (CallToggle src tgt blur) s =
     s\<lparr>cn_showSource := src, cn_showTranslation := tgt, cn_blurTranslation := blur\<rparr>"
| "overlay_call (CallMine source translation) s =
     (case text_or_none (map_option cue_text source) of
        None \<Rightarrow> s
      | Some t \<Rightarrow> s\<lparr>mined := mined s @ [\<lparr>mn_source = t, mn_translation = map_option cue_text translation,
                     mn_videoId = text_or_none (cn_videoId s)\<rparr>]\<rparr>)"
| "overlay_call (CallMarkKnown w) s = s\<lparr>known := known s @ [w]\<rparr>"

definition key_down :: "Setup \<Rightarrow> string \<Rightarrow> ShortcutContext \<Rightarrow> Content \<Rightarrow> Content" where
  "key_down u key ctx s =
     (let (h, calls) = onKeyDown (toFixed u) key ctx (overlay s)
      in fold overlay_call calls (s\<lparr>overlay := h\<rparr>))"

definition capture_request :: "Setup \<Rightarrow> Content \<Rightarrow> json" where
  "capture_request u s = js_obj [(''type'', Some (JStr ''capture.start'')),
     (''videoId'', Some (case or_page u s of None \<Rightarrow> JNull | Some v \<Rightarrow> JStr v))]"

definition waiting_patch :: OverlayStatePatch where
  "waiting_patch = (status ''Capture started -- waiting for ASR...'')
     \<lparr>p_emptyKind := Clear, p_jobState := Put ''asr-running''\<rparr>"

definition onTranscribeTab :: "Setup \<Rightarrow> Content \<Rightarrow> Content" where
  "onTranscribeTab u s = patch_overlay u waiting_patch (send_message (capture_request u s) s)"

text \<open>The same from the page's own event, which also forgets the empty state.\<close>

definition transcribe_event :: "Setup \<Rightarrow> Content \<Rightarrow> Content" where
  "transcribe_event u s =
     patch_overlay u waiting_patch ((send_message (capture_request u s) s)\<lparr>cn_emptyKind := None\<rparr>)"

definition onOpenSidePanel :: "Content \<Rightarrow> Content" where
  "onOpenSidePanel s = send_message (js_obj [(''type'', Some (JStr ''ui.open-sidepanel''))]) s"

definition onConfirmLyrics :: "Setup \<Rightarrow> Content \<Rightarrow> Content" where
  "onConfirmLyrics u s =
     (let confirmed = patch_overlay u ((status ''Lyrics confirmed and applied'')
            \<lparr>p_emptyKind := Clear, p_confirmAction := Clear\<rparr>)
      in case text_or_none (pendingLyricsLrc s) of
           Some lrc \<Rightarrow>
             confirmed (s\<lparr>lyricsTimeline := Some (linesToTimeline (opt_or (or_page u s) ''lrclib'')
                            (parseLrc lrc) LyricsOpenApi 3000),
                          pendingLyricsLrc := None\<rparr>)
         | None \<Rightarrow>
             (case pendingLyricsTimeline s of
                Some t \<Rightarrow> confirmed (s\<lparr>lyricsTimeline := Some t, pendingLyricsTimeline := None\<rparr>)
              | None \<Rightarrow> s))"

section \<open>Translations\<close>

datatype ProvisionalReason = OfflineMock | DevFallback | VlmStub

text \<open>The cues the checks are run on: one per source text.\<close>

definition check_cues :: "string list \<Rightarrow> Cue list" where
  "check_cues sources = map (\<lambda>(i, t). \<lparr>cue_id = ''c-'' @ nat_str i, startMs = 0, endMs = 1000,
     cue_text = t, speaker = None, provenance = HumanCaption\<rparr>) (List.enumerate 0 sources)"

definition check_texts :: "string list \<Rightarrow> string list \<Rightarrow> FidelityCheckResult" where
  "check_texts sources drafts = runFidelityChecks
     \<lparr>sourceCues = check_cues sources, targetTexts = drafts, glossary = None\<rparr>"

definition provisional_status :: "ProvisionalReason option \<Rightarrow> string" where
  "provisional_status reason =
     (case reason of
        Some VlmStub \<Rightarrow> ''Stub VLM (no multimodal weights) -- provisional correction''
      | Some DevFallback \<Rightarrow> ''Companion MT unavailable -- provisional [dev] draft (not a real translation)''
      | _ \<Rightarrow> ''Provisional OfflineMock draft (weights not installed; companion connected)'')"

definition applyTranslationTexts ::
  "Setup \<Rightarrow> string list \<Rightarrow> string list \<Rightarrow> bool \<Rightarrow> ProvisionalReason option \<Rightarrow> Content \<Rightarrow> Content" where
  "applyTranslationTexts u sources drafts provisional reason s =
     (let fidelity = check_texts sources drafts; evidence = formatFidelityEvidence fidelity
      in if hasCriticalFidelityFailure fidelity then
           (if dev u
            then patch_overlay u (status ''Fidelity check failed -- provisional [dev] draft shown (not a real MT result)'')
                   (s\<lparr>translationTexts := mockMtDraft sources ''en''\<rparr>)
            else patch_overlay u (status ''Fidelity check blocked translation revision'')
                   (s\<lparr>translationTexts := []\<rparr>))
             \<lparr>evidenceByCue := map (\<lambda>_. evidence) sources, lastEvidence := evidence\<rparr>
         else
           let s = s\<lparr>translationTexts := drafts\<rparr>
           in if provisional \<or> \<not> fr_ok fidelity then
                let s = s\<lparr>evidenceByCue := map (\<lambda>_. if fr_ok fidelity then [] else evidence) sources,
                          lastEvidence := evidence\<rparr>
                in if provisional then patch_overlay u (status (provisional_status reason)) s else s
              else s)"

text \<open>A translated cue of an answer, and the drafts made of a list of them.\<close>

record MtCue =
  mt_text :: "string option"
  mt_provisional :: bool

definition draft_texts :: "string list \<Rightarrow> MtCue list \<Rightarrow> string list" where
  "draft_texts sources cs = map (\<lambda>(i, c). opt_or (mt_text c) (opt_or (at_index sources i) []))
     (List.enumerate 0 cs)"

definition any_provisional :: "MtCue list \<Rightarrow> bool" where
  "any_provisional cs = list_ex mt_provisional cs"

definition timeline_texts :: "SourceTimeline \<Rightarrow> string list" where
  "timeline_texts t = map cue_text (tl_cues t)"

section \<open>Recognised cues\<close>

definition merged_cues :: "Cue list \<Rightarrow> Cue list \<Rightarrow> Cue list" where
  "merged_cues old new =
     sort_key startMs (map snd (fold (\<lambda>c. AList.update (cue_id c) c) new
       (map_of_entries (map (\<lambda>c. (cue_id c, c)) old))))"

definition mergeAsrTimeline :: "SourceTimeline \<Rightarrow> Content \<Rightarrow> Content" where
  "mergeAsrTimeline incoming s =
     (if tl_cues incoming = [] then s
      else
        let merged = (case timeline s of
              Some t \<Rightarrow>
                if tl_cues t \<noteq> []
                then t\<lparr>tl_cues := merged_cues (tl_cues t) (tl_cues incoming),
                       captionSource := opt_else (captionSource incoming) (captionSource t),
                       developmentFallback := opt_else (developmentFallback incoming) (developmentFallback t)\<rparr>
                else incoming
            | None \<Rightarrow> incoming)
        in s\<lparr>timeline := Some merged, asrCaptureActive := True\<rparr>)"

section \<open>The transcript and the tick\<close>

definition transcript_item :: "string list \<Rightarrow> nat \<Rightarrow> Cue \<Rightarrow> TranscriptItem" where
  "transcript_item translations i c =
     \<lparr>ti_id = cue_id c, ti_startMs = startMs c, ti_endMs = endMs c, ti_text = cue_text c,
      ti_translation = text_or_none (at_index translations i), ti_provenance = provenance c\<rparr>"

definition publishTranscript :: "string option \<Rightarrow> Content \<Rightarrow> Content" where
  "publishTranscript active s =
     (case timeline s of
        None \<Rightarrow> s\<lparr>transcript := Some \<lparr>tr_items = [], tr_activeId = None, tr_videoId = None,
                    tr_captionSource = None\<rparr>\<rparr>
      | Some t \<Rightarrow> s\<lparr>transcript := Some
          \<lparr>tr_items = map (\<lambda>(i, c). transcript_item (translationTexts s) i c) (List.enumerate 0 (tl_cues t)),
           tr_activeId = active, tr_videoId = cn_videoId s, tr_captionSource = captionSourceLabel s\<rparr>\<rparr>)"

primrec provenance_str :: "Provenance \<Rightarrow> string" where
  "provenance_str HumanCaption = ''human-caption''"
| "provenance_str AutoCaption = ''auto-caption''"
| "provenance_str Asr = ''asr''"
| "provenance_str UserEdit = ''user-edit''"
| "provenance_str Mt = ''mt''"
| "provenance_str VlmCorrected = ''vlm-corrected''"
| "provenance_str LyricsOpenApi = ''lyrics-open-api''"
| "provenance_str LyricsImport = ''lyrics-import''"
| "provenance_str PageTranslate = ''page-translate''"

primrec caption_source_str :: "CaptionSourceKind \<Rightarrow> string" where
  "caption_source_str SourceHuman = ''human''"
| "caption_source_str SourceAuto = ''auto''"
| "caption_source_str SourceAsrLive = ''asr-live''"
| "caption_source_str SourceAsrImport = ''asr-import''"
| "caption_source_str SourceUserEdit = ''user-edit''"

text \<open>What a tick finds at a media time: the cue, its index, its translation and evidence.\<close>

definition source_index :: "SourceTimeline \<Rightarrow> Cue option \<Rightarrow> nat option" where
  "source_index t source =
     (case source of None \<Rightarrow> None | Some c \<Rightarrow> find_index (\<lambda>d. cue_id d = cue_id c) (tl_cues t))"

definition text_at :: "string list \<Rightarrow> nat option \<Rightarrow> string option" where
  "text_at xs i = (case i of None \<Rightarrow> None | Some i \<Rightarrow> text_or_none (at_index xs i))"

definition translation_at :: "Content \<Rightarrow> SourceTimeline \<Rightarrow> Cue option \<Rightarrow> Cue option" where
  "translation_at s t source =
     (case (source, text_at (translationTexts s) (source_index t source)) of
        (Some c, Some text) \<Rightarrow> Some (c\<lparr>cue_text := text, provenance := Mt\<rparr>)
      | _ \<Rightarrow> None)"

text \<open>\<open>karaoke?.activeCueId === source?.id\<close>: without lyrics and without a cue both are undefined.\<close>

definition karaoke_at :: "Content \<Rightarrow> Cue option \<Rightarrow> int \<Rightarrow> bool" where
  "karaoke_at s source t =
     (case lyricsTimeline s of
        None \<Rightarrow> source = None
      | Some l \<Rightarrow> (case source of
          None \<Rightarrow> False
        | Some c \<Rightarrow> activeCueId (karaokeAt (tl_cues l) t) = Some (cue_id c)))"

definition put_if :: "'a option \<Rightarrow> 'a field_patch" where
  "put_if x = (case x of None \<Rightarrow> Keep | Some v \<Rightarrow> Put v)"

definition tick_patch :: "Content \<Rightarrow> SourceTimeline \<Rightarrow> int \<Rightarrow> OverlayStatePatch" where
  "tick_patch s tln t =
     (let source = activeCueAt tln t;
          tgt = translation_at s tln source;
          evidence = text_at (evidenceByCue s) (source_index tln source);
          summary = text_or_none (Some (opt_or evidence (lastEvidence s)))
      in no_patch\<lparr>p_showSource := Put (cn_showSource s),
           p_showTranslation := Put (cn_showTranslation s \<and> tgt \<noteq> None),
           p_blurTranslation := Put (cn_blurTranslation s), p_karaokeActive := Put (karaoke_at s source t),
           p_emptyKind := Clear, p_sourceCue := put_if source, p_translationCue := put_if tgt,
           p_provenance := put_if (text_or_none (opt_else (captionSourceLabel s)
             (opt_else (map_option (\<lambda>c. provenance_str (provenance c)) source)
                       (map_option (\<lambda>c. provenance_str (provenance c)) tgt)))),
           p_confidence := (case evidence of None \<Rightarrow> Keep | Some _ \<Rightarrow> Put (42/100)),
           p_evidenceSummary := put_if summary\<rparr>)"

definition idle_tick :: "Setup \<Rightarrow> Content \<Rightarrow> Content" where
  "idle_tick u s =
     (case cn_emptyKind s of
        None \<Rightarrow> s
      | Some k \<Rightarrow> patch_overlay u (no_patch\<lparr>p_emptyKind := Put k, p_showSource := Put (cn_showSource s),
          p_showTranslation := Put (cn_showTranslation s),
          p_blurTranslation := Put (cn_blurTranslation s)\<rparr>) s)"

text \<open>One tick; the argument is the player's position in ms, rounded down, if there is a player.\<close>

definition tick :: "Setup \<Rightarrow> int option \<Rightarrow> Content \<Rightarrow> Content" where
  "tick u pos s =
     (case (pos, timeline s) of
        (Some p, Some tln) \<Rightarrow>
          if tl_cues tln \<noteq> [] then
            let t = p + syncOffsetMs s; source = activeCueAt tln t;
                evidence = text_at (evidenceByCue s) (source_index tln source);
                s' = patch_overlay u (tick_patch s tln t)
                       (s\<lparr>lastEvidence := opt_or evidence (lastEvidence s)\<rparr>)
            in (case text_or_none (map_option cue_id source) of
                  None \<Rightarrow> s'
                | Some i \<Rightarrow>
                    if lastPaintedCueId s' = Some i then s'
                    else publishTranscript (Some i) (s'\<lparr>lastPaintedCueId := Some i\<rparr>))
          else idle_tick u s
      | _ \<Rightarrow> idle_tick u s)"

section \<open>The caption run\<close>

datatype EventsAnswer = EventText string | EventList "YtTimedtextEvent list" | EventOther

text \<open>What the run asks for: the stored timeline and translation, tracks, bodies, translations.\<close>

record Hydrated =
  hy_timeline :: "SourceTimeline option"
  hy_cues :: "MtCue list option"

record SmokeEnv =
  se_hydrated :: "Hydrated option"
  se_bridge :: "CaptionTrackMeta list"
  se_fixtures :: "CaptionTrackMeta list option"
  se_fetch :: "string \<Rightarrow> string option"
  se_events :: EventsAnswer
  se_translated :: "MtCue list option"
  se_title :: string
  se_now :: int

definition track_provenance :: "CaptionTrackMeta \<Rightarrow> Provenance" where
  "track_provenance track = (if ct_kind track = TrackHuman then HumanCaption else AutoCaption)"

definition set_track_label :: "CaptionTrackMeta \<Rightarrow> Content \<Rightarrow> Content" where
  "set_track_label track s =
     s\<lparr>captionSourceLabel := Some (if ct_kind track = TrackHuman then ''human'' else ''auto'')\<rparr>"

definition loadTimelineFromTrack ::
  "Setup \<Rightarrow> SmokeEnv \<Rightarrow> string \<Rightarrow> CaptionTrackMeta \<Rightarrow> SourceTimeline option" where
  "loadTimelineFromTrack u env video track =
     (let prov = track_provenance track;
          body = (\<lambda>b. parseTimedtextBody (parseEvents u) (parseVtt u) video b prov None);
          fetched = (case text_or_none (ct_baseUrl track) of None \<Rightarrow> None
                     | Some url \<Rightarrow> se_fetch env (preferJson3Url url))
      in case fetched of
           Some b \<Rightarrow> Some (body b)
         | None \<Rightarrow>
             (case se_events env of
                EventText b \<Rightarrow> Some (body b)
              | EventList es \<Rightarrow> Some (parseTimedtextEvents video es prov)
              | EventOther \<Rightarrow> None))"

definition applyHydratedCompanionState :: "Setup \<Rightarrow> Hydrated option \<Rightarrow> Content \<Rightarrow> bool \<times> Content" where
  "applyHydratedCompanionState u hydrated s =
     (case hydrated of
        None \<Rightarrow> (False, s)
      | Some h \<Rightarrow>
          (case hy_timeline h of
             None \<Rightarrow> (False, s)
           | Some stored \<Rightarrow>
               if tl_cues stored = [] then (False, s)
               else
                 let s = s\<lparr>timeline := Some stored, cn_emptyKind := None,
                           captionSourceLabel := Some (case captionSource stored of
                             None \<Rightarrow> ''asr-live'' | Some k \<Rightarrow> caption_source_str k)\<rparr>;
                     sources = timeline_texts stored;
                     cs = opt_or (hy_cues h) [];
                     s = (if cs \<noteq> []
                          then applyTranslationTexts u sources (draft_texts sources cs) (any_provisional cs) None s
                          else s)
                 in (True, patch_overlay u ((status ''Restored timeline from companion store'')\<lparr>p_emptyKind := Clear\<rparr>)
                            (publishTranscript None s))))"

text \<open>The steps of \<open>runCaptionSmoke\<close> between its \<open>await\<close>s.\<close>

definition smoke_reset :: "Setup \<Rightarrow> Content \<Rightarrow> Content" where
  "smoke_reset u s = publishTranscript None (patch_overlay u (no_patch\<lparr>p_emptyKind := Put NoCaptions\<rparr>)
     (s\<lparr>timeline := None, translationTexts := [], lyricsTimeline := None, evidenceByCue := [],
        lastEvidence := [], lastPaintedCueId := None, cn_emptyKind := Some NoCaptions,
        captionSourceLabel := None, pendingLyricsLrc := None, pendingLyricsTimeline := None\<rparr>))"

definition smoke_hydrate :: "Setup \<Rightarrow> SmokeEnv \<Rightarrow> Content \<Rightarrow> Content" where
  "smoke_hydrate u env s = snd (applyHydratedCompanionState u (se_hydrated env) s)"

definition cue_count :: "Content \<Rightarrow> nat" where
  "cue_count s = (case timeline s of None \<Rightarrow> 0 | Some t \<Rightarrow> length (tl_cues t))"

definition smoke_decision :: "SmokeEnv \<Rightarrow> SourceDecision" where
  "smoke_decision env = routeCaptionSource
     (if se_bridge env \<noteq> [] then se_bridge env else opt_or (se_fixtures env) []) None False False"

definition no_captions :: "Setup \<Rightarrow> OverlayStatePatch \<Rightarrow> Content \<Rightarrow> Content" where
  "no_captions u p s = patch_overlay u (p\<lparr>p_emptyKind := Put NoCaptions\<rparr>) (s\<lparr>cn_emptyKind := Some NoCaptions\<rparr>)"

text \<open>The live timeline arrived; its texts are sent off to be translated.\<close>

definition smoke_live :: "SourceTimeline \<Rightarrow> Content \<Rightarrow> Content" where
  "smoke_live live s = s\<lparr>timeline := Some live, cn_emptyKind := None\<rparr>"

definition mt_draft ::
  "Setup \<Rightarrow> string list \<Rightarrow> MtCue list option \<Rightarrow> Content \<Rightarrow> bool \<times> ProvisionalReason option \<times> Content" where
  "mt_draft u sources answer s =
     (case answer of
        Some cs \<Rightarrow>
          let p = any_provisional cs; reason = (if p then Some OfflineMock else None)
          in (p, reason, applyTranslationTexts u sources (draft_texts sources cs) p reason s)
      | None \<Rightarrow>
          if dev u
          then (True, Some DevFallback,
                applyTranslationTexts u sources (mockMtDraft sources ''en'') True (Some DevFallback) s)
          else (False, None, patch_overlay u (status ''Companion MT unavailable -- showing source captions only'')
                 (s\<lparr>translationTexts := []\<rparr>)))"

definition first_text :: "string list \<Rightarrow> string" where
  "first_text xs = opt_or (find (\<lambda>t. t \<noteq> []) xs) []"

definition vlm_pass ::
  "Setup \<Rightarrow> string list \<Rightarrow> bool \<Rightarrow> ProvisionalReason option \<Rightarrow> Content \<Rightarrow> Content" where
  "vlm_pass u sources provisional reason s =
     (if translationTexts s = [] then s
      else
        let gated = applyVlmGateToDrafts sources (translationTexts s) None (Some Balanced);
            s = applyTranslationTexts u sources (texts gated) (provisional \<or> invokedCount gated > 0)
                  (if invokedCount gated > 0 then Some VlmStub else reason) s
        in s\<lparr>evidenceByCue := evidenceByIndex gated, lastEvidence := first_text (evidenceByIndex gated)\<rparr>)"

definition smoke_translated :: "Setup \<Rightarrow> SourceTimeline \<Rightarrow> MtCue list option \<Rightarrow> Content \<Rightarrow> Content" where
  "smoke_translated u live answer s =
     (let sources = timeline_texts live; (provisional, reason, s) = mt_draft u sources answer s;
          s = publishTranscript None (vlm_pass u sources provisional reason s)
      in (patch_overlay u (no_patch\<lparr>p_emptyKind := Clear\<rparr>) s)\<lparr>cn_emptyKind := None\<rparr>)"

definition smoke_captions :: "Setup \<Rightarrow> SmokeEnv \<Rightarrow> string \<Rightarrow> nat \<Rightarrow> Content \<Rightarrow> Content" where
  "smoke_captions u env video restored s =
     (case smoke_decision env of
        UseCaption track _ \<Rightarrow>
          let s = set_track_label track s
          in (case loadTimelineFromTrack u env video track of
                Some live \<Rightarrow>
                  if tl_cues live \<noteq> [] then smoke_translated u live (se_translated env) (smoke_live live s)
                  else if restored = 0 then no_captions u no_patch s else s
              | None \<Rightarrow> if restored = 0 then no_captions u no_patch s else s)
      | AskTabCapture _ \<Rightarrow>
          if restored = 0
          then no_captions u (status (if asrCaptureActive s then ''Waiting for ASR...''
                                else ''No captions -- transcribe tab audio?'')) s
          else s
      | OfferImport _ \<Rightarrow> if restored = 0 then no_captions u no_patch s else s)"

definition smoke_lyrics :: "Setup \<Rightarrow> SmokeEnv \<Rightarrow> string \<Rightarrow> string \<Rightarrow> Content \<Rightarrow> Content" where
  "smoke_lyrics u env video href s =
     (case resolveLyricsLocal (parseTtml u)
             \<lparr>in_href = href, in_videoId = video, in_title = Some (se_title env), in_channel = None,
              in_category = None, pageCaptionTimeline = timeline s, pageEmbeddedLrc = None,
              lrclibTrack = None, imported = None, in_treatAsSong = None\<rparr> (se_now env) of
        Inl _ \<Rightarrow> s
      | Inr found \<Rightarrow>
          if requiresConfirmation found = Some True
          then patch_overlay u ((status ''Possible lyrics match from captions -- confirm before karaoke'')
                 \<lparr>p_confirmAction := Put \<lparr>action_id = ''confirm-lyrics'', action_label = ''Confirm as lyrics''\<rparr>\<rparr>)
                 (s\<lparr>pendingLyricsTimeline := Some (lr_timeline found)\<rparr>)
          else s\<lparr>lyricsTimeline := Some (lr_timeline found)\<rparr>)"

definition runCaptionSmoke :: "Setup \<Rightarrow> SmokeEnv \<Rightarrow> string \<Rightarrow> string \<Rightarrow> Content \<Rightarrow> Content" where
  "runCaptionSmoke u env video href s =
     (let s = smoke_hydrate u env (smoke_reset u s); restored = cue_count s
      in smoke_lyrics u env video href (smoke_captions u env video restored s))"

definition navigate :: "Setup \<Rightarrow> SmokeEnv \<Rightarrow> string option \<Rightarrow> string \<Rightarrow> Content \<Rightarrow> Content" where
  "navigate u env video href s =
     (let s = s\<lparr>cn_videoId := video\<rparr>
      in case text_or_none video of None \<Rightarrow> s | Some v \<Rightarrow> runCaptionSmoke u env v href s)"

section \<open>The message listener\<close>

record EventProgress =
  pg_status :: "string option"
  pg_message :: "string option"

record CompanionEvent =
  ev_type :: string
  ev_timeline :: "SourceTimeline option"
  ev_cues :: "MtCue list option"
  ev_progress :: "EventProgress option"
  ev_message :: "string option"
  ev_code :: "string option"

definition asr_event :: "Setup \<Rightarrow> SourceTimeline \<Rightarrow> Content \<Rightarrow> Content" where
  "asr_event u t s =
     (let stub = (developmentFallback t = Some True);
          s = (mergeAsrTimeline t s)\<lparr>cn_emptyKind := None,
                captionSourceLabel := (if stub then None else Some (case captionSource t of
                  None \<Rightarrow> ''asr-live'' | Some k \<Rightarrow> caption_source_str k))\<rparr>
      in publishTranscript None (patch_overlay u
           ((status (if stub then ''Offline ASR stub (weights not installed) -- not a real transcript''
                     else ''Live ASR cues received''))\<lparr>p_jobState := Put ''asr-running''\<rparr>) s))"

definition translation_event :: "Setup \<Rightarrow> SourceTimeline \<Rightarrow> MtCue list \<Rightarrow> Content \<Rightarrow> Content" where
  "translation_event u t cs s =
     (let sources = timeline_texts t; p = any_provisional cs
      in publishTranscript None (applyTranslationTexts u sources (draft_texts sources cs) p
           (if p then Some OfflineMock else None) s))"

definition companionEvent :: "Setup \<Rightarrow> CompanionEvent \<Rightarrow> Content \<Rightarrow> Content" where
  "companionEvent u e s =
     (if ev_type e = ''timeline.source'' then
        (case ev_timeline e of None \<Rightarrow> s | Some t \<Rightarrow> asr_event u t s)
      else if ev_type e = ''timeline.translation'' then
        (case timeline s of None \<Rightarrow> s | Some t \<Rightarrow> translation_event u t (opt_or (ev_cues e) []) s)
      else if ev_type e = ''job.progress'' then
        (case ev_progress e of
           None \<Rightarrow> s
         | Some p \<Rightarrow>
             (case text_or_none (pg_message p) of
                None \<Rightarrow> s
              | Some m \<Rightarrow> patch_overlay u ((status m)\<lparr>p_jobState :=
                  (if pg_status p = Some ''running'' then Put ''asr-running'' else Keep)\<rparr>) s))
      else if ev_type e = ''error'' then
        patch_overlay u (status (opt_or (ev_message e) (opt_or (ev_code e) ''Companion error''))) s
      else s)"

datatype ContentMessage =
    MsgEvent CompanionEvent
  | MsgLyricsImport "string option" LyricsFormat string
  | MsgApplyLrc "string option" string
  | MsgConfirmCandidate string "string option"
  | MsgSeek bool "real option"
  | MsgSyncOffset int
  | MsgSetEmpty EmptyStateKind

text \<open>
  The listener. Seeking needs a player and a finite position; \<open>None\<close> is a position that is not.
\<close>

primrec on_message :: "Setup \<Rightarrow> ContentMessage \<Rightarrow> Content \<Rightarrow> Content" where
  "on_message u (MsgEvent e) s = companionEvent u e s"
| "on_message u (MsgLyricsImport vid format content) s =
     (let i = opt_or vid (opt_or (or_page u s) ''import'');
          lyrics = resolveImportedLyrics (parseTtml u) i format content;
          s = s\<lparr>lyricsTimeline := Some lyrics\<rparr>;
          s = (if timeline s = None then s\<lparr>timeline := Some lyrics\<rparr> else s)
      in patch_overlay u ((status ''Imported lyrics applied'')\<lparr>p_emptyKind := Clear\<rparr>) (s\<lparr>cn_emptyKind := None\<rparr>))"
| "on_message u (MsgApplyLrc vid lrc) s =
     patch_overlay u (status ''Lyrics applied (attributed)'')
       (s\<lparr>lyricsTimeline := Some (linesToTimeline (opt_or vid (opt_or (cn_videoId s) ''lrclib''))
            (parseLrc lrc) LyricsOpenApi 3000)\<rparr>)"
| "on_message u (MsgConfirmCandidate lrc attribution) s =
     patch_overlay u ((status (''Lyrics candidate from '' @ opt_or attribution ''open API'' @ '' -- confirm to apply''))
         \<lparr>p_emptyKind := Put NoLyrics\<rparr>) (s\<lparr>pendingLyricsLrc := Some lrc\<rparr>)"
| "on_message u (MsgSeek player pos) s =
     (case pos of Some ms \<Rightarrow> if player then s\<lparr>seeks := seeks s @ [ms / 1000]\<rparr> else s | None \<Rightarrow> s)"
| "on_message u (MsgSyncOffset offset) s =
     patch_overlay u (status (''Sync offset '' @ int_str offset @ ''ms'')) (s\<lparr>syncOffsetMs := offset\<rparr>)"
| "on_message u (MsgSetEmpty k) s =
     patch_overlay u (no_patch\<lparr>p_emptyKind := Put k\<rparr>) (s\<lparr>cn_emptyKind := Some k\<rparr>)"

end
