(* ===== verification/Content_Props.thy ===== *)
theory Content_Props
  imports Content
begin

text \<open>
  What holds of the content script: merged recognitions keep order and identity, the translations
  a caption run leaves passed the critical checks against the displayed captions, lyrics found in
  captions wait for a confirmation, and a tick shows the cue of the moment with its translation.
\<close>

section \<open>Merging recognised cues\<close>

definition by_id :: "Cue list \<Rightarrow> string \<Rightarrow> Cue option" where
  "by_id cs i = find (\<lambda>c. cue_id c = i) cs"

lemma by_id_distinct:
  "distinct (map cue_id cs) \<Longrightarrow> by_id cs i = Some c \<longleftrightarrow> c \<in> set cs \<and> cue_id c = i"
  unfolding by_id_def by (induction cs) auto

text \<open>The table of a list of cues, filled on top of another: its keys are the identifiers.\<close>

definition keyed :: "(string, Cue) jsmap \<Rightarrow> bool" where
  "keyed m \<longleftrightarrow> distinct (map fst m) \<and> list_all (\<lambda>e. cue_id (snd e) = fst e) m"

lemma update_all: "list_all P m \<Longrightarrow> P (k, v) \<Longrightarrow> list_all P (AList.update k v m)"
  by (induction m) auto

lemma keyed_update: "keyed m \<Longrightarrow> keyed (AList.update (cue_id c) c m)"
  by (simp add: keyed_def distinct_update update_all)

lemma keyed_fill: "keyed m \<Longrightarrow> keyed (fold (\<lambda>c. AList.update (cue_id c) c) cs m)"
  by (induction cs arbitrary: m) (simp_all add: keyed_update)

lemma keyed_ids: "keyed m \<Longrightarrow> map cue_id (map snd m) = map fst m"
  unfolding keyed_def by (induction m) auto

lemma keyed_lookup: "keyed m \<Longrightarrow> map_of m i = Some c \<longleftrightarrow> c \<in> set (map snd m) \<and> cue_id c = i"
  unfolding keyed_def by (induction m) (auto simp: list_all_iff, force+)

lemma table_lookup:
  "map_of (fold (\<lambda>c. AList.update (cue_id c) c) cs m) i =
     (case by_id (rev cs) i of Some c \<Rightarrow> Some c | None \<Rightarrow> map_of m i)"
  using js.get_fill [of cue_id "\<lambda>c. c" cs m i] by (simp add: by_id_def)

definition cue_table :: "Cue list \<Rightarrow> Cue list \<Rightarrow> (string, Cue) jsmap" where
  "cue_table old new = fold (\<lambda>c. AList.update (cue_id c) c) new (map_of_entries (map (\<lambda>c. (cue_id c, c)) old))"

lemma entries_fill:
  "map_of_entries (map (\<lambda>c. (cue_id c, c)) old) = fold (\<lambda>c. AList.update (cue_id c) c) old []"
  by (simp add: map_of_entries_fill fold_map comp_def)

lemma merged_spec:
  "distinct (map cue_id (merged_cues old new)) \<and> sorted (map startMs (merged_cues old new)) \<and>
   by_id (merged_cues old new) i = (case by_id (rev new) i of Some c \<Rightarrow> Some c | None \<Rightarrow> by_id (rev old) i)"
proof -
  let ?t = "cue_table old new"
  have k: "keyed ?t" unfolding cue_table_def entries_fill by (intro keyed_fill) (simp add: keyed_def)
  have m: "merged_cues old new = sort_key startMs (map snd ?t)"
    by (simp add: merged_cues_def cue_table_def)
  have "distinct (map cue_id (map snd ?t))" unfolding keyed_ids [OF k] using k by (simp add: keyed_def)
  then have d: "distinct (map cue_id (merged_cues old new))"
    unfolding m by (metis distinct_map set_sort distinct_sort)
  have "by_id (merged_cues old new) i = map_of ?t i"
  proof (rule option.expand)
    have "by_id (merged_cues old new) i = Some c \<longleftrightarrow> map_of ?t i = Some c" for c
      unfolding by_id_distinct [OF d] keyed_lookup [OF k] by (simp add: m)
    then show "(by_id (merged_cues old new) i = None) = (map_of ?t i = None)"
      "by_id (merged_cues old new) i \<noteq> None \<Longrightarrow> map_of ?t i \<noteq> None \<Longrightarrow>
        the (by_id (merged_cues old new) i) = the (map_of ?t i)"
      by (metis option.exhaust option.simps(3), metis option.collapse)
  qed
  also have "\<dots> = (case by_id (rev new) i of Some c \<Rightarrow> Some c | None \<Rightarrow> by_id (rev old) i)"
    unfolding cue_table_def entries_fill table_lookup by (simp split: option.split)
  finally show ?thesis using d by (simp add: m)
qed

text \<open>C19:
  Recognised cues are merged without loss: after a recognition arrives for a timeline that has
  captions, identifiers are unique, cues come in the order of their starts, and for every
  identifier the timeline has the last version that arrived or, where none arrived, the old one.\<close>

theorem recognised_cues_merge:
  assumes "timeline s = Some t" "tl_cues t \<noteq> []" "tl_cues incoming \<noteq> []"
  shows "case timeline (mergeAsrTimeline incoming s) of
      None \<Rightarrow> False
    | Some t' \<Rightarrow> distinct (map cue_id (tl_cues t')) \<and> sorted (map startMs (tl_cues t')) \<and>
        by_id (tl_cues t') i =
          (case by_id (rev (tl_cues incoming)) i of Some c \<Rightarrow> Some c | None \<Rightarrow> by_id (rev (tl_cues t)) i) \<and>
        tl_videoId t' = tl_videoId t"
  using assms merged_spec [of "tl_cues t" "tl_cues incoming" i]
  by (simp add: mergeAsrTimeline_def)

section \<open>What the operations leave alone\<close>

lemma patch_overlay_simps [simp]:
  "timeline (patch_overlay u p s) = timeline s"
  "translationTexts (patch_overlay u p s) = translationTexts s"
  "lyricsTimeline (patch_overlay u p s) = lyricsTimeline s"
  "pendingLyricsTimeline (patch_overlay u p s) = pendingLyricsTimeline s"
  "pendingLyricsLrc (patch_overlay u p s) = pendingLyricsLrc s"
  "cn_videoId (patch_overlay u p s) = cn_videoId s"
  "overlay (patch_overlay u p s) = ov_update (toFixed u) p (overlay s)"
  by (simp_all add: patch_overlay_def)

lemma publish_simps [simp]:
  "timeline (publishTranscript a s) = timeline s"
  "translationTexts (publishTranscript a s) = translationTexts s"
  "lyricsTimeline (publishTranscript a s) = lyricsTimeline s"
  "pendingLyricsTimeline (publishTranscript a s) = pendingLyricsTimeline s"
  "pendingLyricsLrc (publishTranscript a s) = pendingLyricsLrc s"
  "cn_videoId (publishTranscript a s) = cn_videoId s" "overlay (publishTranscript a s) = overlay s"
  by (simp_all add: publishTranscript_def split: option.split)

lemma apply_texts_simps [simp]:
  "timeline (applyTranslationTexts u ss ds p r s) = timeline s"
  "lyricsTimeline (applyTranslationTexts u ss ds p r s) = lyricsTimeline s"
  "pendingLyricsTimeline (applyTranslationTexts u ss ds p r s) = pendingLyricsTimeline s"
  "pendingLyricsLrc (applyTranslationTexts u ss ds p r s) = pendingLyricsLrc s"
  "cn_videoId (applyTranslationTexts u ss ds p r s) = cn_videoId s"
  by (simp_all add: applyTranslationTexts_def Let_def)

section \<open>Translations are checked\<close>

definition checked_texts :: "string list \<Rightarrow> string list \<Rightarrow> bool" where
  "checked_texts sources drafts \<longleftrightarrow> drafts = [] \<or> \<not> hasCriticalFidelityFailure (check_texts sources drafts)"

lemma check_cues_texts: "map cue_text (check_cues sources) = sources"
  by (simp add: check_cues_def comp_def case_prod_beta map_snd_enumerate flip: snd_def)

lemma apply_texts_checked: "checked_texts ss (translationTexts (applyTranslationTexts u ss ds p r s))"
  using draft_passes_critical [of "check_cues ss" "''en''" None]
  by (auto simp: applyTranslationTexts_def checked_texts_def check_texts_def check_cues_texts Let_def)

text \<open>The displayed translations passed the critical checks against the displayed captions.\<close>

definition display_checked :: "Content \<Rightarrow> bool" where
  "display_checked s \<longleftrightarrow> (case timeline s of
     None \<Rightarrow> translationTexts s = []
   | Some t \<Rightarrow> checked_texts (timeline_texts t) (translationTexts s))"

lemma display_checked_simps [simp]:
  "display_checked (patch_overlay u p s) = display_checked s"
  "display_checked (publishTranscript a s) = display_checked s"
  "display_checked (s\<lparr>cn_emptyKind := k\<rparr>) = display_checked s"
  "display_checked (s\<lparr>captionSourceLabel := l\<rparr>) = display_checked s"
  "display_checked (s\<lparr>evidenceByCue := e, lastEvidence := le\<rparr>) = display_checked s"
  "display_checked (s\<lparr>pendingLyricsTimeline := pt\<rparr>) = display_checked s"
  "display_checked (s\<lparr>lyricsTimeline := pt\<rparr>) = display_checked s"
  by (simp_all add: display_checked_def split: option.split)

lemma apply_display_checked:
  "timeline s = Some t \<Longrightarrow> display_checked (applyTranslationTexts u (timeline_texts t) ds p r s)"
  using apply_texts_checked by (simp add: display_checked_def)

lemma no_texts_checked: "translationTexts s = [] \<Longrightarrow> display_checked s"
  by (simp add: display_checked_def checked_texts_def split: option.split)

lemma hydrate_checked:
  assumes "display_checked s" "translationTexts s = []"
  shows "display_checked (smoke_hydrate u env s)"
  using assms no_texts_checked [of "s\<lparr>timeline := t, cn_emptyKind := k, captionSourceLabel := l\<rparr>" for t k l]
  by (auto simp: smoke_hydrate_def applyHydratedCompanionState_def Let_def apply_display_checked
      split: option.split)

lemma translated_checked:
  assumes "timeline s = Some live"
  shows "display_checked (smoke_translated u live answer s)"
proof -
  obtain p r s1 where draft: "mt_draft u (timeline_texts live) answer s = (p, r, s1)"
    by (cases "mt_draft u (timeline_texts live) answer s")
  then have s1: "display_checked s1" "timeline s1 = Some live"
    using assms by (auto simp: mt_draft_def Let_def apply_display_checked no_texts_checked
        split: option.splits if_splits)
  have "display_checked (vlm_pass u (timeline_texts live) p r s1)"
    using s1 by (auto simp: vlm_pass_def Let_def apply_display_checked)
  then show ?thesis by (simp add: smoke_translated_def Let_def draft)
qed

lemma captions_checked:
  "display_checked s \<Longrightarrow> display_checked (smoke_captions u env v n s)"
  by (auto simp: smoke_captions_def Let_def no_captions_def set_track_label_def smoke_live_def
      translated_checked split: SourceDecision.split option.split)

lemma lyrics_checked: "display_checked s \<Longrightarrow> display_checked (smoke_lyrics u env v href s)"
  by (simp add: smoke_lyrics_def split: sum.split)

lemma reset_checked: "display_checked (smoke_reset u s) \<and> translationTexts (smoke_reset u s) = []"
  by (simp add: smoke_reset_def display_checked_def)

text \<open>C7:
  No translation that fails a critical check is left on the screen: after a caption run, whatever
  the state before, the stored timeline, the tracks, the companion's translation, the vision pass
  and the build, the translations are empty or pass the critical fidelity checks against the
  captions of the timeline that is displayed.\<close>

theorem caption_run_translations_checked:
  "display_checked (runCaptionSmoke u env video href s)"
  unfolding runCaptionSmoke_def Let_def
  by (intro lyrics_checked captions_checked hydrate_checked) (simp_all add: reset_checked)

section \<open>Lyrics wait for a confirmation\<close>

definition song_page :: "SmokeEnv \<Rightarrow> string \<Rightarrow> bool" where
  "song_page env href \<longleftrightarrow> isSong (detectSongContext \<lparr>sg_href = href, sg_title = Some (se_title env),
     sg_channel = None, sg_category = None, treatAsSong = None\<rparr>)"

text \<open>The captions, where there are any.\<close>

definition captions_of :: "Content \<Rightarrow> SourceTimeline option" where
  "captions_of s = (case timeline s of None \<Rightarrow> None | Some t \<Rightarrow> if tl_cues t = [] then None else Some t)"

definition no_lyrics :: "Content \<Rightarrow> bool" where
  "no_lyrics s \<longleftrightarrow> lyricsTimeline s = None \<and> pendingLyricsTimeline s = None \<and> pendingLyricsLrc s = None"

lemma no_lyrics_simps [simp]:
  "no_lyrics (patch_overlay u p s) = no_lyrics s" "no_lyrics (publishTranscript a s) = no_lyrics s"
  "no_lyrics (applyTranslationTexts u ss ds pr r s) = no_lyrics s"
  "no_lyrics (s\<lparr>cn_emptyKind := k\<rparr>) = no_lyrics s" "no_lyrics (s\<lparr>captionSourceLabel := l\<rparr>) = no_lyrics s"
  "no_lyrics (s\<lparr>timeline := t\<rparr>) = no_lyrics s" "no_lyrics (s\<lparr>translationTexts := ts\<rparr>) = no_lyrics s"
  "no_lyrics (s\<lparr>evidenceByCue := e, lastEvidence := le\<rparr>) = no_lyrics s"
  by (simp_all add: no_lyrics_def)

lemma no_lyrics_captions:
  assumes "no_lyrics s"
  shows "no_lyrics (smoke_captions u env v n s)"
proof -
  have draft: "no_lyrics (snd (snd (mt_draft u ss answer t)))" if "no_lyrics t" for ss answer t
    using that by (simp add: mt_draft_def Let_def split: option.split)
  have "no_lyrics (smoke_translated u live answer t)" if "no_lyrics t" for live answer t
    using draft [OF that] by (simp add: smoke_translated_def vlm_pass_def Let_def case_prod_beta)
  then show ?thesis
    using assms by (auto simp: smoke_captions_def Let_def no_captions_def set_track_label_def
        smoke_live_def split: SourceDecision.split option.split)
qed

lemma no_lyrics_hydrate: "no_lyrics s \<Longrightarrow> no_lyrics (smoke_hydrate u env s)"
  by (simp add: smoke_hydrate_def applyHydratedCompanionState_def Let_def split: option.split)

text \<open>C27:
  Captions are never taken for lyrics by themselves: after a caption run no lyrics are applied; on
  a song page with captions exactly those captions are waiting, and one confirmation applies them
  and nothing else is waiting any more; on any other page confirming changes nothing.\<close>

theorem caption_lyrics_need_confirmation:
  "let s' = runCaptionSmoke u env video href s; c = onConfirmLyrics u s'
   in lyricsTimeline s' = None
    \<and> pendingLyricsTimeline s' = (if song_page env href then captions_of s' else None)
    \<and> lyricsTimeline c = pendingLyricsTimeline s'
    \<and> pendingLyricsTimeline c = None
    \<and> (if pendingLyricsTimeline s' = None then c = s' else timeline c = timeline s')"
proof -
  let ?s = "smoke_hydrate u env (smoke_reset u s)"
  let ?t = "smoke_captions u env video (cue_count ?s) ?s"
  have none: "no_lyrics ?t"
    by (intro no_lyrics_captions no_lyrics_hydrate) (simp add: smoke_reset_def no_lyrics_def)
  have "lyricsTimeline (smoke_lyrics u env video href ?t) = None \<and>
      pendingLyricsLrc (smoke_lyrics u env video href ?t) = None \<and>
      timeline (smoke_lyrics u env video href ?t) = timeline ?t \<and>
      pendingLyricsTimeline (smoke_lyrics u env video href ?t) = (if song_page env href then captions_of ?t else None)"
    using none by (auto simp: smoke_lyrics_def resolveLyricsLocal_def resolve_rest_def no_lyrics_def
        song_page_def captions_of_def split: option.split)
  then show ?thesis
    by (auto simp: runCaptionSmoke_def onConfirmLyrics_def text_or_none_def captions_of_def Let_def
        split: option.split)
qed

section \<open>The tick\<close>

text \<open>An update patches the overlay's state; painting changes at most the announcement.\<close>

lemma update_state:
  "sourceCue (ov_state (ov_update f p h)) = patch_opt (p_sourceCue p) (sourceCue (ov_state h))"
  "translationCue (ov_state (ov_update f p h)) = patch_opt (p_translationCue p) (translationCue (ov_state h))"
  "showSource (ov_state (ov_update f p h)) = patch_flag (p_showSource p) (showSource (ov_state h))"
  "showTranslation (ov_state (ov_update f p h)) = patch_flag (p_showTranslation p) (showTranslation (ov_state h))"
  "emptyKind (ov_state (ov_update f p h)) = patch_opt (p_emptyKind p) (emptyKind (ov_state h))"
  "statusMessage (ov_state (ov_update f p h)) = patch_opt (p_statusMessage p) (statusMessage (ov_state h))"
  "confirmAction (ov_state (ov_update f p h)) = patch_opt (p_confirmAction p) (confirmAction (ov_state h))"
  by (auto simp: ov_update_def paint_def announce_cue_def applyOverlayPatch_def Let_def
      split: option.split field_patch.split)

lemma tick_overlay:
  assumes "timeline s = Some tln" "tl_cues tln \<noteq> []"
  shows "overlay (tick u (Some p) s) = ov_update (toFixed u) (tick_patch s tln (p + syncOffsetMs s)) (overlay s)"
  using assms by (simp add: tick_def Let_def split: option.split)

lemma source_index_active:
  "activeCueAt tln t = Some c \<Longrightarrow> source_index tln (Some c) \<noteq> None"
  by (auto simp: activeCueAt_def find_Some_iff source_index_def find_index_None)


section \<open>A concrete video\<close>

definition demo_line :: "string \<Rightarrow> int \<Rightarrow> Cue" where
  "demo_line i start = \<lparr>cue_id = i, startMs = start, endMs = start + 1000, cue_text = ''line '' @ i,
     speaker = None, provenance = Asr\<rparr>"

definition demo_timeline :: "Cue list \<Rightarrow> SourceTimeline" where
  "demo_timeline cs = \<lparr>tl_videoId = ''v'', tl_cues = cs, sourceHash = [], immutable = True,
     captionSource = None, tl_language = None, developmentFallback = None\<rparr>"

definition demo_setup :: Setup where
  "demo_setup = \<lparr>dev = False, toFixed = (\<lambda>_. []), parseEvents = (\<lambda>_. None),
     parseVtt = (\<lambda>v _ p. emptyTimeline v p), parseTtml = (\<lambda>_. []), pageVideoId = None\<rparr>"

definition demo_content :: Content where
  "demo_content = (content_start demo_setup)\<lparr>timeline := Some (demo_timeline [demo_line ''a'' 0, demo_line ''b'' 1000]),
     translationTexts := [''uno'', ''due'']\<rparr>"

theorem recognised_cues_merge_witness:
  "case timeline (mergeAsrTimeline (demo_timeline [demo_line ''c'' 500, demo_line ''a'' 700]) demo_content) of
      None \<Rightarrow> False
    | Some t' \<Rightarrow> distinct (map cue_id (tl_cues t')) \<and> sorted (map startMs (tl_cues t')) \<and>
        by_id (tl_cues t') ''a'' =
          (case by_id (rev (tl_cues (demo_timeline [demo_line ''c'' 500, demo_line ''a'' 700]))) ''a'' of
             Some c \<Rightarrow> Some c | None \<Rightarrow> by_id (rev (tl_cues (demo_timeline [demo_line ''a'' 0, demo_line ''b'' 1000]))) ''a'') \<and>
        tl_videoId t' = tl_videoId (demo_timeline [demo_line ''a'' 0, demo_line ''b'' 1000])"
  by (rule recognised_cues_merge) (simp_all add: demo_content_def demo_timeline_def)


section \<open>Where the parts disagree\<close>

text \<open>
  Toggling the source while the active cue has no translation switches the translations off: the
  tick tells the overlay that no translation is shown, and the toggle hands that flag back.
\<close>

lemma toggle_source_drops_translations:
  assumes "timeline s = Some tln" "tl_cues tln \<noteq> []"
    and "translation_at s tln (activeCueAt tln (pos + syncOffsetMs s)) = None"
    and "h = overlay (tick u (Some pos) s)" "frames h \<noteq> []"
    and "showTranslation (last (frames h)) = showTranslation (ov_state h)"
    and "altKey ctx" "\<not> inEditable ctx" "\<not> ctrlKey ctx" "\<not> metaKey ctx"
  shows "\<not> cn_showTranslation (key_down u ''s'' ctx (tick u (Some pos) s))"
proof -
  have flag: "\<not> showTranslation (ov_state h)"
    by (simp add: assms(3,4) tick_overlay [OF assms(1,2)] update_state tick_patch_def Let_def)
  have key: "mapOverlayShortcut ''s'' ctx = Some ToggleSource"
    using assms(7-10) by (simp add: mapOverlayShortcut_def toLowerCase_def lower_char_def)
  obtain f fs where "frames h = f # fs" using assms(5) by (cases "frames h") auto
  then have "onKeyDown (toFixed u) ''s'' ctx h = applyAction (toFixed u) ToggleSource (last (frames h)) h"
    by (simp add: onKeyDown_def key)
  then show ?thesis using flag assms(6)
    by (simp add: key_down_def applyAction_def Let_def flip: assms(4))
qed

text \<open>
  The prompt for a lyrics candidate is gone with the next tick of a playing timeline.
\<close>

lemma lyrics_prompt_vanishes:
  assumes "timeline s = Some tln" "tl_cues tln \<noteq> []" "confirmAction (ov_state (overlay s)) = None"
  shows "let o' = ov_state (overlay (tick u (Some pos) (on_message u (MsgConfirmCandidate lrc by') s)))
    in emptyKind o' = None \<and> confirm_button o' = None"
proof -
  have vanishes: "emptyKind (ov_state (overlay (tick u (Some pos) m))) = None \<and>
      confirm_button (ov_state (overlay (tick u (Some pos) m))) = None"
    if "timeline m = Some tln" "confirmAction (ov_state (overlay m)) = None" for m
    by (simp add: tick_overlay [OF that(1) assms(2)] update_state tick_patch_def confirm_button_def
        no_patch_def that(2) Let_def)
  have "timeline (on_message u (MsgConfirmCandidate lrc by') s) = Some tln"
    "confirmAction (ov_state (overlay (on_message u (MsgConfirmCandidate lrc by') s))) = None"
    using assms by (simp_all add: patch_overlay_def update_state status_def no_patch_def)
  then show ?thesis unfolding Let_def by (rule vanishes)
qed

text \<open>
  Navigating on while the store is still asked about the old video: its answer arrives after the
  reset of the new run and its timeline is displayed for the new video.
\<close>

lemma late_answer_shows_old_video:
  assumes "se_hydrated old = Some h" "hy_timeline h = Some t" "tl_cues t \<noteq> []"
  shows "let s' = smoke_hydrate u old (smoke_hydrate u new (smoke_reset u (s\<lparr>cn_videoId := Some v\<rparr>)))
    in timeline s' = Some t \<and> cn_videoId s' = Some v"
proof -
  have video: "cn_videoId (smoke_hydrate u e r) = cn_videoId r" for e r
    by (simp add: smoke_hydrate_def applyHydratedCompanionState_def Let_def split: option.split)
  have "cn_videoId (smoke_reset u (s\<lparr>cn_videoId := Some v\<rparr>)) = Some v" by (simp add: smoke_reset_def)
  moreover have "timeline (smoke_hydrate u old r) = Some t" for r
    using assms by (simp add: smoke_hydrate_def applyHydratedCompanionState_def Let_def)
  ultimately show ?thesis by (simp add: video)
qed

end
