(* ===== verification/Metrics.thy ===== *)
theory Metrics
  imports Js_Text "HOL-Library.Multiset"
begin

text \<open>
  The metrics of the evaluation suites, \<open>benchmarks/src/metrics.ts\<close>: word error rate over an edit
  distance computed by rows of a table, character n-gram overlap, and the drift of cue midpoints.
  The edit distance is proved equal to the least number of edits of a script.
\<close>

section \<open>Words\<close>

definition normalizeWhitespace :: "string \<Rightarrow> string" where
  "normalizeWhitespace text = collapse_ws (toLowerCase (trim text))"

definition tokenizeWords :: "string \<Rightarrow> string list" where
  "tokenizeWords text =
     (let normalized = normalizeWhitespace text
      in if normalized = [] then [] else split_on (CHR '' '') normalized)"

section \<open>Edit distance\<close>

text \<open>
  One row of the table from the row above: \<open>left\<close> is the entry to the left, \<open>diag\<close> the one above
  it, \<open>ups\<close> the entries above, for the tokens of \<open>b\<close>.
\<close>

fun next_row :: "'a \<Rightarrow> 'a list \<Rightarrow> nat \<Rightarrow> nat \<Rightarrow> nat list \<Rightarrow> nat list" where
  "next_row x (y # ys) left diag (up # ups) =
     (let v = min (min (up + 1) (left + 1)) (diag + (if x = y then 0 else 1))
      in v # next_row x ys v up ups)"
| "next_row x _ left diag _ = []"

text \<open>The rows below the first, whose entry in column 0 is the number of the row.\<close>

fun table_rows :: "'a list \<Rightarrow> 'a list \<Rightarrow> nat \<Rightarrow> nat list \<Rightarrow> nat list" where
  "table_rows [] b i row = row"
| "table_rows (x # xs) b i row =
     (case row of [] \<Rightarrow> [] | d # ups \<Rightarrow> table_rows xs b (i + 1) ((i + 1) # next_row x b (i + 1) d ups))"

definition editDistance :: "'a list \<Rightarrow> 'a list \<Rightarrow> nat" where
  "editDistance a b = last (table_rows a b 0 [0 ..< length b + 1])"

definition wordErrorRate :: "string \<Rightarrow> string \<Rightarrow> real" where
  "wordErrorRate reference hypothesis =
     (let ref = tokenizeWords reference; hyp = tokenizeWords hypothesis
      in if ref = [] then (if hyp = [] then 0 else 1)
         else real (editDistance ref hyp) / real (length ref))"

section \<open>Character n-grams\<close>

text \<open>The counts of \<open>ngrams\<close>, in the order of the map.\<close>

definition gram_list :: "string \<Rightarrow> nat \<Rightarrow> string list" where
  "gram_list text n = (if length text < n then [] else map (\<lambda>i. take n (drop i text)) [0 ..< length text - n + 1])"

definition count_gram :: "string \<Rightarrow> (string, nat) jsmap \<Rightarrow> (string, nat) jsmap" where
  "count_gram g m = AList.update g (opt_or (map_of m g) 0 + 1) m"

definition ngrams :: "string \<Rightarrow> nat \<Rightarrow> (string, nat) jsmap" where
  "ngrams text n = fold count_gram (gram_list text n) []"

definition totalCount :: "(string, nat) jsmap \<Rightarrow> nat" where
  "totalCount m = sum_list (map snd m)"

definition intersectCount :: "(string, nat) jsmap \<Rightarrow> (string, nat) jsmap \<Rightarrow> nat" where
  "intersectCount a b = sum_list (map (\<lambda>(k, av). case map_of b k of None \<Rightarrow> 0 | Some bv \<Rightarrow> min av bv) a)"

text \<open>Sums over the orders, and how many were used.\<close>

record ChrSums =
  precisionSum :: real
  recallSum :: real
  used :: nat

definition chr_step :: "string \<Rightarrow> string \<Rightarrow> nat \<Rightarrow> ChrSums \<Rightarrow> ChrSums" where
  "chr_step ref hyp order s =
     (let refGrams = ngrams ref order; hypGrams = ngrams hyp order
      in if refGrams = [] \<and> hypGrams = [] then s
         else
           let overlap = real (intersectCount refGrams hypGrams);
               ratio = (\<lambda>n. if n = 0 then 0 else overlap / real n)
           in \<lparr>precisionSum = precisionSum s + ratio (totalCount hypGrams),
               recallSum = recallSum s + ratio (totalCount refGrams), used = used s + 1\<rparr>)"

definition chrF :: "string \<Rightarrow> string \<Rightarrow> nat \<Rightarrow> real" where
  "chrF reference hypothesis n =
     (let ref = filter (\<lambda>c. c \<noteq> CHR '' '') (normalizeWhitespace reference);
          hyp = filter (\<lambda>c. c \<noteq> CHR '' '') (normalizeWhitespace hypothesis)
      in if ref = [] \<and> hyp = [] then 1
         else if ref = [] \<or> hyp = [] then 0
         else
           let s = fold (chr_step ref hyp) [1 ..< n + 1] \<lparr>precisionSum = 0, recallSum = 0, used = 0\<rparr>
           in if used s = 0 then 0
              else
                let p = precisionSum s / real (used s); r = recallSum s / real (used s)
                in if p + r = 0 then 0 else 2 * p * r / (p + r))"

section \<open>Synchronisation\<close>

record SyncCue =
  sc_startMs :: real
  sc_endMs :: real

definition midpoint_drift :: "SyncCue \<times> SyncCue \<Rightarrow> real" where
  "midpoint_drift p = \<bar>(sc_startMs (fst p) + sc_endMs (fst p)) / 2 - (sc_startMs (snd p) + sc_endMs (snd p)) / 2\<bar>"

definition meanMidpointDriftMs :: "SyncCue list \<Rightarrow> SyncCue list \<Rightarrow> real" where
  "meanMidpointDriftMs reference hypothesis =
     (let ps = zip reference hypothesis
      in if ps = [] then 0 else sum_list (map midpoint_drift ps) / real (length ps))"

definition syncWithinBudget :: "SyncCue list \<Rightarrow> SyncCue list \<Rightarrow> real \<Rightarrow> real" where
  "syncWithinBudget reference hypothesis budgetMs =
     (let ps = zip reference hypothesis
      in if ps = [] then 1
         else real (length (filter (\<lambda>p. midpoint_drift p \<le> budgetMs) ps)) / real (length ps))"

section \<open>Edit scripts\<close>

text \<open>A script that turns the first list into the second, with its cost.\<close>

inductive edits :: "'a list \<Rightarrow> 'a list \<Rightarrow> nat \<Rightarrow> bool" where
  both_empty: "edits [] [] 0"
| keep: "edits xs ys n \<Longrightarrow> edits (x # xs) (x # ys) n"
| change: "edits xs ys n \<Longrightarrow> edits (x # xs) (y # ys) (Suc n)"
| delete: "edits xs ys n \<Longrightarrow> edits (x # xs) ys (Suc n)"
| insert: "edits xs ys n \<Longrightarrow> edits xs (y # ys) (Suc n)"

inductive_cases edits_ConsE: "edits (x # xs) (y # ys) n"

lemma edits_Cons_cases:
  "edits (x # xs) (y # ys) n \<Longrightarrow> (x = y \<and> edits xs ys n) \<or>
     (\<exists>m. n = Suc m \<and> (edits xs ys m \<or> edits xs (y # ys) m \<or> edits (x # xs) ys m))"
  by (erule edits_ConsE) auto

text \<open>The distance by recursion on both lists.\<close>

fun lev :: "'a list \<Rightarrow> 'a list \<Rightarrow> nat" where
  "lev [] ys = length ys"
| "lev xs [] = length xs"
| "lev (x # xs) (y # ys) =
     min (min (lev xs (y # ys) + 1) (lev (x # xs) ys + 1)) (lev xs ys + (if x = y then 0 else 1))"

lemma lev_Nil2 [simp]: "lev xs [] = length xs"
  by (cases xs) simp_all

lemma edits_insert_all: "edits [] ys (length ys)"
  by (induction ys) (auto intro: edits.intros)

lemma edits_delete_all: "edits xs [] (length xs)"
  by (induction xs) (auto intro: edits.intros)

lemma lev_script: "edits xs ys (lev xs ys)"
proof (induction xs ys rule: lev.induct)
  case (3 x xs y ys)
  then show ?case
    by (auto simp: min_def intro: edits.intros)
qed (auto intro: edits_insert_all edits_delete_all simp del: list.size)

lemma edits_NilD: "edits [] ys n \<Longrightarrow> n = length ys"
  by (induction "[] :: 'a list" ys n rule: edits.induct) simp_all

lemma edits_Nil2D: "edits xs [] n \<Longrightarrow> n = length xs"
  by (induction xs "[] :: 'a list" n rule: edits.induct) simp_all

lemma lev_least: "edits xs ys n \<Longrightarrow> lev xs ys \<le> n"
proof (induction xs ys arbitrary: n rule: lev.induct)
  case (3 x xs y ys)
  from edits_Cons_cases [OF 3(4)] show ?case
  proof (elim disjE exE conjE)
    assume "x = y" "edits xs ys n"
    then show ?thesis using 3(3) [of n] by (simp add: min_le_iff_disj)
  next
    fix m assume "n = Suc m" "edits xs ys m"
    then show ?thesis using 3(3) [of m] by (auto simp: min_le_iff_disj)
  next
    fix m assume "n = Suc m" "edits xs (y # ys) m"
    then show ?thesis using 3(1) [of m] by (simp add: min_le_iff_disj)
  next
    fix m assume "n = Suc m" "edits (x # xs) ys m"
    then show ?thesis using 3(2) [of m] by (simp add: min_le_iff_disj)
  qed
qed (auto dest: edits_NilD edits_Nil2D)

lemma edits_append: "edits xs ys m \<Longrightarrow> edits us vs n \<Longrightarrow> edits (xs @ us) (ys @ vs) (m + n)"
  by (induction rule: edits.induct) (auto intro: edits.intros)

lemma edits_rev: "edits xs ys n \<Longrightarrow> edits (rev xs) (rev ys) n"
proof (induction rule: edits.induct)
  case (keep xs ys n x)
  then show ?case using edits_append [OF keep.IH, of "[x]" "[x]" 0] by (auto intro: edits.intros)
next
  case (change xs ys n x y)
  then show ?case using edits_append [OF change.IH, of "[x]" "[y]" 1] by (auto intro: edits.intros)
next
  case (delete xs ys n x)
  then show ?case using edits_append [OF delete.IH, of "[x]" "[]" 1] by (auto intro: edits.intros)
next
  case (insert xs ys n y)
  then show ?case using edits_append [OF insert.IH, of "[]" "[y]" 1] by (auto intro: edits.intros)
qed (simp add: edits.both_empty)

section \<open>The table computes the distance\<close>

text \<open>The reversed prefixes of a list, the shorter first.\<close>

fun revs :: "'a list \<Rightarrow> 'a list \<Rightarrow> 'a list list" where
  "revs q [] = []"
| "revs q (y # ys) = (y # q) # revs (y # q) ys"

lemma last_revs: "last (q # revs q ys) = rev ys @ q"
  by (induction ys arbitrary: q) simp_all

lemma first_row: "map (lev []) (revs q ys) = [length q + 1 ..< length q + 1 + length ys]"
  by (induction ys arbitrary: q) (simp_all add: upt_rec)

lemma next_row_lev:
  "next_row x ys (lev (x # p) q) (lev p q) (map (lev p) (revs q ys)) = map (lev (x # p)) (revs q ys)"
proof (induction ys arbitrary: q)
  case (Cons y ys)
  have "min (min (lev p (y # q) + 1) (lev (x # p) q + 1)) (lev p q + (if x = y then 0 else 1)) = lev (x # p) (y # q)"
    by simp
  then show ?case by (simp only: revs.simps list.map next_row.simps Let_def Cons.IH)
qed simp

lemma table_rows_lev:
  "i = length p \<Longrightarrow>
   table_rows xs b i (map (lev p) ([] # revs [] b)) = map (lev (rev xs @ p)) ([] # revs [] b)"
proof (induction xs arbitrary: p i)
  case (Cons x xs)
  have "next_row x b (i + 1) (lev p []) (map (lev p) (revs [] b)) = map (lev (x # p)) (revs [] b)"
    using next_row_lev [of x b p "[]"] Cons.prems by simp
  then show ?case using Cons.IH [of "Suc i" "x # p"] Cons.prems by simp
qed simp

lemma editDistance_lev: "editDistance a b = lev (rev a) (rev b)"
proof -
  have "[0 ..< length b + 1] = map (lev []) ([] # revs [] b)"
    using first_row [of "[]" b] by (simp add: upt_rec)
  then have "editDistance a b = last (map (lev (rev a)) ([] # revs [] b))"
    using table_rows_lev [of 0 "[]" a b] by (simp add: editDistance_def)
  also have "\<dots> = lev (rev a) (last ([] # revs [] b))"
    by (rule last_map) simp
  finally show ?thesis by (simp only: last_revs) simp
qed

text \<open>C40:
  The edit distance is the Levenshtein distance: the table's last entry is the cost of some script
  of insertions, deletions and changes that turns the first list into the second, and no such
  script is cheaper. So a word error rate is zero exactly for equal word sequences.\<close>

theorem editDistance_is_least:
  "edits a b (editDistance a b) \<and> \<not> (\<exists>n < editDistance a b. edits a b n)
   \<and> (editDistance a b = 0 \<longleftrightarrow> a = b)"
proof -
  have script: "edits a b (editDistance a b)"
    using edits_rev [OF lev_script [of "rev a" "rev b"]] by (simp add: editDistance_lev)
  moreover have "\<not> (\<exists>n < editDistance a b. edits a b n)"
    using lev_least [OF edits_rev, of a b] by (auto simp: editDistance_lev simp flip: not_less)
  moreover have "editDistance a b = 0 \<longleftrightarrow> a = b"
  proof
    have "edits xs ys n \<Longrightarrow> n = 0 \<Longrightarrow> xs = ys" for xs ys :: "'a list" and n
      by (induction rule: edits.induct) simp_all
    then show "editDistance a b = 0 \<Longrightarrow> a = b" using script by blast
    have "edits xs xs 0" for xs :: "'a list" by (induction xs) (auto intro: edits.intros)
    then show "a = b \<Longrightarrow> editDistance a b = 0"
      using lev_least [OF edits_rev, of a a 0] by (simp add: editDistance_lev)
  qed
  ultimately show ?thesis by blast
qed

section \<open>n-grams\<close>

text \<open>The counts are those of the multiset of grams.\<close>

lemma map_of_count_gram: "map_of (count_gram g m) k = (if k = g then Some (opt_or (map_of m g) 0 + 1) else map_of m k)"
  by (simp add: count_gram_def update_conv')

lemma counts_of_fold:
  "opt_or (map_of (fold count_gram gs m) k) 0 = opt_or (map_of m k) 0 + count (mset gs) k"
  by (induction gs arbitrary: m) (simp_all add: map_of_count_gram)

lemma ngrams_count: "opt_or (map_of (ngrams text n) k) 0 = count (mset (gram_list text n)) k"
  using counts_of_fold [of "gram_list text n" "[]" k] by (simp add: ngrams_def)

lemma ngrams_distinct: "distinct (map fst (ngrams text n))"
proof -
  have "distinct (map fst m) \<Longrightarrow> distinct (map fst (fold count_gram gs m))" for gs m
    by (induction gs arbitrary: m) (simp_all add: count_gram_def distinct_update)
  then show ?thesis by (simp add: ngrams_def)
qed

end
