(* ===== verification/Language_Kits.thy ===== *)
theory Language_Kits
  imports Js_Text Js_Values
begin

text \<open>
  The language kits of \<open>packages/language-kits/src\<close>: grapheme-safe slicing and highlighting
  (\<open>graphemes.ts\<close>), word tokens (\<open>tokenizer.ts\<close>), furigana, pinyin and Hangul annotations
  (\<open>kits/\<close>). The segmenters of
  \<open>Intl\<close> are arguments, from a text to its segments; texts that go beyond Latin-1 are lists of
  code points.
\<close>

section \<open>Graphemes\<close>

type_synonym 'u segmenter = "'u list \<Rightarrow> 'u list list"

record GraphemeSpan =
  g_start :: int
  g_end :: int

record 'u GraphemeSlice =
  gs_text :: "'u list"
  gs_start :: int
  gs_end :: int

definition graphemeLength :: "'u segmenter \<Rightarrow> 'u list \<Rightarrow> int" where
  "graphemeLength seg text = int (length (seg text))"

definition sliceGraphemes :: "'u segmenter \<Rightarrow> 'u list \<Rightarrow> int \<Rightarrow> int option \<Rightarrow> 'u list" where
  "sliceGraphemes seg text start end' =
     (let graphemes = seg text; upto = opt_or end' (int (length graphemes))
      in concat (js_slice graphemes (max 0 start) (max 0 upto)))"

definition highlightGraphemeRange ::
  "'u segmenter \<Rightarrow> 'u list \<Rightarrow> GraphemeSpan \<Rightarrow> 'u list \<times> 'u list \<times> 'u list" where
  "highlightGraphemeRange seg text s =
     (let start = max 0 (g_start s); end' = max start (g_end s)
      in (sliceGraphemes seg text 0 (Some start), sliceGraphemes seg text start (Some end'),
          sliceGraphemes seg text end' None))"

text \<open>The first place where a list of segments occurs in another.\<close>

fun find_sublist :: "nat \<Rightarrow> 'a list \<Rightarrow> 'a list \<Rightarrow> nat option" where
  "find_sublist i needle [] = (if needle = [] then Some i else None)"
| "find_sublist i needle (g # gs) =
     (if take (length needle) (g # gs) = needle then Some i else find_sublist (Suc i) needle gs)"

definition findGraphemeSpan :: "'u segmenter \<Rightarrow> 'u list \<Rightarrow> 'u list \<Rightarrow> GraphemeSpan option" where
  "findGraphemeSpan seg text surface =
     (if surface = [] then None
      else
        let needle = seg surface
        in if needle = [] then None
           else (case find_sublist 0 needle (seg text) of
                   None \<Rightarrow> None
                 | Some i \<Rightarrow> Some \<lparr>g_start = int i, g_end = int i + int (length needle)\<rparr>))"

text \<open>The loop over sorted spans: overlapping ones are skipped, gaps become slices of their own.\<close>

fun split_spans :: "'u segmenter \<Rightarrow> 'u list \<Rightarrow> GraphemeSpan list \<Rightarrow> int \<Rightarrow> 'u GraphemeSlice list \<Rightarrow>
    'u GraphemeSlice list \<times> int" where
  "split_spans seg text [] cursor out = (out, cursor)"
| "split_spans seg text (s # ss) cursor out =
     (if g_start s < cursor then split_spans seg text ss cursor out
      else
        let out = (if cursor < g_start s
              then out @ [\<lparr>gs_text = sliceGraphemes seg text cursor (Some (g_start s)),
                           gs_start = cursor, gs_end = g_start s\<rparr>] else out);
            out = out @ [\<lparr>gs_text = sliceGraphemes seg text (g_start s) (Some (g_end s)),
                          gs_start = g_start s, gs_end = g_end s\<rparr>]
        in split_spans seg text ss (g_end s) out)"

definition splitHighlightSurfaces :: "'u segmenter \<Rightarrow> 'u list \<Rightarrow> 'u list list \<Rightarrow> 'u GraphemeSlice list" where
  "splitHighlightSurfaces seg text surfaces =
     (let spans = sort_key g_start (List.map_filter (findGraphemeSpan seg text) surfaces);
          (out, cursor) = split_spans seg text spans 0 []
      in if cursor < graphemeLength seg text
         then out @ [\<lparr>gs_text = sliceGraphemes seg text cursor None, gs_start = cursor,
                      gs_end = graphemeLength seg text\<rparr>]
         else out)"

section \<open>Tokens\<close>

record 'u TokenSpan =
  tk_text :: "'u list"
  tk_start :: nat
  tk_end :: nat
  isWordLike :: bool

text \<open>The grapheme each code unit belongs to, with the count of graphemes at the end.\<close>

fun unit_map :: "nat \<Rightarrow> 'u list list \<Rightarrow> nat list" where
  "unit_map g [] = [g]"
| "unit_map g (s # ss) = replicate (length s) g @ unit_map (Suc g) ss"

text \<open>The word segments: index, text and whether it is word-like.\<close>

definition segmentWords ::
  "'u segmenter \<Rightarrow> ('u list \<Rightarrow> (nat \<times> 'u list \<times> bool) list) \<Rightarrow> 'u list \<Rightarrow> 'u TokenSpan list" where
  "segmentWords seg word_seg text =
     (let units = unit_map 0 (seg text);
          unit = (\<lambda>i. if i < length units then Some (units ! i) else None)
      in map (\<lambda>(i, s, wordlike).
           let start = opt_or (unit i) 0
           in \<lparr>tk_text = s, tk_start = start, tk_end = opt_or (unit (i + length s)) start,
               isWordLike = wordlike\<rparr>) (word_seg text))"

definition wordLikeTokens ::
  "'u segmenter \<Rightarrow> ('u list \<Rightarrow> (nat \<times> 'u list \<times> bool) list) \<Rightarrow> 'u list \<Rightarrow> 'u TokenSpan list" where
  "wordLikeTokens seg word_seg text = filter isWordLike (segmentWords seg word_seg text)"

section \<open>Japanese\<close>

record 'u FuriganaAnnotation =
  fu_span :: GraphemeSpan
  fu_reading :: "'u list"

definition attachFurigana :: "'u segmenter \<Rightarrow> 'u list \<Rightarrow> 'u list \<Rightarrow> 'u list \<Rightarrow> 'u FuriganaAnnotation option" where
  "attachFurigana seg text surface reading =
     (let needle = seg surface
      in if needle = [] then None
         else (case find_sublist 0 needle (seg text) of
                 None \<Rightarrow> None
               | Some i \<Rightarrow> Some \<lparr>fu_span = \<lparr>g_start = int i, g_end = int i + int (length needle)\<rparr>,
                                 fu_reading = reading\<rparr>))"

text \<open>Base texts with their readings.\<close>

fun ruby_loop :: "'u list list \<Rightarrow> 'u FuriganaAnnotation list \<Rightarrow> int \<Rightarrow> ('u list \<times> 'u list option) list \<Rightarrow>
    ('u list \<times> 'u list option) list \<times> int" where
  "ruby_loop gs [] cursor out = (out, cursor)"
| "ruby_loop gs (a # as) cursor out =
     (let s = g_start (fu_span a); e = g_end (fu_span a)
      in if s < cursor then ruby_loop gs as cursor out
         else
           let out = (if cursor < s then out @ [(concat (js_slice gs cursor s), None)] else out)
           in ruby_loop gs as e (out @ [(concat (js_slice gs s e), Some (fu_reading a))]))"

definition toRubyPairs :: "'u segmenter \<Rightarrow> 'u list \<Rightarrow> 'u FuriganaAnnotation list \<Rightarrow> ('u list \<times> 'u list option) list" where
  "toRubyPairs seg text annotations =
     (let gs = seg text; n = int (length gs);
          (out, cursor) = ruby_loop gs (sort_key (\<lambda>a. g_start (fu_span a)) annotations) 0 []
      in if cursor < n then out @ [(concat (js_slice gs cursor n), None)] else out)"

definition isKana :: "nat list \<Rightarrow> bool" where
  "isKana ch = (case ch of
     [c] \<Rightarrow> (0x3040 \<le> c \<and> c \<le> 0x309F) \<or> (0x30A0 \<le> c \<and> c \<le> 0x30FF) \<or> (0xFF66 \<le> c \<and> c \<le> 0xFF9D)
   | _ \<Rightarrow> False)"

definition isKanji :: "nat list \<Rightarrow> bool" where
  "isKanji ch = (case ch of
     [c] \<Rightarrow> (0x3400 \<le> c \<and> c \<le> 0x9FFF) \<or> (0xF900 \<le> c \<and> c \<le> 0xFAFF)
   | _ \<Rightarrow> False)"

section \<open>Korean\<close>

definition INITIALS :: "string list" where
  "INITIALS = [''g'', ''kk'', ''n'', ''d'', ''tt'', ''r'', ''m'', ''b'', ''pp'', ''s'', ''ss'', '''', ''j'',
     ''jj'', ''ch'', ''k'', ''t'', ''p'', ''h'']"

definition MEDIALS :: "string list" where
  "MEDIALS = [''a'', ''ae'', ''ya'', ''yae'', ''eo'', ''e'', ''yeo'', ''ye'', ''o'', ''wa'', ''wae'', ''oe'',
     ''yo'', ''u'', ''wo'', ''we'', ''wi'', ''yu'', ''eu'', ''ui'', ''i'']"

definition FINALS :: "string list" where
  "FINALS = ['''', ''k'', ''k'', ''k'', ''n'', ''n'', ''n'', ''t'', ''l'', ''l'', ''l'', ''l'', ''l'', ''l'',
     ''l'', ''l'', ''m'', ''p'', ''p'', ''t'', ''t'', ''ng'', ''t'', ''t'', ''k'', ''t'', ''p'', ''t'']"

definition nth_str :: "string list \<Rightarrow> nat \<Rightarrow> string" where
  "nth_str xs i = (if i < length xs then xs ! i else [])"

definition isHangulSyllable :: "nat \<Rightarrow> bool" where
  "isHangulSyllable c \<longleftrightarrow> 0xAC00 \<le> c \<and> c \<le> 0xD7A3"

definition romanizeHangulSyllable :: "nat \<Rightarrow> string option" where
  "romanizeHangulSyllable c =
     (if c < 0xAC00 \<or> 0xD7A3 < c then None
      else let s = c - 0xAC00
           in Some (nth_str INITIALS (s div 588) @ nth_str MEDIALS (s mod 588 div 28) @ nth_str FINALS (s mod 28)))"

text \<open>The text in code points; those that are no syllable stay as they are.\<close>

definition romanizeHangulText :: "nat list \<Rightarrow> nat list" where
  "romanizeHangulText text =
     concat (map (\<lambda>c. case romanizeHangulSyllable c of None \<Rightarrow> [c] | Some r \<Rightarrow> map code r) text)"

definition attachHangulRomanization ::
  "nat segmenter \<Rightarrow> nat list \<Rightarrow> nat list \<Rightarrow> (GraphemeSpan \<times> nat list) option" where
  "attachHangulRomanization seg text surface =
     map_option (\<lambda>s. (s, romanizeHangulText surface)) (findGraphemeSpan seg text surface)"

section \<open>Chinese\<close>

text \<open>Texts in code units; white space is the class \<open>\s\<close>.\<close>

definition unit_ws :: "nat \<Rightarrow> bool" where
  "unit_ws u \<longleftrightarrow> (9 \<le> u \<and> u \<le> 13) \<or> (0x2000 \<le> u \<and> u \<le> 0x200A)
     \<or> u \<in> {32, 160, 0x1680, 0x2028, 0x2029, 0x202F, 0x205F, 0x3000, 0xFEFF}"

definition unit_trim :: "nat list \<Rightarrow> nat list" where
  "unit_trim s = rev (dropWhile unit_ws (rev (dropWhile unit_ws s)))"

text \<open>\<open>s.split(/\s+/)\<close>, every run of white space one separator.\<close>

fun split_runs :: "bool \<Rightarrow> nat list \<Rightarrow> nat list list" where
  "split_runs after [] = [[]]"
| "split_runs after (u # s) =
     (if unit_ws u then (if after then split_runs True s else [] # split_runs True s)
      else (u # hd (split_runs False s)) # tl (split_runs False s))"

definition tone_map :: "nat \<Rightarrow> nat list" where
  "tone_map vowel =
     (if vowel = 97 then [97, 257, 225, 462, 224]
      else if vowel = 101 then [101, 275, 233, 283, 232]
      else if vowel = 105 then [105, 299, 237, 464, 236]
      else if vowel = 111 then [111, 333, 243, 466, 242]
      else if vowel = 117 then [117, 363, 250, 468, 249]
      else if vowel = 118 \<or> vowel = 252 then [252, 470, 472, 474, 476] else [])"

text \<open>The letters \<open>[a-z\<close>, u with diaeresis\<open>]\<close> in either case, and their lower case.\<close>

definition pinyin_letter :: "nat \<Rightarrow> bool" where
  "pinyin_letter u \<longleftrightarrow> (97 \<le> u \<and> u \<le> 122) \<or> (65 \<le> u \<and> u \<le> 90) \<or> u = 252 \<or> u = 220"

definition lower_letter :: "nat \<Rightarrow> nat" where
  "lower_letter u = (if (65 \<le> u \<and> u \<le> 90) \<or> u = 220 then u + 32 else u)"

definition vowel_order :: "nat list" where
  "vowel_order = [97, 111, 101, 105, 117, 252]"

definition mark_vowel :: "nat list \<Rightarrow> nat \<Rightarrow> nat \<Rightarrow> nat list" where
  "mark_vowel base tone vowel =
     takeWhile (\<lambda>u. u \<noteq> vowel) base @ [tone_map vowel ! tone] @ drop 1 (dropWhile (\<lambda>u. u \<noteq> vowel) base)"

definition place_tone :: "nat list \<Rightarrow> nat \<Rightarrow> nat list" where
  "place_tone base tone =
     (case find (\<lambda>v. v \<in> set base) vowel_order of None \<Rightarrow> base | Some v \<Rightarrow> mark_vowel base tone v)"

definition numberedToToneMarked :: "nat list \<Rightarrow> nat list" where
  "numberedToToneMarked syllable =
     (let t = unit_trim syllable
      in if length t < 2 \<or> \<not> list_all pinyin_letter (butlast t) \<or> last t < 49 \<or> 53 < last t then syllable
         else
           let base = map (\<lambda>u. if lower_letter u = 118 then 252 else lower_letter u) (butlast t);
               tone = last t - 48
           in if tone = 5 then base else place_tone base tone)"

definition attachPinyin :: "nat segmenter \<Rightarrow> nat list \<Rightarrow> nat list \<Rightarrow> nat list \<Rightarrow> (GraphemeSpan \<times> nat list) option" where
  "attachPinyin seg text surface pinyinNumbered =
     map_option (\<lambda>s. (s, join [32] (map numberedToToneMarked (split_runs False pinyinNumbered))))
       (findGraphemeSpan seg text surface)"

text \<open>
  Among \<open>a\<close>, \<open>o\<close> and \<open>e\<close> the mark goes where the spelling rules put it, but \<open>i\<close> comes before
  \<open>u\<close>: the second tone of \<open>liu2\<close> is put on the \<open>i\<close>.
\<close>

lemma liu_marked_on_i: "numberedToToneMarked [108, 105, 117, 50] = [108, 237, 117]"
  by (simp add: numberedToToneMarked_def unit_trim_def unit_ws_def pinyin_letter_def lower_letter_def
      place_tone_def vowel_order_def mark_vowel_def tone_map_def)

text \<open>A tone mark replaces one letter: only the digit is taken away.\<close>

lemma length_mark_vowel: "v \<in> set base \<Longrightarrow> length (mark_vowel base tone v) = length base"
proof -
  assume "v \<in> set base"
  then have "dropWhile (\<lambda>u. u \<noteq> v) base \<noteq> []" by (simp add: dropWhile_eq_Nil_conv)
  moreover have "length base = length (takeWhile (\<lambda>u. u \<noteq> v) base) + length (dropWhile (\<lambda>u. u \<noteq> v) base)"
    by (metis length_append takeWhile_dropWhile_id)
  ultimately show ?thesis by (cases "dropWhile (\<lambda>u. u \<noteq> v) base") (simp_all add: mark_vowel_def)
qed

lemma length_place_tone: "length (place_tone base tone) = length base"
proof (cases "find (\<lambda>v. v \<in> set base) vowel_order")
  case (Some v)
  then have "v \<in> set base" by (auto simp: find_Some_iff)
  with Some show ?thesis by (simp add: place_tone_def length_mark_vowel)
qed (simp add: place_tone_def)

lemma length_tone_marked:
  "numberedToToneMarked s = s \<or> length (numberedToToneMarked s) = length (unit_trim s) - 1"
  unfolding numberedToToneMarked_def Let_def by (simp add: length_place_tone)

section \<open>Slices cover the text\<close>

lemma slice_extend:
  assumes "0 \<le> a" "a \<le> b"
  shows "concat (take (nat a) gs) @ concat (js_slice gs a b) = concat (take (nat b) gs)"
proof -
  have "take (nat a) gs @ js_slice gs a b = take (nat b) gs"
    using assms take_add [of "nat a" "nat b - nat a" gs]
    by (cases "nat a \<le> length gs"; cases "nat b \<le> length gs")
      (simp_all add: js_slice_def slice_index_def min_def nat_le_iff)
  then show ?thesis by (metis concat_append)
qed

lemma slice_graphemes:
  assumes "0 \<le> a" "a \<le> b"
  shows "concat (take (nat a) (seg text)) @ sliceGraphemes seg text a (Some b) = concat (take (nat b) (seg text))"
  using slice_extend [of a b "seg text"] assms by (simp add: sliceGraphemes_def max_def)

lemma slice_rest:
  assumes "0 \<le> a"
  shows "concat (take (nat a) (seg text)) @ sliceGraphemes seg text a None = concat (seg text)"
proof (cases "a \<le> int (length (seg text))")
  case True
  then show ?thesis using slice_graphemes [OF assms True, of seg "text"]
    by (simp add: sliceGraphemes_def Let_def)
next
  case False
  then show ?thesis using assms
    by (simp add: sliceGraphemes_def js_slice_def slice_index_def max_def min_def Let_def)
qed

lemma find_sublist_found:
  "find_sublist i needle gs = Some j \<Longrightarrow> i \<le> j \<and> take (length needle) (drop (j - i) gs) = needle"
proof (induction i needle gs rule: find_sublist.induct)
  case (2 i needle g gs)
  then show ?case by (auto split: if_splits simp: Suc_diff_le Suc_le_eq drop_Cons')
qed (simp split: if_splits)

definition span_ok :: "GraphemeSpan \<Rightarrow> bool" where
  "span_ok s \<longleftrightarrow> 0 \<le> g_start s \<and> g_start s \<le> g_end s"

lemma found_span_ok: "findGraphemeSpan seg text surface = Some s \<Longrightarrow> span_ok s"
  by (auto simp: findGraphemeSpan_def Let_def span_ok_def split: if_splits option.splits)

text \<open>Slices that follow each other, from one position to another.\<close>

fun contiguous :: "int \<Rightarrow> 'u GraphemeSlice list \<Rightarrow> int \<Rightarrow> bool" where
  "contiguous a [] b = (a = b)"
| "contiguous a (s # ss) b = (gs_start s = a \<and> a \<le> gs_end s \<and> contiguous (gs_end s) ss b)"

lemma contiguous_snoc:
  "contiguous a ss (gs_start s) \<Longrightarrow> gs_start s \<le> gs_end s \<Longrightarrow> contiguous a (ss @ [s]) (gs_end s)"
  by (induction ss arbitrary: a) auto

definition slices_text :: "'u GraphemeSlice list \<Rightarrow> 'u list" where
  "slices_text ss = concat (map gs_text ss)"

lemma slices_text_snoc [simp]: "slices_text (ss @ [s]) = slices_text ss @ gs_text s"
  by (simp add: slices_text_def)

text \<open>The slices so far are contiguous, end at the cursor and read as the text up to it.\<close>

definition covered :: "'u segmenter \<Rightarrow> 'u list \<Rightarrow> 'u GraphemeSlice list \<Rightarrow> int \<Rightarrow> bool" where
  "covered seg text out cursor \<longleftrightarrow> 0 \<le> cursor \<and> contiguous 0 out cursor
     \<and> slices_text out = concat (take (nat cursor) (seg text))"

lemma covered_snoc:
  assumes "covered seg text out a" "a \<le> b"
  shows "covered seg text (out @ [\<lparr>gs_text = sliceGraphemes seg text a (Some b), gs_start = a, gs_end = b\<rparr>]) b"
  using assms slice_graphemes [of a b seg "text"]
    contiguous_snoc [of 0 out "\<lparr>gs_text = sliceGraphemes seg text a (Some b), gs_start = a, gs_end = b\<rparr>"]
  by (simp add: covered_def)

lemma split_spans_covered:
  "list_all span_ok ss \<Longrightarrow> covered seg text out c \<Longrightarrow>
   case split_spans seg text ss c out of (out', c') \<Rightarrow> covered seg text out' c'"
proof (induction ss arbitrary: c out)
  case (Cons s ss)
  show ?case
  proof (cases "g_start s < c")
    case True
    then show ?thesis using Cons by simp
  next
    case False
    let ?gap = "if c < g_start s
        then out @ [\<lparr>gs_text = sliceGraphemes seg text c (Some (g_start s)), gs_start = c, gs_end = g_start s\<rparr>] else out"
    have "covered seg text ?gap (g_start s)"
      using covered_snoc [OF Cons.prems(2), of "g_start s"] Cons.prems(2) False by auto
    then have "covered seg text (?gap @ [\<lparr>gs_text = sliceGraphemes seg text (g_start s) (Some (g_end s)),
        gs_start = g_start s, gs_end = g_end s\<rparr>]) (g_end s)"
      using Cons.prems(1) by (intro covered_snoc) (simp_all add: span_ok_def)
    then show ?thesis using Cons.IH Cons.prems(1) False by (simp add: Let_def)
  qed
qed simp

lemma spans_ok: "list_all span_ok (sort_key g_start (List.map_filter (findGraphemeSpan seg text) surfaces))"
  by (auto simp: list_all_iff List.map_filter_def intro: found_span_ok)

text \<open>Highlighting never loses or repeats text: the slices made for any surfaces follow each other from
  the first grapheme on and read together as the text, and so do the three parts of a highlighted
  range, whatever the range; the segmenter is only required to segment the text.\<close>

theorem highlights_cover_text:
  assumes "concat (seg text) = text"
  shows "let slices = splitHighlightSurfaces seg text surfaces
    in slices_text slices = text \<and> contiguous 0 slices (gs_end (last (\<lparr>gs_text = [], gs_start = 0, gs_end = 0\<rparr> # slices)))
     \<and> (case highlightGraphemeRange seg text rng of (before, match, after) \<Rightarrow> before @ match @ after = text)"
proof -
  let ?spans = "sort_key g_start (List.map_filter (findGraphemeSpan seg text) surfaces)"
  obtain out c where run: "split_spans seg text ?spans 0 [] = (out, c)" by force
  have cov: "covered seg text out c"
    using split_spans_covered [OF spans_ok, of seg "text" "[]" 0 seg "text" surfaces] run
    by (simp add: covered_def slices_text_def)
  have contiguous_last: "contiguous a ss b \<Longrightarrow> ss \<noteq> [] \<Longrightarrow> gs_end (last ss) = b" for a b and ss :: "'a GraphemeSlice list"
    by (induction a ss b rule: contiguous.induct) auto
  have slices: "slices_text (splitHighlightSurfaces seg text surfaces) = text \<and>
      (\<exists>b. contiguous 0 (splitHighlightSurfaces seg text surfaces) b)"
  proof (cases "c < graphemeLength seg text")
    case True
    let ?s = "\<lparr>gs_text = sliceGraphemes seg text c None, gs_start = c, gs_end = graphemeLength seg text\<rparr>"
    have "contiguous 0 (out @ [?s]) (graphemeLength seg text)"
      using contiguous_snoc [of 0 out ?s] cov True by (simp add: covered_def)
    moreover have "slices_text out @ sliceGraphemes seg text c None = text"
      using cov slice_rest [of c seg "text"] assms by (simp add: covered_def)
    ultimately show ?thesis using True by (auto simp: splitHighlightSurfaces_def run Let_def)
  next
    case False
    then show ?thesis using cov assms
      by (auto simp: splitHighlightSurfaces_def run covered_def graphemeLength_def Let_def)
  qed
  have parts: "case highlightGraphemeRange seg text rng of (before, match, after) \<Rightarrow> before @ match @ after = text"
  proof -
    define a b where "a = max 0 (g_start rng)" and "b = max a (g_end rng)"
    then have ab: "0 \<le> a" "a \<le> b" by simp_all
    have "sliceGraphemes seg text 0 (Some a) @ sliceGraphemes seg text a (Some b) @ sliceGraphemes seg text b None = text"
      using slice_graphemes [of 0 a seg "text"] slice_graphemes [OF ab, of seg "text"]
        slice_rest [of b seg "text"] ab assms by (metis append.assoc append_Nil concat.simps(1) nat_0 order.trans order_refl take0)
    then show ?thesis by (simp add: highlightGraphemeRange_def a_def b_def Let_def)
  qed
  show ?thesis
    using slices parts contiguous_last by (cases "splitHighlightSurfaces seg text surfaces = []") (fastforce simp: Let_def)+
qed

theorem highlights_cover_text_witness:
  "let slices = splitHighlightSurfaces (map (\<lambda>c. [c])) ''a cat sat'' [''sat'', ''cat'', ''at s'']
    in slices_text slices = ''a cat sat''
     \<and> contiguous 0 slices (gs_end (last (\<lparr>gs_text = [], gs_start = 0, gs_end = 0\<rparr> # slices)))
     \<and> (case highlightGraphemeRange (map (\<lambda>c. [c])) ''a cat sat'' \<lparr>g_start = 2, g_end = 5\<rparr> of
          (before, match, after) \<Rightarrow> before @ match @ after = ''a cat sat'')"
  by (rule highlights_cover_text) (simp add: concat_map_singleton)

text \<open>Every syllable has its three parts in the tables.\<close>

lemma syllable_in_tables:
  "isHangulSyllable c \<longleftrightarrow> romanizeHangulSyllable c \<noteq> None"
  "isHangulSyllable c \<Longrightarrow> (c - 0xAC00) div 588 < length INITIALS
     \<and> (c - 0xAC00) mod 588 div 28 < length MEDIALS \<and> (c - 0xAC00) mod 28 < length FINALS"
  by (auto simp: isHangulSyllable_def romanizeHangulSyllable_def INITIALS_def MEDIALS_def FINALS_def Let_def)

end
