(* ===== verification/Dictionaries.thy ===== *)
theory Dictionaries
  imports Js_Text Js_Values
begin

text \<open>
  The dictionary adapters of \<open>packages/language-kits/src\<close>: the lexicon entry (\<open>lexicon.ts\<close>), the
  parsers of CC-CEDICT lines, JMdict fragments and text lines and Kaikki lines (\<open>adapters/\<close>), the
  format detection and the import. Regular expressions are written out as scanners; \<open>JSON.parse\<close>
  is an argument, \<open>Inl\<close> an exception that leaves the parser.
\<close>

section \<open>Entries\<close>

record LexiconPronunciation =
  pr_value :: string
  pr_system :: "string option"
  pr_audioRef :: "string option"

record LexiconSense =
  sn_id :: string
  sn_glosses :: "string list"
  sn_pos :: "string list option"
  sn_examples :: "string list option"
  sn_register :: "string option"
  sn_tags :: "string list option"
  sn_inflection :: "string option"
  sn_pitchOrTone :: "string option"

record LexiconEntry =
  le_id :: string
  le_lemma :: string
  le_language :: string
  le_readings :: "string list option"
  le_pronunciations :: "LexiconPronunciation list option"
  le_senses :: "LexiconSense list"
  le_frequency :: "real option"
  le_etymology :: "string option"
  le_source :: string
  le_license :: string
  le_attribution :: "string option"
  le_raw :: "json option"

definition mk_sense :: "string \<Rightarrow> string list \<Rightarrow> string list option \<Rightarrow> string list option \<Rightarrow> LexiconSense" where
  "mk_sense i glosses pos tags =
     \<lparr>sn_id = i, sn_glosses = glosses, sn_pos = pos, sn_examples = None, sn_register = None,
      sn_tags = tags, sn_inflection = None, sn_pitchOrTone = None\<rparr>"

definition emptySense :: "string \<Rightarrow> string \<Rightarrow> LexiconSense" where
  "emptySense i gloss = mk_sense i [gloss] None None"

definition str_list :: "string list \<Rightarrow> json" where
  "str_list xs = JArr (map JStr xs)"

section \<open>Scanners\<close>

text \<open>A run of at least one character of a class, and a single character.\<close>

definition run1 :: "(char \<Rightarrow> bool) \<Rightarrow> string \<Rightarrow> (string \<times> string) option" where
  "run1 P s = (if takeWhile P s = [] then None else Some (takeWhile P s, dropWhile P s))"

definition one :: "char \<Rightarrow> string \<Rightarrow> string option" where
  "one c s = (case s of [] \<Rightarrow> None | d # r \<Rightarrow> if d = c then Some r else None)"

definition is_newline :: "char \<Rightarrow> bool" where
  "is_newline c \<longleftrightarrow> code c = 10 \<or> code c = 13"

text \<open>\<open>\/(.+)\/\s*$\<close> on the end of a trimmed text.\<close>

definition gloss_body :: "string \<Rightarrow> string option" where
  "gloss_body s =
     (if 3 \<le> length s \<and> hd s = CHR ''/'' \<and> last s = CHR ''/'' \<and> \<not> list_ex is_newline (butlast (tl s))
      then Some (butlast (tl s)) else None)"

definition split_glosses :: "string \<Rightarrow> string list" where
  "split_glosses body = filter (\<lambda>g. g \<noteq> []) (map trim (split_on (CHR ''/'') body))"

definition is_comment :: "string \<Rightarrow> bool" where
  "is_comment trimmed \<longleftrightarrow> trimmed = [] \<or> startsWith trimmed ''#''"

section \<open>CC-CEDICT\<close>

text \<open>\<open>^(\S+)\s+(\S+)\s+\[([^\]]+)\]\s+\<close>: the three groups and the rest.\<close>

definition cedict_head :: "string \<Rightarrow> (string \<times> string \<times> string \<times> string) option" where
  "cedict_head s =
     Option.bind (run1 (\<lambda>c. \<not> is_ws c) s) (\<lambda>(trad, s).
     Option.bind (run1 is_ws s) (\<lambda>(_, s).
     Option.bind (run1 (\<lambda>c. \<not> is_ws c) s) (\<lambda>(simp, s).
     Option.bind (run1 is_ws s) (\<lambda>(_, s).
     Option.bind (one (CHR ''['') s) (\<lambda>s.
     Option.bind (run1 (\<lambda>c. c \<noteq> CHR '']'') s) (\<lambda>(pinyin, s).
     Option.bind (one (CHR '']'') s) (\<lambda>s.
     Option.bind (run1 is_ws s) (\<lambda>(_, s). Some (trad, simp, pinyin, s)))))))))"

definition cedict_entry :: "string \<Rightarrow> string \<Rightarrow> string \<Rightarrow> string list \<Rightarrow> LexiconEntry" where
  "cedict_entry trad simp pinyin glosses =
     \<lparr>le_id = ''ccedict:'' @ simp @ '':'' @ pinyin, le_lemma = simp, le_language = ''zh'',
      le_readings = Some [pinyin],
      le_pronunciations = Some [\<lparr>pr_value = pinyin, pr_system = Some ''pinyin-numbered'', pr_audioRef = None\<rparr>],
      le_senses = [mk_sense ''0'' glosses None None], le_frequency = None, le_etymology = None,
      le_source = ''cc-cedict'', le_license = ''CC BY-SA 4.0'', le_attribution = Some ''CC-CEDICT / MDBG'',
      le_raw = Some (JObj [(''traditional'', JStr trad), (''simplified'', JStr simp), (''pinyin'', JStr pinyin)])\<rparr>"

definition parseCcedictLine :: "string \<Rightarrow> LexiconEntry option" where
  "parseCcedictLine line =
     (let trimmed = trim line
      in if is_comment trimmed then None
         else (case cedict_head trimmed of
                 None \<Rightarrow> None
               | Some (trad, simp, pinyin, rest) \<Rightarrow>
                   (case gloss_body rest of
                      None \<Rightarrow> None
                    | Some body \<Rightarrow>
                        let glosses = split_glosses body
                        in if glosses = [] then None
                           else Some (cedict_entry trad simp (trim pinyin) glosses))))"

definition parseCcedictText :: "string \<Rightarrow> LexiconEntry list" where
  "parseCcedictText text = List.map_filter parseCcedictLine (split_lines text)"

section \<open>JMdict\<close>

text \<open>\<open><tag>([^<]*)</tag>\<close> at the start of a text: the content and the text after it.\<close>

definition tag_at :: "string \<Rightarrow> string \<Rightarrow> (string \<times> string) option" where
  "tag_at tag s =
     (let op = ''<'' @ tag @ ''>''; cl = ''</'' @ tag @ ''>''; r = drop (length op) s;
          rest = dropWhile (\<lambda>c. c \<noteq> CHR ''<'') r
      in if startsWith s op \<and> startsWith rest cl
         then Some (takeWhile (\<lambda>c. c \<noteq> CHR ''<'') r, drop (length cl) rest) else None)"

fun matchTag :: "string \<Rightarrow> string \<Rightarrow> string option" where
  "matchTag tag [] = None"
| "matchTag tag (c # s) =
     (case tag_at tag (c # s) of Some (content, _) \<Rightarrow> Some content | None \<Rightarrow> matchTag tag s)"

text \<open>All matches one after the other; the fuel is the length of the text.\<close>

fun tag_contents :: "nat \<Rightarrow> string \<Rightarrow> string \<Rightarrow> string list" where
  "tag_contents _ tag [] = []"
| "tag_contents 0 tag (c # s) = []"
| "tag_contents (Suc n) tag (c # s) =
     (case tag_at tag (c # s) of
        Some (content, rest) \<Rightarrow> content # tag_contents n tag rest
      | None \<Rightarrow> tag_contents n tag s)"

definition matchAllTags :: "string \<Rightarrow> string \<Rightarrow> string list" where
  "matchAllTags xml tag = filter (\<lambda>t. t \<noteq> []) (tag_contents (length xml) tag xml)"

definition stripJmdictEntity :: "string \<Rightarrow> string" where
  "stripJmdictEntity v =
     (let v = (if startsWith v ''&'' then drop 1 v else v)
      in if endsWith v '';'' then butlast v else v)"

definition some_list :: "string list \<Rightarrow> string list option" where
  "some_list xs = (if xs = [] then None else Some xs)"

definition parseJmdictEntryXml :: "string \<Rightarrow> LexiconEntry option" where
  "parseJmdictEntryXml fragment =
     (let keb = matchAllTags fragment ''keb''; reb = matchAllTags fragment ''reb'';
          glosses = matchAllTags fragment ''gloss'';
          posRaw = map stripJmdictEntity (matchAllTags fragment ''pos'')
      in case matchTag ''ent_seq'' fragment of
           None \<Rightarrow> None
         | Some sq \<Rightarrow>
             if sq = [] \<or> (keb = [] \<and> reb = []) \<or> glosses = [] then None
             else Some
               \<lparr>le_id = ''jmdict:'' @ sq, le_lemma = hd (keb @ reb), le_language = ''ja'',
                le_readings = some_list reb, le_pronunciations = None,
                le_senses = [mk_sense (sq @ '':0'') glosses (some_list posRaw) None],
                le_frequency = None, le_etymology = None, le_source = ''jmdict'',
                le_license = ''CC BY-SA 4.0 / EDRDG'', le_attribution = Some ''JMdict / EDRDG'',
                le_raw = Some (JObj [(''keb'', str_list keb), (''reb'', str_list reb), (''ent_seq'', JStr sq)])\<rparr>)"

text \<open>
  \<open>^(.+?)\s+(?:\[(.+?)\]\s+)?\/(.+)\/\s*$\<close>: the shortest reading and the shortest lemma for which
  the rest of the expression matches.
\<close>

fun reading_at :: "string \<Rightarrow> string \<Rightarrow> (string \<times> string) option" where
  "reading_at acc [] = None"
| "reading_at acc (c # s) =
     (case (if acc \<noteq> [] \<and> c = CHR '']''
            then Option.bind (run1 is_ws s) (\<lambda>(_, r). gloss_body r) else None) of
        Some body \<Rightarrow> Some (acc, body)
      | None \<Rightarrow> if is_newline c then None else reading_at (acc @ [c]) s)"

definition after_lemma :: "string \<Rightarrow> (string option \<times> string) option" where
  "after_lemma s =
     Option.bind (run1 is_ws s) (\<lambda>(_, r).
       case one (CHR ''['') r of
         Some r' \<Rightarrow> map_option (\<lambda>(reading, body). (Some reading, body)) (reading_at [] r')
       | None \<Rightarrow> map_option (Pair None) (gloss_body r))"

fun lemma_at :: "string \<Rightarrow> string \<Rightarrow> (string \<times> string option \<times> string) option" where
  "lemma_at acc [] = None"
| "lemma_at acc (c # s) =
     (case (if acc \<noteq> [] then after_lemma (c # s) else None) of
        Some (reading, body) \<Rightarrow> Some (acc, reading, body)
      | None \<Rightarrow> if is_newline c then None else lemma_at (acc @ [c]) s)"

definition is_pos_part :: "string \<Rightarrow> bool" where
  "is_pos_part part \<longleftrightarrow>
     (3 \<le> length part \<and> hd part = CHR ''('' \<and> last part = CHR '')'' \<and> CHR '')'' \<notin> set (butlast part)) \<or>
     (3 \<le> length part \<and> hd part = CHR ''&'' \<and> last part = CHR '';'' \<and> list_all is_word_char (butlast (tl part)))"

definition parseJmdictTextLine :: "string \<Rightarrow> LexiconEntry option" where
  "parseJmdictTextLine line =
     (let trimmed = trim line
      in if is_comment trimmed then None
         else (case lemma_at [] trimmed of
                 None \<Rightarrow> None
               | Some (lem, rd, rest) \<Rightarrow>
                   let lem = trim lem; reading = map_option trim rd; parts = split_glosses rest;
                       pos = map (\<lambda>p. stripJmdictEntity (filter (\<lambda>c. c \<noteq> CHR ''('' \<and> c \<noteq> CHR '')'') p))
                               (filter is_pos_part parts);
                       glosses = filter (\<lambda>p. \<not> is_pos_part p) parts
                   in if glosses = [] then None
                      else Some
                        \<lparr>le_id = ''jmdict-text:'' @ lem @ '':'' @ opt_or reading [], le_lemma = lem,
                         le_language = ''ja'',
                         le_readings = (case reading of None \<Rightarrow> None | Some r \<Rightarrow> if r = [] then None else Some [r]),
                         le_pronunciations = None,
                         le_senses = [mk_sense ''0'' glosses (some_list pos) None], le_frequency = None,
                         le_etymology = None, le_source = ''jmdict'',
                         le_license = ''CC BY-SA 4.0 / EDRDG'', le_attribution = Some ''JMdict / EDRDG'',
                         le_raw = None\<rparr>))"

section \<open>Kaikki\<close>

definition strings_of :: "json list \<Rightarrow> string list" where
  "strings_of xs = List.map_filter (\<lambda>x. str_of (Some x)) xs"

definition str_array :: "json option \<Rightarrow> string list option" where
  "str_array v = map_option strings_of (arr_of v)"

definition kaikki_sense :: "json \<Rightarrow> string \<Rightarrow> nat \<Rightarrow> json \<Rightarrow> LexiconSense list" where
  "kaikki_sense raw word i s =
     (let glosses = opt_or (str_array (json_field s ''glosses'')) [];
          pos = opt_else (str_array (json_field s ''pos''))
                         (map_option (\<lambda>p. [p]) (str_of (json_field raw ''pos'')))
      in if glosses = [] then []
         else [mk_sense (opt_or (str_of (json_field s ''id'')) (word @ '':'' @ nat_str i)) glosses pos
                 (str_array (json_field s ''tags''))])"

definition kaikki_sound :: "json \<Rightarrow> LexiconPronunciation list" where
  "kaikki_sound s =
     (case str_of (json_field s ''ipa'') of
        None \<Rightarrow> []
      | Some ipa \<Rightarrow> if ipa = [] then [] else [\<lparr>pr_value = ipa, pr_system = Some ''ipa'', pr_audioRef = None\<rparr>])"

definition kaikki_entry :: "json \<Rightarrow> LexiconEntry option" where
  "kaikki_entry raw =
     (case (str_of (json_field raw ''word''),
            opt_else (str_of (json_field raw ''lang_code'')) (str_of (json_field raw ''lang''))) of
        (Some word, Some lang) \<Rightarrow>
          if word = [] \<or> lang = [] then None
          else
            let senses = concat (map (\<lambda>(i, s). kaikki_sense raw word i s)
                  (List.enumerate 0 (opt_or (arr_of (json_field raw ''senses'')) [])));
                senses = (if senses = [] then [emptySense (word @ '':0'') ''(no gloss)''] else senses);
                prons = concat (map kaikki_sound (opt_or (arr_of (json_field raw ''sounds'')) []))
            in Some
              \<lparr>le_id = opt_or (str_of (json_field raw ''id'')) (''kaikki:'' @ lang @ '':'' @ word),
               le_lemma = word, le_language = lang, le_readings = None,
               le_pronunciations = (if prons = [] then None else Some prons), le_senses = senses,
               le_frequency = None, le_etymology = None, le_source = ''kaikki'', le_license = ''CC BY-SA'',
               le_attribution = Some ''Wiktionary contributors via Kaikki'', le_raw = Some raw\<rparr>
      | _ \<Rightarrow> None)"

text \<open>A line that reads \<open>null\<close> is parsed and then has no fields to read.\<close>

definition parseKaikkiLine :: "(string \<Rightarrow> json option) \<Rightarrow> string \<Rightarrow> string + LexiconEntry option" where
  "parseKaikkiLine parse line =
     (let trimmed = trim line
      in if is_comment trimmed then Inr None
         else (case parse trimmed of
                 None \<Rightarrow> Inr None
               | Some JNull \<Rightarrow> Inl ''TypeError''
               | Some raw \<Rightarrow> Inr (kaikki_entry raw)))"

fun kaikki_lines :: "(string \<Rightarrow> json option) \<Rightarrow> string list \<Rightarrow> string + LexiconEntry list" where
  "kaikki_lines parse [] = Inr []"
| "kaikki_lines parse (l # ls) =
     (case parseKaikkiLine parse l of
        Inl e \<Rightarrow> Inl e
      | Inr x \<Rightarrow> (case kaikki_lines parse ls of
          Inl e \<Rightarrow> Inl e
        | Inr es \<Rightarrow> Inr (case x of None \<Rightarrow> es | Some entry \<Rightarrow> entry # es)))"

definition parseKaikkiJsonl :: "(string \<Rightarrow> json option) \<Rightarrow> string \<Rightarrow> string + LexiconEntry list" where
  "parseKaikkiJsonl parse text = kaikki_lines parse (split_lines text)"

section \<open>Import\<close>

datatype DictionaryFormat = JmdictXml | JmdictText | CcCedict | KaikkiJsonl | UnknownDictionary

record DictionaryImportResult =
  ir_format :: DictionaryFormat
  ir_entries :: "LexiconEntry list"
  skippedLines :: nat

text \<open>Places where a line starts, and the two line patterns of the detection.\<close>

fun at_line_starts :: "(string \<Rightarrow> bool) \<Rightarrow> bool \<Rightarrow> string \<Rightarrow> bool" where
  "at_line_starts P start [] = (start \<and> P [])"
| "at_line_starts P start (c # s) = ((start \<and> P (c # s)) \<or> at_line_starts P (is_newline c) s)"

definition cedict_like :: "string \<Rightarrow> bool" where
  "cedict_like s = (case cedict_head s of None \<Rightarrow> False | Some (_, _, _, rest) \<Rightarrow> one (CHR ''/'') rest \<noteq> None)"

definition text_like_rest :: "string \<Rightarrow> bool" where
  "text_like_rest s =
     (case run1 is_ws s of
        None \<Rightarrow> False
      | Some (_, r) \<Rightarrow> one (CHR ''/'') r \<noteq> None \<or>
          Option.bind (one (CHR ''['') r) (\<lambda>r.
          Option.bind (run1 (\<lambda>c. c \<noteq> CHR '']'') r) (\<lambda>(_, r).
          Option.bind (one (CHR '']'') r) (\<lambda>r.
          Option.bind (run1 is_ws r) (\<lambda>(_, r). one (CHR ''/'') r)))) \<noteq> None)"

fun text_like :: "bool \<Rightarrow> string \<Rightarrow> bool" where
  "text_like seen [] = False"
| "text_like seen (c # s) = ((seen \<and> text_like_rest (c # s)) \<or> (\<not> is_newline c \<and> text_like True s))"

definition entry_tag :: "string \<Rightarrow> bool" where
  "entry_tag s \<longleftrightarrow> startsWith s ''<entry'' \<and> list_ex (\<lambda>c. is_ws c \<or> c = CHR ''>'') (take 1 (drop 6 s))"

definition detectDictionaryFormat :: "string \<Rightarrow> string option \<Rightarrow> DictionaryFormat" where
  "detectDictionaryFormat text filename =
     (let name = toLowerCase (opt_or filename []); sample = trim (take 4000 text)
      in if endsWith name ''.jsonl'' \<or> str_includes name ''kaikki'' then KaikkiJsonl
         else if str_includes name ''cedict'' \<or> endsWith name ''.u8'' then CcCedict
         else if str_includes name ''jmdict'' \<and> endsWith name ''.xml'' then JmdictXml
         else if str_includes name ''jmdict'' \<or> str_includes name ''edict'' then JmdictText
         else if sample = [] then UnknownDictionary
         else if startsWith sample ''{''
              \<or> str_includes sample ([char_of (34::nat)] @ ''lang_code'' @ [char_of (34::nat)]) then KaikkiJsonl
         else if search entry_tag sample \<or> str_includes sample ''<ent_seq>'' then JmdictXml
         else if at_line_starts cedict_like True sample then CcCedict
         else if at_line_starts (text_like False) True sample then JmdictText
         else UnknownDictionary)"

text \<open>\<open><entry[\s>][\s\S]*?</entry>\<close>: the first end after the head; the fuel is the length.\<close>

fun up_to_entry_end :: "string \<Rightarrow> (string \<times> string) option" where
  "up_to_entry_end [] = None"
| "up_to_entry_end (c # s) =
     (if startsWith (c # s) ''</entry>'' then Some (''</entry>'', drop 8 (c # s))
      else map_option (\<lambda>(a, b). (c # a, b)) (up_to_entry_end s))"

fun entry_fragments :: "nat \<Rightarrow> string \<Rightarrow> string list" where
  "entry_fragments _ [] = []"
| "entry_fragments 0 (c # s) = []"
| "entry_fragments (Suc n) (c # s) =
     (case (if entry_tag (c # s) then up_to_entry_end (drop 7 (c # s)) else None) of
        Some (inner, rest) \<Rightarrow> (take 7 (c # s) @ inner) # entry_fragments n rest
      | None \<Rightarrow> entry_fragments n s)"

definition parseJmdictXmlDump :: "string \<Rightarrow> LexiconEntry list" where
  "parseJmdictXmlDump text = List.map_filter parseJmdictEntryXml (entry_fragments (length text) text)"

definition parseJmdictTextDump :: "string \<Rightarrow> LexiconEntry list" where
  "parseJmdictTextDump text = List.map_filter parseJmdictTextLine (split_lines text)"

definition importDictionaryText ::
  "(string \<Rightarrow> json option) \<Rightarrow> string \<Rightarrow> string option \<Rightarrow> DictionaryFormat option \<Rightarrow>
   string + DictionaryImportResult" where
  "importDictionaryText parse text filename hint =
     (let format = (case hint of
            None \<Rightarrow> detectDictionaryFormat text filename
          | Some UnknownDictionary \<Rightarrow> detectDictionaryFormat text filename
          | Some f \<Rightarrow> f);
          result = (\<lambda>es n. \<lparr>ir_format = format, ir_entries = es, skippedLines = n - length es\<rparr>)
      in case format of
           JmdictXml \<Rightarrow> Inr \<lparr>ir_format = format, ir_entries = parseJmdictXmlDump text, skippedLines = 0\<rparr>
         | JmdictText \<Rightarrow> Inr (result (parseJmdictTextDump text) (length (split_lines text)))
         | CcCedict \<Rightarrow> Inr (result (parseCcedictText text) (length (split_lines text)))
         | KaikkiJsonl \<Rightarrow>
             (case parseKaikkiJsonl parse text of
                Inl e \<Rightarrow> Inl e
              | Inr es \<Rightarrow> Inr (result es (length (filter (\<lambda>l. trim l \<noteq> []) (split_lines text)))))
         | UnknownDictionary \<Rightarrow> Inr \<lparr>ir_format = UnknownDictionary, ir_entries = [], skippedLines = 0\<rparr>)"

definition lookupLemma :: "LexiconEntry list \<Rightarrow> string \<Rightarrow> LexiconEntry option" where
  "lookupLemma entries surface =
     (let key = toLowerCase (trim surface)
      in opt_else (find (\<lambda>e. toLowerCase (le_lemma e) = key) entries)
           (find (\<lambda>e. list_ex (\<lambda>r. toLowerCase r = key) (opt_or (le_readings e) [])) entries))"

section \<open>Reading back printed lines\<close>

record CedictWord =
  cw_trad :: string
  cw_simp :: string
  cw_pinyin :: string
  cw_glosses :: "string list"

text \<open>A line in the notation of CC-CEDICT.\<close>

definition cedict_line :: "CedictWord \<Rightarrow> string" where
  "cedict_line w = cw_trad w @ '' '' @ cw_simp w @ '' ['' @ cw_pinyin w @ ''] /'' @ join ''/'' (cw_glosses w) @ ''/''"

definition solid :: "string \<Rightarrow> bool" where
  "solid s \<longleftrightarrow> s \<noteq> [] \<and> list_all (\<lambda>c. \<not> is_ws c) s"

definition clean_gloss :: "string \<Rightarrow> bool" where
  "clean_gloss g \<longleftrightarrow> g \<noteq> [] \<and> trim g = g \<and> CHR ''/'' \<notin> set g \<and> \<not> list_ex is_newline g"

definition printable_word :: "CedictWord \<Rightarrow> bool" where
  "printable_word w \<longleftrightarrow>
     solid (cw_trad w) \<and> hd (cw_trad w) \<noteq> CHR ''#'' \<and> solid (cw_simp w) \<and>
     cw_pinyin w \<noteq> [] \<and> trim (cw_pinyin w) = cw_pinyin w \<and> CHR '']'' \<notin> set (cw_pinyin w) \<and>
     \<not> list_ex is_newline (cw_pinyin w) \<and>
     cw_glosses w \<noteq> [] \<and> list_all clean_gloss (cw_glosses w)"

definition entry_of :: "CedictWord \<Rightarrow> LexiconEntry" where
  "entry_of w = cedict_entry (cw_trad w) (cw_simp w) (cw_pinyin w) (cw_glosses w)"

lemma run1_append: "xs \<noteq> [] \<Longrightarrow> list_all P xs \<Longrightarrow> (rest = [] \<or> \<not> P (hd rest)) \<Longrightarrow> run1 P (xs @ rest) = Some (xs, rest)"
  by (cases rest; cases xs) (auto simp: run1_def takeWhile_append2 dropWhile_append2 list_all_iff takeWhile_eq_all_conv)

lemma run1_blank: "rest \<noteq> [] \<Longrightarrow> \<not> is_ws (hd rest) \<Longrightarrow> run1 is_ws (CHR '' '' # rest) = Some ('' '', rest)"
  using run1_append [of "'' ''" is_ws rest] by simp

lemma one_hit [simp]: "one c (c # s) = Some s"
  by (simp add: one_def)

lemma solid_hd: "solid s \<Longrightarrow> \<not> is_ws (hd s)" "solid s \<Longrightarrow> s \<noteq> []"
  by (cases s; simp add: solid_def)+

lemma marks_not_ws [simp]: "\<not> is_ws (CHR ''['')" "\<not> is_ws (CHR ''/'')"
  by code_simp+

lemma cedict_head_printed:
  assumes "solid trad" "solid simp" "pinyin \<noteq> []" "CHR '']'' \<notin> set pinyin" "rest \<noteq> []" "\<not> is_ws (hd rest)"
  shows "cedict_head (trad @ '' '' @ simp @ '' ['' @ pinyin @ ''] '' @ rest) = Some (trad, simp, pinyin, rest)"
proof -
  have word: "run1 (\<lambda>c. \<not> is_ws c) (s @ CHR '' '' # r) = Some (s, CHR '' '' # r)" if "solid s" for s r
    using that by (intro run1_append) (auto simp: solid_def)
  have "run1 (\<lambda>c. c \<noteq> CHR '']'') (pinyin @ CHR '']'' # r) = Some (pinyin, CHR '']'' # r)" for r
    using assms(3,4) by (intro run1_append) (auto simp: list_all_iff)
  with assms solid_hd [of simp] show ?thesis
    by (simp add: cedict_head_def word run1_blank)
qed

lemma gloss_body_printed: "body \<noteq> [] \<Longrightarrow> \<not> list_ex is_newline body \<Longrightarrow> gloss_body (CHR ''/'' # body @ ''/'') = Some body"
  by (cases body) (auto simp: gloss_body_def)

lemma join_nonempty: "xs \<noteq> [] \<Longrightarrow> list_all (\<lambda>x. x \<noteq> []) xs \<Longrightarrow> join sep xs \<noteq> []"
  by (cases "(sep, xs)" rule: join.cases) auto

lemma join_chars: "set (join sep xs) \<subseteq> set sep \<union> \<Union> (set ` set xs)"
  by (induction sep xs rule: join.induct) auto

lemma glosses_printed:
  assumes "gs \<noteq> []" "list_all clean_gloss gs"
  shows "split_glosses (join ''/'' gs) = gs" "join ''/'' gs \<noteq> []" "\<not> list_ex is_newline (join ''/'' gs)"
proof -
  have "split_on (CHR ''/'') (join ''/'' gs) = gs"
    using assms by (intro split_join) (auto simp: clean_gloss_def list_all_iff)
  moreover have "map trim gs = gs"
    using assms(2) by (auto simp: clean_gloss_def list_all_iff intro: map_idI)
  ultimately show "split_glosses (join ''/'' gs) = gs"
    using assms(2) by (auto simp: split_glosses_def clean_gloss_def list_all_iff intro: filter_True)
  show "join ''/'' gs \<noteq> []"
    using assms by (intro join_nonempty) (auto simp: clean_gloss_def list_all_iff)
  have "\<not> is_newline (CHR ''/'')" by code_simp
  then show "\<not> list_ex is_newline (join ''/'' gs)"
    using assms(2) join_chars [of "''/''" gs] by (fastforce simp: clean_gloss_def list_all_iff list_ex_iff)
qed

lemma cedict_line_trimmed:
  assumes "printable_word w"
  shows "trim (cedict_line w) = cedict_line w" "\<not> is_comment (cedict_line w)"
proof -
  have ne: "cw_trad w \<noteq> []" and first: "hd (cedict_line w) = hd (cw_trad w)"
    using assms by (auto simp: printable_word_def cedict_line_def solid_def)
  show "trim (cedict_line w) = cedict_line w"
    using assms first by (intro trim_id) (auto simp: printable_word_def solid_hd cedict_line_def)
  have "take 1 (cedict_line w) = [hd (cw_trad w)]"
    using ne by (cases "cw_trad w") (simp_all add: cedict_line_def)
  then show "\<not> is_comment (cedict_line w)"
    using assms by (auto simp: is_comment_def startsWith_def printable_word_def)
qed

lemma cedict_line_parsed:
  assumes "printable_word w"
  shows "parseCcedictLine (cedict_line w) = Some (entry_of w)"
proof -
  let ?rest = "CHR ''/'' # join ''/'' (cw_glosses w) @ ''/''"
  have "cedict_head (cedict_line w) = Some (cw_trad w, cw_simp w, cw_pinyin w, ?rest)"
    using assms cedict_head_printed [of "cw_trad w" "cw_simp w" "cw_pinyin w" ?rest]
    by (simp add: cedict_line_def printable_word_def)
  with assms show ?thesis
    by (simp add: parseCcedictLine_def cedict_line_trimmed gloss_body_printed glosses_printed
        printable_word_def entry_of_def del: join.simps)
qed

lemma cedict_line_breaks:
  assumes "printable_word w"
  shows "char_of (10::nat) \<notin> set (cedict_line w)" "last (cedict_line w) \<noteq> char_of (13::nat)"
proof -
  have ws: "c \<noteq> char_of (10::nat)" if "\<not> is_ws c" for c using that by (auto simp: is_ws_def)
  have marks: "char_of (10::nat) \<noteq> CHR '' ''" "char_of (10::nat) \<noteq> CHR ''[''" "char_of (10::nat) \<noteq> CHR '']''"
    "char_of (10::nat) \<noteq> CHR ''/''" "CHR ''/'' \<noteq> char_of (13::nat)" "is_newline (char_of (10::nat))" by code_simp+
  show "last (cedict_line w) \<noteq> char_of (13::nat)" using marks(5) by (simp add: cedict_line_def)
  show "char_of (10::nat) \<notin> set (cedict_line w)"
    using assms marks glosses_printed(3) [of "cw_glosses w"]
    by (auto simp: cedict_line_def printable_word_def solid_def list_all_iff list_ex_iff dest: ws)
qed

lemma cedict_text_parsed:
  assumes "list_all printable_word ws" "ws \<noteq> []"
  shows "parseCcedictText (join [char_of (10::nat)] (map cedict_line ws)) = map entry_of ws"
    and "length (split_lines (join [char_of (10::nat)] (map cedict_line ws))) = length ws"
proof -
  have split: "split_lines (join [char_of (10::nat)] (map cedict_line ws)) = map cedict_line ws"
    using assms by (intro split_lines_join) (auto simp: list_all_iff cedict_line_breaks)
  have "List.map_filter parseCcedictLine (map cedict_line ws) = map entry_of ws"
    using assms(1) by (induction ws) (simp_all add: cedict_line_parsed map_filter_simps)
  with split show "parseCcedictText (join [char_of (10::nat)] (map cedict_line ws)) = map entry_of ws"
    by (simp add: parseCcedictText_def)
  from split show "length (split_lines (join [char_of (10::nat)] (map cedict_line ws))) = length ws" by simp
qed

text \<open>Words with a traditional and a simplified form, a reading and glosses, printed in the notation
  of CC-CEDICT one line each, are imported exactly: one entry a line, none skipped, with the
  simplified form as its lemma, the reading and the glosses in their order.\<close>

theorem cedict_round_trip:
  assumes "list_all printable_word ws" "ws \<noteq> []"
  shows "importDictionaryText parse (join [char_of (10::nat)] (map cedict_line ws)) None (Some CcCedict)
    = Inr \<lparr>ir_format = CcCedict, ir_entries = map entry_of ws, skippedLines = 0\<rparr>"
  using cedict_text_parsed [OF assms] by (simp add: importDictionaryText_def)

theorem cedict_round_trip_witness:
  "importDictionaryText (\<lambda>_. None) (join [char_of (10::nat)] (map cedict_line
       [\<lparr>cw_trad = ''AB'', cw_simp = ''ab'', cw_pinyin = ''Zhong1 guo2'', cw_glosses = [''China'', ''Middle Kingdom'']\<rparr>,
        \<lparr>cw_trad = ''C'', cw_simp = ''c'', cw_pinyin = ''ce4'', cw_glosses = [''to test'']\<rparr>]))
     None (Some CcCedict)
   = Inr \<lparr>ir_format = CcCedict, ir_entries =
       [cedict_entry ''AB'' ''ab'' ''Zhong1 guo2'' [''China'', ''Middle Kingdom''],
        cedict_entry ''C'' ''c'' ''ce4'' [''to test'']], skippedLines = 0\<rparr>"
  by (subst cedict_round_trip; simp add: entry_of_def; code_simp)

text \<open>A line that is the JSON value \<open>null\<close> makes the whole import fail, whatever surrounds it.\<close>

lemma null_line_aborts_import:
  assumes "parse ''null'' = Some JNull" "''null'' \<in> set (split_lines s)"
  shows "parseKaikkiJsonl parse s = Inl ''TypeError''"
proof -
  have tn: "trim ''null'' = ''null''" "\<not> is_comment ''null''" by code_simp+
  have "kaikki_lines parse ls = Inl ''TypeError''" if "''null'' \<in> set ls" for ls
    using that
  proof (induction ls)
    case (Cons l ls)
    show ?case
    proof (cases "parseKaikkiLine parse l")
      case (Inl e)
      then have "e = ''TypeError''"
        by (auto simp: parseKaikkiLine_def Let_def split: if_splits option.splits json.splits)
      with Inl show ?thesis by simp
    next
      case (Inr x)
      then have "l \<noteq> ''null''"
        using assms(1) tn by (auto simp: parseKaikkiLine_def)
      with Cons Inr show ?thesis by simp
    qed
  qed simp
  with assms(2) show ?thesis by (simp add: parseKaikkiJsonl_def)
qed

text \<open>A lookup finds an entry whose lemma or one of whose readings is the surface, case aside.\<close>

lemma lookup_matches:
  "case lookupLemma entries surface of
     None \<Rightarrow> \<not> list_ex (\<lambda>e. list_ex (\<lambda>t. toLowerCase t = toLowerCase (trim surface)) (le_lemma e # opt_or (le_readings e) [])) entries
   | Some e \<Rightarrow> e \<in> set entries \<and>
       list_ex (\<lambda>t. toLowerCase t = toLowerCase (trim surface)) (le_lemma e # opt_or (le_readings e) [])"
  by (auto simp: lookupLemma_def Let_def opt_else_def list_ex_iff find_None_iff find_Some_iff
      split: option.splits)

end
