(* ===== verification/Page_Toolbar.thy ===== *)
theory Page_Toolbar
  imports Page_Translate Overlay
begin

text \<open>
  The content script of ordinary pages, \<open>entrypoints/page-translate.content.ts\<close>, with the toolbar
  it mounts: \<open>features/page-translate/toolbar.tsx\<close> and the component \<open>PageTranslateToolbar.tsx\<close>
  it renders. Messages of the popup and clicks on the toolbar drive the same controller. A
  translation runs to its end before the next event; the dash and the ellipsis are in ASCII.
\<close>

section \<open>The toolbar\<close>

record ToolbarSnapshot =
  ts_mode :: PageTranslateMode
  ts_targetLang :: string
  ts_progress :: "rat option"
  ts_statusMessage :: "string option"
  ts_localProcessing :: bool
  ts_failureMessage :: "string option"

record PageTab =
  controller :: Controller
  snapshot :: ToolbarSnapshot
  busy :: bool
  tb_density :: DensityProfile
  tb_replies :: "(bool \<times> PageTranslateMode option) list"

definition mountPageTranslateToolbar :: "Controller \<Rightarrow> PageTab" where
  "mountPageTranslateToolbar c =
     \<lparr>controller = c,
      snapshot = \<lparr>ts_mode = pc_mode c, ts_targetLang = ''en'', ts_progress = None,
        ts_statusMessage = Some ''Local processing'', ts_localProcessing = False, ts_failureMessage = None\<rparr>,
      busy = False, tb_density = DBalanced, tb_replies = []\<rparr>"

text \<open>A stored density profile, read at the start or changed later.\<close>

definition toolbar_density :: "string \<Rightarrow> PageTab \<Rightarrow> PageTab" where
  "toolbar_density v p = (case density_of v of None \<Rightarrow> p | Some d \<Rightarrow> p\<lparr>tb_density := d\<rparr>)"

definition provenance_note :: "ProvisionalSource \<Rightarrow> string" where
  "provenance_note src =
     (case src of
        CompanionMock \<Rightarrow> ''OfflineMock page MT -- weights not installed (companion connected)''
      | DevFallback \<Rightarrow> ''Provisional [dev] draft -- companion unavailable (not a real translation)''
      | ProvNone \<Rightarrow> ''Translated on-device'')"

text \<open>A translation the toolbar starts: while it runs, when it ends well, when it fails.\<close>

definition toolbar_working :: "ToolbarSnapshot \<Rightarrow> ToolbarSnapshot" where
  "toolbar_working s = s\<lparr>ts_localProcessing := True, ts_statusMessage := Some ''Translating locally...''\<rparr>"

definition toolbar_done :: "Controller \<Rightarrow> ToolbarSnapshot \<Rightarrow> ToolbarSnapshot" where
  "toolbar_done c s = s\<lparr>ts_mode := pc_mode c, ts_localProcessing := False,
     ts_statusMessage := Some (provenance_note (lastProvisionalSource c)), ts_progress := Some 1\<rparr>"

definition toolbar_failed :: "string \<Rightarrow> ToolbarSnapshot \<Rightarrow> ToolbarSnapshot" where
  "toolbar_failed e s = s\<lparr>ts_localProcessing := False, ts_failureMessage := Some e\<rparr>"

definition runTranslate :: "translator \<Rightarrow> bool \<Rightarrow> string \<Rightarrow> string \<Rightarrow> PageTab \<Rightarrow> PageTab" where
  "runTranslate tr dev url lang p =
     (let p = p\<lparr>busy := True, snapshot := toolbar_working (snapshot p)\<rparr>;
          c = translateNow tr dev url lang (controller p);
          s = (case lastError c of
                 None \<Rightarrow> (toolbar_done c (snapshot p))\<lparr>ts_failureMessage := Some []\<rparr>
               | Some e \<Rightarrow> toolbar_failed e (snapshot p))
      in p\<lparr>controller := c, snapshot := s, busy := False\<rparr>)"

definition onModeChange :: "PageTranslateMode \<Rightarrow> PageTab \<Rightarrow> PageTab" where
  "onModeChange m p = p\<lparr>controller := setMode m (controller p), snapshot := (snapshot p)\<lparr>ts_mode := m\<rparr>\<rparr>"

definition onRestore :: "PageTab \<Rightarrow> PageTab" where
  "onRestore p = p\<lparr>controller := restoreOriginal (controller p),
     snapshot := (snapshot p)\<lparr>ts_mode := ModeOriginal\<rparr>\<rparr>"

definition onTargetLangChange :: "translator \<Rightarrow> bool \<Rightarrow> string \<Rightarrow> string \<Rightarrow> PageTab \<Rightarrow> PageTab" where
  "onTargetLangChange tr dev url lang p =
     runTranslate tr dev url lang (p\<lparr>snapshot := (snapshot p)\<lparr>ts_targetLang := lang\<rparr>\<rparr>)"

definition onRetry :: "translator \<Rightarrow> bool \<Rightarrow> string \<Rightarrow> PageTab \<Rightarrow> PageTab" where
  "onRetry tr dev url p = runTranslate tr dev url (ts_targetLang (snapshot p)) p"

section \<open>What the toolbar renders\<close>

definition pressed :: "PageTab \<Rightarrow> PageTranslateMode \<Rightarrow> bool" where
  "pressed p m \<longleftrightarrow> ts_mode (snapshot p) = m"

definition status_line :: "PageTab \<Rightarrow> string option" where
  "status_line p =
     (let s = snapshot p; local = ts_localProcessing s \<or> busy p; status = text_or_none (ts_statusMessage s)
      in if local \<or> ts_progress s \<noteq> None \<or> status \<noteq> None
         then Some ((if local then ''Local processing... '' else [])
                    @ (case ts_progress s of None \<Rightarrow> [] | Some f \<Rightarrow> int_str (js_round (of_rat (f * 100))) @ ''% '')
                    @ opt_or status [])
         else None)"

definition failure_alert :: "PageTab \<Rightarrow> string option" where
  "failure_alert p = text_or_none (ts_failureMessage (snapshot p))"

section \<open>The content script\<close>

definition page_host :: "string \<Rightarrow> bool" where
  "page_host hostname \<longleftrightarrow>
     \<not> str_includes (toLowerCase hostname) ''youtube.com'' \<and> \<not> str_includes (toLowerCase hostname) ''youtu.be''"

definition page_main :: "string \<Rightarrow> nat \<Rightarrow> dom \<Rightarrow> PageTab option" where
  "page_main hostname n body =
     (if page_host hostname then Some (mountPageTranslateToolbar (createPageTranslateController n body)) else None)"

datatype PageMessage = PmStart "string option" | PmRestore | PmSetMode PageTranslateMode | PmOther

definition pm_start :: "translator \<Rightarrow> bool \<Rightarrow> string \<Rightarrow> string option \<Rightarrow> PageTab \<Rightarrow> PageTab" where
  "pm_start tr dev url lang p =
     (let l = opt_or lang ''en'';
          p = p\<lparr>snapshot := (toolbar_working (snapshot p))\<lparr>ts_targetLang := l\<rparr>\<rparr>;
          c = translateNow tr dev url l (controller p)
      in case lastError c of
           None \<Rightarrow> p\<lparr>controller := c, snapshot := toolbar_done c (snapshot p),
                     tb_replies := tb_replies p @ [(True, Some (pc_mode c))]\<rparr>
         | Some e \<Rightarrow> p\<lparr>controller := c, snapshot := toolbar_failed e (snapshot p),
                       tb_replies := tb_replies p @ [(False, None)]\<rparr>)"

definition pm_restore :: "PageTab \<Rightarrow> PageTab" where
  "pm_restore p = p\<lparr>controller := restoreOriginal (controller p),
     snapshot := (snapshot p)\<lparr>ts_mode := ModeOriginal, ts_statusMessage := Some ''Original restored''\<rparr>,
     tb_replies := tb_replies p @ [(True, None)]\<rparr>"

definition pm_set_mode :: "PageTranslateMode \<Rightarrow> PageTab \<Rightarrow> PageTab" where
  "pm_set_mode m p =
     (let c = setMode m (controller p)
      in p\<lparr>controller := c, snapshot := (snapshot p)\<lparr>ts_mode := m\<rparr>,
           tb_replies := tb_replies p @ [(True, Some (pc_mode c))]\<rparr>)"

definition page_message :: "translator \<Rightarrow> bool \<Rightarrow> string \<Rightarrow> PageMessage \<Rightarrow> PageTab \<Rightarrow> PageTab" where
  "page_message tr dev url m p =
     (case m of
        PmStart lang \<Rightarrow> pm_start tr dev url lang p
      | PmRestore \<Rightarrow> pm_restore p
      | PmSetMode md \<Rightarrow> pm_set_mode md p
      | PmOther \<Rightarrow> p)"

section \<open>Runs\<close>

text \<open>
  What happens to the tab: a message, a click, a change of the stored profile, elements the page
  adds itself. Each translation has its own translator.
\<close>

datatype PageEvent =
    Message translator bool string PageMessage
  | ClickMode PageTranslateMode
  | ClickRestore
  | ChooseLang translator bool string string
  | ClickRetry translator bool string
  | StoredDensity string
  | PageAdds translator bool string "nat list list"

fun page_event :: "PageEvent \<Rightarrow> PageTab \<Rightarrow> PageTab" where
  "page_event (Message tr dev url m) p = page_message tr dev url m p"
| "page_event (ClickMode m) p = onModeChange m p"
| "page_event ClickRestore p = onRestore p"
| "page_event (ChooseLang tr dev url lang) p = onTargetLangChange tr dev url lang p"
| "page_event (ClickRetry tr dev url) p = onRetry tr dev url p"
| "page_event (StoredDensity v) p = toolbar_density v p"
| "page_event (PageAdds tr dev url addrs) p = p\<lparr>controller := onMutations tr dev url addrs (controller p)\<rparr>"

definition tab_run :: "PageEvent list \<Rightarrow> PageTab \<Rightarrow> PageTab" where
  "tab_run es p = fold page_event es p"

lemma tab_run_simps [simp]:
  "tab_run [] p = p" "tab_run (e # es) p = tab_run es (page_event e p)"
  by (simp_all add: tab_run_def)

section \<open>The toolbar and the controller agree\<close>

lemma mode_kept [simp]: "pc_mode (applyToDom c) = pc_mode c" "targetLang (applyToDom c) = targetLang c"
  "lastError (applyToDom c) = lastError c"
  "targetLang (restoreOriginal c) = targetLang c" "pc_mode (setMode m c) = m" "targetLang (setMode m c) = targetLang c"
  by (simp_all add: applyToDom_def restoreOriginal_def setMode_def Let_def)

text \<open>A translation that fails leaves the mode and the page as they are.\<close>

lemma translate_outcome:
  assumes c'_def: "c' = translateNow tr dev url lang c"
  shows "targetLang c' = lang"
    and "lastError c' = None \<Longrightarrow> pc_mode c' = ModeTranslated"
    and "lastError c' \<noteq> None \<Longrightarrow> pc_mode c' = pc_mode c \<and> doc_body c' = doc_body c"
proof -
  obtain segs es where col: "collectTextSegments segment_options (doc_parts c) (doc_body c) = (segs, es)"
    by force
  define c1 where "c1 = c\<lparr>targetLang := lang, lastError := None, restore := newRestoreTable es\<rparr>"
  have c1: "targetLang c1 = lang" "lastError c1 = None" "pc_mode c1 = pc_mode c" "doc_body c1 = doc_body c"
    by (simp_all add: c1_def)
  obtain r c2 where run: "runTranslation tr dev url segs lang c1 = (r, c2)" by force
  from runTranslation_keeps [OF run] obtain v where c2: "c2 = c1\<lparr>lastProvisionalSource := v\<rparr>" by blast
  have c': "c' = (case r of Inr batch \<Rightarrow> applyToDom (c2\<lparr>results := batch, pc_mode := ModeTranslated\<rparr>)
      | Inl e \<Rightarrow> c2\<lparr>lastError := Some e, results := []\<rparr>)"
    unfolding c'_def translateNow_def by (simp add: col run flip: c1_def)
  show "targetLang c' = lang" "lastError c' = None \<Longrightarrow> pc_mode c' = ModeTranslated"
    "lastError c' \<noteq> None \<Longrightarrow> pc_mode c' = pc_mode c \<and> doc_body c' = doc_body c"
    using c1 by (auto simp: c' c2 split: sum.splits)
qed

lemma add_root_kept:
  "pc_mode (fst (add_root a q)) = pc_mode (fst q) \<and> targetLang (fst (add_root a q)) = targetLang (fst q)"
  by (auto simp: add_root_def Let_def split: option.split prod.split)

lemma add_roots_kept:
  "pc_mode (fst (fold add_root as q)) = pc_mode (fst q) \<and> targetLang (fst (fold add_root as q)) = targetLang (fst q)"
  by (induction as arbitrary: q) (simp_all add: add_root_kept)

lemma mutations_kept:
  "pc_mode (onMutations tr dev url as c) = pc_mode c" "targetLang (onMutations tr dev url as c) = targetLang c"
  using add_roots_kept [of as "(c, [])"]
  by (auto simp: onMutations_def Let_def runTranslation_def split: prod.split sum.split)

definition agreeing :: "PageTab \<Rightarrow> bool" where
  "agreeing p \<longleftrightarrow> ts_mode (snapshot p) = pc_mode (controller p)
     \<and> ts_targetLang (snapshot p) = targetLang (controller p)
     \<and> \<not> ts_localProcessing (snapshot p) \<and> \<not> busy p"

lemma agreeing_event: "agreeing p \<Longrightarrow> agreeing (page_event e p)"
proof (cases e)
  case (Message tr dev url m)
  assume "agreeing p"
  with Message show ?thesis
    by (cases m) (auto simp: page_message_def pm_start_def pm_restore_def pm_set_mode_def agreeing_def
        toolbar_done_def toolbar_failed_def toolbar_working_def Let_def translate_outcome [OF refl]
        split: option.split)
qed (auto simp: agreeing_def onModeChange_def onRestore_def onTargetLangChange_def onRetry_def
    runTranslate_def toolbar_done_def toolbar_failed_def toolbar_working_def toolbar_density_def
    mutations_kept translate_outcome [OF refl] Let_def split: option.split)

lemma agreeing_run: "agreeing p \<Longrightarrow> agreeing (tab_run es p)"
  by (induction es arbitrary: p) (simp_all add: agreeing_event)

lemma agreeing_mount: "agreeing (mountPageTranslateToolbar (createPageTranslateController n d))"
  by (simp add: agreeing_def mountPageTranslateToolbar_def createPageTranslateController_def)

section \<open>The original page\<close>

text \<open>Runs in which translations start from the original page only and the page adds nothing.\<close>

fun starts_translation :: "PageEvent \<Rightarrow> bool" where
  "starts_translation (Message tr dev url (PmStart lang)) = True"
| "starts_translation (ChooseLang tr dev url lang) = True"
| "starts_translation (ClickRetry tr dev url) = True"
| "starts_translation _ = False"

fun undisturbed :: "PageEvent list \<Rightarrow> PageTab \<Rightarrow> bool" where
  "undisturbed [] p = True"
| "undisturbed (e # es) p =
     ((starts_translation e \<longrightarrow> pressed p ModeOriginal)
      \<and> (case e of PageAdds tr dev url addrs \<Rightarrow> False | _ \<Rightarrow> True)
      \<and> undisturbed es (page_event e p))"

lemma restorable_event:
  assumes "restorable T0 (controller p)" "undisturbed (e # es) p" "agreeing p"
  shows "restorable T0 (controller (page_event e p))"
proof -
  have tr: "restorable T0 (translateNow tr dev url lang (controller p))" if "starts_translation e" for tr dev url lang
    using assms that by (auto simp: pressed_def agreeing_def intro!: restorable_translate restorable_mode)
  show ?thesis
  proof (cases e)
    case (Message t dev url m)
    with assms(1) tr show ?thesis
      by (cases m) (simp_all add: page_message_def pm_start_def pm_restore_def pm_set_mode_def Let_def
          restorable_setMode restorable_restore split: option.split)
  next
    case (PageAdds t dev url as)
    with assms(2) show ?thesis by simp
  qed (use assms(1) tr in \<open>simp_all add: onModeChange_def onRestore_def onTargetLangChange_def onRetry_def
      runTranslate_def toolbar_density_def Let_def restorable_setMode restorable_restore split: option.split\<close>)
qed

lemma restorable_run:
  "restorable T0 (controller p) \<Longrightarrow> undisturbed es p \<Longrightarrow> agreeing p \<Longrightarrow> restorable T0 (controller (tab_run es p))"
proof (induction es arbitrary: p)
  case (Cons e es)
  then show ?case using restorable_event [OF Cons.prems] agreeing_event by simp
qed simp


text \<open>
  What is said of a translation that has just ended: that it was done on the device exactly when
  no text came from a mock.
\<close>

lemma note_after_translation:
  assumes "c = translateNow tr dev url lang (controller p)" "lastError c = None"
  shows "ts_statusMessage (snapshot (runTranslate tr dev url lang p)) = Some (provenance_note (lastProvisionalSource c))"
    "provenance_note src = ''Translated on-device'' \<longleftrightarrow> src = ProvNone"
proof -
  show "ts_statusMessage (snapshot (runTranslate tr dev url lang p)) = Some (provenance_note (lastProvisionalSource c))"
    using assms by (simp add: runTranslate_def toolbar_done_def Let_def)
qed (simp add: provenance_note_def split: ProvisionalSource.split)

text \<open>
  Two ways the toolbar goes stale. A failure stays on display after the popup's next, successful
  request, which does not clear it as the toolbar's own requests do; and elements the page adds
  are translated by whatever answers then, with the note of the first translation left in place.
\<close>

lemma failure_stays_after_success:
  assumes "lastError (translateNow tr dev url l (controller p)) = None" "failure_alert p = Some e"
  shows "failure_alert (page_message tr dev url (PmStart (Some l)) p) = Some e"
    "failure_alert (runTranslate tr dev url l p) = None"
  using assms
  by (simp_all add: failure_alert_def page_message_def pm_start_def runTranslate_def toolbar_done_def
      toolbar_working_def text_or_none_def opt_or_def Let_def)

lemma note_kept_by_mutations:
  "ts_statusMessage (snapshot (page_event (PageAdds tr dev url addrs) p)) = ts_statusMessage (snapshot p)"
  by simp

end
