(* ===== verification/Ui_Widgets.thy ===== *)
theory Ui_Widgets
  imports Content Fsrs
begin

text \<open>
  The components of \<open>packages/ui/src\<close> that have behaviour of their own: the tab bar
  (\<open>TabBar.tsx\<close>), the transcript list (\<open>TranscriptList.tsx\<close>), the review card (\<open>ReviewCard.tsx\<close>)
  and the density provider (\<open>DensityProvider.tsx\<close>). What they render is in \<open>Views\<close>.
\<close>

section \<open>Tab bar\<close>

text \<open>The identifier handed to \<open>onChange\<close> when a key is pressed.\<close>

definition tab_key :: "'t list \<Rightarrow> 't \<Rightarrow> string \<Rightarrow> 't option" where
  "tab_key items v key =
     (case find_index (\<lambda>i. i = v) items of
        None \<Rightarrow> None
      | Some idx \<Rightarrow>
          if key = ''ArrowRight'' \<or> key = ''ArrowDown'' then Some (items ! ((idx + 1) mod length items))
          else if key = ''ArrowLeft'' \<or> key = ''ArrowUp''
          then Some (items ! ((idx + length items - 1) mod length items))
          else if key = ''Home'' then Some (hd items)
          else if key = ''End'' then Some (last items)
          else None)"

section \<open>Transcript list\<close>

definition pad2 :: "string \<Rightarrow> string" where
  "pad2 s = replicate (2 - length s) (CHR ''0'') @ s"

text \<open>Minutes and seconds; the remainder takes the sign of the dividend.\<close>

definition formatTs :: "int \<Rightarrow> string" where
  "formatTs ms =
     (let totalSec = ms div 1000; m = totalSec div 60;
          s = (if totalSec < 0 then - ((- totalSec) mod 60) else totalSec mod 60)
      in int_str m @ '':'' @ pad2 (int_str s))"

definition filter_items :: "string \<Rightarrow> TranscriptItem list \<Rightarrow> TranscriptItem list" where
  "filter_items query items =
     (let q = toLowerCase (trim query)
      in if q = [] then items
         else filter (\<lambda>i. str_includes (toLowerCase (ti_text i)) q \<or>
                (case ti_translation i of None \<Rightarrow> False | Some t \<Rightarrow> str_includes (toLowerCase t) q)) items)"

definition list_message :: "string \<Rightarrow> string \<Rightarrow> TranscriptItem list \<Rightarrow> string option" where
  "list_message emptyLabel query items =
     (if filter_items query items \<noteq> [] then None
      else Some (if items = [] then emptyLabel else ''No cues match this search.''))"

definition item_label :: "TranscriptItem \<Rightarrow> string" where
  "item_label i = formatTs (ti_startMs i) @ '' '' @ ti_text i"

text \<open>The cue a key press on a row selects.\<close>

definition item_key :: "string \<Rightarrow> string \<Rightarrow> string option" where
  "item_key key i = (if key = ''Enter'' \<or> key = '' '' then Some i else None)"

section \<open>Review card\<close>

text \<open>Whether the answer is revealed; ratings are offered only then, and hide the next answer.\<close>

datatype CardClick = Reveal | RateButton FsrsRating

definition card_click :: "CardClick \<Rightarrow> bool \<Rightarrow> FsrsRating option \<times> bool" where
  "card_click c revealed =
     (case c of
        Reveal \<Rightarrow> (None, True)
      | RateButton r \<Rightarrow> if revealed then (Some r, False) else (None, revealed))"

section \<open>Density provider\<close>

type_synonym storage = "string \<Rightarrow> json option"

record Density =
  dn_profile :: DensityProfile
  dn_theme :: string

definition profile_key :: string where
  "profile_key = ''language-llm.density-profile''"

definition theme_key :: string where
  "theme_key = ''language-llm.theme''"

definition DEFAULT_THEME :: string where
  "DEFAULT_THEME = ''system''"

definition dn_start :: "DensityProfile option \<Rightarrow> string option \<Rightarrow> Density" where
  "dn_start profileProp themeProp = \<lparr>dn_profile = opt_or profileProp DEFAULT_DENSITY, dn_theme = opt_or themeProp DEFAULT_THEME\<rparr>"

text \<open>Stored or changed values: those that name no profile and no theme are left aside.\<close>

definition dn_read :: "storage \<Rightarrow> Density \<Rightarrow> Density" where
  "dn_read v s =
     (let s = (case Option.bind (str_of (v profile_key)) density_of of None \<Rightarrow> s | Some d \<Rightarrow> s\<lparr>dn_profile := d\<rparr>)
      in case str_of (v theme_key) of
           None \<Rightarrow> s
         | Some t \<Rightarrow> if isThemePreference t then s\<lparr>dn_theme := t\<rparr> else s)"

definition dn_changed :: "storage \<Rightarrow> string \<Rightarrow> Density \<Rightarrow> Density" where
  "dn_changed changes area s = (if area = ''local'' then dn_read changes s else s)"

definition setProfile :: "bool \<Rightarrow> DensityProfile \<Rightarrow> Density \<times> storage \<Rightarrow> Density \<times> storage" where
  "setProfile persist next p =
     ((fst p)\<lparr>dn_profile := next\<rparr>,
      if persist then (snd p)(profile_key \<mapsto> JStr (density_str next)) else snd p)"

definition setTheme :: "bool \<Rightarrow> string \<Rightarrow> Density \<times> storage \<Rightarrow> Density \<times> storage" where
  "setTheme persist next p =
     ((fst p)\<lparr>dn_theme := next\<rparr>, if persist then (snd p)(theme_key \<mapsto> JStr next) else snd p)"

section \<open>Lemmas\<close>

lemma find_index_nth: "distinct xs \<Longrightarrow> i < length xs \<Longrightarrow> find_index (\<lambda>x. x = xs ! i) xs = Some i"
proof (induction xs arbitrary: i)
  case (Cons x xs)
  then show ?case by (cases i) auto
qed simp

text \<open>The arrow keys go round the tabs, and one undoes the other.\<close>

lemma arrows_inverse:
  assumes "distinct items" "v \<in> set items" "tab_key items v ''ArrowRight'' = Some w"
  shows "w \<in> set items \<and> tab_key items w ''ArrowLeft'' = Some v"
proof -
  obtain i where i: "i < length items" "v = items ! i" using assms(2) by (auto simp: in_set_conv_nth)
  let ?j = "(i + 1) mod length items"
  have j: "?j < length items" using i(1) by (intro mod_less_divisor) linarith
  have w: "w = items ! ?j" using assms(1,3) i by (simp add: tab_key_def find_index_nth)
  have "(?j + length items - 1) mod length items = i"
  proof (cases "Suc i = length items")
    case True
    then show ?thesis by simp
  next
    case False
    with i(1) have "?j = i + 1" by simp
    with i(1) show ?thesis by simp
  qed
  with assms(1) j w i show ?thesis by (simp add: tab_key_def find_index_nth)
qed

text \<open>A profile chosen on one surface is the one every other surface shows, now or later.\<close>

lemma density_of_str [simp]: "density_of (density_str d) = Some d"
  by (cases d) (simp_all add: density_of_def)

lemma profile_shared:
  assumes "setProfile True d (a, st) = (a', st')"
  shows "dn_profile a' = d" "dn_profile (dn_read st' b) = d"
    "dn_profile (dn_changed [profile_key \<mapsto> JStr (density_str d)] ''local'' b) = d"
  using assms by (auto simp: setProfile_def dn_read_def dn_changed_def Let_def split: option.split)

text \<open>Searching drops rows but neither reorders nor invents any; a blank search drops none.\<close>

lemma filter_items_sub: "set (filter_items q items) \<subseteq> set items" "trim q = [] \<Longrightarrow> filter_items q items = items"
  by (auto simp: filter_items_def Let_def toLowerCase_def)

end
