(* ===== verification/Side_Panel.thy ===== *)
theory Side_Panel
  imports Ui_Widgets Study Dictionaries Runtime
begin

text \<open>
  The side panel, \<open>apps/extension/entrypoints/sidepanel/App.tsx\<close>: its state, one function per
  handler, and the effects that follow every render. What the background script, the companion
  and the browser answer is in the environment of a handler; a handler runs to its end before the
  next one. The local storage of the extension is part of the state. Dashes, the ellipsis and the
  arrow are in ASCII.
\<close>

section \<open>Tabs and chip\<close>

datatype CompanionUi = UiUnknown | UiReady | UiDegraded | UiDown

datatype PanelTab = TabTranscript | TabLearn | TabDictionary | TabLyrics | TabPrivacy

primrec tab_str :: "PanelTab \<Rightarrow> string" where
  "tab_str TabTranscript = ''transcript''"
| "tab_str TabLearn = ''learn''"
| "tab_str TabDictionary = ''dictionary''"
| "tab_str TabLyrics = ''lyrics''"
| "tab_str TabPrivacy = ''privacy''"

definition TABS :: "PanelTab list" where
  "TABS = [TabTranscript, TabLearn, TabDictionary, TabLyrics, TabPrivacy]"

definition readTab :: "string option \<Rightarrow> PanelTab" where
  "readTab stored = opt_or (find (\<lambda>t. stored = Some (tab_str t)) TABS) TabTranscript"

definition companionChip :: "CompanionUi \<Rightarrow> string \<times> string" where
  "companionChip state =
     (case state of
        UiReady \<Rightarrow> (''llm-chip llm-chip--ok'', ''Ready'')
      | UiDegraded \<Rightarrow> (''llm-chip llm-chip--warn'', ''Degraded'')
      | UiDown \<Rightarrow> (''llm-chip llm-chip--err'', ''Offline'')
      | UiUnknown \<Rightarrow> (''llm-chip'', ''...''))"

definition ui_of_ping :: "CompanionPingResult \<Rightarrow> CompanionUi" where
  "ui_of_ping ping = (if cp_ready ping then UiReady else if cp_degraded ping then UiDegraded else UiDown)"

definition ping_status :: "CompanionPingResult \<Rightarrow> string" where
  "ping_status ping =
     (if cp_ready ping then ''Companion ready''
      else if cp_degraded ping then ''Companion degraded (native only)'' else ''Companion still offline'')"

section \<open>State\<close>

record LocalLexicon =
  lx_format :: "string option"
  lx_count :: "real option"
  lx_attribution :: "string option"
  lx_sample :: "LexiconEntry list option"

record StoredTranscript =
  st_items :: "TranscriptItem list option"
  st_activeId :: "string option"

text \<open>The keys of \<open>chrome.storage.local\<close> the panel reads and writes.\<close>

record LocalStore =
  ls_lexicon :: "LocalLexicon option"
  ls_study :: chrome_storage
  ls_transcript :: "StoredTranscript option"
  ls_lyricsAllowed :: bool
  ls_density :: storage

record SidePanel =
  sd_density :: Density
  sd_tab :: PanelTab
  sd_items :: "TranscriptItem list"
  sd_activeId :: "string option"
  sd_companion :: CompanionUi
  sd_status :: string
  sd_due :: "StudyCard list"
  dictCount :: real
  dictAttr :: string
  lookupQ :: string
  lookupHit :: string
  lyricsNet :: bool
  retention :: json
  studyRef :: "StudySession option"
  sd_local :: LocalStore
  storedTab :: "string option"
  clipboard :: "string option"
  requests :: "json list"
  tab_messages :: "(int \<times> json) list"
  tab_scripts :: "int list"

record BrowserTab =
  bt_id :: "int option"
  bt_title :: "string option"

text \<open>What a handler is answered: \<open>JSON.parse\<close>, \<open>JSON.stringify\<close>, the casts and number printing too.\<close>

record SdEnv =
  sd_now :: int
  sd_send :: RuntimeSend
  sd_sync :: "SyncReply option"
  sd_parse :: "string \<Rightarrow> json option"
  sd_stringify :: "json \<Rightarrow> string"
  sd_num :: "real \<Rightarrow> string"
  cast_snapshot :: "WireSnapshot \<Rightarrow> StudySessionSnapshot"
  cast_entry :: "json \<Rightarrow> DictImportEntry"
  activeTab :: "BrowserTab option"

definition set_status :: "string \<Rightarrow> SidePanel \<Rightarrow> SidePanel" where
  "set_status m p = p\<lparr>sd_status := m\<rparr>"

definition panel_start :: "string option \<Rightarrow> LocalStore \<Rightarrow> SidePanel" where
  "panel_start stored store =
     \<lparr>sd_density = dn_start None None, sd_tab = readTab stored, sd_items = [], sd_activeId = None,
      sd_companion = UiUnknown, sd_status = [], sd_due = [], dictCount = 0, dictAttr = [], lookupQ = [],
      lookupHit = [], lyricsNet = False, retention = JStr ''days7'', studyRef = None, sd_local = store,
      storedTab = stored, clipboard = None, requests = [], tab_messages = [], tab_scripts = []\<rparr>"

section \<open>Refreshing\<close>

definition hydrated_session :: "SdEnv \<Rightarrow> SidePanel \<Rightarrow> StudySession \<times> chrome_storage" where
  "hydrated_session env p =
     (let (snap, st) = companion_load (sd_parse env) (cast_snapshot env) (sd_sync env) chrome_load chrome_save
            (ls_study (sd_local p))
      in (hydrate snap new_session, st))"

definition refreshStudy :: "SdEnv \<Rightarrow> SidePanel \<Rightarrow> SidePanel" where
  "refreshStudy env p =
     (case studyRef p of
        Some s \<Rightarrow> p\<lparr>sd_due := dueCards s (sd_now env)\<rparr>
      | None \<Rightarrow>
          let (s, st) = hydrated_session env p
          in p\<lparr>studyRef := Some s, sd_local := (sd_local p)\<lparr>ls_study := st\<rparr>, sd_due := dueCards s (sd_now env)\<rparr>)"

definition refreshCompanion :: "SdEnv \<Rightarrow> SidePanel \<Rightarrow> CompanionPingResult \<times> SidePanel" where
  "refreshCompanion env p =
     (let ping = pingCompanion (sd_send env) in (ping, p\<lparr>sd_companion := ui_of_ping ping\<rparr>))"

definition refreshDictStats :: "SdEnv \<Rightarrow> SidePanel \<Rightarrow> SidePanel" where
  "refreshDictStats env p =
     (case dictionaryStats (sd_send env) of
        (True, dictionaries, Some entries, _) \<Rightarrow>
          p\<lparr>dictCount := entries,
            dictAttr := (case dictionaries of
                Some d \<Rightarrow> sd_num env d @ '' dictionary pack(s) in companion''
              | None \<Rightarrow> ''Companion dictionary store'')\<rparr>
      | _ \<Rightarrow>
          (case ls_lexicon (sd_local p) of
             None \<Rightarrow> p\<lparr>dictCount := 0, dictAttr := []\<rparr>
           | Some stored \<Rightarrow>
               p\<lparr>dictCount := opt_or (lx_count stored) 0,
                 dictAttr := (case lx_attribution stored of
                     Some a \<Rightarrow> a
                   | None \<Rightarrow> (case text_or_none (lx_format stored) of
                       Some f \<Rightarrow> ''Local cache '' @ char_of (183::nat) # '' '' @ f
                     | None \<Rightarrow> []))\<rparr>))"

definition show_transcript :: "StoredTranscript option \<Rightarrow> SidePanel \<Rightarrow> SidePanel" where
  "show_transcript tr p =
     (case Option.bind tr st_items of
        None \<Rightarrow> p
      | Some items \<Rightarrow> p\<lparr>sd_items := items, sd_activeId := Option.bind tr st_activeId\<rparr>)"

definition onStorage :: "StoredTranscript option \<Rightarrow> string \<Rightarrow> SidePanel \<Rightarrow> SidePanel" where
  "onStorage new area p = (if area \<noteq> ''local'' then p else show_transcript new p)"

definition panel_mount :: "SdEnv \<Rightarrow> SidePanel \<Rightarrow> SidePanel" where
  "panel_mount env p =
     (let p = show_transcript (ls_transcript (sd_local p)) (p\<lparr>lyricsNet := ls_lyricsAllowed (sd_local p)\<rparr>);
          p = snd (refreshCompanion env p);
          p = (case getRetention (sd_send env) of
                 (_, Some preset, _) \<Rightarrow> p\<lparr>retention := preset\<rparr>
               | _ \<Rightarrow> p)
      in refreshStudy env (refreshDictStats env p))"

definition retryPing :: "SdEnv \<Rightarrow> SidePanel \<Rightarrow> SidePanel" where
  "retryPing env p = (let (ping, p) = refreshCompanion env p in set_status (ping_status ping) p)"

section \<open>What follows a render\<close>

definition focusMode :: "SidePanel \<Rightarrow> bool" where
  "focusMode p \<longleftrightarrow> dn_profile (sd_density p) = DFocus"

definition visibleTabs :: "SidePanel \<Rightarrow> PanelTab list" where
  "visibleTabs p = (if focusMode p then filter (\<lambda>t. t = TabTranscript \<or> t = TabLearn) TABS else TABS)"

definition settle :: "SidePanel \<Rightarrow> SidePanel" where
  "settle p =
     (let p = (if focusMode p \<and> sd_tab p \<noteq> TabTranscript \<and> sd_tab p \<noteq> TabLearn
               then p\<lparr>sd_tab := TabTranscript\<rparr> else p)
      in p\<lparr>storedTab := Some (tab_str (sd_tab p))\<rparr>)"

definition listItems :: "SidePanel \<Rightarrow> (TranscriptItem \<times> bool) list" where
  "listItems p = map (\<lambda>i. (i, Some (ti_id i) = sd_activeId p)) (sd_items p)"

definition reviewCard :: "SidePanel \<Rightarrow> StudyCard option" where
  "reviewCard p = (case sd_due p of [] \<Rightarrow> None | c # _ \<Rightarrow> Some c)"

definition diagnostics :: "SdEnv \<Rightarrow> SidePanel \<Rightarrow> string option" where
  "diagnostics env p =
     (if dn_profile (sd_density p) \<noteq> DExpert then None
      else
        let dot = '' '' @ char_of (183::nat) # '' '';
            ui = (case sd_companion p of UiUnknown \<Rightarrow> ''unknown'' | UiReady \<Rightarrow> ''ready''
                    | UiDegraded \<Rightarrow> ''degraded'' | UiDown \<Rightarrow> ''down'')
        in Some (''density=expert'' @ dot @ ''companion='' @ ui @ dot @ ''cues='' @ nat_str (length (sd_items p))
             @ dot @ ''due='' @ nat_str (length (sd_due p)) @ dot @ ''dict='' @ sd_num env (dictCount p)
             @ dot @ ''retention='' @ js_string (sd_num env) (retention p)))"

section \<open>Transcript and learning\<close>

text \<open>Only tabs with an identifier other than zero are asked.\<close>

definition tab_id :: "SdEnv \<Rightarrow> int option" where
  "tab_id env = (case Option.bind (activeTab env) bt_id of None \<Rightarrow> None | Some i \<Rightarrow> if i = 0 then None else Some i)"

definition transcribeActiveTab :: "SdEnv \<Rightarrow> SidePanel \<Rightarrow> SidePanel" where
  "transcribeActiveTab env p =
     (case tab_id env of
        None \<Rightarrow> p
      | Some i \<Rightarrow> set_status ''Capture requested on active tab'' (p\<lparr>tab_scripts := tab_scripts p @ [i]\<rparr>))"

definition seek_message :: "TranscriptItem \<Rightarrow> string \<Rightarrow> json" where
  "seek_message cue i = js_obj [(''type'', Some (JStr ''transcript.seek'')),
     (''startMs'', Some (JNum (of_int (ti_startMs cue)))), (''cueId'', Some (JStr i))]"

definition onSelectCue :: "SdEnv \<Rightarrow> string \<Rightarrow> SidePanel \<Rightarrow> SidePanel" where
  "onSelectCue env i p =
     (let p = p\<lparr>sd_activeId := Some i\<rparr>
      in case find (\<lambda>c. ti_id c = i) (sd_items p) of
           None \<Rightarrow> p
         | Some cue \<Rightarrow>
             (case tab_id env of
                None \<Rightarrow> p
              | Some t \<Rightarrow> p\<lparr>tab_messages := tab_messages p @ [(t, seek_message cue i)]\<rparr>))"

text \<open>\<open>StudySession.review\<close> on the companion store: saved locally and sent when the card is there.\<close>

definition study_put :: "StudySessionSnapshot \<Rightarrow> SidePanel \<Rightarrow> SidePanel" where
  "study_put snap p =
     (let (st, _) = companion_save chrome_save snap (ls_study (sd_local p))
      in p\<lparr>sd_local := (sd_local p)\<lparr>ls_study := st\<rparr>\<rparr>)"

definition onRate :: "SdEnv \<Rightarrow> FsrsRating \<Rightarrow> SidePanel \<Rightarrow> SidePanel" where
  "onRate env rating p =
     (case reviewCard p of
        None \<Rightarrow> p
      | Some c \<Rightarrow>
          let p = (case studyRef p of
                None \<Rightarrow> p
              | Some s \<Rightarrow>
                  (case review (card_id c) rating (sd_now env) s of
                     (None, s) \<Rightarrow> p\<lparr>studyRef := Some s\<rparr>
                   | (Some _, s) \<Rightarrow> study_put (snapshot s) (p\<lparr>studyRef := Some s\<rparr>)))
          in refreshStudy env (set_status (''Rated '' @ nat_str (rating_num rating)) p))"

definition copyCsv :: "SidePanel \<Rightarrow> SidePanel" where
  "copyCsv p = set_status ''CSV copied to clipboard''
     (p\<lparr>clipboard := Some (case studyRef p of None \<Rightarrow> [] | Some s \<Rightarrow> exportCsv s)\<rparr>)"

section \<open>Dictionaries\<close>

primrec format_str :: "DictionaryFormat \<Rightarrow> string" where
  "format_str JmdictXml = ''jmdict-xml''"
| "format_str JmdictText = ''jmdict-text''"
| "format_str CcCedict = ''cc-cedict''"
| "format_str KaikkiJsonl = ''kaikki-jsonl''"
| "format_str UnknownDictionary = ''unknown''"

definition onImported :: "SdEnv \<Rightarrow> real \<Rightarrow> string \<Rightarrow> bool \<Rightarrow> SidePanel \<Rightarrow> SidePanel" where
  "onImported env n format viaCompanion p =
     (let dot = '' '' @ char_of (183::nat) # '' ''
      in set_status
           (if viaCompanion
            then ''Imported '' @ sd_num env n @ '' '' @ format @ '' entries into companion''
            else ''Cached '' @ sd_num env n @ '' '' @ format @ '' entries locally -- companion import pending'')
         (p\<lparr>dictCount := n,
            dictAttr := (if viaCompanion then ''Companion SQLite'' @ dot @ format
                         else ''Local cache only'' @ dot @ format @ '' (companion offline)'')\<rparr>))"

definition lexicon_row :: "LexiconEntry \<Rightarrow> LexiconRow" where
  "lexicon_row e = \<lparr>lex_id = le_id e, lex_lemma = le_lemma e, lex_readings = le_readings e,
     lex_senses = map sn_glosses (le_senses e)\<rparr>"

definition dictionary_upload :: "SdEnv \<Rightarrow> string \<Rightarrow> LexiconEntry list \<Rightarrow> DictionaryImport" where
  "dictionary_upload env filename entries =
     \<lparr>di_id = ''dict-'' @ int_str (sd_now env), di_name = filename, di_language = le_language (hd entries),
      di_license = ''verify-before-redistribution'',
      di_entries = lexiconToCompanionEntries (sd_stringify env) (map lexicon_row entries) 5000\<rparr>"

definition importFile :: "SdEnv \<Rightarrow> string \<Rightarrow> string \<Rightarrow> SidePanel \<Rightarrow> SidePanel" where
  "importFile env filename content p =
     (case importDictionaryText (sd_parse env) content (Some filename) None of
        Inl _ \<Rightarrow> p
      | Inr result \<Rightarrow>
          if ir_format result = UnknownDictionary \<or> ir_entries result = [] then p
          else
            let entries = ir_entries result; format = format_str (ir_format result);
                n = real (length entries);
                stored = \<lparr>lx_format = Some format, lx_count = Some n,
                   lx_attribution = Some (filename @ '' '' @ char_of (183::nat) # '' verify license before redistribution''),
                   lx_sample = Some (take 500 entries)\<rparr>;
                p = p\<lparr>sd_local := (sd_local p)\<lparr>ls_lexicon := Some stored\<rparr>\<rparr>
            in if sd_companion p \<noteq> UiReady then onImported env n format False p
               else
                 let (ok, imported, _) = importDictionary (dictionary_upload env filename entries) (sd_send env)
                 in onImported env (opt_or imported n) format ok p)"

definition local_hit :: "LocalLexicon option \<Rightarrow> string \<Rightarrow> LexiconEntry option" where
  "local_hit stored q =
     find (\<lambda>e. toLowerCase (le_lemma e) = q) (opt_or (Option.bind stored lx_sample) [])"

definition local_text :: "LexiconEntry \<Rightarrow> string" where
  "local_text e = le_lemma e @ '': ''
     @ (case le_senses e of [] \<Rightarrow> [] | s # _ \<Rightarrow> join ''; '' (sn_glosses s)) @ '' (local cache)''"

definition lookUp :: "SdEnv \<Rightarrow> SidePanel \<Rightarrow> SidePanel" where
  "lookUp env p =
     (let hit = lookupDictionary (trim (lookupQ p)) (sd_send env)
      in if lr_ok hit \<and> lr_entries hit \<noteq> [] \<and> truthy (Some (hd (lr_entries hit)))
         then p\<lparr>lookupHit := formatLookupHit (sd_parse env) (sd_num env) (cast_entry env (hd (lr_entries hit)))\<rparr>
         else (case local_hit (ls_lexicon (sd_local p)) (toLowerCase (trim (lookupQ p))) of
                 Some e \<Rightarrow> p\<lparr>lookupHit := local_text e\<rparr>
               | None \<Rightarrow> p\<lparr>lookupHit := opt_or (lr_error hit) ''no hit''\<rparr>))"

section \<open>Lyrics\<close>

definition send_request :: "json \<Rightarrow> SidePanel \<Rightarrow> SidePanel" where
  "send_request m p = p\<lparr>requests := requests p @ [m]\<rparr>"

definition allowLyrics :: "bool \<Rightarrow> SidePanel \<Rightarrow> SidePanel" where
  "allowLyrics allowed p =
     send_request (js_obj [(''type'', Some (JStr ''lyrics.set-network'')), (''allowed'', Some (JBool allowed))])
       (p\<lparr>lyricsNet := allowed\<rparr>)"

definition lyrics_format :: "string \<Rightarrow> string" where
  "lyrics_format filename =
     (let name = toLowerCase filename
      in if endsWith name ''.ttml'' then ''ttml'' else if endsWith name ''.lrc'' then ''lrc'' else ''plain'')"

definition importLyrics :: "string \<Rightarrow> string \<Rightarrow> SidePanel \<Rightarrow> SidePanel" where
  "importLyrics filename content p =
     set_status (''Imported '' @ lyrics_format filename @ '' lyrics (attributed to local file)'')
       (send_request (js_obj [(''type'', Some (JStr ''lyrics.import-lrc'')),
          (''format'', Some (JStr (lyrics_format filename))), (''content'', Some (JStr content))]) p)"

text \<open>The button is disabled without permission.\<close>

definition fetchLrclib :: "SdEnv \<Rightarrow> SidePanel \<Rightarrow> SidePanel" where
  "fetchLrclib env p =
     (if \<not> lyricsNet p then p
      else
        let title = opt_or (Option.bind (activeTab env) bt_title) [];
            m = js_obj [(''type'', Some (JStr ''lyrics.fetch-lrclib'')), (''trackName'', Some (JStr title)),
                  (''videoId'', Some (JStr ''active''))];
            res = sd_send env m; p = send_request m p;
            lrc = sub_field (sub_field res ''result'') ''lrc''
        in if truthy (sub_field res ''ok'') \<and> truthy lrc
           then
             let p = set_status ''LRCLIB match ready -- confirm on the video overlay before applying'' p
             in (case tab_id env of
                   None \<Rightarrow> p
                 | Some t \<Rightarrow> p\<lparr>tab_messages := tab_messages p @
                     [(t, js_obj [(''type'', Some (JStr ''lyrics.confirm-candidate'')), (''lrc'', lrc),
                                  (''attribution'', Some (JStr ''LRCLIB''))])]\<rparr>)
           else set_status (case sub_field res ''error'' of
                  None \<Rightarrow> ''No LRCLIB match''
                | Some JNull \<Rightarrow> ''No LRCLIB match''
                | Some e \<Rightarrow> js_string (sd_num env) e) p)"

section \<open>Privacy\<close>

definition chooseRetention :: "SdEnv \<Rightarrow> RetentionPreset \<Rightarrow> SidePanel \<Rightarrow> SidePanel" where
  "chooseRetention env preset p =
     (let res = setRetention preset (sd_send env)
      in set_status (if rr_ok res then ''Retention set to '' @ preset_str preset
                     else opt_or (rr_error res) ''Retention update failed'')
           (p\<lparr>retention := JStr (preset_str preset)\<rparr>))"

definition clearCache :: "SdEnv \<Rightarrow> WipeScope \<Rightarrow> string \<Rightarrow> SidePanel \<Rightarrow> SidePanel" where
  "clearCache env scope done_message p =
     (let res = wipePrivacy scope (sd_send env)
      in set_status (if rr_ok res then done_message else opt_or (rr_error res) ''Wipe failed'') p)"

definition clearPageCache :: "SdEnv \<Rightarrow> SidePanel \<Rightarrow> SidePanel" where
  "clearPageCache env = clearCache env ScPageCache ''Page translation cache cleared''"

definition clearLyrics :: "SdEnv \<Rightarrow> SidePanel \<Rightarrow> SidePanel" where
  "clearLyrics env = clearCache env ScLyrics ''Lyrics cache cleared''"

definition fullWipe :: "SdEnv \<Rightarrow> bool \<Rightarrow> SidePanel \<Rightarrow> SidePanel" where
  "fullWipe env confirmed p =
     (if \<not> confirmed then p
      else
        let res = wipePrivacy ScAll (sd_send env)
        in if rr_ok res
           then
             let store = (sd_local p)\<lparr>ls_lexicon := None, ls_study := (ls_study (sd_local p))(STORAGE_KEY := None),
                   ls_transcript := None\<rparr>;
                 p = p\<lparr>sd_local := store, dictCount := 0, dictAttr := [], sd_items := []\<rparr>;
                 (s, st) = hydrated_session env p
             in set_status ''Privacy wipe completed''
                  (p\<lparr>studyRef := Some s, sd_local := (sd_local p)\<lparr>ls_study := st\<rparr>, sd_due := []\<rparr>)
           else set_status (opt_or (rr_error res) ''Privacy wipe failed'') p)"

definition chooseProfile :: "DensityProfile \<Rightarrow> SidePanel \<Rightarrow> SidePanel" where
  "chooseProfile d p =
     (let (dn, st) = setProfile True d (sd_density p, ls_density (sd_local p))
      in p\<lparr>sd_density := dn, sd_local := (sd_local p)\<lparr>ls_density := st\<rparr>\<rparr>)"

section \<open>Runs of the panel\<close>

datatype SideEvent =
    Mounted SdEnv
  | StorageChanged "StoredTranscript option" string
  | DensityChanged storage string
  | PingClicked SdEnv
  | TabChosen PanelTab
  | TabKey string
  | TranscribeClicked SdEnv
  | CueChosen SdEnv string
  | RateClicked SdEnv FsrsRating
  | CopyClicked
  | FileImported SdEnv string string
  | QueryTyped string
  | LookupClicked SdEnv
  | LyricsAllowed bool
  | LyricsImported string string
  | FetchClicked SdEnv
  | RetentionChosen SdEnv RetentionPreset
  | PageCacheCleared SdEnv
  | LyricsCleared SdEnv
  | WipeClicked SdEnv bool
  | ProfileChosen DensityProfile

fun side_event :: "SideEvent \<Rightarrow> SidePanel \<Rightarrow> SidePanel" where
  "side_event (Mounted env) p = panel_mount env p"
| "side_event (StorageChanged new area) p = onStorage new area p"
| "side_event (DensityChanged changes area) p = p\<lparr>sd_density := dn_changed changes area (sd_density p)\<rparr>"
| "side_event (PingClicked env) p = retryPing env p"
| "side_event (TabChosen t) p = (if t \<in> set (visibleTabs p) then p\<lparr>sd_tab := t\<rparr> else p)"
| "side_event (TabKey k) p =
     (case tab_key (visibleTabs p) (sd_tab p) k of None \<Rightarrow> p | Some t \<Rightarrow> p\<lparr>sd_tab := t\<rparr>)"
| "side_event (TranscribeClicked env) p = transcribeActiveTab env p"
| "side_event (CueChosen env i) p = onSelectCue env i p"
| "side_event (RateClicked env r) p = onRate env r p"
| "side_event CopyClicked p = copyCsv p"
| "side_event (FileImported env filename content) p = importFile env filename content p"
| "side_event (QueryTyped q) p = p\<lparr>lookupQ := q\<rparr>"
| "side_event (LookupClicked env) p = lookUp env p"
| "side_event (LyricsAllowed b) p = allowLyrics b p"
| "side_event (LyricsImported filename content) p = importLyrics filename content p"
| "side_event (FetchClicked env) p = fetchLrclib env p"
| "side_event (RetentionChosen env r) p = chooseRetention env r p"
| "side_event (PageCacheCleared env) p = clearPageCache env p"
| "side_event (LyricsCleared env) p = clearLyrics env p"
| "side_event (WipeClicked env b) p = fullWipe env b p"
| "side_event (ProfileChosen d) p = chooseProfile d p"

definition side_step :: "SideEvent \<Rightarrow> SidePanel \<Rightarrow> SidePanel" where
  "side_step e p = settle (side_event e p)"

definition side_run :: "SideEvent list \<Rightarrow> SidePanel \<Rightarrow> SidePanel" where
  "side_run es p = fold side_step es (settle p)"

section \<open>Well-formed panels\<close>

text \<open>
  What a panel never violates: the tab is one of those offered and the one a reload would open,
  the cards offered for review are in the session, the sample of an imported dictionary has at
  most 500 entries, and only existing tabs are addressed.
\<close>

definition lexicon_ok :: "LocalLexicon option \<Rightarrow> bool" where
  "lexicon_ok stored = (case Option.bind stored lx_sample of None \<Rightarrow> True | Some es \<Rightarrow> length es \<le> 500)"

definition session_cards :: "SidePanel \<Rightarrow> StudyCard list" where
  "session_cards p = (case studyRef p of None \<Rightarrow> [] | Some s \<Rightarrow> cards s)"

definition panel_ok :: "SidePanel \<Rightarrow> bool" where
  "panel_ok p \<longleftrightarrow> set (sd_due p) \<subseteq> set (session_cards p) \<and> lexicon_ok (ls_lexicon (sd_local p))
     \<and> 0 \<notin> fst ` set (tab_messages p) \<and> 0 \<notin> set (tab_scripts p)"

definition tab_ok :: "SidePanel \<Rightarrow> bool" where
  "tab_ok p \<longleftrightarrow> sd_tab p \<in> set (visibleTabs p) \<and> readTab (storedTab p) = sd_tab p"

lemma readTab_str: "readTab (Some (tab_str t)) = t"
  by (cases t) (simp_all add: readTab_def TABS_def)

lemma settle_tab_ok: "tab_ok (settle p)"
proof -
  have "storedTab (settle p) = Some (tab_str (sd_tab (settle p)))" by (simp add: settle_def Let_def)
  moreover have "sd_tab (settle p) \<in> set (visibleTabs (settle p))"
    by (cases "sd_tab p") (auto simp: settle_def visibleTabs_def focusMode_def TABS_def Let_def)
  ultimately show ?thesis by (simp add: tab_ok_def readTab_str)
qed

lemma settle_panel_ok [simp]: "panel_ok (settle p) = panel_ok p"
  by (simp add: settle_def panel_ok_def session_cards_def Let_def)

lemma tab_id_nonzero: "tab_id env = Some i \<Longrightarrow> i \<noteq> 0"
  by (auto simp: tab_id_def split: option.splits if_splits)

lemma due_sub: "set (dueCards s now) \<subseteq> set (cards s)"
  by (auto simp: dueCards_def)

text \<open>Handlers that only set fields the invariant does not read.\<close>

lemma panel_ok_fields [simp]:
  "panel_ok (set_status m p) = panel_ok p" "panel_ok (send_request r p) = panel_ok p"
  "panel_ok (p\<lparr>sd_companion := u\<rparr>) = panel_ok p" "panel_ok (p\<lparr>sd_activeId := a\<rparr>) = panel_ok p"
  "panel_ok (p\<lparr>lyricsNet := b\<rparr>) = panel_ok p" "panel_ok (p\<lparr>retention := j\<rparr>) = panel_ok p"
  "panel_ok (p\<lparr>lookupHit := h\<rparr>) = panel_ok p" "panel_ok (p\<lparr>lookupQ := h\<rparr>) = panel_ok p"
  "panel_ok (p\<lparr>sd_tab := t\<rparr>) = panel_ok p" "panel_ok (p\<lparr>sd_density := d\<rparr>) = panel_ok p"
  "panel_ok (p\<lparr>clipboard := c\<rparr>) = panel_ok p" "panel_ok (p\<lparr>sd_items := xs\<rparr>) = panel_ok p"
  "panel_ok (p\<lparr>dictCount := n, dictAttr := s\<rparr>) = panel_ok p"
  by (simp_all add: panel_ok_def session_cards_def set_status_def send_request_def)

lemma panel_ok_refresh [simp]: "panel_ok p \<Longrightarrow> panel_ok (refreshStudy env p)"
  using due_sub by (auto simp: refreshStudy_def panel_ok_def session_cards_def
      split: option.split prod.split)

lemma panel_ok_local [simp]:
  "panel_ok (show_transcript tr p) = panel_ok p" "panel_ok (refreshDictStats env p) = panel_ok p"
  "panel_ok (snd (refreshCompanion env p)) = panel_ok p"
  by (auto simp: show_transcript_def refreshDictStats_def refreshCompanion_def Let_def
      split: option.split prod.split bool.split)

lemma panel_ok_address:
  "panel_ok p \<Longrightarrow> tab_id env = Some i \<Longrightarrow> panel_ok (p\<lparr>tab_messages := tab_messages p @ [(i, m)]\<rparr>)"
  "panel_ok p \<Longrightarrow> tab_id env = Some i \<Longrightarrow> panel_ok (p\<lparr>tab_scripts := tab_scripts p @ [i]\<rparr>)"
  using tab_id_nonzero by (auto simp: panel_ok_def session_cards_def)

text \<open>A rating replaces the session; the cards offered are then read from the new one.\<close>

lemma panel_ok_rate: "panel_ok p \<Longrightarrow> panel_ok (onRate env r p)"
  using due_sub
  by (auto simp: onRate_def refreshStudy_def set_status_def study_put_def companion_save_def
      panel_ok_def session_cards_def Let_def split: option.split prod.split)

lemma panel_ok_import: "panel_ok p \<Longrightarrow> panel_ok (importFile env filename content p)"
  by (auto simp: importFile_def onImported_def set_status_def panel_ok_def session_cards_def lexicon_ok_def Let_def
      split: sum.split prod.split)

lemma panel_ok_wipe: "panel_ok p \<Longrightarrow> panel_ok (fullWipe env b p)"
  by (auto simp: fullWipe_def set_status_def panel_ok_def session_cards_def lexicon_ok_def Let_def
      split: prod.split)

lemma panel_ok_event: "panel_ok p \<Longrightarrow> panel_ok (side_event e p)"
proof (cases e)
  case (FetchClicked env)
  then show "panel_ok p \<Longrightarrow> ?thesis"
    by (auto simp: fetchLrclib_def Let_def panel_ok_address split: option.split)
next
  case (CueChosen env i)
  then show "panel_ok p \<Longrightarrow> ?thesis"
    using panel_ok_address(1) [of "p\<lparr>sd_activeId := Some i\<rparr>" env]
    by (auto simp: onSelectCue_def Let_def split: option.split)
next
  case (Mounted env)
  then show "panel_ok p \<Longrightarrow> ?thesis"
    by (auto simp: panel_mount_def Let_def split: prod.split option.split)
next
  case (ProfileChosen d)
  then show "panel_ok p \<Longrightarrow> ?thesis"
    by (auto simp: chooseProfile_def panel_ok_def session_cards_def split: prod.split)
qed (auto simp: onStorage_def retryPing_def refreshCompanion_def transcribeActiveTab_def copyCsv_def lookUp_def allowLyrics_def
    importLyrics_def chooseRetention_def clearPageCache_def clearLyrics_def clearCache_def Let_def
    panel_ok_rate panel_ok_import panel_ok_wipe panel_ok_address
    split: prod.split option.split)

lemma panel_ok_start: "lexicon_ok (ls_lexicon store) \<Longrightarrow> panel_ok (panel_start stored store)"
  by (simp add: panel_start_def panel_ok_def session_cards_def)

lemma side_run_ok: "panel_ok p \<Longrightarrow> panel_ok (side_run es p) \<and> tab_ok (side_run es p)"
proof (induction es rule: rev_induct)
  case Nil
  then show ?case by (simp add: side_run_def settle_tab_ok)
next
  case (snoc e es)
  then show ?case by (simp add: side_run_def side_step_def settle_tab_ok panel_ok_event)
qed

text \<open>C15:
  The side panel stays well-formed. From any stored state whose dictionary sample is within its
  limit, and whatever is clicked, typed, answered or changed by other pages, the open tab is one
  the density profile offers and is the one a reload opens, the cards offered for review are cards
  of the session, the cached sample has at most 500 entries and no message or script goes to a
  tab without an identifier.\<close>

theorem side_panel_well_formed:
  assumes "lexicon_ok (ls_lexicon store)"
  shows "let p = side_run es (panel_start stored store)
    in sd_tab p \<in> set (visibleTabs p) \<and> readTab (storedTab p) = sd_tab p
      \<and> set (sd_due p) \<subseteq> set (session_cards p) \<and> lexicon_ok (ls_lexicon (sd_local p))
      \<and> 0 \<notin> fst ` set (tab_messages p) \<and> 0 \<notin> set (tab_scripts p)"
  using side_run_ok [OF panel_ok_start [OF assms, of stored], of es]
  by (simp add: panel_ok_def tab_ok_def Let_def)

theorem side_panel_well_formed_witness:
  "let p = side_run [TabChosen TabPrivacy, ProfileChosen DFocus]
       (panel_start None \<lparr>ls_lexicon = None, ls_study = (\<lambda>_. None), ls_transcript = None,
          ls_lyricsAllowed = False, ls_density = (\<lambda>_. None)\<rparr>)
   in sd_tab p \<in> set (visibleTabs p) \<and> readTab (storedTab p) = sd_tab p
      \<and> set (sd_due p) \<subseteq> set (session_cards p) \<and> lexicon_ok (ls_lexicon (sd_local p))
      \<and> 0 \<notin> fst ` set (tab_messages p) \<and> 0 \<notin> set (tab_scripts p)"
  by (rule side_panel_well_formed) (simp add: lexicon_ok_def)

section \<open>Imported words are found\<close>

definition u8_file :: "string \<Rightarrow> bool" where
  "u8_file filename \<longleftrightarrow> endsWith (toLowerCase filename) ''.u8'' \<and> \<not> str_includes (toLowerCase filename) ''kaikki''"

lemma detect_u8: "u8_file filename \<Longrightarrow> detectDictionaryFormat s (Some filename) = CcCedict"
proof -
  assume u: "u8_file filename"
  have last: "last t = last e" if "endsWith t e" "e \<noteq> []" for t e
  proof -
    from that have d: "drop (length t - length e) t = e" "length e \<le> length t" by (simp_all add: endsWith_def)
    with that(2) have "length t - length e < length t" by (intro diff_less) auto
    with d last_drop show ?thesis by metis
  qed
  have "CHR ''8'' \<noteq> CHR ''l''" by simp
  then have "\<not> endsWith (toLowerCase filename) ''.jsonl''"
    using u last [of "toLowerCase filename" "''.u8''"] last [of "toLowerCase filename" "''.jsonl''"]
    by (auto simp: u8_file_def)
  with u show ?thesis by (simp add: detectDictionaryFormat_def u8_file_def Let_def)
qed

lemma find_distinct_key:
  "distinct (map f xs) \<Longrightarrow> x \<in> set xs \<Longrightarrow> find (\<lambda>y. f y = f x) xs = Some x"
  by (induction xs) (auto simp: rev_image_eqI)

lemma import_stores:
  assumes "list_all printable_word ws" "ws \<noteq> []" "u8_file filename"
  shows "\<exists>stored. ls_lexicon (sd_local (importFile env filename
      (join [char_of (10::nat)] (map cedict_line ws)) p)) = Some stored
    \<and> lx_sample stored = Some (take 500 (map entry_of ws))"
proof -
  have "importDictionaryText (sd_parse env) (join [char_of (10::nat)] (map cedict_line ws)) (Some filename) None
      = Inr \<lparr>ir_format = CcCedict, ir_entries = map entry_of ws, skippedLines = 0\<rparr>"
    using cedict_text_parsed [OF assms(1,2)] detect_u8 [OF assms(3)] by (simp add: importDictionaryText_def)
  with assms(2) show ?thesis
    by (simp add: importFile_def onImported_def set_status_def Let_def split: prod.split)
qed

lemma entry_lemma [simp]: "le_lemma (entry_of w) = cw_simp w"
  "local_text (entry_of w) = cw_simp w @ '': '' @ join ''; '' (cw_glosses w) @ '' (local cache)''"
  by (simp_all add: entry_of_def cedict_entry_def local_text_def mk_sense_def)


definition offline_env :: SdEnv where
  "offline_env = \<lparr>sd_now = 0, sd_send = (\<lambda>_. None), sd_sync = None, sd_parse = (\<lambda>_. None),
     sd_stringify = (\<lambda>_. []), sd_num = (\<lambda>_. []), cast_snapshot = (\<lambda>_. \<lparr>snap_cards = [], knownWords = []\<rparr>),
     cast_entry = (\<lambda>_. \<lparr>die_id = [], die_surface = [], die_reading = None, glossaryJson = None\<rparr>),
     activeTab = None\<rparr>"

definition empty_store :: LocalStore where
  "empty_store = \<lparr>ls_lexicon = None, ls_study = (\<lambda>_. None), ls_transcript = None,
     ls_lyricsAllowed = False, ls_density = (\<lambda>_. None)\<rparr>"


section \<open>Wiping\<close>

text \<open>The companion has no snapshot of the session left to give.\<close>

definition nothing_synced :: "SdEnv \<Rightarrow> bool" where
  "nothing_synced env =
     (case sd_sync env of
        None \<Rightarrow> True
      | Some r \<Rightarrow> \<not> rep_ok r \<or> \<not> truthy (rep_result r)
          \<or> extractStudyPayload (sd_parse env) (opt_or (rep_result r) JNull) = None)"

lemma load_nothing:
  "nothing_synced env \<Longrightarrow> hydrated_session env p = (hydrate (chrome_load (ls_study (sd_local p))) new_session, ls_study (sd_local p))"
  by (auto simp: nothing_synced_def hydrated_session_def companion_load_def split: option.splits)



text \<open>
  Each page that keeps a session writes all of it: a rating given in the panel stores the cards
  the panel read when it opened, so a card mined on a page since then is lost from the store.
\<close>

lemma rating_drops_cards_mined_elsewhere:
  assumes "studyRef p = Some s" "reviewCard p = Some c" "c \<in> set (cards s)"
    and "ident \<notin> card_id ` set (cards s)"
  shows "\<exists>snap. ls_study (sd_local (onRate env r p)) STORAGE_KEY = Some snap
    \<and> ident \<notin> card_id ` set (snap_cards snap)"
proof -
  obtain i where i: "find_index (\<lambda>x. card_id x = card_id c) (cards s) = Some i"
    using assms(3) find_index_None [of "\<lambda>x. card_id x = card_id c" "cards s"] by blast
  define nxt where "nxt = (cards s ! i)\<lparr>fsrs := reviewFsrs (fsrs (cards s ! i)) r (sd_now env) FSRS_DEFAULT_WEIGHTS 0.9,
    updatedAtMs := sd_now env\<rparr>"
  have "card_id ` set ((cards s)[i := nxt]) \<subseteq> card_id ` set (cards s)"
  proof -
    have "map card_id ((cards s)[i := nxt]) = (map card_id (cards s))[i := card_id (cards s ! i)]"
      by (simp add: map_update nxt_def)
    also have "\<dots> = map card_id (cards s)"
      using find_index_Some [OF i] by (simp add: list_update_same_conv)
    finally show ?thesis by (metis list.set_map order_refl)
  qed
  moreover have "ls_study (sd_local (onRate env r p)) STORAGE_KEY
      = Some (snapshot (s\<lparr>cards := (cards s)[i := nxt]\<rparr>))"
    using assms(1,2) i
    by (simp add: onRate_def review_def refreshStudy_def set_status_def study_put_def companion_save_def
        chrome_save_def nxt_def Let_def)
  ultimately show ?thesis using assms(4) by (auto simp: snapshot_def)
qed

end
