(* ===== verification/Popup.thy ===== *)
theory Popup
  imports Side_Panel
begin

text \<open>
  The popup, \<open>apps/extension/entrypoints/popup/App.tsx\<close>: its state and one function per handler.
  The answers of the browser to permission requests, its active tab and window, and the answers of
  the background script are arguments. The ellipsis and the arrow are in ASCII.
\<close>

record Popup =
  pp_density :: Density
  pp_companion :: CompanionUi
  pagePerm :: bool
  pp_status :: string
  tabTitle :: string
  pp_retention :: RetentionPreset
  pp_store :: LocalStore
  pp_messages :: "(int \<times> json) list"
  pp_scripts :: "int list"
  pp_panels :: "int list"

definition popup_start :: "LocalStore \<Rightarrow> Popup" where
  "popup_start store =
     \<lparr>pp_density = dn_start None None, pp_companion = UiUnknown, pagePerm = False, pp_status = [], tabTitle = [],
      pp_retention = RetDays7, pp_store = store, pp_messages = [], pp_scripts = [], pp_panels = []\<rparr>"

definition popup_chip :: "CompanionUi \<Rightarrow> string \<times> string" where
  "popup_chip state =
     (case state of
        UiReady \<Rightarrow> (''llm-chip llm-chip--ok'', ''Companion ready'')
      | UiDegraded \<Rightarrow> (''llm-chip llm-chip--warn'', ''Companion degraded'')
      | UiDown \<Rightarrow> (''llm-chip llm-chip--err'', ''Companion offline'')
      | UiUnknown \<Rightarrow> (''llm-chip'', ''Checking...''))"

definition pp_refresh :: "RuntimeSend \<Rightarrow> Popup \<Rightarrow> Popup" where
  "pp_refresh send p = p\<lparr>pp_companion := ui_of_ping (pingCompanion send)\<rparr>"

definition pp_mount :: "RuntimeSend \<Rightarrow> bool \<Rightarrow> BrowserTab option \<Rightarrow> Popup \<Rightarrow> Popup" where
  "pp_mount send granted atab p =
     (pp_refresh send p)\<lparr>pagePerm := granted, tabTitle := opt_or (Option.bind atab bt_title) []\<rparr>"

text \<open>The window of the active tab, if it is there and not zero; whether the browser has side panels.\<close>

definition openSidePanel :: "int option \<Rightarrow> bool \<Rightarrow> Popup \<Rightarrow> Popup" where
  "openSidePanel win has_panel p =
     (case win of
        None \<Rightarrow> p
      | Some w \<Rightarrow>
          if w = 0 then p
          else if has_panel then p\<lparr>pp_panels := pp_panels p @ [w], pp_status := ''Side panel opened''\<rparr>
          else p\<lparr>pp_status := ''Side panel API unavailable in this browser''\<rparr>)"

definition nonzero_id :: "BrowserTab option \<Rightarrow> int option" where
  "nonzero_id atab = (case Option.bind atab bt_id of None \<Rightarrow> None | Some i \<Rightarrow> if i = 0 then None else Some i)"

definition start_message :: json where
  "start_message = js_obj [(''type'', Some (JStr ''page-translate.start'')), (''targetLang'', Some (JStr ''en''))]"

definition translatePage :: "bool \<Rightarrow> BrowserTab option \<Rightarrow> Popup \<Rightarrow> Popup" where
  "translatePage granted atab p =
     (let p = p\<lparr>pagePerm := granted\<rparr>
      in if \<not> granted then p\<lparr>pp_status := ''Host permission denied''\<rparr>
         else
           let p = (case nonzero_id atab of
                 None \<Rightarrow> p
               | Some i \<Rightarrow> p\<lparr>pp_messages := pp_messages p @ [(i, start_message)]\<rparr>)
           in p\<lparr>pp_status := ''Page translate started''\<rparr>)"

definition transcribeTab :: "BrowserTab option \<Rightarrow> Popup \<Rightarrow> Popup" where
  "transcribeTab atab p =
     (case nonzero_id atab of
        None \<Rightarrow> p
      | Some i \<Rightarrow> p\<lparr>pp_scripts := pp_scripts p @ [i], pp_status := ''Tab transcription requested''\<rparr>)"

text \<open>One button revokes or grants; the argument is what the browser answers to the one asked.\<close>

definition togglePermission :: "bool \<Rightarrow> Popup \<Rightarrow> Popup" where
  "togglePermission answer p =
     (if pagePerm p
      then p\<lparr>pagePerm := \<not> answer, pp_status := (if answer then ''Permission revoked'' else ''Still granted'')\<rparr>
      else p\<lparr>pagePerm := answer,
             pp_status := (if answer then ''Host permission granted'' else ''Permission denied'')\<rparr>)"

definition permission_button :: "Popup \<Rightarrow> string \<times> string" where
  "permission_button p =
     (if pagePerm p then (''Granted'', ''Revoke permission'') else (''Not granted'', ''Grant permission''))"

definition pp_choose_retention :: "RuntimeSend \<Rightarrow> RetentionPreset \<Rightarrow> Popup \<Rightarrow> Popup" where
  "pp_choose_retention send preset p =
     (let res = setRetention preset send
      in p\<lparr>pp_retention := preset,
           pp_status := (if rr_ok res then ''Retention -> '' @ preset_str preset
                         else opt_or (rr_error res) ''Retention failed'')\<rparr>)"

definition pp_wipe :: "RuntimeSend \<Rightarrow> bool \<Rightarrow> Popup \<Rightarrow> Popup" where
  "pp_wipe send confirmed p =
     (if \<not> confirmed then p
      else
        let res = wipePrivacy ScAll send
        in p\<lparr>pp_status := (if rr_ok res then ''Privacy wipe completed'' else opt_or (rr_error res) ''Wipe failed'')\<rparr>)"

text \<open>The privacy shortcuts are hidden in the focus profile.\<close>

definition shortcuts_shown :: "Popup \<Rightarrow> bool" where
  "shortcuts_shown p \<longleftrightarrow> dn_profile (pp_density p) \<noteq> DFocus"

definition pp_choose_profile :: "DensityProfile \<Rightarrow> Popup \<Rightarrow> Popup" where
  "pp_choose_profile d p =
     (let (dn, st) = setProfile True d (pp_density p, ls_density (pp_store p))
      in p\<lparr>pp_density := dn, pp_store := (pp_store p)\<lparr>ls_density := st\<rparr>\<rparr>)"

section \<open>Lemmas\<close>

text \<open>No page is asked to translate itself unless the browser just granted the permission.\<close>

lemma translate_needs_permission:
  "pp_messages (translatePage granted atab p) =
     pp_messages p @ (case nonzero_id atab of Some i \<Rightarrow> if granted then [(i, start_message)] else [] | None \<Rightarrow> [])"
  "pagePerm (translatePage granted atab p) = granted"
  by (simp_all add: translatePage_def Let_def split: option.split)

text \<open>
  The popup's wipe leaves the local copies of dictionary, transcript and session in place, so a
  panel that opens afterwards shows the old transcript and, without the companion's answer, has
  the old cards.
\<close>

lemma popup_wipe_keeps_store: "pp_store (pp_wipe send confirmed p) = pp_store p"
  by (simp add: pp_wipe_def Let_def)

lemma old_cards_after_popup_wipe:
  assumes "ls_study (pp_store p) STORAGE_KEY = Some snap" "sd_sync env = None"
    and "q = refreshStudy env (panel_start stored (pp_store (pp_wipe send True p)))"
  shows "session_cards q = snap_cards snap"
  using assms
  by (simp add: popup_wipe_keeps_store refreshStudy_def hydrated_session_def companion_load_def panel_start_def
      chrome_load_def hydrate_def session_cards_def)

text \<open>A profile chosen in the popup is the one the side panel shows.\<close>

lemma popup_profile_reaches_panel:
  "dn_profile (dn_read (ls_density (pp_store (pp_choose_profile d p))) b) = d"
  using profile_shared(2) [of d "pp_density p" "ls_density (pp_store p)"]
  by (auto simp: pp_choose_profile_def setProfile_def)

end
