(* ===== verification/Offscreen.thy ===== *)
theory Offscreen
  imports Companion
begin

unbundle bit_operations_syntax

text \<open>
  The offscreen document, \<open>apps/extension/entrypoints/offscreen/offscreen.ts\<close>: the audio graph of a
  capture, its start in two steps around the waiting for a stream, and the chunks of 16-bit samples
  it sends. The answers of the browser are arguments. Samples are real numbers; a sample of a
  \<open>Float32Array\<close> times 32767 is exact in double precision, so nothing is rounded before the
  fraction is cut off.
\<close>

section \<open>Samples\<close>

definition js_trunc :: "real \<Rightarrow> int" where
  "js_trunc x = (if x < 0 then \<lceil>x\<rceil> else \<lfloor>x\<rfloor>)"

definition clamp1 :: "real \<Rightarrow> real" where
  "clamp1 x = max (-1) (min 1 x)"

definition sample16 :: "real \<Rightarrow> 16 word" where
  "sample16 x = word_of_int (js_trunc (clamp1 x * 32767))"

text \<open>\<open>setInt16\<close> with the low byte first.\<close>

definition le_bytes :: "16 word \<Rightarrow> 8 word list" where
  "le_bytes w = [ucast w, ucast (drop_bit 8 w)]"

definition floatTo16Le :: "real list \<Rightarrow> 8 word list" where
  "floatTo16Le xs = concat (map (\<lambda>x. le_bytes (sample16 x)) xs)"

definition bytesToBase64 :: "8 word list \<Rightarrow> string" where
  "bytesToBase64 bytes = btoa bytes"

text \<open>What a reader of 16-bit little-endian samples makes of bytes.\<close>

fun decode_pcm :: "8 word list \<Rightarrow> int list" where
  "decode_pcm (lo # hi # bs) = sint (ucast lo OR push_bit 8 (ucast hi) :: 16 word) # decode_pcm bs"
| "decode_pcm _ = []"

section \<open>The capture\<close>

record CaptureMessage =
  cm_jobId :: "string option"
  cm_tabId :: "int option"

text \<open>An audio graph that is connected; whether its context runs.\<close>

record Graph =
  gr_id :: nat
  gr_running :: bool

record Chunk =
  ck_jobId :: "string option"
  ck_seq :: nat
  ck_pcm :: string

text \<open>The current graph, all connected graphs, and the starts that wait for their stream.\<close>

record Offscreen =
  jobId :: "string option"
  os_seq :: nat
  current :: "nat option"
  graphs :: "Graph list"
  next_id :: nat
  waiting :: nat
  indicator :: "string option"
  chunks :: "Chunk list"

definition offscreen_start :: "string option \<Rightarrow> Offscreen" where
  "offscreen_start ind = \<lparr>jobId = None, os_seq = 0, current = None, graphs = [], next_id = 0, waiting = 0,
     indicator = ind, chunks = []\<rparr>"

definition show_indicator :: "string \<Rightarrow> Offscreen \<Rightarrow> Offscreen" where
  "show_indicator m s = s\<lparr>indicator := map_option (\<lambda>_. m) (indicator s)\<rparr>"

definition stopCapture :: "Offscreen \<Rightarrow> Offscreen" where
  "stopCapture s = show_indicator ''Capture idle''
     (s\<lparr>graphs := (case current s of None \<Rightarrow> graphs s | Some i \<Rightarrow> filter (\<lambda>g. gr_id g \<noteq> i) (graphs s)),
        current := None, jobId := None, os_seq := 0\<rparr>)"

text \<open>The start up to its first wait; without the capture interface or a tab it ends at once.\<close>

definition begin_capture :: "bool \<Rightarrow> string \<Rightarrow> CaptureMessage \<Rightarrow> Offscreen \<Rightarrow> Offscreen" where
  "begin_capture has_api uuid m s =
     (let s = (stopCapture s)\<lparr>jobId := Some (opt_or (cm_jobId m) uuid), os_seq := 0\<rparr>;
          s = show_indicator ''Capture active (local ring buffer)'' s
      in if has_api \<and> cm_tabId m \<noteq> None then s\<lparr>waiting := waiting s + 1\<rparr>
         else show_indicator ''Capture ready (awaiting MediaStream -- gesture path wired)'' s)"

text \<open>The end of a start: the stream is there, or the message of the error.\<close>

definition end_capture :: "string option \<Rightarrow> Offscreen \<Rightarrow> Offscreen" where
  "end_capture failed s =
     (if waiting s = 0 then s
      else
        let s = s\<lparr>waiting := waiting s - 1\<rparr>
        in case failed of
             Some e \<Rightarrow> show_indicator (''Capture error: '' @ e) s
           | None \<Rightarrow> s\<lparr>current := Some (next_id s), next_id := next_id s + 1,
                       graphs := graphs s @ [\<lparr>gr_id = next_id s, gr_running = True\<rparr>]\<rparr>)"

definition set_running :: "bool \<Rightarrow> Offscreen \<Rightarrow> Offscreen" where
  "set_running b s =
     s\<lparr>graphs := map (\<lambda>g. if current s = Some (gr_id g) then g\<lparr>gr_running := b\<rparr> else g) (graphs s)\<rparr>"

text \<open>One buffer of samples from a connected graph whose context runs.\<close>

definition onaudioprocess :: "nat \<Rightarrow> real list \<Rightarrow> Offscreen \<Rightarrow> Offscreen" where
  "onaudioprocess i input s =
     (if list_ex (\<lambda>g. gr_id g = i \<and> gr_running g) (graphs s)
      then s\<lparr>chunks := chunks s @ [\<lparr>ck_jobId = jobId s, ck_seq = os_seq s,
               ck_pcm = bytesToBase64 (floatTo16Le input)\<rparr>],
             os_seq := os_seq s + 1\<rparr>
      else s)"

datatype OffscreenEvent =
    OsCapture bool string CaptureMessage
  | OsStream "string option"
  | OsStop
  | OsPause
  | OsResume
  | OsAudio nat "real list"

fun os_event :: "OffscreenEvent \<Rightarrow> Offscreen \<Rightarrow> Offscreen" where
  "os_event (OsCapture has_api uuid m) s = begin_capture has_api uuid m s"
| "os_event (OsStream failed) s = end_capture failed s"
| "os_event OsStop s = stopCapture s"
| "os_event OsPause s = set_running False s"
| "os_event OsResume s = set_running True s"
| "os_event (OsAudio i input) s = onaudioprocess i input s"

definition os_run :: "OffscreenEvent list \<Rightarrow> Offscreen \<Rightarrow> Offscreen" where
  "os_run es s = fold os_event es s"

lemma os_run_simps [simp]: "os_run [] s = s" "os_run (e # es) s = os_run es (os_event e s)"
  by (simp_all add: os_run_def)

section \<open>Samples survive\<close>

lemma js_trunc_near: "\<bar>of_int (js_trunc x) - x\<bar> < 1"
  by (cases "x < 0") (simp_all add: js_trunc_def abs_less_iff, linarith+)

lemma js_trunc_bound: "\<bar>x\<bar> \<le> of_int b \<Longrightarrow> \<bar>js_trunc x\<bar> \<le> b"
  by (cases "x < 0") (simp_all add: js_trunc_def abs_le_iff ceiling_le_iff le_floor_iff, linarith+)

lemma clamp1_bound: "\<bar>clamp1 x * 32767\<bar> \<le> of_int 32767"
  by (auto simp: clamp1_def abs_le_iff)

lemma sint_sample: "sint (sample16 x) = js_trunc (clamp1 x * 32767)"
proof -
  have "\<bar>js_trunc (clamp1 x * 32767)\<bar> \<le> 32767" by (rule js_trunc_bound [OF clamp1_bound])
  then have "signed_take_bit 15 (js_trunc (clamp1 x * 32767)) = js_trunc (clamp1 x * 32767)"
    by (intro signed_take_bit_int_eq_self) auto
  then show ?thesis by (simp add: sample16_def sint_sbintrunc')
qed

lemma le_bytes_join: "(ucast (ucast w :: 8 word) OR push_bit 8 (ucast (ucast (drop_bit 8 w) :: 8 word)) :: 16 word) = w"
  by (rule bit_word_eqI) (auto simp: bit_simps)

lemma decode_samples: "decode_pcm (floatTo16Le xs) = map (\<lambda>x. js_trunc (clamp1 x * 32767)) xs"
  by (induction xs) (simp_all add: floatTo16Le_def le_bytes_def le_bytes_join sint_sample)

text \<open>The bytes of a chunk carry the samples: read back as 16-bit numbers there is one for every
  sample, never beyond 32767 on either side, and divided by 32767 it is the clipped sample up to
  one step.\<close>

theorem pcm_samples_decode:
  "decode_pcm (floatTo16Le xs) = map (\<lambda>x. js_trunc (clamp1 x * 32767)) xs
   \<and> length (floatTo16Le xs) = 2 * length xs
   \<and> list_all (\<lambda>v. \<bar>v\<bar> \<le> 32767) (decode_pcm (floatTo16Le xs))
   \<and> list_all (\<lambda>(x, v). \<bar>of_int v / 32767 - clamp1 x\<bar> < 1 / 32767) (zip xs (decode_pcm (floatTo16Le xs)))"
proof -
  have step: "\<bar>a / 32767 - c\<bar> < 1 / 32767" if "\<bar>a - c * 32767\<bar> < 1" for a c :: real
    using that by (simp add: abs_less_iff field_simps)
  have "\<bar>of_int (js_trunc (clamp1 x * 32767)) / 32767 - clamp1 x\<bar> < 1 / 32767" for x
    by (rule step [OF js_trunc_near])
  then have "list_all (\<lambda>(x, v). \<bar>of_int v / 32767 - clamp1 x\<bar> < 1 / 32767) (zip xs (decode_pcm (floatTo16Le xs)))"
    unfolding decode_samples by (induction xs) simp_all
  moreover have "list_all (\<lambda>v. \<bar>v\<bar> \<le> 32767) (decode_pcm (floatTo16Le xs))"
    unfolding decode_samples using js_trunc_bound [OF clamp1_bound] by (simp add: list_all_iff)
  moreover have "length (floatTo16Le xs) = 2 * length xs"
    by (induction xs) (simp_all add: floatTo16Le_def le_bytes_def)
  ultimately show ?thesis by (simp only: decode_samples simp_thms)
qed

section \<open>One capture at a time\<close>

definition is_capture :: "OffscreenEvent \<Rightarrow> bool" where
  "is_capture e = (case e of OsCapture has_api uuid m \<Rightarrow> True | _ \<Rightarrow> False)"

definition is_stop :: "OffscreenEvent \<Rightarrow> bool" where
  "is_stop e = (case e of OsStop \<Rightarrow> True | _ \<Rightarrow> False)"

text \<open>Runs in which no capture is started or stopped while a start waits for its stream.\<close>

fun orderly :: "OffscreenEvent list \<Rightarrow> Offscreen \<Rightarrow> bool" where
  "orderly [] s = True"
| "orderly (e # es) s = ((is_capture e \<or> is_stop e \<longrightarrow> waiting s = 0) \<and> orderly es (os_event e s))"

text \<open>Then the only connected graph is the current one, and none is while a start waits.\<close>

definition single :: "Offscreen \<Rightarrow> bool" where
  "single s \<longleftrightarrow> map gr_id (graphs s) = (case current s of None \<Rightarrow> [] | Some i \<Rightarrow> [i])
     \<and> (waiting s = 0 \<or> waiting s = 1 \<and> current s = None)"

lemma indicator_fields [simp]:
  "graphs (show_indicator m s) = graphs s" "current (show_indicator m s) = current s"
  "waiting (show_indicator m s) = waiting s" "chunks (show_indicator m s) = chunks s"
  "jobId (show_indicator m s) = jobId s" "os_seq (show_indicator m s) = os_seq s"
  by (simp_all add: show_indicator_def)

lemma stop_single:
  "single s \<Longrightarrow> graphs (stopCapture s) = [] \<and> current (stopCapture s) = None"
  by (auto simp: single_def stopCapture_def filter_empty_conv split: option.splits)

lemma stop_fields [simp]:
  "chunks (stopCapture s) = chunks s" "waiting (stopCapture s) = waiting s" "current (stopCapture s) = None"
  by (simp_all add: stopCapture_def)

lemma gr_ids_running: "map gr_id (graphs (set_running b s)) = map gr_id (graphs s)"
  by (auto simp: set_running_def)

lemma single_event:
  assumes "single s" "is_capture e \<or> is_stop e \<Longrightarrow> waiting s = 0"
  shows "single (os_event e s)"
proof (cases e)
  case (OsCapture has_api uuid m)
  then show ?thesis
    using assms stop_single [OF assms(1)] by (simp add: begin_capture_def is_capture_def single_def Let_def)
next
  case OsStop
  then show ?thesis using assms stop_single [OF assms(1)] by (simp add: single_def is_stop_def)
next
  case (OsStream failed)
  then show ?thesis using assms(1)
    by (auto simp: end_capture_def single_def Let_def split: option.splits)
next
  case OsPause
  then show ?thesis using assms(1) gr_ids_running [of False s] by (simp add: single_def set_running_def)
next
  case OsResume
  then show ?thesis using assms(1) gr_ids_running [of True s] by (simp add: single_def set_running_def)
qed (use assms(1) in \<open>simp_all add: single_def onaudioprocess_def\<close>)

lemma single_run: "single s \<Longrightarrow> orderly es s \<Longrightarrow> single (os_run es s)"
  by (induction es arbitrary: s) (auto intro: single_event)

text \<open>Without a graph and without a start in progress nothing is sent until the next start.\<close>

definition silent :: "Offscreen \<Rightarrow> bool" where
  "silent s \<longleftrightarrow> graphs s = [] \<and> waiting s = 0"

lemma silent_run: "silent s \<Longrightarrow> list_all (\<lambda>e. \<not> is_capture e) es \<Longrightarrow> silent (os_run es s) \<and> chunks (os_run es s) = chunks s"
proof (induction es arbitrary: s)
  case (Cons e es)
  have "silent (os_event e s) \<and> chunks (os_event e s) = chunks s"
    using Cons.prems
    by (cases e) (auto simp: silent_def is_capture_def end_capture_def set_running_def onaudioprocess_def
        stopCapture_def split: option.split)
  with Cons show ?case by auto
qed simp

text \<open>Within a capture the chunks carry its job and are numbered in order.\<close>

definition numbered_for :: "string option \<Rightarrow> Chunk list \<Rightarrow> bool" where
  "numbered_for job cs \<longleftrightarrow> map ck_seq cs = [0 ..< length cs] \<and> list_all (\<lambda>c. ck_jobId c = job) cs"

definition recording :: "string option \<Rightarrow> Chunk list \<Rightarrow> Offscreen \<Rightarrow> bool" where
  "recording job old s \<longleftrightarrow>
     (\<exists>new. chunks s = old @ new \<and> numbered_for job new \<and> os_seq s = length new \<and> jobId s = job)"

lemma recording_begin:
  "recording (Some (opt_or (cm_jobId m) uuid)) (chunks s) (begin_capture has_api uuid m s)"
  by (simp add: recording_def begin_capture_def numbered_for_def Let_def)

lemma recording_event:
  assumes "recording job old s" "\<not> is_capture e" "\<not> is_stop e"
  shows "recording job old (os_event e s)"
proof (cases e)
  case (OsAudio i input)
  obtain new where new: "chunks s = old @ new" "numbered_for job new" "os_seq s = length new" "jobId s = job"
    using assms(1) by (auto simp: recording_def)
  show ?thesis
  proof (cases "list_ex (\<lambda>g. gr_id g = i \<and> gr_running g) (graphs s)")
    case True
    let ?c = "\<lparr>ck_jobId = job, ck_seq = length new, ck_pcm = bytesToBase64 (floatTo16Le input)\<rparr>"
    have "numbered_for job (new @ [?c])" using new(2) by (simp add: numbered_for_def)
    with True new OsAudio show ?thesis by (auto simp: recording_def onaudioprocess_def)
  next
    case False
    with assms(1) OsAudio show ?thesis by (simp add: onaudioprocess_def)
  qed
qed (use assms in \<open>auto simp: recording_def is_capture_def is_stop_def end_capture_def set_running_def Let_def
      split: option.split\<close>)

lemma recording_run:
  "recording job old s \<Longrightarrow> list_all (\<lambda>e. \<not> is_capture e \<and> \<not> is_stop e) es \<Longrightarrow> recording job old (os_run es s)"
  by (induction es arbitrary: s) (simp_all add: recording_event)



text \<open>
  A stop that comes while the start waits for its stream does not end the capture: when the stream
  arrives the graph is connected, and chunks without a job are sent. Of two starts that wait at the
  same time the graph of the first is never disconnected.
\<close>

lemma stop_during_start_is_lost:
  assumes "cm_tabId m \<noteq> None"
  shows "chunks (os_run [OsCapture True uuid m, OsStop, OsStream None, OsAudio 0 xs] (offscreen_start ind))
    = [\<lparr>ck_jobId = None, ck_seq = 0, ck_pcm = bytesToBase64 (floatTo16Le xs)\<rparr>]"
  using assms
  by (simp add: begin_capture_def end_capture_def onaudioprocess_def stopCapture_def show_indicator_def
      offscreen_start_def Let_def)

lemma overlapping_starts_leak:
  assumes "cm_tabId m \<noteq> None" "cm_tabId m' \<noteq> None"
  shows "length (chunks (os_run [OsCapture True u m, OsCapture True u' m', OsStream None, OsStream None, OsStop,
      OsAudio 0 xs] (offscreen_start ind))) = 1"
  using assms
  by (simp add: begin_capture_def end_capture_def onaudioprocess_def stopCapture_def show_indicator_def
      offscreen_start_def Let_def)

end
