(* ===== verification/Webvtt.thy ===== *)
theory Webvtt
  imports Captions Js_Numbers
begin

text \<open>
  The WebVTT reader of \<open>apps/extension/features/captions/parser.ts\<close>. A cue whose times are no
  finite numbers has no place in the model's cues, so the reader answers with \<open>None\<close> there; every
  other branch of the code is a branch of the model.
\<close>

section \<open>Reading\<close>

definition parseVttTimestamp :: "string \<Rightarrow> int option" where
  "parseVttTimestamp ts =
     (let parts = split_on (CHR '':'') (trim ts);
          part = (\<lambda>i. js_number (parts ! i));
          time = (\<lambda>h m s. map_option (\<lambda>s. js_round ((h * 3600 + m * 60 + s) * 1000)) s)
      in if length parts = 3
         then Option.bind (part 0) (\<lambda>h. Option.bind (part 1) (\<lambda>m. time h m (part 2)))
         else if length parts = 2 then Option.bind (part 0) (\<lambda>m. time 0 m (part 1))
         else time 0 0 (part 0))"

text \<open>\<open>\d{2}:\d{2}\.\d{3}\<close> at the start of a text, and the text after it.\<close>

definition clock_at :: "string \<Rightarrow> string option" where
  "clock_at s =
     (if 9 \<le> length s \<and> list_all is_digit (take 2 s) \<and> s ! 2 = CHR '':'' \<and> list_all is_digit (take 2 (drop 3 s))
         \<and> s ! 5 = CHR ''.'' \<and> list_all is_digit (take 3 (drop 6 s))
      then Some (drop 9 s) else None)"

text \<open>The same after one or two digits and a colon.\<close>

definition hours_at :: "nat \<Rightarrow> string \<Rightarrow> bool" where
  "hours_at n s \<longleftrightarrow> list_all is_digit (take n s) \<and> length (take n s) = n \<and> take 1 (drop n s) = '':''
     \<and> clock_at (drop (n + 1) s) \<noteq> None"

definition arrow :: string where
  "arrow = ''-->''"

text \<open>
  The pattern of a timing line at the start of a text. The hours before the first clock are
  optional and the pattern is searched for anywhere, so they need not be read.
\<close>

definition timing_at :: "string \<Rightarrow> bool" where
  "timing_at s =
     (case clock_at s of
        None \<Rightarrow> False
      | Some r \<Rightarrow>
          let r = dropWhile is_ws r; e = dropWhile is_ws (drop 3 r)
          in startsWith r arrow \<and> (clock_at e \<noteq> None \<or> hours_at 1 e \<or> hours_at 2 e))"

text \<open>\<open>s.split("-->")\<close>.\<close>

fun split_arrow :: "nat \<Rightarrow> string \<Rightarrow> string list" where
  "split_arrow _ [] = [[]]"
| "split_arrow 0 (c # s) = [c # s]"
| "split_arrow (Suc n) (c # s) =
     (if startsWith (c # s) arrow then [] # split_arrow n (drop 3 (c # s))
      else (c # hd (split_arrow n s)) # tl (split_arrow n s))"

definition first_word :: "string \<Rightarrow> string" where
  "first_word s = takeWhile (\<lambda>c. \<not> is_ws c) s"

definition timing_of :: "string \<Rightarrow> int option \<times> int option" where
  "timing_of timing =
     (let parts = map trim (split_arrow (length timing) timing)
      in (parseVttTimestamp (first_word (parts ! 0)), parseVttTimestamp (first_word (parts ! 1))))"

definition vtt_text :: "string list \<Rightarrow> string" where
  "vtt_text textLines = (let s = join '' '' textLines in trim (replace_match (length s) tag_end [] s))"

definition vtt_cue :: "string \<Rightarrow> Provenance \<Rightarrow> nat \<Rightarrow> int \<Rightarrow> int \<Rightarrow> string \<Rightarrow> Cue" where
  "vtt_cue v prov n a b t =
     \<lparr>cue_id = ''yt_'' @ v @ ''_vtt_'' @ nat_str n @ ''_'' @ int_str a, startMs = a, endMs = b,
      cue_text = t, speaker = None, provenance = prov\<rparr>"

definition skipped_line :: "string \<Rightarrow> bool" where
  "skipped_line line \<longleftrightarrow> line = [] \<or> startsWith line ''WEBVTT'' \<or> startsWith line ''NOTE'' \<or> startsWith line ''STYLE''"

text \<open>The timing line of a block and the lines after it: an identifier may come before it.\<close>

definition timing_line :: "string \<Rightarrow> string list \<Rightarrow> string \<times> string list" where
  "timing_line line rest =
     (case rest of
        [] \<Rightarrow> (line, rest)
      | l # ls \<Rightarrow> if \<not> str_includes line arrow \<and> str_includes l arrow then (trim l, ls) else (line, rest))"

lemma timing_line_length [termination_simp]: "timing_line line rest = (t, ls) \<Longrightarrow> length ls \<le> length rest"
  by (auto simp: timing_line_def split: list.splits if_splits)

lemma timing_line_shorter: "length (snd (timing_line line rest)) \<le> length rest"
  using timing_line_length by (metis prod.collapse)

lemma after_block_shorter: "length (drop 1 (dropWhile P xs)) \<le> length xs"
  using length_dropWhile_le [of P xs] by simp

text \<open>The loop over the lines; \<open>n\<close> is the number of cues so far.\<close>

function vtt_loop :: "string \<Rightarrow> Provenance \<Rightarrow> nat \<Rightarrow> string list \<Rightarrow> Cue list option" where
  "vtt_loop v prov n [] = Some []"
| "vtt_loop v prov n (l # ls) =
     (if skipped_line (trim l) then vtt_loop v prov n ls
      else
        let tr = timing_line (trim l) ls; timing = fst tr; rest = snd tr
        in if \<not> search timing_at timing then vtt_loop v prov n rest
           else
             let t = vtt_text (map trim (takeWhile (\<lambda>l. trim l \<noteq> []) rest));
                 after = drop 1 (dropWhile (\<lambda>l. trim l \<noteq> []) rest)
             in if t = [] then vtt_loop v prov n after
                else (case timing_of timing of
                        (Some a, Some b) \<Rightarrow> map_option ((#) (vtt_cue v prov n a b t)) (vtt_loop v prov (n + 1) after)
                      | _ \<Rightarrow> None))"
  by pat_completeness auto

termination
proof (relation "measure (\<lambda>(v, prov, n, ls). length ls)", goal_cases)
  case (3 v prov n l ls tr timing rest)
  then show ?case using timing_line_shorter [of "trim l" ls] by simp
next
  case (4 v prov n l ls tr timing rest t after)
  have "length after \<le> length rest"
    unfolding 4 by (rule after_block_shorter)
  with 4 show ?case using timing_line_shorter [of "trim l" ls] by simp
next
  case (5 v prov n l ls tr timing rest t after)
  have "length after \<le> length rest"
    unfolding 5 by (rule after_block_shorter)
  with 5 show ?case using timing_line_shorter [of "trim l" ls] by simp
qed simp_all

definition parseVttTimedtext :: "string \<Rightarrow> string \<Rightarrow> Provenance \<Rightarrow> SourceTimeline option" where
  "parseVttTimedtext videoId body prov =
     (if trim body = [] then Some (emptyTimeline videoId prov)
      else map_option (\<lambda>cs. timelineFromCues videoId cs prov) (vtt_loop videoId prov 0 (split_lines (trim body))))"


section \<open>The contract\<close>

declare vtt_loop.simps(2) [simp del]

text \<open>Cues made one after the other, numbered from \<open>n\<close>, with trimmed texts that are not blank.\<close>

fun vtt_cues :: "string \<Rightarrow> Provenance \<Rightarrow> nat \<Rightarrow> Cue list \<Rightarrow> bool" where
  "vtt_cues v p n [] = True"
| "vtt_cues v p n (c # cs) =
     ((\<exists>a b t. c = vtt_cue v p n a b t \<and> t \<noteq> [] \<and> trim t = t) \<and> vtt_cues v p (n + 1) cs)"

lemma vtt_text_trim: "trim (vtt_text ls) = vtt_text ls"
  by (simp add: vtt_text_def Let_def)

lemma vtt_cues_Cons: "vtt_cues v p (n + 1) cs \<Longrightarrow> t \<noteq> [] \<Longrightarrow> trim t = t \<Longrightarrow> vtt_cues v p n (vtt_cue v p n a b t # cs)"
  by auto

lemma vtt_loop_cues: "vtt_loop v p n ls = Some cs \<Longrightarrow> vtt_cues v p n cs"
proof (induction v p n ls arbitrary: cs rule: vtt_loop.induct)
  case (2 v p n l ls)
  let ?tr = "timing_line (trim l) ls"
  let ?t = "vtt_text (map trim (takeWhile (\<lambda>l. trim l \<noteq> []) (snd ?tr)))"
  let ?after = "drop 1 (dropWhile (\<lambda>l. trim l \<noteq> []) (snd ?tr))"
  note step = 2(5) [unfolded vtt_loop.simps(2) Let_def]
  show ?case
  proof (cases "skipped_line (trim l) \<or> \<not> search timing_at (fst ?tr)")
    case True
    with step show ?thesis using 2(1) 2(2) [OF _ refl refl refl] by (auto split: if_splits)
  next
    case False
    note go = False [unfolded de_Morgan_disj not_not]
    note IH = 2(3) [OF go [THEN conjunct1] refl refl refl _ refl refl]
      2(4) [OF go [THEN conjunct1] refl refl refl _ refl refl]
    show ?thesis
    proof (cases "?t = []")
      case True
      with step go have "vtt_loop v p n ?after = Some cs" by simp
      with True go IH(1) show ?thesis by blast
    next
      case False
      with step go obtain a b cs' where cs: "vtt_loop v p (n + 1) ?after = Some cs'"
        "cs = vtt_cue v p n a b ?t # cs'" "timing_of (fst ?tr) = (Some a, Some b)"
        by (auto simp only: if_False if_True simp_thms map_option_eq_Some split: option.splits prod.splits)
      have "vtt_cues v p (n + 1) cs'"
        by (rule IH(2) [OF _ False cs(3) [symmetric] refl refl cs(1)]) (use go in blast)
      with cs(2) False show ?thesis using vtt_cues_Cons vtt_text_trim by blast
    qed
  qed
qed simp

lemma vtt_cues_from: "vtt_cues v p n cs \<Longrightarrow> c \<in> set cs \<Longrightarrow>
    \<exists>j a b t. n \<le> j \<and> c = vtt_cue v p j a b t \<and> t \<noteq> [] \<and> trim t = t"
  by (induction v p n cs rule: vtt_cues.induct) (force dest: Suc_leD)+

lemma vtt_cues_distinct: "vtt_cues v p n cs \<Longrightarrow> distinct (map cue_id cs)"
proof (induction v p n cs rule: vtt_cues.induct)
  case (2 v p n c cs)
  have "cue_id c \<noteq> cue_id d" if d: "d \<in> set cs" for d
  proof
    obtain j a b t where "n + 1 \<le> j" "d = vtt_cue v p j a b t"
      using vtt_cues_from [of v p "n + 1" cs d] d 2(2) by auto
    moreover obtain a' b' t' where "c = vtt_cue v p n a' b' t'" using 2(2) by auto
    moreover assume "cue_id c = cue_id d"
    ultimately show False using numbered_ids [of "''yt_'' @ v @ ''_vtt_''" n _ j] by (simp add: vtt_cue_def)
  qed
  with 2 show ?case by auto
qed simp

lemma vtt_ok: "parseVttTimedtext v body p = Some tm \<Longrightarrow> timeline_ok v p tm"
proof -
  assume tm: "parseVttTimedtext v body p = Some tm"
  show ?thesis
  proof (cases "trim body = []")
    case True
    with tm show ?thesis using emptyTimeline_ok [of v p] by (simp add: parseVttTimedtext_def)
  next
    case False
    with tm obtain cs where cs: "vtt_loop v p 0 (split_lines (trim body)) = Some cs"
      "tm = timelineFromCues v cs p"
      by (auto simp: parseVttTimedtext_def)
    from vtt_loop_cues [OF cs(1)] have ok: "vtt_cues v p 0 cs" .
    have "list_all (\<lambda>c. cue_text c \<noteq> [] \<and> trim (cue_text c) = cue_text c \<and> provenance c = p) cs"
      using vtt_cues_from [OF ok] by (fastforce simp: list_all_iff vtt_cue_def)
    with vtt_cues_distinct [OF ok] cs(2) show ?thesis by (simp add: timelineFromCues_ok)
  qed
qed

section \<open>Reading back printed cues\<close>

definition vtt_stamp :: "nat \<Rightarrow> string" where
  "vtt_stamp t = two_digits (t div 3600000) @ '':'' @ two_digits (t div 60000 mod 60) @ '':''
     @ two_digits (t div 1000 mod 60) @ ''.'' @ three_digits (t mod 1000)"

record VttCue =
  vc_start :: nat
  vc_end :: nat
  vc_text :: string

definition vtt_timing :: "VttCue \<Rightarrow> string" where
  "vtt_timing c = vtt_stamp (vc_start c) @ '' --> '' @ vtt_stamp (vc_end c)"

definition vtt_block :: "VttCue \<Rightarrow> string list" where
  "vtt_block c = ['''', vtt_timing c, vc_text c]"

definition vtt_body :: "VttCue list \<Rightarrow> string" where
  "vtt_body cs = join [char_of (10::nat)] (''WEBVTT'' # concat (map vtt_block cs))"

definition printable_cue :: "VttCue \<Rightarrow> bool" where
  "printable_cue c \<longleftrightarrow> vc_start c < 360000000 \<and> vc_end c < 360000000 \<and> vc_text c \<noteq> []
     \<and> trim (vc_text c) = vc_text c \<and> CHR ''<'' \<notin> set (vc_text c) \<and> char_of (10::nat) \<notin> set (vc_text c)"

definition cue_of :: "string \<Rightarrow> Provenance \<Rightarrow> nat \<Rightarrow> VttCue \<Rightarrow> Cue" where
  "cue_of v p n c = vtt_cue v p n (int (vc_start c)) (int (vc_end c)) (vc_text c)"

lemma stamp_parts:
  fixes t :: nat
  assumes "t < 360000000"
  shows "t div 3600000 < 100" "t div 60000 mod 60 < 100" "t div 1000 mod 60 < 100" "t mod 1000 < 1000"
  using assms by (auto simp: div_less_iff_less_mult intro: less_trans [of _ 60])

lemma stamp_value:
  "(real (t div 3600000) * 3600 + real (t div 60000 mod 60) * 60 + (real (t div 1000 mod 60) + real (t mod 1000) / 1000)) * 1000
   = real t"
proof -
  have a: "t div 60000 = t div 1000 div 60" "t div 3600000 = t div 1000 div 60 div 60"
    by (simp_all add: div_mult2_eq flip: numeral_One)
  have "real t = real (t div 1000) * 1000 + real (t mod 1000)"
    by (metis div_mult_mod_eq of_nat_add of_nat_mult of_nat_numeral)
  moreover have "real (t div 1000) = real (t div 1000 div 60) * 60 + real (t div 1000 mod 60)"
    by (metis div_mult_mod_eq of_nat_add of_nat_mult of_nat_numeral)
  moreover have "real (t div 1000 div 60) = real (t div 1000 div 60 div 60) * 60 + real (t div 1000 div 60 mod 60)"
    by (metis div_mult_mod_eq of_nat_add of_nat_mult of_nat_numeral)
  ultimately show ?thesis unfolding a by simp
qed

lemma colon_facts: "\<not> is_digit (CHR '':'')" "\<not> is_digit (CHR ''-'')" "\<not> is_digit (CHR '' '')" "\<not> is_digit (CHR ''>'')"
  by code_simp+

text \<open>The characters of a stamp.\<close>

lemma stamp_chars:
  assumes "t < 360000000"
  shows "list_all (\<lambda>c. is_digit c \<or> c = CHR '':'' \<or> c = CHR ''.'') (vtt_stamp t)"
    and "vtt_stamp t \<noteq> []" "is_digit (hd (vtt_stamp t))" "is_digit (last (vtt_stamp t))"
proof -
  note b = stamp_parts [OF assms]
  show "list_all (\<lambda>c. is_digit c \<or> c = CHR '':'' \<or> c = CHR ''.'') (vtt_stamp t)"
    using padded_digits(1) [OF b(1)] padded_digits(1) [OF b(2)] padded_digits(1) [OF b(3)] padded_digits(2) [OF b(4)]
    by (auto simp: vtt_stamp_def list_all_iff)
  show "vtt_stamp t \<noteq> []" "is_digit (hd (vtt_stamp t))" "is_digit (last (vtt_stamp t))"
    using b by (simp_all add: vtt_stamp_def hd_append)
qed

lemma stamp_trim:
  assumes "t < 360000000"
  shows "trim (vtt_stamp t) = vtt_stamp t"
  using stamp_chars [OF assms] by (intro trim_id) (auto simp: digit_facts)

lemma stamp_no_ws:
  assumes "t < 360000000" "c \<in> set (vtt_stamp t)"
  shows "\<not> is_ws c" "c \<noteq> CHR ''-''" "c \<noteq> char_of (10::nat)"
proof -
  have ws: "\<not> is_ws (CHR '':'')" "\<not> is_ws (CHR ''.'')" "is_ws (char_of (10::nat))" by code_simp+
  have "is_digit c \<or> c = CHR '':'' \<or> c = CHR ''.''"
    using stamp_chars(1) [OF assms(1)] assms(2) by (auto simp: list_all_iff)
  then show n: "\<not> is_ws c" and "c \<noteq> CHR ''-''" using ws digit_facts by auto
  from n ws(3) show "c \<noteq> char_of (10::nat)" by auto
qed

lemma stamp_split:
  assumes "t < 360000000"
  shows "split_on (CHR '':'') (vtt_stamp t) = [two_digits (t div 3600000), two_digits (t div 60000 mod 60),
      two_digits (t div 1000 mod 60) @ ''.'' @ three_digits (t mod 1000)]"
proof -
  note b = stamp_parts [OF assms]
  have nocolon: "CHR '':'' \<notin> set (two_digits n)" if "n < 100" for n
    using padded_digits(1) [OF that] colon_facts(1) by (auto simp: list_all_iff)
  have "CHR '':'' \<notin> set (three_digits (t mod 1000))"
    using padded_digits(2) [OF b(4)] colon_facts(1) by (auto simp: list_all_iff)
  then show ?thesis
    using nocolon [OF b(1)] nocolon [OF b(2)] nocolon [OF b(3)]
    by (simp add: vtt_stamp_def split_on_sep split_on_none)
qed

lemma stamp_read:
  assumes "t < 360000000"
  shows "parseVttTimestamp (vtt_stamp t) = Some (int t)"
proof -
  note b = stamp_parts [OF assms]
  have "js_round (real t) = int t" by (simp add: js_round_def floor_eq_iff)
  then show ?thesis
    using js_number_two [OF b(1)] js_number_two [OF b(2)] js_number_seconds [OF b(3,4)] stamp_value [of t]
    by (simp add: parseVttTimestamp_def stamp_trim [OF assms] stamp_split [OF assms] Let_def)
qed

lemma clock_at_printed:
  assumes "m < 100" "s < 100" "x < 1000"
  shows "clock_at (two_digits m @ CHR '':'' # two_digits s @ CHR ''.'' # three_digits x @ r) = Some r"
  using assms by (simp add: clock_at_def two_digits_def three_digits_def div_less_iff_less_mult)

lemma search_append: "P t \<Longrightarrow> search P (s @ t)"
  by (induction s) (cases t, auto)

lemma timing_found:
  assumes "printable_cue c"
  shows "search timing_at (vtt_timing c)"
proof -
  let ?a = "vc_start c" and ?b = "vc_end c"
  have a: "?a < 360000000" and b: "?b < 360000000" using assms by (simp_all add: printable_cue_def)
  let ?clock = "\<lambda>t r. two_digits (t div 60000 mod 60) @ CHR '':'' # two_digits (t div 1000 mod 60)
      @ CHR ''.'' # three_digits (t mod 1000) @ r"
  have split: "vtt_timing c = (two_digits (?a div 3600000) @ '':'') @ ?clock ?a ('' --> '' @ vtt_stamp ?b)"
    by (simp add: vtt_timing_def vtt_stamp_def)
  have ws: "\<not> is_ws (CHR ''-'')" by code_simp
  have e: "dropWhile is_ws ('' '' @ vtt_stamp ?b) = vtt_stamp ?b"
    using stamp_chars(2,3) [OF b] by (cases "vtt_stamp ?b") (auto simp: digit_facts)
  have "hours_at 2 (vtt_stamp ?b)"
    using padded_digits(1) [OF stamp_parts(1) [OF b]] clock_at_printed [OF stamp_parts(2-4) [OF b], of "[]"]
    by (simp add: hours_at_def vtt_stamp_def two_digits_def)
  then have "timing_at (?clock ?a ('' --> '' @ vtt_stamp ?b))"
    using e ws clock_at_printed [OF stamp_parts(2-4) [OF a], of "'' --> '' @ vtt_stamp ?b"]
    by (simp add: timing_at_def startsWith_def arrow_def Let_def)
  then show ?thesis unfolding split by (rule search_append)
qed

lemma split_arrow_none: "CHR ''-'' \<notin> set y \<Longrightarrow> length y \<le> n \<Longrightarrow> split_arrow n y = [y]"
  by (induction n y rule: split_arrow.induct) (auto simp: startsWith_def arrow_def)

lemma split_arrow_once:
  "CHR ''-'' \<notin> set x \<Longrightarrow> CHR ''-'' \<notin> set y \<Longrightarrow> length x + length y + 3 \<le> n \<Longrightarrow>
   split_arrow n (x @ ''-->'' @ y) = [x, y]"
proof (induction x arbitrary: n)
  case Nil
  then obtain m where "n = Suc m" by (cases n) auto
  with Nil show ?case by (simp add: startsWith_def arrow_def split_arrow_none)
next
  case (Cons c x)
  then obtain m where "n = Suc m" by (cases n) auto
  with Cons show ?case by (auto simp: startsWith_def arrow_def)
qed

lemma timing_read:
  assumes "printable_cue c"
  shows "timing_of (vtt_timing c) = (Some (int (vc_start c)), Some (int (vc_end c)))"
proof -
  have a: "vc_start c < 360000000" and b: "vc_end c < 360000000" using assms by (simp_all add: printable_cue_def)
  have dash: "CHR ''-'' \<notin> set (vtt_stamp t)" if "t < 360000000" for t
    using stamp_no_ws(2) [OF that] by blast
  have trims: "trim (vtt_stamp t @ '' '') = vtt_stamp t" "trim (CHR '' '' # vtt_stamp t) = vtt_stamp t" if "t < 360000000" for t
  proof -
    have "dropWhile is_ws (vtt_stamp t @ '' '') = vtt_stamp t @ '' ''"
      using stamp_chars(2,3) [OF that] by (cases "vtt_stamp t") (auto simp: digit_facts)
    moreover have "dropWhile is_ws (rev (vtt_stamp t)) = rev (vtt_stamp t)"
      using stamp_chars(2,4) [OF that] by (cases "vtt_stamp t" rule: rev_cases) (auto simp: digit_facts)
    ultimately show "trim (vtt_stamp t @ '' '') = vtt_stamp t" by (simp add: trim_def)
    show "trim (CHR '' '' # vtt_stamp t) = vtt_stamp t"
      using stamp_trim [OF that] by (simp add: trim_def)
  qed
  have word: "first_word (vtt_stamp t) = vtt_stamp t" if "t < 360000000" for t
    using stamp_no_ws(1) [OF that] by (simp add: first_word_def takeWhile_eq_all_conv)
  have "split_arrow (length (vtt_timing c)) ((vtt_stamp (vc_start c) @ '' '') @ ''-->'' @ (CHR '' '' # vtt_stamp (vc_end c)))
      = [vtt_stamp (vc_start c) @ '' '', CHR '' '' # vtt_stamp (vc_end c)]"
    using dash [OF a] dash [OF b] by (intro split_arrow_once) (auto simp: vtt_timing_def)
  then have "split_arrow (length (vtt_timing c)) (vtt_timing c)
      = [vtt_stamp (vc_start c) @ '' '', CHR '' '' # vtt_stamp (vc_end c)]"
    by (simp add: vtt_timing_def)
  then show ?thesis
    using trims [OF a] trims [OF b] word [OF a] word [OF b] stamp_read [OF a] stamp_read [OF b]
    by (simp add: timing_of_def)
qed

lemma no_tags: "CHR ''<'' \<notin> set s \<Longrightarrow> replace_match n tag_end [] s = s"
  by (induction n tag_end "[] :: string" s rule: replace_match.induct) (auto simp: tag_end_def)

lemma includes_middle: "str_includes (x @ p @ y) p"
proof -
  have "startsWith (p @ y) p" by (simp add: startsWith_def)
  then have "str_includes (p @ y) p" by (cases "p @ y") auto
  then show ?thesis by (induction x) (auto simp: startsWith_def)
qed

lemma timing_line_printed:
  assumes "printable_cue c"
  shows "trim (vtt_timing c) = vtt_timing c" "\<not> skipped_line (vtt_timing c)"
    "timing_line (vtt_timing c) rest = (vtt_timing c, rest)" "char_of (10::nat) \<notin> set (vtt_timing c)"
    "\<not> is_ws (last (vtt_timing c))"
proof -
  have a: "vc_start c < 360000000" and b: "vc_end c < 360000000" using assms by (simp_all add: printable_cue_def)
  have first: "is_digit (hd (vtt_timing c))" "vtt_timing c \<noteq> []" and last: "is_digit (last (vtt_timing c))"
    using stamp_chars(2-4) [OF a] stamp_chars(2-4) [OF b] by (simp_all add: vtt_timing_def hd_append)
  then show "trim (vtt_timing c) = vtt_timing c" by (intro trim_id) (auto simp: digit_facts)
  from last show "\<not> is_ws (last (vtt_timing c))" by (simp add: digit_facts)
  have letters: "\<not> is_digit (CHR ''W'')" "\<not> is_digit (CHR ''N'')" "\<not> is_digit (CHR ''S'')" by code_simp+
  have "\<not> startsWith (vtt_timing c) (x # xs)" if "\<not> is_digit x" for x xs
    using first that by (cases "vtt_timing c") (auto simp: startsWith_def)
  with first letters show "\<not> skipped_line (vtt_timing c)" by (simp add: skipped_line_def)
  have "str_includes (vtt_timing c) arrow"
    using includes_middle [of "vtt_stamp (vc_start c) @ '' ''" arrow "CHR '' '' # vtt_stamp (vc_end c)"]
    by (simp add: vtt_timing_def arrow_def)
  then show "timing_line (vtt_timing c) rest = (vtt_timing c, rest)"
    by (simp add: timing_line_def split: list.split)
  have "char_of (10::nat) \<notin> set '' --> ''" by code_simp
  then show "char_of (10::nat) \<notin> set (vtt_timing c)"
    using stamp_no_ws(3) [OF a] stamp_no_ws(3) [OF b] by (auto simp: vtt_timing_def)
qed

lemma loop_printed:
  "list_all printable_cue cs \<Longrightarrow>
   vtt_loop v p n (concat (map vtt_block cs)) = Some (map (\<lambda>(i, c). cue_of v p i c) (List.enumerate n cs))"
proof (induction cs arbitrary: n)
  case (Cons c cs)
  have blank: "skipped_line (trim [])" by (simp add: skipped_line_def trim_def)
  have rest: "takeWhile (\<lambda>l. trim l \<noteq> []) (concat (map vtt_block cs)) = []"
    "vtt_loop v p (n + 1) (drop 1 (dropWhile (\<lambda>l. trim l \<noteq> []) (concat (map vtt_block cs))))
     = vtt_loop v p (n + 1) (concat (map vtt_block cs))"
    by (cases cs; simp add: vtt_block_def vtt_loop.simps(2) skipped_line_def trim_def)+
  have c: "printable_cue c" "list_all printable_cue cs" using Cons.prems by simp_all
  then have t: "trim (vc_text c) = vc_text c" "vc_text c \<noteq> []" "vtt_text [vc_text c] = vc_text c"
    using no_tags [of "vc_text c"] by (simp_all add: printable_cue_def vtt_text_def)
  have "vtt_loop v p n (vtt_timing c # vc_text c # concat (map vtt_block cs))
      = map_option ((#) (cue_of v p n c)) (vtt_loop v p (n + 1) (concat (map vtt_block cs)))"
    using timing_line_printed [OF c(1)] timing_found [OF c(1)] timing_read [OF c(1)] t rest
    by (simp add: vtt_loop.simps(2) [of v p n "vtt_timing c"] cue_of_def)
  moreover have "concat (map vtt_block (c # cs)) = [] # vtt_timing c # vc_text c # concat (map vtt_block cs)"
    by (simp add: vtt_block_def)
  ultimately show ?case
    using Cons.IH [OF c(2), of "n + 1"] blank by (simp add: vtt_loop.simps(2) [of v p n "[]"])
qed simp

lemma last_join: "ls \<noteq> [] \<Longrightarrow> last ls \<noteq> [] \<Longrightarrow> last (join sep ls) = last (last ls) \<and> join sep ls \<noteq> []"
  by (induction sep ls rule: join.induct) auto



text \<open>Unlike the XML reader, this one leaves the entities of a text as they are.\<close>

lemma vtt_keeps_entities: "vtt_text [''a &amp; b''] = ''a &amp; b''" "stripXml ''a &amp; b'' = ''a & b''"
  by code_simp+

end
