(* ===== verification/Ttml.thy ===== *)
theory Ttml
  imports Webvtt Lyrics
begin

text \<open>
  The TTML extractor of \<open>packages/lyrics/src/parse.ts\<close>. Its pattern is matched by backtracking:
  each \<open>[^>]*\<close> takes as much as it can and gives back until the rest matches, so of several
  places for an attribute the last one counts. A line whose clock time is no finite number has no
  place among the model's lines; the extractor answers with \<open>None\<close> there.
\<close>

section \<open>Clock times\<close>

definition parseClock :: "string \<Rightarrow> int option" where
  "parseClock v =
     (if CHR '':'' \<in> set v then
        let parts = split_on (CHR '':'') v; n = length parts;
            part = (\<lambda>k. if k \<le> n then js_number (parts ! (n - k)) else Some 0)
        in Option.bind (part 1) (\<lambda>s. Option.bind (part 2) (\<lambda>m. map_option (\<lambda>h.
             js_round ((h * 3600 + m * 60 + s) * 1000)) (part 3)))
      else map_option (\<lambda>x. js_round (x * 1000)) (js_number v))"

section \<open>The pattern\<close>

text \<open>
  The last place before the next \<open>>\<close> where \<open>m\<close> matches; \<open>m\<close> is told whether the character before
  is one of a word.
\<close>

fun last_match :: "(bool \<Rightarrow> string \<Rightarrow> 'a option) \<Rightarrow> bool \<Rightarrow> string \<Rightarrow> 'a option" where
  "last_match m prev [] = m prev []"
| "last_match m prev (c # s) =
     (case (if c = CHR ''>'' then None else last_match m (is_word_char c) s) of
        Some x \<Rightarrow> Some x
      | None \<Rightarrow> m prev (c # s))"

text \<open>\<open>\bname="([^"]+)"\<close>, in any case: the value and the text after it.\<close>

definition quoted_attr :: "string \<Rightarrow> bool \<Rightarrow> string \<Rightarrow> (string \<times> string) option" where
  "quoted_attr name prev s =
     (let q = char_of (34::nat); head = name @ [CHR ''='', q]; r = drop (length head) s;
          v = takeWhile (\<lambda>c. c \<noteq> q) r; rest = dropWhile (\<lambda>c. c \<noteq> q) r
      in if \<not> prev \<and> toLowerCase (take (length head) s) = head \<and> v \<noteq> [] \<and> rest \<noteq> []
         then Some (v, tl rest) else None)"

text \<open>\<open>[^>]*>([\s\S]*?)</p>\<close>: the content and the text after it.\<close>

definition content_at :: "string \<Rightarrow> (string \<times> string) option" where
  "content_at s =
     (let r = dropWhile (\<lambda>c. c \<noteq> CHR ''>'') s in if r = [] then None else up_to_close (tl r))"

definition end_at :: "bool \<Rightarrow> string \<Rightarrow> (string \<times> string) option" where
  "end_at prev s = Option.bind (quoted_attr ''end'' prev s) (\<lambda>(_, r). content_at r)"

definition begin_at :: "bool \<Rightarrow> string \<Rightarrow> (string \<times> string \<times> string) option" where
  "begin_at prev s =
     Option.bind (quoted_attr ''begin'' prev s) (\<lambda>(b, r).
       map_option (\<lambda>(inner, rest). (b, inner, rest)) (last_match end_at False r))"

definition ttml_at :: "string \<Rightarrow> (string \<times> string \<times> string) option" where
  "ttml_at s =
     (if toLowerCase (take 2 s) = ''<p'' \<and> \<not> list_ex is_word_char (take 1 (drop 2 s))
      then last_match begin_at True (drop 2 s) else None)"

fun ttml_elements :: "nat \<Rightarrow> string \<Rightarrow> (string \<times> string) list" where
  "ttml_elements _ [] = []"
| "ttml_elements 0 (c # s) = []"
| "ttml_elements (Suc n) (c # s) =
     (case ttml_at (c # s) of
        Some (b, inner, rest) \<Rightarrow> (b, inner) # ttml_elements n rest
      | None \<Rightarrow> ttml_elements n s)"

definition ttml_text :: "string \<Rightarrow> string" where
  "ttml_text inner = trim (replace_match (length inner) tag_end [] inner)"

fun ttml_lines :: "(string \<times> string) list \<Rightarrow> ParsedLine list option" where
  "ttml_lines [] = Some []"
| "ttml_lines ((b, inner) # es) =
     (if ttml_text inner = [] then ttml_lines es
      else (case parseClock b of
              None \<Rightarrow> None
            | Some t \<Rightarrow> map_option ((#) \<lparr>pl_startMs = t, pl_text = ttml_text inner\<rparr>) (ttml_lines es)))"

definition parseTtml :: "string \<Rightarrow> ParsedLine list option" where
  "parseTtml content = ttml_lines (ttml_elements (length content) content)"

section \<open>Lemmas\<close>

text \<open>Lines have trimmed texts that are not blank, as the contract of the line parsers asks.\<close>

lemma ttml_lines_trimmed:
  "ttml_lines es = Some ls \<Longrightarrow> l \<in> set ls \<Longrightarrow> pl_text l \<noteq> [] \<and> trim (pl_text l) = pl_text l"
  by (induction es arbitrary: ls rule: ttml_lines.induct)
    (force simp: ttml_text_def split: if_splits option.splits)+

interpretation ttml: line_parser "\<lambda>c. opt_or (parseTtml c) []"
proof
  fix l and content :: string
  assume "l \<in> set (opt_or (parseTtml content) [])"
  then show "pl_text l \<noteq> [] \<and> trim (pl_text l) = pl_text l"
    using ttml_lines_trimmed [of _ _ l] by (cases "parseTtml content") (auto simp: parseTtml_def)
qed

text \<open>Clock times of three parts are read as those of WebVTT are, so printed ones are read back.\<close>

lemma clock_as_vtt:
  assumes "length (split_on (CHR '':'') v) = 3" "trim v = v"
  shows "parseClock v = parseVttTimestamp v"
proof -
  have "CHR '':'' \<in> set v" using assms(1) split_on_none [of "CHR '':''" v] by force
  moreover obtain a b c where "split_on (CHR '':'') v = [a, b, c]"
    using assms(1) by (auto simp: numeral_3_eq_3 length_Suc_conv)
  ultimately show ?thesis
    using assms(2)
    by (cases "js_number a"; cases "js_number b"; cases "js_number c") (simp_all add: parseClock_def parseVttTimestamp_def)
qed

lemma clock_read: "t < 360000000 \<Longrightarrow> parseClock (vtt_stamp t) = Some (int t)"
  using stamp_split [of t] by (subst clock_as_vtt) (simp_all add: stamp_trim stamp_read)

end
