(* ===== verification/Page_Bridge.thy ===== *)
theory Page_Bridge
  imports Captions Js_Values
begin

text \<open>
  The bridge between the page and the content script: \<open>entrypoints/page-bridge.ts\<close>, which answers
  for the player in the page's own world, and \<open>features/captions/bridge-client.ts\<close>, which asks it.
  Both listen to the messages of the same window. \<open>JSON.parse\<close> and \<open>decodeURIComponent\<close> are
  arguments, \<open>None\<close> where they throw.
\<close>

section \<open>The player\<close>

record BridgePlayerState =
  bp_videoId :: "string option"
  bp_currentTimeMs :: int
  bp_paused :: bool
  bp_title :: string
  bp_tracks :: "CaptionTrackMeta list"
  playerResponseFound :: bool

text \<open>What the bridge reads of the page.\<close>

record PlayerPage =
  pg_href :: string
  ytInitialPlayerResponse :: "json option"
  ytplayer :: "json option"
  pg_scripts :: "string list"
  pg_video :: "(real \<times> bool) option"
  pg_title :: string

text \<open>\<open>/[?&]v=([^&]+)/\<close> and \<open>/\/shorts\/([^/?&]+)/\<close>: the group of the first match.\<close>

fun query_v :: "string \<Rightarrow> string option" where
  "query_v [] = None"
| "query_v (c # s) =
     (let v = takeWhile (\<lambda>c. c \<noteq> CHR ''&'') (drop 2 s)
      in if (c = CHR ''?'' \<or> c = CHR ''&'') \<and> startsWith s ''v='' \<and> v \<noteq> [] then Some v else query_v s)"

fun shorts_id :: "string \<Rightarrow> string option" where
  "shorts_id [] = None"
| "shorts_id (c # s) =
     (let v = takeWhile (\<lambda>c. c \<notin> set ''/?&'') (drop 8 (c # s))
      in if startsWith (c # s) ''/shorts/'' \<and> v \<noteq> [] then Some v else shorts_id s)"

definition videoIdFromHref :: "(string \<Rightarrow> string option) \<Rightarrow> string \<Rightarrow> string + string option" where
  "videoIdFromHref decode href =
     (case opt_else (query_v href) (shorts_id href) of
        None \<Rightarrow> Inr None
      | Some v \<Rightarrow> (case decode v of None \<Rightarrow> Inl ''URIError'' | Some t \<Rightarrow> Inr (Some t)))"

definition raw_player :: "json option \<Rightarrow> json option" where
  "raw_player player =
     (let args = sub_field (sub_field player ''config'') ''args''
      in case sub_field args ''raw_player_response'' of
           None \<Rightarrow> sub_field args ''player_response''
         | Some JNull \<Rightarrow> sub_field args ''player_response''
         | Some j \<Rightarrow> Some j)"

fun script_response :: "(string \<Rightarrow> json option) \<Rightarrow> string list \<Rightarrow> json option" where
  "script_response parse [] = None"
| "script_response parse (s # ss) =
     opt_else (extractPlayerResponseFromScript parse s) (script_response parse ss)"

definition from_scripts :: "(string \<Rightarrow> json option) \<Rightarrow> string list \<Rightarrow> CaptionTrackMeta list \<times> bool" where
  "from_scripts parse scripts =
     (case script_response parse scripts of
        Some pr \<Rightarrow> (tracksFromPlayerResponse (Some pr), True)
      | None \<Rightarrow> ([], False))"

definition readEmbeddedPlayerResponse :: "(string \<Rightarrow> json option) \<Rightarrow> PlayerPage \<Rightarrow> CaptionTrackMeta list \<times> bool" where
  "readEmbeddedPlayerResponse parse pg =
     (case ytInitialPlayerResponse pg of
        Some r \<Rightarrow> (tracksFromPlayerResponse (Some r), True)
      | None \<Rightarrow>
          let player = raw_player (ytplayer pg)
          in if \<not> truthy player then from_scripts parse (pg_scripts pg)
             else (case player of
                     Some (JStr s) \<Rightarrow>
                       (case parse s of
                          Some j \<Rightarrow> (tracksFromPlayerResponse (Some j), True)
                        | None \<Rightarrow> from_scripts parse (pg_scripts pg))
                   | _ \<Rightarrow> (tracksFromPlayerResponse player, True)))"

definition readPlayer :: "(string \<Rightarrow> json option) \<Rightarrow> (string \<Rightarrow> string option) \<Rightarrow> PlayerPage \<Rightarrow> string + BridgePlayerState" where
  "readPlayer parse decode pg =
     (let (tracks, found) = readEmbeddedPlayerResponse parse pg
      in case videoIdFromHref decode (pg_href pg) of
           Inl e \<Rightarrow> Inl e
         | Inr v \<Rightarrow> Inr \<lparr>bp_videoId = v,
             bp_currentTimeMs = (case pg_video pg of None \<Rightarrow> 0 | Some (t, _) \<Rightarrow> \<lfloor>t * 1000\<rfloor>),
             bp_paused = (case pg_video pg of None \<Rightarrow> True | Some (_, b) \<Rightarrow> b),
             bp_title = pg_title pg, bp_tracks = tracks, playerResponseFound = found\<rparr>)"

section \<open>Messages of the window\<close>

definition CHANNEL :: string where
  "CHANNEL = ''language-llm''"

text \<open>The fields either side reads or writes; the page posts messages of its own.\<close>

record WindowMessage =
  wm_channel :: string
  wm_type :: string
  wm_requestId :: "string option"
  wm_state :: "BridgePlayerState option"
  wm_tracks :: "CaptionTrackMeta list option"
  wm_videoId :: "string option"
  wm_found :: "bool option"

text \<open>
  The bridge's listener: what it posts. The message is \<open>None\<close> where \<open>event.data\<close> is falsy; a
  listener that throws posts nothing.
\<close>

definition bridge_listener :: "(string + BridgePlayerState) \<Rightarrow> bool \<Rightarrow> WindowMessage option \<Rightarrow> WindowMessage list" where
  "bridge_listener player from_window data =
     (case data of
        None \<Rightarrow> []
      | Some m \<Rightarrow>
          if \<not> from_window \<or> wm_channel m \<noteq> CHANNEL then []
          else (case player of
                  Inl _ \<Rightarrow> []
                | Inr st \<Rightarrow>
                    if wm_type m = ''bridge.ping'' \<or> wm_type m = ''bridge.getState''
                    then [\<lparr>wm_channel = CHANNEL,
                           wm_type = (if wm_type m = ''bridge.ping'' then ''bridge.pong'' else ''bridge.state''),
                           wm_requestId = wm_requestId m, wm_state = Some st, wm_tracks = None,
                           wm_videoId = None, wm_found = None\<rparr>]
                    else if wm_type m = ''bridge.getTracks''
                    then [\<lparr>wm_channel = CHANNEL, wm_type = ''bridge.tracks'', wm_requestId = wm_requestId m,
                           wm_state = None, wm_tracks = Some (bp_tracks st), wm_videoId = bp_videoId st,
                           wm_found = Some (playerResponseFound st)\<rparr>]
                    else []))"

section \<open>The client\<close>

datatype Ping = Waiting | Resolved "BridgePlayerState option"

datatype PingEvent = Arrives bool "WindowMessage option" | TimerFires

definition ping_message :: "string \<Rightarrow> WindowMessage" where
  "ping_message i = \<lparr>wm_channel = CHANNEL, wm_type = ''bridge.ping'', wm_requestId = Some i,
     wm_state = None, wm_tracks = None, wm_videoId = None, wm_found = None\<rparr>"

definition answers :: "string \<Rightarrow> WindowMessage \<Rightarrow> bool" where
  "answers i m \<longleftrightarrow> wm_channel m = CHANNEL \<and> (wm_type m = ''bridge.pong'' \<or> wm_type m = ''bridge.state'')
     \<and> wm_requestId m = Some i"

text \<open>The listener and the timer of one ping; once it is resolved both are gone.\<close>

definition ping_event :: "string \<Rightarrow> PingEvent \<Rightarrow> Ping \<Rightarrow> Ping" where
  "ping_event i e p =
     (case p of
        Resolved r \<Rightarrow> Resolved r
      | Waiting \<Rightarrow>
          (case e of
             TimerFires \<Rightarrow> Resolved None
           | Arrives from_window None \<Rightarrow> Waiting
           | Arrives from_window (Some m) \<Rightarrow>
               if from_window \<and> answers i m then Resolved (wm_state m) else Waiting))"

definition pingBridge :: "string \<Rightarrow> PingEvent list \<Rightarrow> Ping" where
  "pingBridge i es = fold (ping_event i) es Waiting"

definition listBridgeTracks :: "string \<Rightarrow> PingEvent list \<Rightarrow> CaptionTrackMeta list option" where
  "listBridgeTracks i es =
     (case pingBridge i es of
        Waiting \<Rightarrow> None
      | Resolved r \<Rightarrow> Some (case r of None \<Rightarrow> [] | Some st \<Rightarrow> bp_tracks st))"

section \<open>Questions and answers\<close>

text \<open>Events that neither answer the ping nor end it.\<close>

definition noise :: "string \<Rightarrow> PingEvent \<Rightarrow> bool" where
  "noise i e \<longleftrightarrow>
     (case e of
        TimerFires \<Rightarrow> False
      | Arrives from_window data \<Rightarrow> (case data of None \<Rightarrow> True | Some m \<Rightarrow> \<not> from_window \<or> wm_requestId m \<noteq> Some i
          \<or> wm_channel m \<noteq> CHANNEL \<or> wm_type m = ''bridge.ping''))"

lemma noise_waits: "list_all (noise i) es \<Longrightarrow> fold (ping_event i) es Waiting = Waiting"
  by (induction es) (auto simp: ping_event_def noise_def answers_def split: PingEvent.splits option.splits)

lemma resolved_stays: "fold (ping_event i) es (Resolved r) = Resolved r"
  by (induction es) (simp_all add: ping_event_def)

text \<open>What the window delivers when the bridge has answered a message.\<close>

definition delivered_answers :: "(string + BridgePlayerState) \<Rightarrow> WindowMessage \<Rightarrow> PingEvent list" where
  "delivered_answers player m = map (\<lambda>a. Arrives True (Some a)) (bridge_listener player True (Some m))"

text \<open>C35:
  A ping is answered by the bridge's reading of the player. Whatever other messages pass the
  window, the client's own among them, once the bridge has answered the ping before its timer the
  client has exactly the state the bridge read, and its tracks; if the bridge could not read the
  player or does not answer in time, the client has no state and no tracks. Later messages and a
  late timer change nothing.\<close>

theorem ping_gets_player_state:
  assumes "list_all (noise i) before"
  shows "(case player of
      Inr st \<Rightarrow> pingBridge i (before @ delivered_answers player (ping_message i) @ rest) = Resolved (Some st)
        \<and> listBridgeTracks i (before @ delivered_answers player (ping_message i) @ rest) = Some (bp_tracks st)
    | Inl e \<Rightarrow> pingBridge i (before @ delivered_answers player (ping_message i) @ TimerFires # rest) = Resolved None
        \<and> listBridgeTracks i (before @ delivered_answers player (ping_message i) @ TimerFires # rest) = Some [])
    \<and> pingBridge i (before @ TimerFires # rest) = Resolved None"
  using noise_waits [OF assms]
  by (simp add: pingBridge_def listBridgeTracks_def delivered_answers_def bridge_listener_def ping_message_def
      ping_event_def answers_def resolved_stays split: sum.split)

lemma ping_gets_player_state_witness:
  "pingBridge ''r1''
     ([Arrives True (Some (ping_message ''r1'')), Arrives True None, Arrives False (Some (ping_message ''r0''))]
      @ delivered_answers (Inr \<lparr>bp_videoId = Some ''abc'', bp_currentTimeMs = 1500, bp_paused = False,
          bp_title = ''Song'', bp_tracks = [], playerResponseFound = True\<rparr>) (ping_message ''r1'')
      @ [TimerFires])
   = Resolved (Some \<lparr>bp_videoId = Some ''abc'', bp_currentTimeMs = 1500, bp_paused = False,
       bp_title = ''Song'', bp_tracks = [], playerResponseFound = True\<rparr>)"
  using ping_gets_player_state [of "''r1''"
      "[Arrives True (Some (ping_message ''r1'')), Arrives True None, Arrives False (Some (ping_message ''r0''))]"
      "Inr \<lparr>bp_videoId = Some ''abc'', bp_currentTimeMs = 1500, bp_paused = False,
          bp_title = ''Song'', bp_tracks = [], playerResponseFound = True\<rparr>" "[TimerFires]"]
  by (simp add: noise_def ping_message_def)

end
