(* ===== verification/Eval_Suites.thy ===== *)
theory Eval_Suites
  imports Metrics Lyrics Js_Map
begin

text \<open>
  The reports of the evaluation suites, \<open>benchmarks/suites\<close>: recognition (\<open>asr.ts\<close>), translation
  (\<open>mt.ts\<close>), subtitles (\<open>subtitle.ts\<close>), the gate of the vision model (\<open>ambiguity.ts\<close>), the privacy
  checks (\<open>privacy.ts\<close>), the order of lyrics sources (\<open>lyrics.ts\<close>) and the endpoints of page
  translation (\<open>page-translate.ts\<close>). Scores are real numbers. The objects \<open>perLanguage\<close> and
  \<open>perPair\<close> are tables; names that every object inherits do not occur as languages. The sources
  the privacy checks read are an argument.
\<close>

section \<open>Running means\<close>

record Bucket =
  bk_count :: nat
  bk_mean :: real

definition bump :: "real \<Rightarrow> Bucket \<Rightarrow> Bucket" where
  "bump x b = (let nextCount = bk_count b + 1
     in \<lparr>bk_count = nextCount, bk_mean = (bk_mean b * real (bk_count b) + x) / real nextCount\<rparr>)"

definition bucket_add :: "string \<times> real \<Rightarrow> (string, Bucket) jsmap \<Rightarrow> (string, Bucket) jsmap" where
  "bucket_add p m =
     AList.update (fst p) (bump (snd p) (opt_or (map_of m (fst p)) \<lparr>bk_count = 0, bk_mean = 0\<rparr>)) m"

definition mean_of :: "real list \<Rightarrow> real" where
  "mean_of xs = sum_list xs / real (length xs)"

section \<open>Recognition\<close>

record AsrSample =
  as_id :: string
  as_reference :: string
  as_hypothesis :: string
  as_language :: string
  as_durationMs :: real

record AsrEvalReport =
  ar_sampleCount :: nat
  ar_meanWer :: real
  ar_perLanguage :: "(string, Bucket) jsmap"
  ar_worst :: "(string \<times> real) list"

definition evaluateAsrSamples :: "AsrSample list \<Rightarrow> AsrEvalReport" where
  "evaluateAsrSamples samples =
     (if samples = [] then \<lparr>ar_sampleCount = 0, ar_meanWer = 0, ar_perLanguage = [], ar_worst = []\<rparr>
      else
        let scored = map (\<lambda>s. (s, wordErrorRate (as_reference s) (as_hypothesis s))) samples
        in \<lparr>ar_sampleCount = length samples,
            ar_meanWer = mean_of (map snd scored),
            ar_perLanguage = fold bucket_add (map (\<lambda>(s, wer). (as_language s, wer)) scored) [],
            ar_worst = map (\<lambda>(s, wer). (as_id s, wer)) (take 5 (sort_key (\<lambda>(s, wer). - wer) scored))\<rparr>)"

definition runAsrSyntheticMetricSmoke :: AsrEvalReport where
  "runAsrSyntheticMetricSmoke = evaluateAsrSamples
     [\<lparr>as_id = ''en-1'', as_reference = ''the quick brown fox jumps over the lazy dog'',
       as_hypothesis = ''the quick brown fox jumped over the lazy dog'', as_language = ''en'', as_durationMs = 2500\<rparr>,
      \<lparr>as_id = ''en-2'', as_reference = ''local inference stays on device'',
       as_hypothesis = ''local inference stays on device'', as_language = ''en'', as_durationMs = 1800\<rparr>]"

section \<open>Translation\<close>

record MtSample =
  ms_id :: string
  ms_sourceLang :: string
  ms_targetLang :: string
  ms_reference :: string
  ms_hypothesis :: string

record MtEvalReport =
  mr_sampleCount :: nat
  mr_meanChrF :: real
  mr_perPair :: "(string, Bucket) jsmap"

definition evaluateMtSamples :: "MtSample list \<Rightarrow> MtEvalReport" where
  "evaluateMtSamples samples =
     (if samples = [] then \<lparr>mr_sampleCount = 0, mr_meanChrF = 0, mr_perPair = []\<rparr>
      else
        let scored = map (\<lambda>s. (ms_sourceLang s @ ''->'' @ ms_targetLang s,
              chrF (ms_reference s) (ms_hypothesis s) 6)) samples
        in \<lparr>mr_sampleCount = length samples,
            mr_meanChrF = mean_of (map snd scored),
            mr_perPair = fold bucket_add scored []\<rparr>)"

definition runMtSyntheticMetricSmoke :: MtEvalReport where
  "runMtSyntheticMetricSmoke = evaluateMtSamples
     [\<lparr>ms_id = ''ja-en-1'', ms_sourceLang = ''ja'', ms_targetLang = ''en'',
       ms_reference = ''I will eat sushi tomorrow'', ms_hypothesis = ''I will eat sushi tomorrow''\<rparr>,
      \<lparr>ms_id = ''zh-en-1'', ms_sourceLang = ''zh'', ms_targetLang = ''en'',
       ms_reference = ''China is large'', ms_hypothesis = ''China is big''\<rparr>]"

section \<open>Subtitles\<close>

record SubtitleSample =
  ss_id :: string
  ss_reference :: "SyncCue list"
  ss_hypothesis :: "SyncCue list"
  ss_texts :: "string list option"

text \<open>\<open>charactersPerSecond\<close> of a cue with a text; \<open>None\<close> is the infinity of a cue without duration.\<close>

definition sync_cps :: "SyncCue \<Rightarrow> string \<Rightarrow> real option" where
  "sync_cps c s =
     (let durationSec = max 0 (sc_endMs c - sc_startMs c) / 1000
      in if durationSec \<le> 0 then None else Some (real (length s) / durationSec))"

definition add_cps :: "real option \<Rightarrow> real option \<Rightarrow> real option" where
  "add_cps x y = Option.bind x (\<lambda>a. map_option (\<lambda>b. a + b) y)"

record SubtitleSums =
  su_drift :: real
  su_within :: real
  su_cps :: "real option"
  su_cpsCount :: nat
  su_violations :: nat

definition count_cue :: "string list option \<Rightarrow> nat \<times> SyncCue \<Rightarrow> SubtitleSums \<Rightarrow> SubtitleSums" where
  "count_cue texts p a =
     (let (i, c) = p; dur = sc_endMs c - sc_startMs c;
          a = (if dur < 200 \<or> dur > 7000 then a\<lparr>su_violations := su_violations a + 1\<rparr> else a)
      in case texts of
           None \<Rightarrow> a
         | Some ts \<Rightarrow>
             if i < length ts \<and> ts ! i \<noteq> []
             then a\<lparr>su_cps := add_cps (su_cps a) (sync_cps c (ts ! i)), su_cpsCount := su_cpsCount a + 1\<rparr>
             else a)"

definition count_sample :: "SubtitleSample \<Rightarrow> SubtitleSums \<Rightarrow> SubtitleSums" where
  "count_sample s a =
     fold (count_cue (ss_texts s)) (List.enumerate 0 (ss_hypothesis s))
       (a\<lparr>su_drift := su_drift a + meanMidpointDriftMs (ss_reference s) (ss_hypothesis s),
          su_within := su_within a + syncWithinBudget (ss_reference s) (ss_hypothesis s) 100\<rparr>)"

text \<open>The mean reading speed is missing without texts, and \<open>Some None\<close> where it is infinite.\<close>

record SubtitleEvalReport =
  sr_sampleCount :: nat
  sr_meanDriftMs :: real
  sr_within100msRate :: real
  sr_meanCps :: "real option option"
  sr_durationViolations :: nat

definition evaluateSubtitleSamples :: "SubtitleSample list \<Rightarrow> SubtitleEvalReport" where
  "evaluateSubtitleSamples samples =
     (if samples = []
      then \<lparr>sr_sampleCount = 0, sr_meanDriftMs = 0, sr_within100msRate = 1, sr_meanCps = None,
             sr_durationViolations = 0\<rparr>
      else
        let a = fold count_sample samples
              \<lparr>su_drift = 0, su_within = 0, su_cps = Some 0, su_cpsCount = 0, su_violations = 0\<rparr>;
            n = real (length samples)
        in \<lparr>sr_sampleCount = length samples, sr_meanDriftMs = su_drift a / n, sr_within100msRate = su_within a / n,
            sr_meanCps = (if su_cpsCount a > 0
                          then Some (map_option (\<lambda>x. x / real (su_cpsCount a)) (su_cps a)) else None),
            sr_durationViolations = su_violations a\<rparr>)"

definition runSubtitleSyntheticMetricSmoke :: SubtitleEvalReport where
  "runSubtitleSyntheticMetricSmoke = evaluateSubtitleSamples
     [\<lparr>ss_id = ''sync-1'',
       ss_reference = [\<lparr>sc_startMs = 0, sc_endMs = 1000\<rparr>, \<lparr>sc_startMs = 1200, sc_endMs = 2200\<rparr>],
       ss_hypothesis = [\<lparr>sc_startMs = 40, sc_endMs = 1040\<rparr>, \<lparr>sc_startMs = 1180, sc_endMs = 2180\<rparr>],
       ss_texts = Some [''Hello there'', ''Second line of dialogue'']\<rparr>]"

section \<open>The gate of the vision model\<close>

record AmbiguityCase =
  ab_id :: string
  cueIds :: "string list"
  expectedNeedsVlm :: bool
  modelRequestedVlm :: bool
  vlmHelped :: bool
  ab_confidence :: real

record AmbiguityCounts =
  ac_tp :: nat
  ac_fp :: nat
  ac_fn :: nat
  ac_tn :: nat
  ac_helpful :: nat
  vlmFired :: nat

definition count_case :: "AmbiguityCase \<Rightarrow> AmbiguityCounts \<Rightarrow> AmbiguityCounts" where
  "count_case c a =
     (let a = (if expectedNeedsVlm c \<and> modelRequestedVlm c then a\<lparr>ac_tp := ac_tp a + 1\<rparr>
               else if \<not> expectedNeedsVlm c \<and> modelRequestedVlm c then a\<lparr>ac_fp := ac_fp a + 1\<rparr>
               else if expectedNeedsVlm c \<and> \<not> modelRequestedVlm c then a\<lparr>ac_fn := ac_fn a + 1\<rparr>
               else a\<lparr>ac_tn := ac_tn a + 1\<rparr>)
      in if modelRequestedVlm c
         then a\<lparr>vlmFired := vlmFired a + 1, ac_helpful := ac_helpful a + (if vlmHelped c then 1 else 0)\<rparr>
         else a)"

record AmbiguityEvalReport =
  am_sampleCount :: nat
  am_precision :: real
  am_recall :: real
  am_falsePositiveRate :: real
  helpfulResolutionRate :: real

definition ratio_or :: "real \<Rightarrow> nat \<Rightarrow> nat \<Rightarrow> real" where
  "ratio_or d a n = (if n = 0 then d else real a / real n)"

definition evaluateAmbiguityCases :: "AmbiguityCase list \<Rightarrow> AmbiguityEvalReport" where
  "evaluateAmbiguityCases cs =
     (if cs = []
      then \<lparr>am_sampleCount = 0, am_precision = 1, am_recall = 1, am_falsePositiveRate = 0, helpfulResolutionRate = 1\<rparr>
      else
        let a = fold count_case cs
              \<lparr>ac_tp = 0, ac_fp = 0, ac_fn = 0, ac_tn = 0, ac_helpful = 0, vlmFired = 0\<rparr>
        in \<lparr>am_sampleCount = length cs,
            am_precision = ratio_or 1 (ac_tp a) (ac_tp a + ac_fp a),
            am_recall = ratio_or 1 (ac_tp a) (ac_tp a + ac_fn a),
            am_falsePositiveRate = ratio_or 0 (ac_fp a) (ac_fp a + ac_tn a),
            helpfulResolutionRate = ratio_or 1 (ac_helpful a) (vlmFired a)\<rparr>)"

definition runAmbiguitySyntheticMetricSmoke :: AmbiguityEvalReport where
  "runAmbiguitySyntheticMetricSmoke = evaluateAmbiguityCases
     [\<lparr>ab_id = ''deixis-1'', cueIds = [''c1''], expectedNeedsVlm = True, modelRequestedVlm = True,
       vlmHelped = True, ab_confidence = 0.4\<rparr>,
      \<lparr>ab_id = ''clear-1'', cueIds = [''c2''], expectedNeedsVlm = False, modelRequestedVlm = False,
       vlmHelped = False, ab_confidence = 0.92\<rparr>,
      \<lparr>ab_id = ''false-fire'', cueIds = [''c3''], expectedNeedsVlm = False, modelRequestedVlm = True,
       vlmHelped = False, ab_confidence = 0.55\<rparr>]"

section \<open>Checks\<close>

record SuiteCheck =
  ck_id :: string
  ck_description :: string
  ck_passed :: bool
  ck_category :: string
  ck_detail :: "string option"

record ChecksReport =
  cr_checkCount :: nat
  cr_passRate :: real
  cr_failures :: "SuiteCheck list"

definition evaluatePrivacyChecks :: "SuiteCheck list \<Rightarrow> ChecksReport" where
  "evaluatePrivacyChecks cs =
     (let failures = filter (\<lambda>c. \<not> ck_passed c) cs
      in \<lparr>cr_checkCount = length cs,
          cr_passRate = (if cs = [] then 1 else real (length cs - length failures) / real (length cs)),
          cr_failures = failures\<rparr>)"

text \<open>\<open>/fn origin_allowed[\s\S]*?false/\<close>: the one before the other, anywhere in the text.\<close>

definition includes_then :: "string \<Rightarrow> string \<Rightarrow> string \<Rightarrow> bool" where
  "includes_then s a b = search (\<lambda>t. startsWith t a \<and> str_includes (drop (length a) t) b) s"

text \<open>\<open>/Access-Control-Allow-Origin:\s*\*/\<close> and \<open>/auto_?download|silent_?install/i\<close>.\<close>

definition allows_any_origin :: "string \<Rightarrow> bool" where
  "allows_any_origin s \<longleftrightarrow> str_includes s ''AllowOrigin::any'' \<or> str_includes s ''CorsLayer::permissive''
     \<or> search (\<lambda>t. startsWith t ''Access-Control-Allow-Origin:''
          \<and> startsWith (dropWhile is_ws (drop 28 t)) ''*'') s"

definition silent_download :: "string \<Rightarrow> bool" where
  "silent_download s \<longleftrightarrow> (\<exists>w \<in> set [''autodownload'', ''auto_download'', ''silentinstall'', ''silent_install''].
     str_includes (toLowerCase s) w)"

record PrivacySources =
  ps_ws :: string
  ps_lib :: string
  ps_commands :: string
  ps_media :: string
  ps_store :: string
  ps_router :: string

definition collectPrivacyAssertions :: "PrivacySources \<Rightarrow> SuiteCheck list" where
  "collectPrivacyAssertions r =
     (let loopbackBind = str_includes (ps_ws r) ''SocketAddr::from(([127, 0, 0, 1], 0))''
            \<or> str_includes (ps_ws r) ''127, 0, 0, 1'';
          originGate = str_includes (ps_ws r) ''origin rejected'' \<and> str_includes (ps_lib r) ''fn origin_allowed'';
          deniesRemote = str_includes (ps_lib r) ''false'' \<and> includes_then (ps_lib r) ''fn origin_allowed'' ''false'';
          noPermissiveCors = (\<not> allows_any_origin (ps_ws r @ ps_lib r));
          ringEphemeral = str_includes (ps_media r) ''no disk by default'' \<and> str_includes (ps_media r) ''struct RingBuffer'';
          wipe = str_includes (ps_store r) ''fn privacy_wipe''
            \<and> (str_includes (ps_store r) ''PrivacyWipeScope'' \<or> str_includes (ps_store r) ''privacy_wipe'');
          explicitInstall = str_includes (ps_commands r) ''install_model_bytes'' \<and> \<not> silent_download (ps_commands r);
          low = toLowerCase (ps_router r);
          offlinePath = str_includes (ps_router r) ''OfflineMock''
            \<or> (\<exists>w \<in> set [''local'', ''weights'', ''installed'']. str_includes low w)
      in [\<lparr>ck_id = ''net-1'',
            ck_description = ''Inference router prefers local installed weights / labeled offline mock'',
            ck_passed = offlinePath, ck_category = ''offline-inference'', ck_detail = None\<rparr>,
          \<lparr>ck_id = ''audio-1'',
            ck_description = ''Tab-capture audio uses in-memory ring buffer (no disk by default)'',
            ck_passed = ringEphemeral, ck_category = ''ephemeral-audio'', ck_detail = None\<rparr>,
          \<lparr>ck_id = ''dl-1'',
            ck_description = ''Model install is an explicit command (bytes provided by UI)'',
            ck_passed = explicitInstall, ck_category = ''explicit-download'', ck_detail = None\<rparr>,
          \<lparr>ck_id = ''wipe-1'',
            ck_description = ''local-store implements privacy_wipe scopes'',
            ck_passed = wipe, ck_category = ''local-store-wipe'', ck_detail = None\<rparr>,
          \<lparr>ck_id = ''exfil-1'',
            ck_description = ''WebSocket binds loopback and rejects disallowed Origin'',
            ck_passed = loopbackBind \<and> originGate \<and> deniesRemote \<and> noPermissiveCors,
            ck_category = ''no-exfiltration'',
            ck_detail = Some (''bind='' @ bool_str loopbackBind @ '' originGate='' @ bool_str originGate @
              '' denyRemote='' @ bool_str deniesRemote @ '' noPermissiveCors='' @ bool_str noPermissiveCors)\<rparr>])"

definition runPrivacyHarness :: "PrivacySources \<Rightarrow> ChecksReport" where
  "runPrivacyHarness r = evaluatePrivacyChecks (collectPrivacyAssertions r)"

section \<open>Lyrics sources and endpoints\<close>

primrec lyrics_source_str :: "LyricsSourceKind \<Rightarrow> string" where
  "lyrics_source_str PageCaption = ''page-caption''"
| "lyrics_source_str PageEmbedded = ''page-embedded''"
| "lyrics_source_str LrcLib = ''lrclib''"
| "lyrics_source_str UserImport = ''user-import''"
| "lyrics_source_str AsrLyrics = ''asr''"

definition lyricsPriorityIsStoreSafe :: bool where
  "lyricsPriorityIsStoreSafe \<longleftrightarrow>
     \<not> list_ex (\<lambda>s. list_ex (str_includes (lyrics_source_str s)) [''genius'', ''musixmatch'', ''lyricfind''])
         LYRICS_SOURCE_PRIORITY
     \<and> hd LYRICS_SOURCE_PRIORITY = PageCaption"

text \<open>\<open>hostname_of\<close> is \<open>new URL(url).hostname\<close>, \<open>None\<close> where it throws.\<close>

definition assertNoRemoteMtEndpoint :: "(string \<Rightarrow> string option) \<Rightarrow> string \<Rightarrow> bool" where
  "assertNoRemoteMtEndpoint hostname_of url =
     (case hostname_of url of
        None \<Rightarrow> False
      | Some host \<Rightarrow>
          \<not> list_ex (\<lambda>d. host = d \<or> endsWith host (CHR ''.'' # d))
              [''translate.googleapis.com'', ''api.deepl.com'', ''api.openai.com''])"

section \<open>Reports are means\<close>

text \<open>The running mean of a bucket is the mean of its scores.\<close>

lemma bump_mean:
  "bump x (if xs = [] then \<lparr>bk_count = 0, bk_mean = 0\<rparr> else \<lparr>bk_count = length xs, bk_mean = mean_of xs\<rparr>)
   = \<lparr>bk_count = length (xs @ [x]), bk_mean = mean_of (xs @ [x])\<rparr>"
  by (simp add: bump_def mean_of_def Let_def)

definition bucket_of :: "real list \<Rightarrow> Bucket option" where
  "bucket_of xs = (if xs = [] then None else Some \<lparr>bk_count = length xs, bk_mean = mean_of xs\<rparr>)"

lemma buckets_mean:
  "map_of (fold bucket_add ps []) k = bucket_of (map snd (filter (\<lambda>p. fst p = k) ps))"
proof (induction ps rule: rev_induct)
  case (snoc p ps)
  let ?xs = "map snd (filter (\<lambda>q. fst q = k) ps)"
  have "bump (snd p) (opt_or (bucket_of ?xs) \<lparr>bk_count = 0, bk_mean = 0\<rparr>)
      = \<lparr>bk_count = length (?xs @ [snd p]), bk_mean = mean_of (?xs @ [snd p])\<rparr>"
    using bump_mean [of "snd p" ?xs] by (cases "?xs = []") (simp_all add: bucket_of_def)
  with snoc show ?case by (auto simp: bucket_add_def js.get_put bucket_of_def)
qed (simp add: bucket_of_def)

text \<open>Sorting by the negated score lists the scores from the largest down.\<close>

lemma worst_scores: "map snd (sort_key (\<lambda>(s, x). - x) ps) = rev (sort (map snd ps))" for ps :: "('a \<times> real) list"
proof -
  let ?qs = "sort_key (\<lambda>(s, x). - x) ps"
  have "sorted (map (\<lambda>(s, x). - x) ?qs)" by (rule sorted_sort_key)
  then have "sorted_wrt (\<ge>) (map snd ?qs)"
    by (simp add: sorted_wrt_map split_def)
  then have "sorted (rev (map snd ?qs))" by (simp add: sorted_wrt_rev)
  moreover have "mset (map snd ?qs) = mset (map snd ps)" by (metis mset_map mset_sort)
  ultimately have "sort (map snd ps) = rev (map snd ?qs)" by (intro properties_for_sort) simp_all
  then show ?thesis by simp
qed

text \<open>The recognition report says what it claims to: the mean error rate is the mean over all samples,
  every language that occurs has the number of its samples and the mean over them although the
  means are kept while the samples pass by, no other language is listed, and the worst scores
  listed are the five largest in falling order.\<close>

theorem asr_report_is_mean:
  "let r = evaluateAsrSamples samples; wer = (\<lambda>s. wordErrorRate (as_reference s) (as_hypothesis s))
   in ar_sampleCount r = length samples
     \<and> ar_meanWer r * real (length samples) = sum_list (map wer samples)
     \<and> map_of (ar_perLanguage r) l = bucket_of (map wer (filter (\<lambda>s. as_language s = l) samples))
     \<and> map snd (ar_worst r) = take 5 (rev (sort (map wer samples)))"
proof -
  define wer where "wer = (\<lambda>s :: AsrSample. wordErrorRate (as_reference s) (as_hypothesis s))"
  have scored: "map (\<lambda>s. (s, wordErrorRate (as_reference s) (as_hypothesis s))) samples
      = map (\<lambda>s. (s, wer s)) samples"
    by (simp add: wer_def)
  have lang: "map snd (filter (\<lambda>p. fst p = l) (map (\<lambda>s. (as_language s, wer s)) ss))
      = map wer (filter (\<lambda>s. as_language s = l) ss)" for ss :: "AsrSample list"
    by (induction ss) simp_all
  have worst: "map snd (map (\<lambda>(s, w). (as_id s, w)) (take 5 (sort_key (\<lambda>(s, w). - w) (map (\<lambda>s. (s, wer s)) samples))))
      = take 5 (rev (sort (map wer samples)))"
    using worst_scores [of "map (\<lambda>s. (s, wer s)) samples"]
    by (simp add: comp_def split_def flip: take_map)
  show ?thesis
    unfolding Let_def wer_def [symmetric] evaluateAsrSamples_def scored
    using lang [of samples] worst
    by (simp add: mean_of_def buckets_mean comp_def bucket_of_def)
qed

lemma mt_report_is_mean:
  "let r = evaluateMtSamples samples; score = (\<lambda>s. chrF (ms_reference s) (ms_hypothesis s) 6)
   in mr_meanChrF r * real (length samples) = sum_list (map score samples)
     \<and> map_of (mr_perPair r) k
       = bucket_of (map score (filter (\<lambda>s. ms_sourceLang s @ ''->'' @ ms_targetLang s = k) samples))"
proof -
  have pair: "map snd (filter (\<lambda>p. fst p = k) (map (\<lambda>s. (f s, g s)) ss)) = map g (filter (\<lambda>s. f s = k) ss)"
    for f :: "MtSample \<Rightarrow> string" and g :: "MtSample \<Rightarrow> real" and ss
    by (induction ss) simp_all
  show ?thesis
    by (simp add: evaluateMtSamples_def mean_of_def buckets_mean pair comp_def bucket_of_def Let_def)
qed

text \<open>All rates of the gate lie between zero and one, and every case is counted once.\<close>

lemma cases_counted:
  "ac_tp a + ac_fp a + ac_fn a + ac_tn a = n \<Longrightarrow> ac_helpful a \<le> vlmFired a \<Longrightarrow> vlmFired a = ac_tp a + ac_fp a \<Longrightarrow>
   (let b = fold count_case cs a
    in ac_tp b + ac_fp b + ac_fn b + ac_tn b = n + length cs \<and> ac_helpful b \<le> vlmFired b
       \<and> vlmFired b = ac_tp b + ac_fp b)"
proof (induction cs arbitrary: a n)
  case (Cons c cs)
  let ?a = "count_case c a"
  have "ac_tp ?a + ac_fp ?a + ac_fn ?a + ac_tn ?a = n + 1" "ac_helpful ?a \<le> vlmFired ?a"
    "vlmFired ?a = ac_tp ?a + ac_fp ?a"
    using Cons.prems by (auto simp: count_case_def Let_def)
  from Cons.IH [OF this] show ?case by (simp add: Let_def)
qed simp

lemma ratio_or_unit: "0 \<le> d \<Longrightarrow> d \<le> 1 \<Longrightarrow> a \<le> n \<Longrightarrow> 0 \<le> ratio_or d a n \<and> ratio_or d a n \<le> 1"
  by (simp add: ratio_or_def divide_le_eq_1)

lemma gate_rates_bounded:
  "let r = evaluateAmbiguityCases cs
   in list_all (\<lambda>x. 0 \<le> x \<and> x \<le> 1) [am_precision r, am_recall r, am_falsePositiveRate r, helpfulResolutionRate r]"
  using cases_counted [of "\<lparr>ac_tp = 0, ac_fp = 0, ac_fn = 0, ac_tn = 0, ac_helpful = 0, vlmFired = 0\<rparr>" 0 cs]
  by (simp add: evaluateAmbiguityCases_def ratio_or_unit Let_def)

text \<open>The samples of the gate: one question of two was worth asking, and none was missed.\<close>

lemma gate_smoke:
  "am_precision runAmbiguitySyntheticMetricSmoke = 1 / 2" "am_recall runAmbiguitySyntheticMetricSmoke = 1"
  "helpfulResolutionRate runAmbiguitySyntheticMetricSmoke = 1 / 2"
  by (simp_all add: runAmbiguitySyntheticMetricSmoke_def evaluateAmbiguityCases_def count_case_def ratio_or_def Let_def)

text \<open>A check that fails is listed, and the suite passes completely only if none does.\<close>

lemma pass_rate_full: "cr_passRate (evaluatePrivacyChecks cs) = 1 \<longleftrightarrow> list_all ck_passed cs"
proof -
  have "length (filter (\<lambda>c. \<not> ck_passed c) cs) \<le> length cs" by simp
  moreover have "filter (\<lambda>c. \<not> ck_passed c) cs = [] \<longleftrightarrow> list_all ck_passed cs"
    by (simp add: filter_empty_conv list_all_iff)
  ultimately show ?thesis
    by (cases "cs = []") (auto simp: evaluatePrivacyChecks_def Let_def of_nat_diff)
qed

lemma sources_are_store_safe: "lyricsPriorityIsStoreSafe"
  by (simp add: lyricsPriorityIsStoreSafe_def LYRICS_SOURCE_PRIORITY_def startsWith_def)

text \<open>The denied hosts are refused with all their subdomains, and so is what is no address.\<close>

lemma denied_endpoints:
  "hostname_of url = Some ''api.deepl.com'' \<Longrightarrow> \<not> assertNoRemoteMtEndpoint hostname_of url"
  "hostname_of url = Some (sub @ ''.api.deepl.com'') \<Longrightarrow> \<not> assertNoRemoteMtEndpoint hostname_of url"
  "hostname_of url = None \<Longrightarrow> \<not> assertNoRemoteMtEndpoint hostname_of url"
  by (simp_all add: assertNoRemoteMtEndpoint_def endsWith_def)

end
