(* ===== verification/Contrast.thy ===== *)
theory Contrast
  imports Js_Numbers
begin

text \<open>
  The accessibility suite \<open>benchmarks/suites/accessibility.ts\<close> and the colours it measures,
  \<open>packages/ui/src/tokens.ts\<close>: relative luminance, the contrast of two colours, the reader of a
  colour from the source of the tokens, and the checks over sources that are an argument. A
  luminance that is \<open>NaN\<close> is \<open>None\<close>.
\<close>

section \<open>Colours\<close>

definition colors :: "(string \<times> string) list" where
  "colors = [(''ink'', ''#111318''), (''inkSecondary'', ''#3D4450''), (''paper'', ''#F7F8FA''),
     (''surface'', ''#FFFFFF''), (''surfaceRaised'', ''#EEF0F4''), (''signalBlue'', ''#2F6FED''),
     (''amberEvidence'', ''#C47B17''), (''errorRed'', ''#B42318''), (''success'', ''#0F7A4C''),
     (''mutedSlate'', ''#667085'')]"

definition darkColors :: "(string \<times> string) list" where
  "darkColors = [(''ink'', ''#F2F4F7''), (''inkSecondary'', ''#C5CAD3''), (''paper'', ''#12141A''),
     (''surface'', ''#1A1D26''), (''surfaceRaised'', ''#232733''), (''signalBlue'', ''#5B8DEF''),
     (''amberEvidence'', ''#E0A03A''), (''errorRed'', ''#F04438''), (''success'', ''#3DD68C''),
     (''mutedSlate'', ''#98A2B3'')]"

section \<open>Contrast\<close>

definition lin :: "real \<Rightarrow> real" where
  "lin c = (if c \<le> 0.03928 then c / 12.92 else ((c + 0.055) / 1.055) powr 2.4)"

definition remove_hash :: "string \<Rightarrow> string" where
  "remove_hash s = takeWhile (\<lambda>c. c \<noteq> CHR ''#'') s @ drop 1 (dropWhile (\<lambda>c. c \<noteq> CHR ''#'') s)"

definition channel :: "nat \<Rightarrow> string \<Rightarrow> real option" where
  "channel i h = map_option (\<lambda>v. of_int v / 255) (parseInt16 (take 2 (drop i h)))"

definition relativeLuminance :: "string \<Rightarrow> real option" where
  "relativeLuminance hex =
     (let h = remove_hash hex
      in case (channel 0 h, channel 2 h, channel 4 h) of
           (Some r, Some g, Some b) \<Rightarrow> Some (0.2126 * lin r + 0.7152 * lin g + 0.0722 * lin b)
         | _ \<Rightarrow> None)"

definition contrastRatio :: "string \<Rightarrow> string \<Rightarrow> real option" where
  "contrastRatio fg bg =
     (case (relativeLuminance fg, relativeLuminance bg) of
        (Some l1, Some l2) \<Rightarrow> Some ((max l1 l2 + 0.05) / (min l1 l2 + 0.05))
      | _ \<Rightarrow> None)"

section \<open>Reading the tokens\<close>

text \<open>The first place where \<open>m\<close> matches.\<close>

fun first_match :: "(string \<Rightarrow> 'a option) \<Rightarrow> string \<Rightarrow> 'a option" where
  "first_match m [] = m []"
| "first_match m (c # s) = (case m (c # s) of Some x \<Rightarrow> Some x | None \<Rightarrow> first_match m s)"

definition newline :: char where
  "newline = char_of (10 :: nat)"

text \<open>\<open>([\s\S]*?)\n\}\<close>.\<close>

fun up_to_brace :: "string \<Rightarrow> string option" where
  "up_to_brace [] = None"
| "up_to_brace (c # s) =
     (if c = newline \<and> take 1 s = ''}'' then Some [] else map_option ((#) c) (up_to_brace s))"

text \<open>What \<open>lit\<close> and blanks after it are followed by.\<close>

definition after :: "string \<Rightarrow> string \<Rightarrow> string option" where
  "after lit s = (if startsWith s lit then Some (dropWhile is_ws (drop (length lit) s)) else None)"

definition block_at :: "string \<Rightarrow> string \<Rightarrow> string option" where
  "block_at objectName s =
     Option.bind (after (''export const '' @ objectName) s) (\<lambda>s.
       Option.bind (after ''='' s) (\<lambda>s. if startsWith s ''{'' then up_to_brace (drop 1 s) else None))"

definition hex_at :: "string \<Rightarrow> string \<Rightarrow> string option" where
  "hex_at key s =
     Option.bind (after (key @ '':'') s) (\<lambda>s.
       let q = char_of (34 :: nat); v = take 7 (drop 1 s)
       in if take 1 s = [q] \<and> take 1 v = ''#'' \<and> length v = 7 \<and> list_all (\<lambda>c. based_digit c < 16) (drop 1 v)
             \<and> take 1 (drop 8 s) = [q]
          then Some v else None)"

definition tokenHex :: "string \<Rightarrow> string \<Rightarrow> string \<Rightarrow> string + string" where
  "tokenHex src objectName key =
     (case first_match (block_at objectName) src of
        None \<Rightarrow> Inl (''missing '' @ objectName @ '' in tokens.ts'')
      | Some block \<Rightarrow>
          if block = [] then Inl (''missing '' @ objectName @ '' in tokens.ts'')
          else (case first_match (hex_at key) block of
                  None \<Rightarrow> Inl (''missing '' @ objectName @ ''.'' @ key)
                | Some hex \<Rightarrow> Inr hex))"

section \<open>Checks\<close>

record AccessibilityCheck =
  ay_id :: string
  ay_description :: string
  ay_passed :: bool
  ay_wcag :: string
  ay_detail :: "string option"

record AccessibilitySources =
  tokensTs :: string
  tokensCss :: string
  captionSrc :: string
  statusSrc :: string
  transcriptSrc :: string
  buttonSrc :: string
  focusSrc :: string

definition quoted :: "string \<Rightarrow> string" where
  "quoted s = (let q = char_of (34 :: nat) in q # s @ [q])"

text \<open>A comparison with \<open>NaN\<close> is false, and \<open>NaN\<close> prints as itself.\<close>

definition contrast_check :: "string \<Rightarrow> string \<Rightarrow> string \<Rightarrow> string \<Rightarrow> AccessibilityCheck" where
  "contrast_check i description fg bg =
     (let r = contrastRatio fg bg
      in \<lparr>ay_id = i, ay_description = description, ay_passed = (case r of None \<Rightarrow> False | Some x \<Rightarrow> 4.5 \<le> x), ay_wcag = ''AA'',
          ay_detail = Some (''ratio='' @ (case r of None \<Rightarrow> ''NaN'' | Some x \<Rightarrow> to_fixed 2 x)
            @ '' ('' @ fg @ ''/'' @ bg @ '')'')\<rparr>)"

definition source_checks :: "AccessibilitySources \<Rightarrow> AccessibilityCheck list" where
  "source_checks r =
     [\<lparr>ay_id = ''focus-1'',
       ay_description = ''Interactive controls expose a visible focus ring class/style'',
       ay_passed = (str_includes (tokensCss r) ''.llm-focus-ring:focus-visible''
         \<and> str_includes (buttonSrc r) ''llm-focus-ring'' \<and> str_includes (focusSrc r) ''focusRingStyle''),
       ay_wcag = ''AA'', ay_detail = None\<rparr>,
      \<lparr>ay_id = ''live-1'',
       ay_description = ''StatusRegion announces via aria-live=polite; CaptionOverlay can opt in'',
       ay_passed = (str_includes (statusSrc r) (''aria-live='' @ quoted ''polite'')
         \<and> str_includes (captionSrc r) (quoted ''aria-live'' @ '': '' @ quoted ''polite'')),
       ay_wcag = ''AA'', ay_detail = None\<rparr>,
      \<lparr>ay_id = ''keyboard-1'',
       ay_description = ''Transcript list items are keyboard activatable (Enter/Space)'',
       ay_passed = (str_includes (transcriptSrc r) (''event.key === '' @ quoted ''Enter'')
         \<and> str_includes (transcriptSrc r) (''event.key === '' @ quoted '' '')
         \<and> str_includes (transcriptSrc r) (''role='' @ quoted ''listitem'')
         \<and> str_includes (transcriptSrc r) ''onKeyDown''),
       ay_wcag = ''A'', ay_detail = None\<rparr>,
      \<lparr>ay_id = ''motion-1'',
       ay_description = ''tokens.css respects prefers-reduced-motion'',
       ay_passed = (str_includes (tokensCss r) ''@media (prefers-reduced-motion: reduce)''
         \<and> str_includes (tokensCss r) ''.llm-motion-safe''),
       ay_wcag = ''best-practice'', ay_detail = None\<rparr>]"

definition collectAccessibilityAssertions :: "AccessibilitySources \<Rightarrow> string + AccessibilityCheck list" where
  "collectAccessibilityAssertions r =
     (case tokenHex (tokensTs r) ''colors'' ''ink'' of Inl e \<Rightarrow> Inl e | Inr lightInk \<Rightarrow>
      case tokenHex (tokensTs r) ''colors'' ''paper'' of Inl e \<Rightarrow> Inl e | Inr lightPaper \<Rightarrow>
      case tokenHex (tokensTs r) ''darkColors'' ''ink'' of Inl e \<Rightarrow> Inl e | Inr darkInk \<Rightarrow>
      case tokenHex (tokensTs r) ''darkColors'' ''paper'' of Inl e \<Rightarrow> Inl e | Inr darkPaper \<Rightarrow>
        Inr (contrast_check ''contrast-light'' ''Ink on Paper meets 4.5:1 contrast for body text (light)''
               lightInk lightPaper
             # contrast_check ''contrast-dark'' ''Ink on Paper meets 4.5:1 contrast for body text (dark)''
               darkInk darkPaper # source_checks r))"

record AccessibilityEvalReport =
  ae_checkCount :: nat
  ae_passRate :: real
  ae_failures :: "AccessibilityCheck list"

definition evaluateAccessibilityChecks :: "AccessibilityCheck list \<Rightarrow> AccessibilityEvalReport" where
  "evaluateAccessibilityChecks cs =
     (let failures = filter (\<lambda>c. \<not> ay_passed c) cs
      in \<lparr>ae_checkCount = length cs,
          ae_passRate = (if cs = [] then 1 else real (length cs - length failures) / real (length cs)),
          ae_failures = failures\<rparr>)"

definition runAccessibilityHarness :: "AccessibilitySources \<Rightarrow> string + AccessibilityEvalReport" where
  "runAccessibilityHarness r = map_sum id evaluateAccessibilityChecks (collectAccessibilityAssertions r)"

section \<open>Bounds\<close>

text \<open>The power 2.4 lies between the cube and the square on the unit interval.\<close>

lemma powr_between:
  fixes x :: real
  assumes "0 < x" "x \<le> 1"
  shows "x ^ 3 \<le> x powr 2.4" "x powr 2.4 \<le> x ^ 2"
proof -
  have "x powr 3 \<le> x powr 2.4" "x powr 2.4 \<le> x powr 2"
    by (rule powr_mono'; use assms in simp)+
  with assms(1) show "x ^ 3 \<le> x powr 2.4" "x powr 2.4 \<le> x ^ 2" by simp_all
qed

lemma lin_bounds:
  assumes "0.03928 < c" "c \<le> 1"
  shows "((c + 0.055) / 1.055) ^ 3 \<le> lin c" "lin c \<le> ((c + 0.055) / 1.055) ^ 2"
  using assms powr_between [of "(c + 0.055) / 1.055"] by (simp_all add: lin_def)

lemma lin_unit: "0 \<le> c \<Longrightarrow> c \<le> 1 \<Longrightarrow> 0 \<le> lin c \<and> lin c \<le> 1"
proof (cases "c \<le> 0.03928")
  case False
  assume c: "0 \<le> c" "c \<le> 1"
  let ?x = "(c + 0.055) / 1.055"
  have "0 \<le> ?x" "?x \<le> 1" using c by simp_all
  then have "0 \<le> ?x ^ 3" "?x ^ 2 \<le> 1" by (simp_all add: power_le_one)
  with lin_bounds [of c] False c show ?thesis by linarith
qed (simp add: lin_def)

text \<open>A colour: a hash and six digits in base 16.\<close>

definition hex_colour :: "string \<Rightarrow> bool" where
  "hex_colour s \<longleftrightarrow> length s = 7 \<and> take 1 s = ''#'' \<and> list_all (\<lambda>c. based_digit c < 16) (drop 1 s)"

lemma based_digit_plain:
  assumes "based_digit c < 16"
  shows "\<not> is_ws c" "c \<noteq> CHR ''-''" "c \<noteq> CHR ''+''" "c \<noteq> CHR ''#''" "c \<noteq> CHR ''x''" "c \<noteq> CHR ''X''"
proof -
  have marks: "\<not> based_digit (CHR ''-'') < 16" "\<not> based_digit (CHR ''+'') < 16" "\<not> based_digit (CHR ''#'') < 16"
    "\<not> based_digit (CHR ''x'') < 16" "\<not> based_digit (CHR ''X'') < 16" by code_simp+
  with assms show "c \<noteq> CHR ''-''" "c \<noteq> CHR ''+''" "c \<noteq> CHR ''#''" "c \<noteq> CHR ''x''" "c \<noteq> CHR ''X''" by auto
  show "\<not> is_ws c" using assms
    by (auto simp: based_digit_def is_digit_def lower_char_def is_ws_def split: if_splits)
qed

lemma parse_pair:
  assumes "based_digit a < 16" "based_digit b < 16"
  shows "parseInt16 [a, b] = Some (int (16 * based_digit a + based_digit b))"
proof -
  have "\<not> is_digit (CHR ''x'')" by code_simp
  then have "lower_char b \<noteq> CHR ''x''"
    using assms(2) digit_facts(6) [of b] by (auto simp: based_digit_def split: if_splits)
  then show ?thesis
    using assms based_digit_plain [OF assms(1)] by (simp add: parseInt16_def trim_start_def toLowerCase_def)
qed

lemma luminance_unit:
  assumes "hex_colour s"
  shows "\<exists>l. relativeLuminance s = Some l \<and> 0 \<le> l \<and> l \<le> 1"
proof -
  obtain a b c d e f where s: "s = [CHR ''#'', a, b, c, d, e, f]"
    using assms by (auto simp: hex_colour_def length_Suc_conv eval_nat_numeral)
  have digits: "based_digit a < 16" "based_digit b < 16" "based_digit c < 16" "based_digit d < 16"
    "based_digit e < 16" "based_digit f < 16" using assms s by (simp_all add: hex_colour_def)
  have unit: "0 \<le> lin (real_of_int (int (16 * based_digit x + based_digit y)) / 255)
      \<and> lin (real_of_int (int (16 * based_digit x + based_digit y)) / 255) \<le> 1"
    if "based_digit x < 16" "based_digit y < 16" for x y
  proof (rule lin_unit)
    have "16 * based_digit x + based_digit y \<le> 255" using that by linarith
    then have "real (16 * based_digit x + based_digit y) \<le> 255" by (metis of_nat_le_iff of_nat_numeral)
    then show "real_of_int (int (16 * based_digit x + based_digit y)) / 255 \<le> 1" by simp
  qed simp
  have "remove_hash s = [a, b, c, d, e, f]" by (simp add: s remove_hash_def)
  then have lum: "relativeLuminance s = Some (0.2126 * lin (real_of_int (int (16 * based_digit a + based_digit b)) / 255)
      + 0.7152 * lin (real_of_int (int (16 * based_digit c + based_digit d)) / 255)
      + 0.0722 * lin (real_of_int (int (16 * based_digit e + based_digit f)) / 255))"
    using digits by (simp add: relativeLuminance_def channel_def parse_pair)
  have mix: "0 \<le> 0.2126 * x + 0.7152 * y + 0.0722 * z \<and> 0.2126 * x + 0.7152 * y + 0.0722 * z \<le> 1"
    if "0 \<le> x \<and> x \<le> 1" "0 \<le> y \<and> y \<le> 1" "0 \<le> z \<and> z \<le> 1" for x y z :: real
  proof
    from that have "0 \<le> x" "x \<le> 1" "0 \<le> y" "y \<le> 1" "0 \<le> z" "z \<le> 1" by blast+
    then show "0 \<le> 0.2126 * x + 0.7152 * y + 0.0722 * z"
      by (intro add_nonneg_nonneg mult_nonneg_nonneg) simp_all
    have "0.2126 * x \<le> 0.2126" "0.7152 * y \<le> 0.7152" "0.0722 * z \<le> 0.0722"
      using \<open>x \<le> 1\<close> \<open>y \<le> 1\<close> \<open>z \<le> 1\<close> by simp_all
    then have "0.2126 * x + 0.7152 * y + 0.0722 * z \<le> 0.2126 + 0.7152 + 0.0722" by (intro add_mono)
    then show "0.2126 * x + 0.7152 * y + 0.0722 * z \<le> 1" by simp
  qed
  show ?thesis
    by (rule exI, rule conjI [OF lum mix [OF unit [OF digits(1,2)] unit [OF digits(3,4)] unit [OF digits(5,6)]]])
qed

text \<open>Two colours have a contrast from 1 to 21, the same in either order.\<close>

lemma contrast_bounds:
  assumes "hex_colour fg" "hex_colour bg"
  shows "\<exists>r. contrastRatio fg bg = Some r \<and> contrastRatio bg fg = Some r \<and> 1 \<le> r \<and> r \<le> 21"
proof -
  obtain l m where l: "relativeLuminance fg = Some l" "0 \<le> l" "l \<le> 1"
    and m: "relativeLuminance bg = Some m" "0 \<le> m" "m \<le> 1"
    using luminance_unit assms by blast
  have "0 < min l m + 0.05" using l m by simp
  then have "(max l m + 0.05) / (min l m + 0.05) \<ge> 1" by (simp add: pos_le_divide_eq)
  moreover have "(max l m + 0.05) / (min l m + 0.05) \<le> 21"
    using l m by (simp add: pos_divide_le_eq)
  ultimately show ?thesis using l(1) m(1) by (simp add: contrastRatio_def max.commute min.commute)
qed

section \<open>The colours of the program\<close>

lemma ink_luminance:
  "relativeLuminance ''#111318'' = Some (0.2126 * lin (17 / 255) + 0.7152 * lin (19 / 255) + 0.0722 * lin (24 / 255))"
  "relativeLuminance ''#F2F4F7'' = Some (0.2126 * lin (242 / 255) + 0.7152 * lin (244 / 255) + 0.0722 * lin (247 / 255))"
proof -
  have "parseInt16 ''11'' = Some 17" "parseInt16 ''13'' = Some 19" "parseInt16 ''18'' = Some 24"
    "remove_hash ''#111318'' = ''111318''" by code_simp+
  then show "relativeLuminance ''#111318'' = Some (0.2126 * lin (17 / 255) + 0.7152 * lin (19 / 255) + 0.0722 * lin (24 / 255))"
    by (simp add: relativeLuminance_def channel_def)
  have "parseInt16 ''F2'' = Some 242" "parseInt16 ''F4'' = Some 244" "parseInt16 ''F7'' = Some 247"
    "remove_hash ''#F2F4F7'' = ''F2F4F7''" by code_simp+
  then show "relativeLuminance ''#F2F4F7'' = Some (0.2126 * lin (242 / 255) + 0.7152 * lin (244 / 255) + 0.0722 * lin (247 / 255))"
    by (simp add: relativeLuminance_def channel_def)
qed

lemma paper_luminance:
  "relativeLuminance ''#F7F8FA'' = Some (0.2126 * lin (247 / 255) + 0.7152 * lin (248 / 255) + 0.0722 * lin (250 / 255))"
  "relativeLuminance ''#12141A'' = Some (0.2126 * lin (18 / 255) + 0.7152 * lin (20 / 255) + 0.0722 * lin (26 / 255))"
proof -
  have "parseInt16 ''F7'' = Some 247" "parseInt16 ''F8'' = Some 248" "parseInt16 ''FA'' = Some 250"
    "remove_hash ''#F7F8FA'' = ''F7F8FA''" by code_simp+
  then show "relativeLuminance ''#F7F8FA'' = Some (0.2126 * lin (247 / 255) + 0.7152 * lin (248 / 255) + 0.0722 * lin (250 / 255))"
    by (simp add: relativeLuminance_def channel_def)
  have "parseInt16 ''12'' = Some 18" "parseInt16 ''14'' = Some 20" "parseInt16 ''1A'' = Some 26"
    "remove_hash ''#12141A'' = ''12141A''" by code_simp+
  then show "relativeLuminance ''#12141A'' = Some (0.2126 * lin (18 / 255) + 0.7152 * lin (20 / 255) + 0.0722 * lin (26 / 255))"
    by (simp add: relativeLuminance_def channel_def)
qed

lemma amber_luminance:
  "relativeLuminance ''#C47B17'' = Some (0.2126 * lin (196 / 255) + 0.7152 * lin (123 / 255) + 0.0722 * lin (23 / 255))"
proof -
  have "parseInt16 ''C4'' = Some 196" "parseInt16 ''7B'' = Some 123" "parseInt16 ''17'' = Some 23"
    "remove_hash ''#C47B17'' = ''C47B17''" by code_simp+
  then show ?thesis by (simp add: relativeLuminance_def channel_def)
qed

lemma lin_pale:
  assumes "0.94 \<le> c" "c \<le> 1"
  shows "0.83 \<le> lin c" "lin c \<le> 1"
proof -
  have "(0.83 :: real) \<le> 0.94 ^ 3" by (simp add: power3_eq_cube)
  also have "\<dots> \<le> ((c + 0.055) / 1.055) ^ 3" using assms by (intro power_mono) simp_all
  also have "\<dots> \<le> lin c" using assms by (intro lin_bounds) simp_all
  finally show "0.83 \<le> lin c" .
  show "lin c \<le> 1" using assms lin_unit [of c] by simp
qed

lemma lin_deep:
  assumes "0.06 \<le> c" "c \<le> 0.105"
  shows "0 \<le> lin c" "lin c \<le> 0.025"
proof -
  have "lin c \<le> ((c + 0.055) / 1.055) ^ 2" using assms by (intro lin_bounds) simp_all
  also have "\<dots> \<le> 0.152 ^ 2" using assms by (intro power_mono) simp_all
  also have "(0.152 :: real) ^ 2 \<le> 0.025" by (simp add: power2_eq_square)
  finally show "lin c \<le> 0.025" .
  show "0 \<le> lin c" using assms lin_unit [of c] by simp
qed

lemma contrast_ge:
  assumes "relativeLuminance fg = Some l" "relativeLuminance bg = Some m" "k * (min l m + 0.05) \<le> max l m + 0.05"
    "0 \<le> l" "0 \<le> m"
  shows "\<exists>r. contrastRatio fg bg = Some r \<and> k \<le> r"
  using assms by (simp add: contrastRatio_def pos_le_divide_eq)

lemma contrast_less:
  assumes "relativeLuminance fg = Some l" "relativeLuminance bg = Some m" "max l m + 0.05 < k * (min l m + 0.05)"
    "0 \<le> l" "0 \<le> m"
  shows "\<exists>r. contrastRatio fg bg = Some r \<and> r < k"
  using assms by (simp add: contrastRatio_def pos_divide_less_eq)

definition has_contrast :: "real \<Rightarrow> string \<Rightarrow> (string \<times> string) list \<Rightarrow> bool" where
  "has_contrast k fg theme =
     (case (map_of theme fg, map_of theme ''paper'') of
        (Some f, Some p) \<Rightarrow> (case contrastRatio f p of Some r \<Rightarrow> k \<le> r | None \<Rightarrow> False)
      | _ \<Rightarrow> False)"

text \<open>Amber on light paper, a good deal below.\<close>

lemma amber_contrast: "\<exists>r. contrastRatio ''#C47B17'' ''#F7F8FA'' = Some r \<and> r < 4.5"
proof (rule contrast_less [OF amber_luminance paper_luminance(1)])
  have "(0.78 :: real) ^ 3 \<le> ((196 / 255 + 0.055) / 1.055) ^ 3" "(0.5 :: real) ^ 3 \<le> ((123 / 255 + 0.055) / 1.055) ^ 3"
    by (intro power_mono; simp)+
  then have "0.47 \<le> lin (196 / 255)" "0.125 \<le> lin (123 / 255)" "0 \<le> lin (23 / 255)"
    using lin_bounds(1) [of "196 / 255"] lin_bounds(1) [of "123 / 255"] lin_unit [of "23 / 255"]
    by (simp_all add: power3_eq_cube)
  moreover have "lin (196 / 255) \<le> 0.7" "lin (123 / 255) \<le> 0.7" "lin (23 / 255) \<le> 0.7"
  proof -
    have "((196 / 255 + 0.055) / 1.055) ^ 2 \<le> (0.79 :: real) ^ 2" "((123 / 255 + 0.055) / 1.055) ^ 2 \<le> (0.79 :: real) ^ 2"
      "((23 / 255 + 0.055) / 1.055) ^ 2 \<le> (0.79 :: real) ^ 2"
      by (intro power_mono; simp)+
    then show "lin (196 / 255) \<le> 0.7" "lin (123 / 255) \<le> 0.7" "lin (23 / 255) \<le> 0.7"
      using lin_bounds(2) [of "196 / 255"] lin_bounds(2) [of "123 / 255"] lin_bounds(2) [of "23 / 255"]
      by (simp_all add: power2_eq_square)
  qed
  moreover have "lin (247 / 255) \<le> 0.945" "lin (248 / 255) \<le> 0.951" "lin (250 / 255) \<le> 1"
  proof -
    have "((247 / 255 + 0.055) / 1.055) ^ 2 \<le> (0.972 :: real) ^ 2" "((248 / 255 + 0.055) / 1.055) ^ 2 \<le> (0.975 :: real) ^ 2"
      by (intro power_mono; simp)+
    then show "lin (247 / 255) \<le> 0.945" "lin (248 / 255) \<le> 0.951" "lin (250 / 255) \<le> 1"
      using lin_bounds(2) [of "247 / 255"] lin_bounds(2) [of "248 / 255"] lin_unit [of "250 / 255"]
      by (simp_all add: power2_eq_square)
  qed
  moreover have "0.83 \<le> lin (247 / 255)" "0.83 \<le> lin (248 / 255)" "0.83 \<le> lin (250 / 255)"
    using lin_pale [of "247 / 255"] lin_pale [of "248 / 255"] lin_pale [of "250 / 255"] by simp_all
  ultimately show "max (0.2126 * lin (196 / 255) + 0.7152 * lin (123 / 255) + 0.0722 * lin (23 / 255))
      (0.2126 * lin (247 / 255) + 0.7152 * lin (248 / 255) + 0.0722 * lin (250 / 255)) + 0.05
    < 4.5 * (min (0.2126 * lin (196 / 255) + 0.7152 * lin (123 / 255) + 0.0722 * lin (23 / 255))
      (0.2126 * lin (247 / 255) + 0.7152 * lin (248 / 255) + 0.0722 * lin (250 / 255)) + 0.05)"
    "0 \<le> 0.2126 * lin (196 / 255) + 0.7152 * lin (123 / 255) + 0.0722 * lin (23 / 255)"
    "0 \<le> 0.2126 * lin (247 / 255) + 0.7152 * lin (248 / 255) + 0.0722 * lin (250 / 255)"
    by (simp_all add: min_def max_def)
qed

text \<open>
  Text can be read: ink on paper has at least the contrast of 4.5 to 1 that body text needs, in the
  light and in the dark theme, so the checks of the suite pass for these colours; but amber, the
  colour of uncertain lines and of confidences, does not reach it on light paper.\<close>

theorem body_text_contrast:
  "has_contrast 4.5 ''ink'' colors \<and> has_contrast 4.5 ''ink'' darkColors
   \<and> ay_passed (contrast_check i d ''#111318'' ''#F7F8FA'') \<and> ay_passed (contrast_check i d ''#F2F4F7'' ''#12141A'')
   \<and> \<not> has_contrast 4.5 ''amberEvidence'' colors"
proof -
  have light: "\<exists>r. contrastRatio ''#111318'' ''#F7F8FA'' = Some r \<and> 4.5 \<le> r"
    by (rule contrast_ge [OF ink_luminance(1) paper_luminance(1)])
      (use lin_deep [of "17 / 255"] lin_deep [of "19 / 255"] lin_deep [of "24 / 255"]
        lin_pale [of "247 / 255"] lin_pale [of "248 / 255"] lin_pale [of "250 / 255"] in \<open>simp_all add: min_def max_def\<close>)
  have dark: "\<exists>r. contrastRatio ''#F2F4F7'' ''#12141A'' = Some r \<and> 4.5 \<le> r"
    by (rule contrast_ge [OF ink_luminance(2) paper_luminance(2)])
      (use lin_deep [of "18 / 255"] lin_deep [of "20 / 255"] lin_deep [of "26 / 255"]
        lin_pale [of "242 / 255"] lin_pale [of "244 / 255"] lin_pale [of "247 / 255"] in \<open>simp_all add: min_def max_def\<close>)
  show ?thesis
    using light dark amber_contrast by (auto simp: has_contrast_def colors_def darkColors_def contrast_check_def)
qed

end
