(* ===== verification/Desktop_Api.thy ===== *)
theory Desktop_Api
  imports Js_Numbers Js_Values
begin

text \<open>
  The desktop manager's door to the companion, \<open>apps/desktop/src/api.ts\<close>: the values it is
  answered, the commands it can give, the guard in front of all of them and the printing of sizes.
  What the companion answers is an argument; a command that fails throws. A command given is
  returned together with its outcome, so that a run of the manager has the list of all it asked.
\<close>

section \<open>Answers\<close>

record HealthSnapshot =
  serviceRunning :: bool
  hs_port :: nat
  hs_protocolVersion :: string
  extensionIdPinned :: bool
  allowedExtensionId :: "string option"
  dataDir :: string
  sqliteReady :: bool
  modelCatalogReady :: bool
  activeSessions :: nat
  jobCount :: nat
  hs_lyricsNetworkAllowed :: bool

record ModelStatusEntry =
  mo_id :: string
  mo_family :: string
  mo_task :: string
  mo_licenseClass :: "string option"
  commercialDefault :: bool
  hardwareMin :: "string option"
  mo_backend :: "string option"
  installed :: bool
  diskBytes :: nat
  downloadUrlHint :: "string option"
  mo_notes :: "string option"

record DiskPath =
  dp_label :: string
  dp_path :: string
  dp_bytes :: nat

record DiskEstimate =
  dataDirBytes :: nat
  sqliteBytes :: nat
  modelsBytes :: nat
  totalBytes :: nat
  disk_paths :: "DiskPath list"

record StorageSnapshot =
  so_retention :: string
  so_disk :: DiskEstimate
  dictionaryCount :: nat
  dictionaryEntries :: nat
  so_lyricsNetworkAllowed :: bool

record DictionaryMeta =
  dm_id :: string
  dm_name :: string
  dm_language :: string
  dm_license :: string
  entryCount :: nat
  dm_payloadPath :: string
  importedAtMs :: int

record JobView =
  jv_id :: string
  jv_kind :: string
  jv_videoId :: string
  jv_status :: string
  jv_fraction :: real
  cancelled :: bool
  paused :: bool

record BackendDiscovery =
  bd_name :: string
  bd_kind :: string
  available :: bool
  bd_path :: "string option"
  bd_detail :: string

record HardwareSnapshot =
  ramGb :: real
  vramGb :: real
  recommendedProfile :: string
  selectedProfile :: string
  backends :: "BackendDiscovery list"
  hw_notes :: string

record LicenseEntry =
  li_id :: string
  li_family :: string
  li_task :: string
  li_licenseClass :: "string option"
  li_commercialDefault :: bool
  li_notes :: "string option"

record UpdateStatus =
  configured :: bool
  pubkeyConfigured :: bool
  endpoints :: "string list"
  currentVersion :: string
  us_message :: string

record NativeHostRepairResult =
  nh_ok :: bool
  nh_extensionId :: string
  manifestPath :: "string option"
  wrapperPath :: "string option"
  nh_message :: string

record ModelVerifyReport =
  vr_modelId :: string
  vr_installed :: bool
  digestOk :: bool
  expectedDigest :: "string option"
  actualDigest :: "string option"
  markerPresent :: bool
  weightPath :: "string option"

section \<open>Commands\<close>

datatype Command =
    GetHealth | StartService | StopService
  | ListModels | VerifyModel string | RemoveModel string | InstallModelBytes string string "nat list"
  | GetDiskEstimate | GetStorage | SetRetention string | WipePrivacy string
  | ListDictionaries | ListJobs | CancelJob string
  | GetHardware | SetHardwareProfile string | DiscoverBackends
  | ListLicenses | GetUpdateStatus | ExportLogs "string option"
  | PinExtension string | RepairNativeHost string | GetDiagnostics | SetLyricsNetwork bool

fun command_name :: "Command \<Rightarrow> string" where
  "command_name GetHealth = ''get_health''"
| "command_name StartService = ''start_service''"
| "command_name StopService = ''stop_service''"
| "command_name ListModels = ''list_models''"
| "command_name (VerifyModel m) = ''verify_model''"
| "command_name (RemoveModel m) = ''remove_model''"
| "command_name (InstallModelBytes m f bs) = ''install_model_bytes''"
| "command_name GetDiskEstimate = ''disk_estimate''"
| "command_name GetStorage = ''get_storage''"
| "command_name (SetRetention p) = ''set_retention''"
| "command_name (WipePrivacy sc) = ''wipe_privacy''"
| "command_name ListDictionaries = ''list_dictionaries''"
| "command_name ListJobs = ''list_jobs''"
| "command_name (CancelJob j) = ''cancel_job''"
| "command_name GetHardware = ''get_hardware''"
| "command_name (SetHardwareProfile p) = ''set_hardware_profile''"
| "command_name DiscoverBackends = ''discover_backends''"
| "command_name ListLicenses = ''list_licenses''"
| "command_name GetUpdateStatus = ''get_update_status''"
| "command_name (ExportLogs d) = ''export_logs''"
| "command_name (PinExtension i) = ''pin_extension''"
| "command_name (RepairNativeHost i) = ''repair_native_host_registration''"
| "command_name GetDiagnostics = ''get_diagnostics''"
| "command_name (SetLyricsNetwork b) = ''set_lyrics_network''"

fun command_args :: "Command \<Rightarrow> (string \<times> json) list" where
  "command_args (VerifyModel m) = [(''modelId'', JStr m)]"
| "command_args (RemoveModel m) = [(''modelId'', JStr m)]"
| "command_args (InstallModelBytes m f bs) =
     [(''modelId'', JStr m), (''filename'', JStr f), (''bytes'', JArr (map (\<lambda>b. JNum (real b)) bs))]"
| "command_args (SetRetention p) = [(''preset'', JStr p)]"
| "command_args (WipePrivacy sc) = [(''scope'', JStr sc)]"
| "command_args (CancelJob j) = [(''jobId'', JStr j)]"
| "command_args (SetHardwareProfile p) = [(''profile'', JStr p)]"
| "command_args (ExportLogs d) = (case d of Some p \<Rightarrow> if p = [] then [] else [(''dest'', JStr p)] | None \<Rightarrow> [])"
| "command_args (PinExtension i) = [(''extensionId'', JStr i)]"
| "command_args (RepairNativeHost i) = [(''extensionId'', JStr i)]"
| "command_args (SetLyricsNetwork b) = [(''allowed'', JBool b)]"
| "command_args _ = []"

text \<open>What is thrown: an \<open>Error\<close> of the manager, or what the companion rejects with, as \<open>String\<close> prints it.\<close>

datatype Thrown = JsError string | Rejected string

primrec thrown_str :: "Thrown \<Rightarrow> string" where
  "thrown_str (JsError m) = ''Error: '' @ m"
| "thrown_str (Rejected s) = s"

definition unavailable :: "Command \<Rightarrow> Thrown" where
  "unavailable cmd = JsError (''Tauri IPC unavailable for '' @ command_name cmd @ '' (open via desktop app)'')"

definition call :: "bool \<Rightarrow> Command \<Rightarrow> Thrown + 'a \<Rightarrow> (Thrown + 'a) \<times> Command list" where
  "call isTauri cmd answer = (if isTauri then (answer, [cmd]) else (Inl (unavailable cmd), []))"

section \<open>Sizes\<close>

definition formatBytes :: "nat \<Rightarrow> string" where
  "formatBytes n =
     (if n < 1024 then nat_str n @ '' B''
      else if n < 1024 * 1024 then to_fixed 1 (real n / 1024) @ '' KB''
      else if n < 1024 * 1024 * 1024 then to_fixed 1 (real n / (1024 * 1024)) @ '' MB''
      else to_fixed 2 (real n / (1024 * 1024 * 1024)) @ '' GB'')"

text \<open>Just below a unit the rounded number is the unit itself.\<close>

lemma kilobytes_round_up: "formatBytes 1048575 = ''1024.0 KB''"
proof -
  have "\<lfloor>real 1048575 / 1024 * 10 ^ 1 + 1 / 2\<rfloor> = 10240" by (simp add: floor_eq_iff)
  moreover have "nat_str 1024 = ''1024''" "nat_str 0 = ''0''" by code_simp+
  ultimately show ?thesis by (simp add: formatBytes_def to_fixed_def)
qed

end
