(* ===== verification/Desktop.thy ===== *)
theory Desktop
  imports Desktop_Api Ui_Widgets
begin

text \<open>
  The desktop manager: the shell of \<open>apps/desktop/src/App.tsx\<close> and its nine pages,
  \<open>apps/desktop/src/views/*.tsx\<close>. A page is mounted when it is opened and forgotten when another one
  is; each handler is a function that gives the new page and the commands it gave to the companion.
  What the companion answers during a handler is an argument, and a handler runs to its end before
  the next one. The dash and the ellipsis are in ASCII.
\<close>

section \<open>Pages\<close>

datatype Tone = TInfo | TSuccess | TWarn | TError

record Banner =
  bn_status :: string
  bn_tone :: Tone

record OverviewPage = Banner +
  ov_health :: "HealthSnapshot option"
  ov_extensionId :: string
  ov_disk :: string

record ModelsPage = Banner +
  md_models :: "ModelStatusEntry list"
  md_report :: "ModelVerifyReport option"

record DictionariesPage = Banner +
  dc_dicts :: "DictionaryMeta list"

record StoragePage = Banner +
  sg_snap :: "StorageSnapshot option"

record JobsPage = Banner +
  jb_jobs :: "JobView list"

record HardwarePage = Banner +
  hp_hw :: "HardwareSnapshot option"

record DiagnosticsPage = Banner +
  dg_payload :: "json option"

record LicensesPage = Banner +
  lp_rows :: "LicenseEntry list"

record UpdatesPage = Banner +
  up_info :: "UpdateStatus option"

text \<open>What the companion answers to each command during one handler.\<close>

record Answers =
  a_health :: "Thrown + HealthSnapshot"
  a_start :: "Thrown + HealthSnapshot"
  a_stop :: "Thrown + HealthSnapshot"
  a_models :: "Thrown + ModelStatusEntry list"
  a_verify :: "Thrown + ModelVerifyReport"
  a_remove :: "Thrown + bool"
  a_disk :: "Thrown + DiskEstimate"
  a_storage :: "Thrown + StorageSnapshot"
  a_retention :: "Thrown + string"
  a_wipe :: "Thrown + json"
  a_dicts :: "Thrown + DictionaryMeta list"
  a_jobs :: "Thrown + JobView list"
  a_cancel :: "Thrown + bool"
  a_hardware :: "Thrown + HardwareSnapshot"
  a_profile :: "Thrown + HardwareSnapshot"
  a_licenses :: "Thrown + LicenseEntry list"
  a_update :: "Thrown + UpdateStatus"
  a_logs :: "Thrown + string"
  a_pin :: "Thrown + string"
  a_repair :: "Thrown + NativeHostRepairResult"
  a_diagnostics :: "Thrown + json"
  a_lyrics :: "Thrown + bool"
  a_stringify :: "json \<Rightarrow> string"

definition say :: "Tone \<Rightarrow> string \<Rightarrow> ('a Banner_scheme) \<Rightarrow> 'a Banner_scheme" where
  "say t m v = v\<lparr>bn_tone := t, bn_status := m\<rparr>"

definition failed :: "Thrown \<Rightarrow> 'a Banner_scheme \<Rightarrow> 'a Banner_scheme" where
  "failed e v = say TError (thrown_str e) v"

text \<open>
  A command and what follows it: the handler of what was thrown, or the rest of the block. The
  commands of both are given in order.
\<close>

type_synonym 'v outcome = "'v \<times> Command list"

definition await :: "(Thrown + 'a) \<times> Command list \<Rightarrow> (Thrown \<Rightarrow> 'v outcome) \<Rightarrow> ('a \<Rightarrow> 'v outcome) \<Rightarrow> 'v outcome" where
  "await p h k = (let (r, cmds) = p; (v, more) = (case r of Inl e \<Rightarrow> h e | Inr x \<Rightarrow> k x) in (v, cmds @ more))"

definition finish :: "'v \<Rightarrow> 'v outcome" where
  "finish v = (v, [])"

text \<open>A refresh: the answer is put on the page, \<open>h\<close> is what happens to an error.\<close>

definition refresh_with :: "(Thrown + 'a) \<times> Command list \<Rightarrow> (Thrown \<Rightarrow> 'v) \<Rightarrow> ('a \<Rightarrow> 'v) \<Rightarrow> 'v outcome" where
  "refresh_with p h k = await p (\<lambda>e. finish (h e)) (\<lambda>x. finish (k x))"

section \<open>Overview\<close>

definition overview_start :: OverviewPage where
  "overview_start = \<lparr>bn_status = [], bn_tone = TInfo, ov_health = None, ov_extensionId = [], ov_disk = ''...''\<rparr>"

definition overview_refresh :: "bool \<Rightarrow> Answers \<Rightarrow> OverviewPage \<Rightarrow> OverviewPage outcome" where
  "overview_refresh tauri a v =
     refresh_with (call tauri GetHealth (a_health a)) (\<lambda>e. failed e v)
       (\<lambda>h. v\<lparr>ov_health := Some h, ov_extensionId := opt_or (allowedExtensionId h) []\<rparr>)"

definition disk_quick :: "bool \<Rightarrow> Answers \<Rightarrow> OverviewPage \<Rightarrow> OverviewPage outcome" where
  "disk_quick tauri a v =
     refresh_with (call tauri GetDiskEstimate (a_disk a)) (\<lambda>e. v\<lparr>ov_disk := ''unavailable''\<rparr>)
       (\<lambda>d. v\<lparr>ov_disk := ''Total est. '' @ formatBytes (totalBytes d)\<rparr>)"

text \<open>The effect of the inner component comes before that of the page.\<close>

definition overview_mount :: "bool \<Rightarrow> Answers \<Rightarrow> OverviewPage outcome" where
  "overview_mount tauri a =
     (let (v, cs) = disk_quick tauri a overview_start; (v, ds) = overview_refresh tauri a v in (v, cs @ ds))"

definition running :: "OverviewPage \<Rightarrow> bool" where
  "running v = (case ov_health v of None \<Rightarrow> False | Some h \<Rightarrow> serviceRunning h)"

definition stop_service :: "bool \<Rightarrow> Answers \<Rightarrow> OverviewPage \<Rightarrow> OverviewPage outcome" where
  "stop_service tauri a v =
     (if running v
      then await (call tauri StopService (a_stop a)) (\<lambda>e. finish (failed e v))
             (\<lambda>h. finish (say TWarn ''Service stopped'' (v\<lparr>ov_health := Some h\<rparr>)))
      else finish v)"

definition start_service :: "bool \<Rightarrow> Answers \<Rightarrow> OverviewPage \<Rightarrow> OverviewPage outcome" where
  "start_service tauri a v =
     (if running v then finish v
      else await (call tauri StartService (a_start a)) (\<lambda>e. finish (failed e v))
             (\<lambda>h. finish (say TSuccess ''Service started'' (v\<lparr>ov_health := Some h\<rparr>))))"

definition repair_host :: "bool \<Rightarrow> Answers \<Rightarrow> OverviewPage \<Rightarrow> OverviewPage outcome" where
  "repair_host tauri a v =
     await (call tauri (RepairNativeHost (trim (ov_extensionId v))) (a_repair a)) (\<lambda>e. finish (failed e v))
       (\<lambda>r. overview_refresh tauri a (say (if nh_ok r then TSuccess else TError) (nh_message r) v))"

definition pin_extension :: "bool \<Rightarrow> Answers \<Rightarrow> OverviewPage \<Rightarrow> OverviewPage outcome" where
  "pin_extension tauri a v =
     await (call tauri (PinExtension (trim (ov_extensionId v))) (a_pin a)) (\<lambda>e. finish (failed e v))
       (\<lambda>path. overview_refresh tauri a (say TSuccess (''Pinned extension id at '' @ path) v))"

definition health_chip :: "OverviewPage \<Rightarrow> string" where
  "health_chip v =
     (case ov_health v of
        None \<Rightarrow> ''Checking...''
      | Some h \<Rightarrow> (if running v then ''Running'' else ''Stopped'')
          @ (if running v then '' '' @ char_of (183::nat) # '' :'' @ nat_str (hs_port h) else []))"

definition pin_line :: "HealthSnapshot \<Rightarrow> string" where
  "pin_line h = ''Extension pin: ''
     @ (if extensionIdPinned h then opt_or (allowedExtensionId h) []
        else ''not pinned -- set LANGUAGE_LLM_EXTENSION_ID or use Repair below'')"

section \<open>Models\<close>

definition models_start :: ModelsPage where
  "models_start = \<lparr>bn_status = [], bn_tone = TInfo, md_models = [], md_report = None\<rparr>"

definition models_refresh :: "bool \<Rightarrow> Answers \<Rightarrow> (Thrown \<Rightarrow> ModelsPage) \<Rightarrow> ModelsPage \<Rightarrow> ModelsPage outcome" where
  "models_refresh tauri a h v = refresh_with (call tauri ListModels (a_models a)) h (\<lambda>ms. v\<lparr>md_models := ms\<rparr>)"

definition models_mount :: "bool \<Rightarrow> Answers \<Rightarrow> ModelsPage outcome" where
  "models_mount tauri a = models_refresh tauri a (\<lambda>e. failed e models_start) models_start"

definition verify_model :: "bool \<Rightarrow> Answers \<Rightarrow> string \<Rightarrow> ModelsPage \<Rightarrow> ModelsPage outcome" where
  "verify_model tauri a m v =
     (if m \<notin> mo_id ` set (md_models v) then finish v
      else await (call tauri (VerifyModel m) (a_verify a)) (\<lambda>e. finish (failed e v))
        (\<lambda>r. finish (say (if digestOk r \<and> vr_installed r then TSuccess else TWarn)
           (if vr_installed r then ''Verified '' @ m @ '' (digestOk='' @ bool_str (digestOk r) @ '')''
            else m @ '' not installed'') (v\<lparr>md_report := Some r\<rparr>))))"

text \<open>The button is disabled for models that are not installed.\<close>

definition remove_model :: "bool \<Rightarrow> Answers \<Rightarrow> string \<Rightarrow> ModelsPage \<Rightarrow> ModelsPage outcome" where
  "remove_model tauri a m v =
     (if \<not> list_ex (\<lambda>e. mo_id e = m \<and> installed e) (md_models v) then finish v
      else await (call tauri (RemoveModel m) (a_remove a)) (\<lambda>e. finish (failed e v))
        (\<lambda>_. let v = say TWarn (''Removed '' @ m) v in models_refresh tauri a (\<lambda>e. failed e v) v))"

definition dot :: string where
  "dot = '' '' @ char_of (183::nat) # '' ''"

definition model_row :: "ModelStatusEntry \<Rightarrow> string list" where
  "model_row m =
     [mo_id m,
      mo_family m @ (case hardwareMin m of Some h \<Rightarrow> if h = [] then [] else dot @ ''min '' @ h | None \<Rightarrow> []),
      mo_task m,
      opt_or (mo_licenseClass m) ''--'' @ (if commercialDefault m then dot @ ''default'' else []),
      (if installed m then ''yes'' else ''no''), formatBytes (diskBytes m)]"

section \<open>Dictionaries and licences\<close>

definition dictionaries_mount :: "bool \<Rightarrow> Answers \<Rightarrow> DictionariesPage outcome" where
  "dictionaries_mount tauri a =
     (let v = \<lparr>bn_status = [], bn_tone = TError, dc_dicts = []\<rparr>
      in refresh_with (call tauri ListDictionaries (a_dicts a)) (\<lambda>e. failed e v) (\<lambda>ds. v\<lparr>dc_dicts := ds\<rparr>))"

definition dictionary_row :: "DictionaryMeta \<Rightarrow> string list" where
  "dictionary_row d = [dm_name d, dm_id d, dm_language d, dm_license d, nat_str (entryCount d)]"

definition licenses_mount :: "bool \<Rightarrow> Answers \<Rightarrow> LicensesPage outcome" where
  "licenses_mount tauri a =
     (let v = \<lparr>bn_status = [], bn_tone = TError, lp_rows = []\<rparr>
      in refresh_with (call tauri ListLicenses (a_licenses a)) (\<lambda>e. failed e v) (\<lambda>rs. v\<lparr>lp_rows := rs\<rparr>))"

definition license_row :: "LicenseEntry \<Rightarrow> string list" where
  "license_row r = [li_id r, li_family r @ dot @ li_task r, opt_or (li_licenseClass r) ''--'',
     (if li_commercialDefault r then ''yes'' else ''no''), opt_or (li_notes r) ''--'']"

section \<open>Storage\<close>

definition RETENTION :: "string list" where
  "RETENTION = [''session'', ''days7'', ''days30'', ''keep'']"

definition WIPE_SCOPES :: "string list" where
  "WIPE_SCOPES = [''transcripts'', ''translations'', ''lyrics'', ''page-cache'', ''study'', ''dictionaries'', ''all'']"

definition storage_start :: StoragePage where
  "storage_start = \<lparr>bn_status = [], bn_tone = TInfo, sg_snap = None\<rparr>"

definition storage_refresh :: "bool \<Rightarrow> Answers \<Rightarrow> StoragePage \<Rightarrow> StoragePage outcome" where
  "storage_refresh tauri a v =
     refresh_with (call tauri GetStorage (a_storage a)) (\<lambda>e. failed e v) (\<lambda>x. v\<lparr>sg_snap := Some x\<rparr>)"

definition choose_retention :: "bool \<Rightarrow> Answers \<Rightarrow> string \<Rightarrow> StoragePage \<Rightarrow> StoragePage outcome" where
  "choose_retention tauri a preset v =
     (if preset \<notin> set RETENTION then finish v
      else await (call tauri (SetRetention preset) (a_retention a)) (\<lambda>e. finish (failed e v))
        (\<lambda>_. storage_refresh tauri a (say TSuccess (''Retention set to '' @ preset) v)))"

definition wipe_scope :: "bool \<Rightarrow> Answers \<Rightarrow> string \<Rightarrow> StoragePage \<Rightarrow> StoragePage outcome" where
  "wipe_scope tauri a scope v =
     (if scope \<notin> set WIPE_SCOPES then finish v
      else await (call tauri (WipePrivacy scope) (a_wipe a)) (\<lambda>e. finish (failed e v))
        (\<lambda>r. storage_refresh tauri a (say (if scope = ''all'' then TWarn else TSuccess)
           (''Wiped '' @ scope @ '': '' @ a_stringify a r) v)))"

definition toggle_lyrics :: "bool \<Rightarrow> Answers \<Rightarrow> StoragePage \<Rightarrow> StoragePage outcome" where
  "toggle_lyrics tauri a v =
     (let allow = (\<not> (case sg_snap v of None \<Rightarrow> False | Some x \<Rightarrow> so_lyricsNetworkAllowed x))
      in await (call tauri (SetLyricsNetwork allow) (a_lyrics a)) (\<lambda>e. finish (failed e v))
        (\<lambda>_. storage_refresh tauri a (say TInfo
           (if allow then ''LRCLIB network fetches allowed (attributed, opt-in)''
            else ''LRCLIB network fetches blocked'') v)))"

definition storage_line :: "StorageSnapshot \<Rightarrow> string" where
  "storage_line x = ''Retention: '' @ so_retention x @ dot @ ''Dictionaries '' @ nat_str (dictionaryCount x)
     @ '' ('' @ nat_str (dictionaryEntries x) @ '' entries)'' @ dot @ ''LRCLIB network ''
     @ (if so_lyricsNetworkAllowed x then ''allowed'' else ''blocked'')"

definition path_rows :: "StorageSnapshot \<Rightarrow> string list list" where
  "path_rows x = map (\<lambda>p. [dp_label p, dp_path p, formatBytes (dp_bytes p)]) (disk_paths (so_disk x))"

section \<open>Jobs\<close>

definition jobs_start :: JobsPage where
  "jobs_start = \<lparr>bn_status = [], bn_tone = TInfo, jb_jobs = []\<rparr>"

definition jobs_refresh :: "bool \<Rightarrow> Answers \<Rightarrow> (Thrown \<Rightarrow> JobsPage) \<Rightarrow> JobsPage \<Rightarrow> JobsPage outcome" where
  "jobs_refresh tauri a h v = refresh_with (call tauri ListJobs (a_jobs a)) h (\<lambda>js. v\<lparr>jb_jobs := js\<rparr>)"

text \<open>The button is disabled for cancelled jobs.\<close>

definition cancel_job :: "bool \<Rightarrow> Answers \<Rightarrow> string \<Rightarrow> JobsPage \<Rightarrow> JobsPage outcome" where
  "cancel_job tauri a j v =
     (if \<not> list_ex (\<lambda>x. jv_id x = j \<and> \<not> cancelled x) (jb_jobs v) then finish v
      else await (call tauri (CancelJob j) (a_cancel a)) (\<lambda>e. finish (failed e v))
        (\<lambda>_. let v = say TWarn (''Cancelled '' @ j) v in jobs_refresh tauri a (\<lambda>e. failed e v) v))"

definition job_row :: "JobView \<Rightarrow> string list" where
  "job_row j = [jv_id j, jv_kind j, (if jv_videoId j = [] then ''--'' else jv_videoId j),
     jv_status j @ (if paused j then '' (paused)'' else []) @ (if cancelled j then '' (cancelled)'' else []),
     int_str (js_round (jv_fraction j * 100)) @ ''%'']"

section \<open>Hardware\<close>

definition PROFILES :: "string list" where
  "PROFILES = [''lite'', ''balanced'', ''quality'', ''workstation'']"

definition hardware_start :: HardwarePage where
  "hardware_start = \<lparr>bn_status = [], bn_tone = TInfo, hp_hw = None\<rparr>"

definition hardware_refresh :: "bool \<Rightarrow> Answers \<Rightarrow> (Thrown \<Rightarrow> HardwarePage) \<Rightarrow> HardwarePage \<Rightarrow> HardwarePage outcome" where
  "hardware_refresh tauri a h v = refresh_with (call tauri GetHardware (a_hardware a)) h (\<lambda>x. v\<lparr>hp_hw := Some x\<rparr>)"

definition choose_hardware :: "bool \<Rightarrow> Answers \<Rightarrow> string \<Rightarrow> HardwarePage \<Rightarrow> HardwarePage outcome" where
  "choose_hardware tauri a p v =
     (if p \<notin> set PROFILES \<or> hp_hw v = None then finish v
      else await (call tauri (SetHardwareProfile p) (a_profile a)) (\<lambda>e. finish (failed e v))
        (\<lambda>x. finish (say TSuccess (''Hardware profile set to '' @ p) (v\<lparr>hp_hw := Some x\<rparr>))))"

definition backend_row :: "BackendDiscovery \<Rightarrow> string list" where
  "backend_row b = [bd_name b, bd_kind b, (if available b then ''yes'' else ''no''), bd_detail b]
     @ (case bd_path b of Some p \<Rightarrow> if p = [] then [] else [p] | None \<Rightarrow> [])"

section \<open>Diagnostics and updates\<close>

definition diagnostics_start :: DiagnosticsPage where
  "diagnostics_start = \<lparr>bn_status = [], bn_tone = TInfo, dg_payload = None\<rparr>"

definition diagnostics_mount :: "bool \<Rightarrow> Answers \<Rightarrow> DiagnosticsPage outcome" where
  "diagnostics_mount tauri a =
     refresh_with (call tauri GetDiagnostics (a_diagnostics a)) (\<lambda>e. failed e diagnostics_start)
       (\<lambda>x. diagnostics_start\<lparr>dg_payload := Some x\<rparr>)"

definition diagnostics_refresh :: "bool \<Rightarrow> Answers \<Rightarrow> DiagnosticsPage \<Rightarrow> DiagnosticsPage outcome" where
  "diagnostics_refresh tauri a v =
     refresh_with (call tauri GetDiagnostics (a_diagnostics a)) (\<lambda>e. failed e v)
       (\<lambda>x. say TSuccess ''Diagnostics refreshed'' (v\<lparr>dg_payload := Some x\<rparr>))"

definition export_logs :: "bool \<Rightarrow> Answers \<Rightarrow> DiagnosticsPage \<Rightarrow> DiagnosticsPage outcome" where
  "export_logs tauri a v =
     refresh_with (call tauri (ExportLogs None) (a_logs a)) (\<lambda>e. failed e v)
       (\<lambda>path. say TSuccess (''Exported redacted logs to '' @ path) v)"

text \<open>What is shown of the payload: four fields, or all of it for experts.\<close>

definition shown_payload :: "DensityProfile \<Rightarrow> DiagnosticsPage \<Rightarrow> json option" where
  "shown_payload profile v =
     map_option (\<lambda>x. if profile = DExpert then x
       else js_obj (map (\<lambda>k. (k, sub_field (Some x) k)) [''appVersion'', ''protocolVersion'', ''dataDir'', ''health'']))
       (dg_payload v)"

definition updates_start :: UpdatesPage where
  "updates_start = \<lparr>bn_status = [], bn_tone = TInfo, up_info = None\<rparr>"

definition updates_mount :: "bool \<Rightarrow> Answers \<Rightarrow> UpdatesPage outcome" where
  "updates_mount tauri a =
     refresh_with (call tauri GetUpdateStatus (a_update a)) (\<lambda>e. failed e updates_start)
       (\<lambda>x. updates_start\<lparr>up_info := Some x\<rparr>)"

text \<open>The button is there once the information is, and disabled if nothing is configured.\<close>

definition check_updates :: "UpdatesPage \<Rightarrow> UpdatesPage" where
  "check_updates v =
     (case up_info v of
        None \<Rightarrow> v
      | Some x \<Rightarrow>
          if \<not> configured x then v
          else say TInfo (if configured x then ''Use the release updater plugin once artifacts are signed in CI.''
                          else ''Updater public key not configured for this build.'') v)"

end
