(* ===== verification/Desktop_Shell.thy ===== *)
theory Desktop_Shell
  imports Desktop
begin

text \<open>
  The shell of the desktop manager, \<open>apps/desktop/src/App.tsx\<close>: navigation, what is kept in the
  local storage, and the run of the whole manager as a list of events. The commands given to the
  companion are kept in order.
\<close>

section \<open>Navigation\<close>

datatype NavId = NavOverview | NavModels | NavDictionaries | NavStorage | NavJobs | NavHardware
  | NavDiagnostics | NavLicenses | NavUpdates

primrec nav_str :: "NavId \<Rightarrow> string" where
  "nav_str NavOverview = ''overview''"
| "nav_str NavModels = ''models''"
| "nav_str NavDictionaries = ''dictionaries''"
| "nav_str NavStorage = ''storage''"
| "nav_str NavJobs = ''jobs''"
| "nav_str NavHardware = ''hardware''"
| "nav_str NavDiagnostics = ''diagnostics''"
| "nav_str NavLicenses = ''licenses''"
| "nav_str NavUpdates = ''updates''"

definition NAV_GROUPS :: "(string \<times> (NavId \<times> string) list) list" where
  "NAV_GROUPS =
     [(''Home'', [(NavOverview, ''Overview'')]),
      (''Library'', [(NavModels, ''Models''), (NavDictionaries, ''Dictionaries'')]),
      (''Work'', [(NavJobs, ''Jobs'')]),
      (''System'', [(NavHardware, ''Hardware''), (NavStorage, ''Storage & privacy''), (NavDiagnostics, ''Diagnostics'')]),
      (''About'', [(NavLicenses, ''Licenses''), (NavUpdates, ''Updates'')])]"

definition FLAT_NAV :: "(NavId \<times> string) list" where
  "FLAT_NAV = concat (map snd NAV_GROUPS)"

definition nav_ids :: "NavId list" where
  "nav_ids = map fst FLAT_NAV"

primrec DESCRIPTIONS :: "NavId \<Rightarrow> string" where
  "DESCRIPTIONS NavOverview = ''Companion health, start/stop, and native-host repair.''"
| "DESCRIPTIONS NavModels = ''Download, verify, and remove model packs with disk estimates.''"
| "DESCRIPTIONS NavDictionaries = ''Companion SQLite dictionary metadata and attribution.''"
| "DESCRIPTIONS NavStorage = ''Retention presets, disk usage, and privacy wipe scopes.''"
| "DESCRIPTIONS NavJobs = ''Active ASR, translate, and page-translate jobs with cancel.''"
| "DESCRIPTIONS NavHardware = ''Hardware profile selection and backend discovery.''"
| "DESCRIPTIONS NavDiagnostics = ''Redacted log export and expert runtime snapshot.''"
| "DESCRIPTIONS NavLicenses = ''Commercial-default vs research-opt-in model packs.''"
| "DESCRIPTIONS NavUpdates = ''Signed update plumbing without embedded private keys.''"

definition readDensity :: "string option \<Rightarrow> DensityProfile" where
  "readDensity stored = opt_or (Option.bind stored density_of) DBalanced"

definition readNav :: "string option \<Rightarrow> NavId" where
  "readNav stored = opt_or (find (\<lambda>n. stored = Some (nav_str n)) nav_ids) NavOverview"

record KeyPress =
  kp_key :: string
  kp_modified :: bool
  kp_editing :: bool
  kp_inNav :: bool

definition nav_key :: "KeyPress \<Rightarrow> NavId \<Rightarrow> NavId option" where
  "nav_key e nav =
     (let cycle = (kp_key e = ''j'' \<or> kp_key e = ''k''
            \<or> kp_inNav e \<and> (kp_key e = ''ArrowDown'' \<or> kp_key e = ''ArrowUp''))
      in if kp_modified e \<or> kp_editing e \<or> \<not> cycle then None
         else
           (case find_index (\<lambda>n. n = nav) nav_ids of
              None \<Rightarrow> None
            | Some idx \<Rightarrow>
                Some (if kp_key e = ''j'' \<or> kp_key e = ''ArrowDown'' then nav_ids ! ((idx + 1) mod length nav_ids)
                      else nav_ids ! ((idx + length nav_ids - 1) mod length nav_ids))))"

section \<open>The page that is open\<close>

datatype Page =
    PgOverview OverviewPage | PgModels ModelsPage | PgDictionaries DictionariesPage | PgStorage StoragePage
  | PgJobs JobsPage | PgHardware HardwarePage | PgDiagnostics DiagnosticsPage | PgLicenses LicensesPage
  | PgUpdates UpdatesPage

definition open_page :: "bool \<Rightarrow> Answers \<Rightarrow> NavId \<Rightarrow> Page outcome" where
  "open_page tauri a n =
     (case n of
        NavOverview \<Rightarrow> map_prod PgOverview id (overview_mount tauri a)
      | NavModels \<Rightarrow> map_prod PgModels id (models_mount tauri a)
      | NavDictionaries \<Rightarrow> map_prod PgDictionaries id (dictionaries_mount tauri a)
      | NavStorage \<Rightarrow> map_prod PgStorage id (storage_refresh tauri a storage_start)
      | NavJobs \<Rightarrow> map_prod PgJobs id (jobs_refresh tauri a (\<lambda>e. failed e jobs_start) jobs_start)
      | NavHardware \<Rightarrow> map_prod PgHardware id (hardware_refresh tauri a (\<lambda>e. failed e hardware_start) hardware_start)
      | NavDiagnostics \<Rightarrow> map_prod PgDiagnostics id (diagnostics_mount tauri a)
      | NavLicenses \<Rightarrow> map_prod PgLicenses id (licenses_mount tauri a)
      | NavUpdates \<Rightarrow> map_prod PgUpdates id (updates_mount tauri a))"

text \<open>The timers: the overview and the jobs are asked for again and again.\<close>

definition page_timer :: "bool \<Rightarrow> Answers \<Rightarrow> Page \<Rightarrow> Page outcome" where
  "page_timer tauri a pg =
     (case pg of
        PgOverview v \<Rightarrow> map_prod PgOverview id (overview_refresh tauri a v)
      | PgJobs v \<Rightarrow> map_prod PgJobs id (jobs_refresh tauri a (\<lambda>e. v) v)
      | _ \<Rightarrow> finish pg)"

datatype Click =
    ClRefresh | ClStart | ClStop | ClTypeId string | ClRepair | ClPin
  | ClVerify string | ClRemove string | ClRetention string | ClWipe string | ClLyrics
  | ClCancel string | ClProfile string | ClExport | ClUpdates

text \<open>
  A click on the open page; what is not on it cannot be clicked. The refresh buttons of models, jobs
  and hardware let an error go unseen.
\<close>

definition overview_click :: "bool \<Rightarrow> Answers \<Rightarrow> Click \<Rightarrow> OverviewPage \<Rightarrow> OverviewPage outcome" where
  "overview_click t a c v =
     (case c of ClRefresh \<Rightarrow> overview_refresh t a v | ClStart \<Rightarrow> start_service t a v | ClStop \<Rightarrow> stop_service t a v
      | ClTypeId i \<Rightarrow> finish (v\<lparr>ov_extensionId := i\<rparr>) | ClRepair \<Rightarrow> repair_host t a v
      | ClPin \<Rightarrow> pin_extension t a v | _ \<Rightarrow> finish v)"

definition models_click :: "bool \<Rightarrow> Answers \<Rightarrow> Click \<Rightarrow> ModelsPage \<Rightarrow> ModelsPage outcome" where
  "models_click t a c v =
     (case c of ClRefresh \<Rightarrow> models_refresh t a (\<lambda>e. v) v | ClVerify m \<Rightarrow> verify_model t a m v
      | ClRemove m \<Rightarrow> remove_model t a m v | _ \<Rightarrow> finish v)"

definition storage_click :: "bool \<Rightarrow> Answers \<Rightarrow> Click \<Rightarrow> StoragePage \<Rightarrow> StoragePage outcome" where
  "storage_click t a c v =
     (case c of ClRetention p \<Rightarrow> choose_retention t a p v | ClWipe sc \<Rightarrow> wipe_scope t a sc v
      | ClLyrics \<Rightarrow> toggle_lyrics t a v | _ \<Rightarrow> finish v)"

definition jobs_click :: "bool \<Rightarrow> Answers \<Rightarrow> Click \<Rightarrow> JobsPage \<Rightarrow> JobsPage outcome" where
  "jobs_click t a c v =
     (case c of ClRefresh \<Rightarrow> if jb_jobs v = [] then jobs_refresh t a (\<lambda>e. v) v else finish v
      | ClCancel j \<Rightarrow> cancel_job t a j v | _ \<Rightarrow> finish v)"

definition hardware_click :: "bool \<Rightarrow> Answers \<Rightarrow> Click \<Rightarrow> HardwarePage \<Rightarrow> HardwarePage outcome" where
  "hardware_click t a c v =
     (case c of ClRefresh \<Rightarrow> hardware_refresh t a (\<lambda>e. v) v | ClProfile p \<Rightarrow> choose_hardware t a p v | _ \<Rightarrow> finish v)"

definition diagnostics_click :: "bool \<Rightarrow> Answers \<Rightarrow> Click \<Rightarrow> DiagnosticsPage \<Rightarrow> DiagnosticsPage outcome" where
  "diagnostics_click t a c v =
     (case c of ClRefresh \<Rightarrow> diagnostics_refresh t a v | ClExport \<Rightarrow> export_logs t a v | _ \<Rightarrow> finish v)"

definition page_click :: "bool \<Rightarrow> Answers \<Rightarrow> Click \<Rightarrow> Page \<Rightarrow> Page outcome" where
  "page_click t a c pg =
     (case pg of
        PgOverview v \<Rightarrow> map_prod PgOverview id (overview_click t a c v)
      | PgModels v \<Rightarrow> map_prod PgModels id (models_click t a c v)
      | PgStorage v \<Rightarrow> map_prod PgStorage id (storage_click t a c v)
      | PgJobs v \<Rightarrow> map_prod PgJobs id (jobs_click t a c v)
      | PgHardware v \<Rightarrow> map_prod PgHardware id (hardware_click t a c v)
      | PgDiagnostics v \<Rightarrow> map_prod PgDiagnostics id (diagnostics_click t a c v)
      | PgUpdates v \<Rightarrow> finish (PgUpdates (case c of ClUpdates \<Rightarrow> check_updates v | _ \<Rightarrow> v))
      | _ \<Rightarrow> finish pg)"

section \<open>The manager\<close>

record Desktop =
  dk_nav :: NavId
  dk_profile :: DensityProfile
  dk_page :: Page
  dk_storedNav :: "string option"
  dk_storedDensity :: "string option"
  dk_sent :: "Command list"

definition keep :: "Desktop \<Rightarrow> Desktop" where
  "keep d = d\<lparr>dk_storedNav := Some (nav_str (dk_nav d)), dk_storedDensity := Some (density_str (dk_profile d))\<rparr>"

definition desktop_start :: "bool \<Rightarrow> Answers \<Rightarrow> string option \<Rightarrow> string option \<Rightarrow> Desktop" where
  "desktop_start tauri a nav profile =
     (let n = readNav nav; (pg, cmds) = open_page tauri a n
      in keep \<lparr>dk_nav = n, dk_profile = readDensity profile, dk_page = pg, dk_storedNav = nav,
               dk_storedDensity = profile, dk_sent = cmds\<rparr>)"

definition put_page :: "Page outcome \<Rightarrow> Desktop \<Rightarrow> Desktop" where
  "put_page p d = d\<lparr>dk_page := fst p, dk_sent := dk_sent d @ snd p\<rparr>"

text \<open>Choosing the open page again changes nothing.\<close>

definition setNav :: "bool \<Rightarrow> Answers \<Rightarrow> NavId \<Rightarrow> Desktop \<Rightarrow> Desktop" where
  "setNav tauri a n d =
     (if n = dk_nav d then d else keep (put_page (open_page tauri a n) (d\<lparr>dk_nav := n\<rparr>)))"

datatype DeskEvent =
    NavClicked Answers NavId
  | KeyPressed Answers KeyPress
  | ProfilePicked DensityProfile
  | TimerTicked Answers
  | Clicked Answers Click

fun desk_event :: "bool \<Rightarrow> DeskEvent \<Rightarrow> Desktop \<Rightarrow> Desktop" where
  "desk_event t (NavClicked a n) d = setNav t a n d"
| "desk_event t (KeyPressed a e) d = (case nav_key e (dk_nav d) of None \<Rightarrow> d | Some n \<Rightarrow> setNav t a n d)"
| "desk_event t (ProfilePicked p) d = keep (d\<lparr>dk_profile := p\<rparr>)"
| "desk_event t (TimerTicked a) d = put_page (page_timer t a (dk_page d)) d"
| "desk_event t (Clicked a c) d = put_page (page_click t a c (dk_page d)) d"

definition desk_run :: "bool \<Rightarrow> DeskEvent list \<Rightarrow> Desktop \<Rightarrow> Desktop" where
  "desk_run t es d = fold (desk_event t) es d"

section \<open>Only clicks change anything\<close>

text \<open>The commands that change the companion or write a file; the others only read.\<close>

fun changes :: "Command \<Rightarrow> bool" where
  "changes StartService = True"
| "changes StopService = True"
| "changes (RemoveModel m) = True"
| "changes (InstallModelBytes m f bs) = True"
| "changes (SetRetention p) = True"
| "changes (WipePrivacy sc) = True"
| "changes (CancelJob j) = True"
| "changes (SetHardwareProfile p) = True"
| "changes (ExportLogs d) = True"
| "changes (PinExtension i) = True"
| "changes (RepairNativeHost i) = True"
| "changes (SetLyricsNetwork b) = True"
| "changes _ = False"

text \<open>Whether a command is what a click stands for; the identifier typed is sent by two buttons.\<close>

definition click_asks :: "Click \<Rightarrow> Command \<Rightarrow> bool" where
  "click_asks c cmd =
     (case c of
        ClStart \<Rightarrow> cmd = StartService | ClStop \<Rightarrow> cmd = StopService
      | ClRepair \<Rightarrow> (\<exists>i. cmd = RepairNativeHost i) | ClPin \<Rightarrow> (\<exists>i. cmd = PinExtension i)
      | ClRemove m \<Rightarrow> cmd = RemoveModel m | ClRetention p \<Rightarrow> cmd = SetRetention p
      | ClWipe sc \<Rightarrow> cmd = WipePrivacy sc | ClLyrics \<Rightarrow> (\<exists>b. cmd = SetLyricsNetwork b)
      | ClCancel j \<Rightarrow> cmd = CancelJob j | ClProfile p \<Rightarrow> cmd = SetHardwareProfile p
      | ClExport \<Rightarrow> cmd = ExportLogs None | _ \<Rightarrow> False)"

definition asked_by :: "DeskEvent \<Rightarrow> Command \<Rightarrow> bool" where
  "asked_by e cmd = (case e of Clicked a c \<Rightarrow> click_asks c cmd | _ \<Rightarrow> False)"

lemmas outcome_defs = await_def refresh_with_def finish_def call_def

lemma refresh_commands [simp]: "snd (refresh_with p h k) = snd p"
  by (simp add: refresh_with_def await_def finish_def split_def Let_def split: sum.split)

text \<open>Opening a page and the timers only read.\<close>

lemma open_reads: "filter changes (snd (open_page t a n)) = []"
  by (cases n) (simp_all add: open_page_def overview_mount_def disk_quick_def overview_refresh_def models_mount_def
      models_refresh_def dictionaries_mount_def storage_refresh_def jobs_refresh_def hardware_refresh_def
      diagnostics_mount_def licenses_mount_def updates_mount_def call_def Let_def split_def)

lemma timer_reads: "filter changes (snd (page_timer t a pg)) = []"
  by (cases pg) (simp_all add: page_timer_def overview_refresh_def jobs_refresh_def call_def finish_def)

text \<open>A click gives at most one command that changes anything, the one it stands for.\<close>

definition at_most_asked :: "Click \<Rightarrow> Command list \<Rightarrow> bool" where
  "at_most_asked c cmds \<longleftrightarrow> filter changes cmds = [] \<or> (\<exists>k. filter changes cmds = [k] \<and> click_asks c k)"

lemma overview_asked: "at_most_asked c (snd (overview_click t a c v))"
  by (cases c) (auto simp: overview_click_def overview_refresh_def start_service_def stop_service_def repair_host_def
      pin_extension_def at_most_asked_def click_asks_def outcome_defs split: sum.split prod.split)

lemma models_asked: "at_most_asked c (snd (models_click t a c v))"
  by (cases c) (auto simp: models_click_def models_refresh_def verify_model_def remove_model_def
      at_most_asked_def click_asks_def outcome_defs Let_def split: sum.split prod.split)

lemma storage_asked: "at_most_asked c (snd (storage_click t a c v))"
  by (cases c) (auto simp: storage_click_def storage_refresh_def choose_retention_def wipe_scope_def toggle_lyrics_def
      at_most_asked_def click_asks_def outcome_defs Let_def split: sum.split prod.split)

lemma jobs_asked: "at_most_asked c (snd (jobs_click t a c v))"
  by (cases c) (auto simp: jobs_click_def jobs_refresh_def cancel_job_def
      at_most_asked_def click_asks_def outcome_defs Let_def split: sum.split prod.split)

lemma hardware_asked: "at_most_asked c (snd (hardware_click t a c v))"
  by (cases c) (auto simp: hardware_click_def hardware_refresh_def choose_hardware_def
      at_most_asked_def click_asks_def outcome_defs Let_def split: sum.split prod.split)

lemma diagnostics_asked: "at_most_asked c (snd (diagnostics_click t a c v))"
  by (cases c) (auto simp: diagnostics_click_def diagnostics_refresh_def export_logs_def
      at_most_asked_def click_asks_def outcome_defs Let_def split: sum.split prod.split)

lemma page_asked: "at_most_asked c (snd (page_click t a c pg))"
proof (cases pg)
  case (PgUpdates v)
  then show ?thesis by (simp add: page_click_def finish_def at_most_asked_def)
qed (simp_all add: page_click_def overview_asked models_asked storage_asked jobs_asked hardware_asked
    diagnostics_asked finish_def at_most_asked_def [of c "[]"])

lemma event_asked:
  "\<exists>new. dk_sent (desk_event t e d) = dk_sent d @ new
     \<and> (filter changes new = [] \<or> (\<exists>k. filter changes new = [k] \<and> asked_by e k))"
proof (cases e)
  case (Clicked a c)
  then show ?thesis
    using page_asked [of c t a "dk_page d"] by (simp add: put_page_def at_most_asked_def asked_by_def)
next
  case (NavClicked a n)
  then show ?thesis by (simp add: setNav_def keep_def put_page_def open_reads)
next
  case (KeyPressed a k)
  then show ?thesis by (simp add: setNav_def keep_def put_page_def open_reads split: option.split)
qed (simp_all add: put_page_def timer_reads keep_def)

lemma run_snoc: "desk_run t (es @ [e]) d = desk_event t e (desk_run t es d)"
  by (simp add: desk_run_def)

lemma subseqs_snoc:
  "cs \<in> set (subseqs es) \<Longrightarrow> cs \<in> set (subseqs (es @ [e]))" "cs \<in> set (subseqs es) \<Longrightarrow> cs @ [e] \<in> set (subseqs (es @ [e]))"
  by (induction es arbitrary: cs) (auto simp: Let_def)

lemma call_outside: "call False cmd x = (Inl (unavailable cmd), [])"
  by (simp add: call_def)

text \<open>C14:
  The manager changes nothing by itself. Whatever is clicked, typed and answered, and however often
  its timers ask, the commands that change the companion are exactly asked for by clicks: there is
  a subsequence of the events, in order, one click for each of them, standing for that command. A
  click never gives two, and opening pages, moving with keys and polling only read.\<close>

theorem only_clicks_change:
  "\<exists>cs \<in> set (subseqs es). list_all2 asked_by cs (filter changes (dk_sent (desk_run t es (desktop_start t a nav profile))))"
proof (induction es rule: rev_induct)
  case Nil
  have "filter changes (dk_sent (desktop_start t a nav profile)) = []"
    using open_reads [of t a "readNav nav"] by (simp add: desktop_start_def keep_def Let_def split_def)
  then show ?case by (simp add: desk_run_def)
next
  case (snoc e es)
  let ?d = "desk_run t es (desktop_start t a nav profile)"
  obtain cs where cs: "cs \<in> set (subseqs es)" "list_all2 asked_by cs (filter changes (dk_sent ?d))"
    using snoc by blast
  obtain new where new: "dk_sent (desk_event t e ?d) = dk_sent ?d @ new"
    "filter changes new = [] \<or> (\<exists>k. filter changes new = [k] \<and> asked_by e k)"
    using event_asked by blast
  from new(2) show ?case
  proof
    assume "filter changes new = []"
    with cs new(1) subseqs_snoc(1) [OF cs(1)] show ?thesis by (auto simp: run_snoc)
  next
    assume "\<exists>k. filter changes new = [k] \<and> asked_by e k"
    then obtain k where k: "filter changes new = [k]" "asked_by e k" by blast
    have "list_all2 asked_by (cs @ [e]) (filter changes (dk_sent ?d) @ [k])"
      using k(2) by (intro list_all2_appendI [OF cs(2)]) simp
    with subseqs_snoc(2) [OF cs(1)] new(1) k(1) show ?thesis by (auto simp: run_snoc intro: bexI)
  qed
qed

section \<open>Failures are shown\<close>

definition with_banner :: "string \<Rightarrow> Tone \<Rightarrow> Page \<Rightarrow> Page" where
  "with_banner m t pg =
     (case pg of
        PgOverview v \<Rightarrow> PgOverview (say t m v) | PgModels v \<Rightarrow> PgModels (say t m v)
      | PgDictionaries v \<Rightarrow> PgDictionaries (say t m v) | PgStorage v \<Rightarrow> PgStorage (say t m v)
      | PgJobs v \<Rightarrow> PgJobs (say t m v) | PgHardware v \<Rightarrow> PgHardware (say t m v)
      | PgDiagnostics v \<Rightarrow> PgDiagnostics (say t m v) | PgLicenses v \<Rightarrow> PgLicenses (say t m v)
      | PgUpdates v \<Rightarrow> PgUpdates (say t m v))"

text \<open>The refresh buttons whose errors nobody catches.\<close>

definition silent_refresh :: "Click \<Rightarrow> Page \<Rightarrow> bool" where
  "silent_refresh c pg =
     (c = ClRefresh \<and> (case pg of PgModels v \<Rightarrow> True | PgJobs v \<Rightarrow> True | PgHardware v \<Rightarrow> True | _ \<Rightarrow> False))"

text \<open>Every command is rejected.\<close>

definition all_rejected :: "Thrown \<Rightarrow> Answers" where
  "all_rejected e =
     \<lparr>a_health = Inl e, a_start = Inl e, a_stop = Inl e, a_models = Inl e, a_verify = Inl e, a_remove = Inl e,
      a_disk = Inl e, a_storage = Inl e, a_retention = Inl e, a_wipe = Inl e, a_dicts = Inl e, a_jobs = Inl e,
      a_cancel = Inl e, a_hardware = Inl e, a_profile = Inl e, a_licenses = Inl e, a_update = Inl e,
      a_logs = Inl e, a_pin = Inl e, a_repair = Inl e, a_diagnostics = Inl e, a_lyrics = Inl e,
      a_stringify = (\<lambda>_. [])\<rparr>"

text \<open>C23:
  A failure is shown and spoils nothing. When the companion rejects what a click asks for, the page
  keeps all it shows and puts the error on its banner; only the refresh buttons of models, jobs and
  hardware leave the error unseen, and even they keep the page.\<close>

theorem failed_click_keeps_page:
  "let (pg', cmds) = page_click True (all_rejected e) c pg
   in (if cmds = [] then True
       else length cmds = 1 \<and> pg' = (if silent_refresh c pg then pg else with_banner (thrown_str e) TError pg))"
proof (cases pg)
  case (PgOverview v)
  then show ?thesis
    by (cases c) (simp_all add: page_click_def overview_click_def overview_refresh_def start_service_def stop_service_def
        repair_host_def pin_extension_def all_rejected_def failed_def with_banner_def silent_refresh_def outcome_defs)
next
  case (PgModels v)
  then show ?thesis
    by (cases c) (simp_all add: page_click_def models_click_def models_refresh_def verify_model_def remove_model_def
        all_rejected_def failed_def with_banner_def silent_refresh_def outcome_defs)
next
  case (PgStorage v)
  then show ?thesis
    by (cases c) (simp_all add: page_click_def storage_click_def choose_retention_def wipe_scope_def toggle_lyrics_def
        all_rejected_def failed_def with_banner_def silent_refresh_def outcome_defs Let_def)
next
  case (PgJobs v)
  then show ?thesis
    by (cases c) (simp_all add: page_click_def jobs_click_def jobs_refresh_def cancel_job_def
        all_rejected_def failed_def with_banner_def silent_refresh_def outcome_defs)
next
  case (PgHardware v)
  then show ?thesis
    by (cases c) (simp_all add: page_click_def hardware_click_def hardware_refresh_def choose_hardware_def
        all_rejected_def failed_def with_banner_def silent_refresh_def outcome_defs)
next
  case (PgDiagnostics v)
  then show ?thesis
    by (cases c) (simp_all add: page_click_def diagnostics_click_def diagnostics_refresh_def export_logs_def
        all_rejected_def failed_def with_banner_def silent_refresh_def outcome_defs)
qed (simp_all add: page_click_def finish_def)

section \<open>Places\<close>

text \<open>What is stored is what is open, so a reload opens the same page with the same profile.\<close>

lemma readNav_str: "readNav (Some (nav_str n)) = n"
  by (cases n) (simp_all add: readNav_def nav_ids_def FLAT_NAV_def NAV_GROUPS_def)

definition place_kept :: "Desktop \<Rightarrow> bool" where
  "place_kept d \<longleftrightarrow> readNav (dk_storedNav d) = dk_nav d \<and> readDensity (dk_storedDensity d) = dk_profile d"

lemma place_kept_keep: "place_kept (keep d)"
  by (simp add: place_kept_def keep_def readNav_str readDensity_def)

lemma place_kept_event: "place_kept d \<Longrightarrow> place_kept (desk_event t e d)"
  using place_kept_keep
  by (cases e) (auto simp: setNav_def put_page_def place_kept_def [of "d\<lparr>dk_page := _, dk_sent := _\<rparr>"] place_kept_def [of d]
      split: option.split)

lemma place_kept_run: "place_kept (desk_run t es (desktop_start t a nav profile))"
proof (induction es rule: rev_induct)
  case Nil
  show ?case by (simp add: desk_run_def desktop_start_def place_kept_keep Let_def split_def)
qed (simp add: run_snoc place_kept_event)

text \<open>The two keys go round all nine pages, and one undoes the other.\<close>

lemma nav_keys_inverse:
  "nav_key \<lparr>kp_key = ''j'', kp_modified = False, kp_editing = False, kp_inNav = b\<rparr> n = Some m \<Longrightarrow>
   nav_key \<lparr>kp_key = ''k'', kp_modified = False, kp_editing = False, kp_inNav = c\<rparr> m = Some n"
  by (cases n) (auto simp: nav_key_def nav_ids_def FLAT_NAV_def NAV_GROUPS_def Let_def)

section \<open>Surprises\<close>

text \<open>
  The identifier typed on the overview is replaced at the next tick of its timer, every four
  seconds, by the one that is pinned: pinning then sends the old one.
\<close>

lemma typed_id_is_lost:
  assumes "a_health a = Inr h" "allowedExtensionId h = Some old" "dk_page d = PgOverview v"
  shows "dk_sent (desk_run True [Clicked a (ClTypeId i), TimerTicked a, Clicked a ClPin] d)
    = dk_sent d @ [GetHealth, PinExtension (trim old)] @ (case a_pin a of Inl e \<Rightarrow> [] | Inr p \<Rightarrow> [GetHealth])"
  using assms
  by (simp add: desk_run_def put_page_def page_click_def overview_click_def page_timer_def overview_refresh_def
      pin_extension_def say_def outcome_defs split: sum.split)

text \<open>The answer of a cancellation is not looked at: a job that was not found is said to be cancelled.\<close>

lemma cancel_answer_ignored:
  assumes "list_ex (\<lambda>x. jv_id x = j \<and> \<not> cancelled x) (jb_jobs v)" "a_cancel a = Inr False" "a_jobs a = Inr js"
  shows "bn_status (fst (cancel_job True a j v)) = ''Cancelled '' @ j"
  using assms by (simp add: cancel_job_def jobs_refresh_def say_def outcome_defs)

text \<open>Before the storage page knows the permission, its toggle gives it.\<close>

lemma toggle_of_unknown_allows:
  "sg_snap v = None \<Longrightarrow> hd (snd (toggle_lyrics True a v)) = SetLyricsNetwork True"
  by (simp add: toggle_lyrics_def outcome_defs split: prod.split)

text \<open>A wipe that succeeded is reported as the error of the refresh after it.\<close>

lemma success_hidden_by_refresh:
  assumes "scope \<in> set WIPE_SCOPES" "a_wipe a = Inr r" "a_storage a = Inl e"
  shows "bn_status (fst (wipe_scope True a scope v)) = thrown_str e"
  using assms by (simp add: wipe_scope_def storage_refresh_def failed_def say_def outcome_defs)

end
