(* ===== verification/Schemas.thy ===== *)
theory Schemas
  imports Content Runtime Handshake Messages
begin

text \<open>
  The wire schemas of \<open>packages/protocol/src/schemas.ts\<close>. A schema is the value the source builds
  from the constructors of the library \<open>zod\<close>; the validator \<open>safeParse\<close> of that library is not
  part of the repository and is a parameter, and the locale \<open>zod\<close> states its documented behaviour,
  one law per constructor. A result \<open>None\<close> is a failure, \<open>Some v\<close> the data of a success, where a
  missing value is \<open>None\<close> again. What is proved: exactly the well-formed values of a typed message
  pass, unchanged, but for the entries of a dictionary lookup.
\<close>

section \<open>Schemas as data\<close>

datatype Check = MinLength nat | AtLeast real | AtMost real | Positive | IsInt

datatype (plugins del: "quickcheck" transfer lifting) Schema =
    ZString | ZNumber | ZBoolean | ZUnknown
  | ZLiteral json | ZEnum "string list"
  | ZChecked Schema Check
  | ZRefined Schema "json \<Rightarrow> bool"
  | ZOptional Schema | ZArray Schema | ZRecord Schema
  | ZObject "(string \<times> Schema) list"
  | ZDiscriminated string "Schema list"

definition id_string :: Schema where "id_string = ZChecked ZString (MinLength 1)"
definition token_string :: Schema where "token_string = ZChecked ZString (MinLength 32)"
definition nonnegative :: Schema where "nonnegative = ZChecked ZNumber (AtLeast 0)"
definition unit_number :: Schema where "unit_number = ZChecked (ZChecked ZNumber (AtLeast 0)) (AtMost 1)"
definition nonnegative_int :: Schema where "nonnegative_int = ZChecked (ZChecked ZNumber IsInt) (AtLeast 0)"

definition provenanceSchema :: Schema where
  "provenanceSchema = ZEnum [''human-caption'', ''auto-caption'', ''asr'', ''user-edit'', ''mt'',
     ''vlm-corrected'', ''lyrics-open-api'', ''lyrics-import'', ''page-translate'']"

definition jobKindSchema :: Schema where
  "jobKindSchema = ZEnum [''asr'', ''translate'', ''align'', ''vlm-review'', ''lookup'', ''export'',
     ''page-translate'', ''lyrics-resolve'']"

definition jobStatusSchema :: Schema where
  "jobStatusSchema = ZEnum [''queued'', ''running'', ''paused'', ''succeeded'', ''failed'', ''cancelled'']"

definition ends_after_start :: "json \<Rightarrow> bool" where
  "ends_after_start c = (case (num_of (json_field c ''endMs''), num_of (json_field c ''startMs'')) of
     (Some e, Some s) \<Rightarrow> e > s | _ \<Rightarrow> False)"

definition cueSchema :: Schema where
  "cueSchema = ZRefined (ZObject
     [(''id'', id_string), (''startMs'', nonnegative), (''endMs'', nonnegative), (''text'', ZString),
      (''speaker'', ZOptional ZString), (''provenance'', provenanceSchema)]) ends_after_start"

definition authHandshakeRequestSchema :: Schema where
  "authHandshakeRequestSchema = ZObject
     [(''type'', ZLiteral (JStr ''auth.handshake.request'')), (''protocolVersion'', id_string),
      (''extensionId'', id_string), (''nonce'', ZChecked ZString (MinLength 16)),
      (''requestedAtMs'', nonnegative_int)]"

definition authHandshakeResponseSchema :: Schema where
  "authHandshakeResponseSchema = ZObject
     [(''type'', ZLiteral (JStr ''auth.handshake.response'')), (''protocolVersion'', id_string),
      (''sessionToken'', token_string), (''expiresAtMs'', ZChecked (ZChecked ZNumber IsInt) Positive),
      (''companionBuild'', ZOptional ZString), (''ok'', ZLiteral (JBool True))]"

definition authHandshakeFailureSchema :: Schema where
  "authHandshakeFailureSchema = ZObject
     [(''type'', ZLiteral (JStr ''auth.handshake.failure'')), (''protocolVersion'', id_string),
      (''code'', ZEnum [''version-mismatch'', ''origin-rejected'', ''rate-limited'', ''internal'']),
      (''message'', ZString), (''ok'', ZLiteral (JBool False))]"

definition jobProgressSchema :: Schema where
  "jobProgressSchema = ZObject
     [(''jobId'', id_string), (''kind'', jobKindSchema), (''status'', jobStatusSchema),
      (''fraction'', unit_number), (''message'', ZOptional ZString), (''cueCount'', ZOptional nonnegative_int),
      (''updatedAtMs'', nonnegative_int)]"

definition jobSubmitSchema :: Schema where
  "jobSubmitSchema = ZObject
     [(''type'', ZLiteral (JStr ''job.submit'')), (''sessionToken'', token_string), (''jobId'', id_string),
      (''kind'', jobKindSchema), (''videoId'', id_string), (''payload'', ZRecord ZUnknown)]"

definition sourceTimelineSchema :: Schema where
  "sourceTimelineSchema = ZObject
     [(''videoId'', id_string), (''cues'', ZArray cueSchema), (''sourceHash'', id_string),
      (''immutable'', ZLiteral (JBool True)),
      (''captionSource'', ZOptional (ZEnum [''human'', ''auto'', ''asr-live'', ''asr-import'', ''user-edit''])),
      (''language'', ZOptional ZString), (''developmentFallback'', ZOptional ZBoolean)]"

definition timelineSourceMessageSchema :: Schema where
  "timelineSourceMessageSchema = ZObject
     [(''type'', ZLiteral (JStr ''timeline.source'')), (''sessionToken'', token_string),
      (''timeline'', sourceTimelineSchema)]"

definition translationCueSchema :: Schema where
  "translationCueSchema = ZObject
     [(''id'', id_string), (''sourceCueIds'', ZChecked (ZArray id_string) (MinLength 1)), (''text'', ZString),
      (''confidence'', unit_number), (''provisional'', ZBoolean), (''revisionId'', id_string),
      (''startMs'', ZOptional nonnegative), (''endMs'', ZOptional nonnegative)]"

definition retentionPresetSchema :: Schema where
  "retentionPresetSchema = ZEnum [''session'', ''days7'', ''days30'', ''keep'']"

definition privacyWipeScopeSchema :: Schema where
  "privacyWipeScopeSchema = ZEnum [''all'', ''transcripts'', ''translations'', ''lyrics'', ''page-cache'',
     ''study'', ''dictionaries'']"

definition privacyWipeSchema :: Schema where
  "privacyWipeSchema = ZObject
     [(''type'', ZLiteral (JStr ''privacy.wipe'')), (''sessionToken'', token_string),
      (''scope'', privacyWipeScopeSchema)]"

definition retentionSetSchema :: Schema where
  "retentionSetSchema = ZObject
     [(''type'', ZLiteral (JStr ''retention.set'')), (''sessionToken'', token_string),
      (''preset'', retentionPresetSchema)]"

definition timelineHydrateSchema :: Schema where
  "timelineHydrateSchema = ZObject
     [(''type'', ZLiteral (JStr ''timeline.hydrate'')), (''sessionToken'', token_string),
      (''videoId'', id_string), (''sourceHash'', ZOptional ZString)]"

definition studySyncSchema :: Schema where
  "studySyncSchema = ZObject
     [(''type'', ZLiteral (JStr ''study.sync'')), (''sessionToken'', token_string),
      (''op'', ZEnum [''put'', ''get'', ''list'', ''delete'']), (''kind'', ZOptional ZString),
      (''id'', ZOptional ZString), (''payload'', ZOptional (ZRecord ZUnknown))]"

definition dictionaryLookupSchema :: Schema where
  "dictionaryLookupSchema = ZObject
     [(''type'', ZLiteral (JStr ''dictionary.lookup'')), (''sessionToken'', token_string),
      (''surface'', id_string)]"

definition jobProgressMessageSchema :: Schema where
  "jobProgressMessageSchema = ZObject
     [(''type'', ZLiteral (JStr ''job.progress'')), (''sessionToken'', token_string),
      (''progress'', jobProgressSchema)]"

definition errorSchema :: Schema where
  "errorSchema = ZObject
     [(''type'', ZLiteral (JStr ''error'')), (''sessionToken'', ZOptional token_string),
      (''code'', id_string), (''message'', ZString), (''fatal'', ZOptional ZBoolean)]"

definition criticalWsMessageSchema :: Schema where
  "criticalWsMessageSchema = ZDiscriminated ''type''
     [authHandshakeRequestSchema, authHandshakeResponseSchema, authHandshakeFailureSchema, jobSubmitSchema,
      timelineSourceMessageSchema, privacyWipeSchema, retentionSetSchema, timelineHydrateSchema,
      studySyncSchema, dictionaryLookupSchema, jobProgressMessageSchema, errorSchema]"

section \<open>The validator\<close>

type_synonym SafeParse = "Schema \<Rightarrow> json option \<Rightarrow> json option option"

fun check_holds :: "Check \<Rightarrow> json option \<Rightarrow> bool" where
  "check_holds (MinLength n) (Some (JStr s)) = (n \<le> length s)"
| "check_holds (MinLength n) (Some (JArr xs)) = (n \<le> length xs)"
| "check_holds (AtLeast x) (Some (JNum y)) = (x \<le> y)"
| "check_holds (AtMost x) (Some (JNum y)) = (y \<le> x)"
| "check_holds Positive (Some (JNum y)) = (0 < y)"
| "check_holds IsInt (Some (JNum y)) = (y \<in> \<int>)"
| "check_holds _ _ = False"

text \<open>Parsing a list of parts: all of them, or failure; a part that parses to nothing is left out.\<close>

definition parse_parts :: "(string \<times> json option option) list \<Rightarrow> json option option" where
  "parse_parts ps = (if list_all (\<lambda>p. snd p \<noteq> None) ps
     then Some (Some (js_obj (map (\<lambda>(k, r). (k, case r of None \<Rightarrow> None | Some v \<Rightarrow> v)) ps))) else None)"

definition parse_items :: "json option option list \<Rightarrow> json option option" where
  "parse_items rs = (if list_all (\<lambda>r. case r of Some (Some v) \<Rightarrow> True | _ \<Rightarrow> False) rs
     then Some (Some (JArr (map (\<lambda>r. the (the r)) rs))) else None)"

text \<open>The literal an object schema wants for a field.\<close>

definition discriminator :: "string \<Rightarrow> Schema \<Rightarrow> json option" where
  "discriminator k s = (case s of
     ZObject fs \<Rightarrow> (case map_of fs k of Some t \<Rightarrow> (case t of ZLiteral l \<Rightarrow> Some l | _ \<Rightarrow> None) | None \<Rightarrow> None)
   | _ \<Rightarrow> None)"

locale zod =
  fixes safeParse :: SafeParse
  assumes z_string: "safeParse ZString v = (case v of Some (JStr s) \<Rightarrow> Some v | _ \<Rightarrow> None)"
    and z_number: "safeParse ZNumber v = (case v of Some (JNum x) \<Rightarrow> Some v | _ \<Rightarrow> None)"
    and z_boolean: "safeParse ZBoolean v = (case v of Some (JBool b) \<Rightarrow> Some v | _ \<Rightarrow> None)"
    and z_unknown: "safeParse ZUnknown v = Some v"
    and z_literal: "safeParse (ZLiteral l) v = (if v = Some l then Some v else None)"
    and z_enum: "safeParse (ZEnum es) v = (case v of Some (JStr s) \<Rightarrow> if s \<in> set es then Some v else None | _ \<Rightarrow> None)"
    and z_checked: "safeParse (ZChecked s c) v =
      (case safeParse s v of None \<Rightarrow> None | Some w \<Rightarrow> if check_holds c w then Some w else None)"
    and z_refined: "safeParse (ZRefined s p) v =
      (case safeParse s v of Some (Some w) \<Rightarrow> if p w then Some (Some w) else None | r \<Rightarrow> r)"
    and z_optional: "safeParse (ZOptional s) v = (if v = None then Some None else safeParse s v)"
    and z_array: "safeParse (ZArray s) v =
      (case v of Some (JArr xs) \<Rightarrow> parse_items (map (\<lambda>x. safeParse s (Some x)) xs) | _ \<Rightarrow> None)"
    and z_record: "safeParse (ZRecord s) v =
      (case v of Some (JObj fs) \<Rightarrow> parse_parts (map (\<lambda>(k, x). (k, safeParse s (Some x))) fs) | _ \<Rightarrow> None)"
    and z_object: "safeParse (ZObject fs) v =
      (case v of Some (JObj xs) \<Rightarrow> parse_parts (map (\<lambda>(k, s). (k, safeParse s (map_of xs k))) fs) | _ \<Rightarrow> None)"
    and z_discriminated: "safeParse (ZDiscriminated k ss) v =
      (case v of
         Some (JObj xs) \<Rightarrow>
           (case map_of xs k of
              None \<Rightarrow> None
            | Some l \<Rightarrow> (case find (\<lambda>s. discriminator k s = Some l) ss of None \<Rightarrow> None | Some s \<Rightarrow> safeParse s v))
       | _ \<Rightarrow> None)"

definition parseCriticalWsMessage :: "SafeParse \<Rightarrow> json \<Rightarrow> json option option" where
  "parseCriticalWsMessage safeParse input = safeParse criticalWsMessageSchema (Some input)"

text \<open>\<open>None\<close> where it throws.\<close>

definition assertProtocolVersion :: "SafeParse \<Rightarrow> string \<Rightarrow> unit option" where
  "assertProtocolVersion safeParse version =
     (if safeParse id_string (Some (JStr version)) = None then None
      else if hd (split_on (CHR ''.'') version) \<noteq> hd (split_on (CHR ''.'') PROTOCOL_VERSION) then None
      else Some ())"

section \<open>The documented validator\<close>

text \<open>The laws determine a function; it shows that they can hold.\<close>

fun documented :: "Schema \<Rightarrow> json option \<Rightarrow> json option option" where
  "documented ZString v = (case v of Some (JStr s) \<Rightarrow> Some v | _ \<Rightarrow> None)"
| "documented ZNumber v = (case v of Some (JNum x) \<Rightarrow> Some v | _ \<Rightarrow> None)"
| "documented ZBoolean v = (case v of Some (JBool b) \<Rightarrow> Some v | _ \<Rightarrow> None)"
| "documented ZUnknown v = Some v"
| "documented (ZLiteral l) v = (if v = Some l then Some v else None)"
| "documented (ZEnum es) v = (case v of Some (JStr s) \<Rightarrow> if s \<in> set es then Some v else None | _ \<Rightarrow> None)"
| "documented (ZChecked s c) v =
     (case documented s v of None \<Rightarrow> None | Some w \<Rightarrow> if check_holds c w then Some w else None)"
| "documented (ZRefined s p) v =
     (case documented s v of Some (Some w) \<Rightarrow> if p w then Some (Some w) else None | r \<Rightarrow> r)"
| "documented (ZOptional s) v = (if v = None then Some None else documented s v)"
| "documented (ZArray s) v =
     (case v of Some (JArr xs) \<Rightarrow> parse_items (map (\<lambda>x. documented s (Some x)) xs) | _ \<Rightarrow> None)"
| "documented (ZRecord s) v =
     (case v of Some (JObj fs) \<Rightarrow> parse_parts (map (\<lambda>(k, x). (k, documented s (Some x))) fs) | _ \<Rightarrow> None)"
| "documented (ZObject fs) v =
     (case v of Some (JObj xs) \<Rightarrow> parse_parts (map (\<lambda>(k, s). (k, documented s (map_of xs k))) fs) | _ \<Rightarrow> None)"
| "documented (ZDiscriminated k ss) v =
     (case v of
        Some (JObj xs) \<Rightarrow>
          (case map_of xs k of
             None \<Rightarrow> None
           | Some l \<Rightarrow>
               (case find (\<lambda>p. discriminator k (fst p) = Some l) (map (\<lambda>s. (s, documented s v)) ss) of
                  None \<Rightarrow> None | Some p \<Rightarrow> snd p))
      | _ \<Rightarrow> None)"

lemma find_map_pair:
  "find (\<lambda>p. discriminator k (fst p) = l) (map (\<lambda>s. (s, f s)) ss)
   = map_option (\<lambda>s. (s, f s)) (find (\<lambda>s. discriminator k s = l) ss)"
  by (induction ss) simp_all

interpretation doc: zod documented
  by unfold_locales (simp_all add: find_map_pair cong: option.case_cong split: option.split json.split)

section \<open>Messages as JSON\<close>

primrec job_kind_str :: "JobKind \<Rightarrow> string" where
  "job_kind_str KAsr = ''asr''"
| "job_kind_str KTranslate = ''translate''"
| "job_kind_str KAlign = ''align''"
| "job_kind_str KVlmReview = ''vlm-review''"
| "job_kind_str KLookup = ''lookup''"
| "job_kind_str KExport = ''export''"
| "job_kind_str KPageTranslate = ''page-translate''"
| "job_kind_str KLyricsResolve = ''lyrics-resolve''"

primrec job_status_str :: "JobStatus \<Rightarrow> string" where
  "job_status_str Queued = ''queued''"
| "job_status_str Running = ''running''"
| "job_status_str Paused = ''paused''"
| "job_status_str Succeeded = ''succeeded''"
| "job_status_str Failed = ''failed''"
| "job_status_str Cancelled = ''cancelled''"

primrec study_op_str :: "StudyOp \<Rightarrow> string" where
  "study_op_str OpPut = ''put''"
| "study_op_str OpGet = ''get''"
| "study_op_str OpList = ''list''"
| "study_op_str OpDelete = ''delete''"

primrec failure_code_str :: "HandshakeFailureCode \<Rightarrow> string" where
  "failure_code_str VersionMismatch = ''version-mismatch''"
| "failure_code_str OriginRejected = ''origin-rejected''"
| "failure_code_str RateLimited = ''rate-limited''"
| "failure_code_str Internal = ''internal''"

definition opt_str :: "string option \<Rightarrow> json option" where
  "opt_str = map_option JStr"

definition cue_json :: "Cue \<Rightarrow> json" where
  "cue_json c = js_obj
     [(''id'', Some (JStr (cue_id c))), (''startMs'', Some (JNum (of_int (startMs c)))),
      (''endMs'', Some (JNum (of_int (endMs c)))), (''text'', Some (JStr (cue_text c))),
      (''speaker'', opt_str (speaker c)), (''provenance'', Some (JStr (provenance_str (provenance c))))]"

definition timeline_json :: "SourceTimeline \<Rightarrow> json" where
  "timeline_json t = js_obj
     [(''videoId'', Some (JStr (tl_videoId t))), (''cues'', Some (JArr (map cue_json (tl_cues t)))),
      (''sourceHash'', Some (JStr (sourceHash t))), (''immutable'', Some (JBool (immutable t))),
      (''captionSource'', opt_str (map_option caption_source_str (captionSource t))),
      (''language'', opt_str (tl_language t)), (''developmentFallback'', map_option JBool (developmentFallback t))]"

definition progress_json :: "JobProgress \<Rightarrow> json" where
  "progress_json p = js_obj
     [(''jobId'', Some (JStr (jp_jobId p))), (''kind'', Some (JStr (job_kind_str (jp_kind p)))),
      (''status'', Some (JStr (job_status_str (jp_status p)))), (''fraction'', Some (JNum (fraction p))),
      (''message'', opt_str (jp_message p)), (''cueCount'', map_option (\<lambda>n. JNum (of_nat n)) (cueCount p)),
      (''updatedAtMs'', Some (JNum (of_int (jp_updatedAtMs p))))]"

definition lookup_entry_json :: "DictLookupEntry \<Rightarrow> json" where
  "lookup_entry_json e = js_obj
     [(''id'', Some (JStr (dle_id e))), (''dictionaryId'', Some (JStr (dictionaryId e))),
      (''surface'', Some (JStr (dle_surface e))), (''reading'', opt_str (dle_reading e)),
      (''glossaryJson'', opt_str (dle_glossaryJson e))]"

text \<open>The fields of a message after its type; \<open>None\<close> for the messages the union does not list.\<close>

definition critical_fields :: "WsMessage \<Rightarrow> (string \<times> json option) list option" where
  "critical_fields m = (case m of
     MAuthRequest r \<Rightarrow> Some
       [(''protocolVersion'', Some (JStr (rq_protocolVersion r))), (''extensionId'', Some (JStr (extensionId r))),
        (''nonce'', Some (JStr (nonce r))), (''requestedAtMs'', Some (JNum (requestedAtMs r)))]
   | MAuthResponse r \<Rightarrow> Some
       [(''protocolVersion'', Some (JStr (rs_protocolVersion r))), (''sessionToken'', Some (JStr (rs_sessionToken r))),
        (''expiresAtMs'', Some (JNum (expiresAtMs r))), (''companionBuild'', opt_str (companionBuild r)),
        (''ok'', Some (JBool (rs_ok r)))]
   | MAuthFailure f \<Rightarrow> Some
       [(''protocolVersion'', Some (JStr (fl_protocolVersion f))), (''code'', Some (JStr (failure_code_str (fl_code f)))),
        (''message'', Some (JStr (fl_message f))), (''ok'', Some (JBool (fl_ok f)))]
   | MJobSubmit t j k v payload \<Rightarrow> Some
       [(''sessionToken'', Some (JStr t)), (''jobId'', Some (JStr j)), (''kind'', Some (JStr (job_kind_str k))),
        (''videoId'', Some (JStr v)), (''payload'', Some (JObj payload))]
   | MTimelineSource t tml \<Rightarrow> Some [(''sessionToken'', Some (JStr t)), (''timeline'', Some (timeline_json tml))]
   | MPrivacyWipe t sc \<Rightarrow> Some [(''sessionToken'', Some (JStr t)), (''scope'', Some (JStr (scope_str sc)))]
   | MRetentionSet t p \<Rightarrow> Some [(''sessionToken'', Some (JStr t)), (''preset'', Some (JStr (preset_str p)))]
   | MTimelineHydrate t v h \<Rightarrow> Some
       [(''sessionToken'', Some (JStr t)), (''videoId'', Some (JStr v)), (''sourceHash'', opt_str h)]
   | MStudySync t op k i payload \<Rightarrow> Some
       [(''sessionToken'', Some (JStr t)), (''op'', Some (JStr (study_op_str op))), (''kind'', opt_str k),
        (''id'', opt_str i), (''payload'', map_option JObj payload)]
   | MDictionaryLookup t s es \<Rightarrow> Some
       [(''sessionToken'', Some (JStr t)), (''surface'', Some (JStr s)),
        (''entries'', map_option (\<lambda>es. JArr (map lookup_entry_json es)) es)]
   | MJobProgress t p \<Rightarrow> Some [(''sessionToken'', Some (JStr t)), (''progress'', Some (progress_json p))]
   | MError t cd msg fatal \<Rightarrow> Some
       [(''sessionToken'', opt_str t), (''code'', Some (JStr cd)), (''message'', Some (JStr msg)),
        (''fatal'', map_option JBool fatal)]
   | _ \<Rightarrow> None)"

definition critical_json :: "WsMessage \<Rightarrow> json option" where
  "critical_json m = map_option (\<lambda>fs. js_obj ((''type'', Some (JStr (ws_type m))) # fs)) (critical_fields m)"

section \<open>What is well-formed\<close>

definition cue_ok :: "Cue \<Rightarrow> bool" where
  "cue_ok c \<longleftrightarrow> cue_id c \<noteq> [] \<and> 0 \<le> startMs c \<and> startMs c < endMs c"

definition timeline_sound :: "SourceTimeline \<Rightarrow> bool" where
  "timeline_sound t \<longleftrightarrow> tl_videoId t \<noteq> [] \<and> list_all cue_ok (tl_cues t) \<and> sourceHash t \<noteq> [] \<and> immutable t"

definition progress_ok :: "JobProgress \<Rightarrow> bool" where
  "progress_ok p \<longleftrightarrow> jp_jobId p \<noteq> [] \<and> 0 \<le> fraction p \<and> fraction p \<le> 1 \<and> 0 \<le> jp_updatedAtMs p"

definition token_ok :: "string \<Rightarrow> bool" where
  "token_ok t \<longleftrightarrow> 32 \<le> length t"

definition critical_ok :: "WsMessage \<Rightarrow> bool" where
  "critical_ok m = (case m of
     MAuthRequest r \<Rightarrow> rq_protocolVersion r \<noteq> [] \<and> extensionId r \<noteq> [] \<and> 16 \<le> length (nonce r)
       \<and> requestedAtMs r \<in> \<int> \<and> 0 \<le> requestedAtMs r
   | MAuthResponse r \<Rightarrow> rs_protocolVersion r \<noteq> [] \<and> token_ok (rs_sessionToken r) \<and> expiresAtMs r \<in> \<int>
       \<and> 0 < expiresAtMs r \<and> rs_ok r
   | MAuthFailure f \<Rightarrow> fl_protocolVersion f \<noteq> [] \<and> \<not> fl_ok f
   | MJobSubmit t j k v payload \<Rightarrow> token_ok t \<and> j \<noteq> [] \<and> v \<noteq> []
   | MTimelineSource t tml \<Rightarrow> token_ok t \<and> timeline_sound tml
   | MPrivacyWipe t sc \<Rightarrow> token_ok t
   | MRetentionSet t p \<Rightarrow> token_ok t
   | MTimelineHydrate t v h \<Rightarrow> token_ok t \<and> v \<noteq> []
   | MStudySync t op k i payload \<Rightarrow> token_ok t
   | MDictionaryLookup t s es \<Rightarrow> token_ok t \<and> s \<noteq> []
   | MJobProgress t p \<Rightarrow> token_ok t \<and> progress_ok p
   | MError t cd msg fatal \<Rightarrow> (case t of None \<Rightarrow> True | Some t \<Rightarrow> token_ok t) \<and> cd \<noteq> []
   | _ \<Rightarrow> False)"

text \<open>The data of a message after parsing: the schema of a lookup knows no entries.\<close>

definition without_entries :: "WsMessage \<Rightarrow> WsMessage" where
  "without_entries m = (case m of MDictionaryLookup t s es \<Rightarrow> MDictionaryLookup t s None | _ \<Rightarrow> m)"

text \<open>The members of the union with their types.\<close>

definition critical_types :: "string list" where
  "critical_types = [''auth.handshake.request'', ''auth.handshake.response'', ''auth.handshake.failure'',
     ''job.submit'', ''timeline.source'', ''privacy.wipe'', ''retention.set'', ''timeline.hydrate'', ''study.sync'',
     ''dictionary.lookup'', ''job.progress'', ''error'']"

definition critical_schemas :: "Schema list" where
  "critical_schemas = [authHandshakeRequestSchema, authHandshakeResponseSchema, authHandshakeFailureSchema,
     jobSubmitSchema, timelineSourceMessageSchema, privacyWipeSchema, retentionSetSchema, timelineHydrateSchema,
     studySyncSchema, dictionaryLookupSchema, jobProgressMessageSchema, errorSchema]"

section \<open>Laws for parts\<close>

lemma field_js_obj_cons [simp]:
  "json_field (js_obj ((k', v) # fs)) k = (if k = k' \<and> v \<noteq> None then v else json_field (js_obj fs) k)"
  by (cases v) (simp_all add: js_obj_def)

lemma obj_fields_somes: "obj_fields (map (\<lambda>(k, x). (k, Some x)) fs) = fs"
  by (induction fs) (auto split: prod.split)

context zod
begin

lemma id_string: "safeParse id_string (Some (JStr s)) = (if s \<noteq> [] then Some (Some (JStr s)) else None)"
  by (cases s) (simp_all add: id_string_def z_checked z_string)

lemma token_string: "safeParse token_string (Some (JStr s)) = (if token_ok s then Some (Some (JStr s)) else None)"
  by (simp add: token_string_def z_checked z_string token_ok_def)

lemma optional_string: "safeParse (ZOptional ZString) (opt_str x) = Some (opt_str x)"
  by (cases x) (simp_all add: z_optional z_string opt_str_def)

lemma optional_bool: "safeParse (ZOptional ZBoolean) (map_option JBool x) = Some (map_option JBool x)"
  by (cases x) (simp_all add: z_optional z_boolean)

lemma nonnegative: "safeParse nonnegative (Some (JNum x)) = (if 0 \<le> x then Some (Some (JNum x)) else None)"
  by (simp add: nonnegative_def z_checked z_number)

lemma nonnegative_int:
  "safeParse nonnegative_int (Some (JNum x)) = (if x \<in> \<int> \<and> 0 \<le> x then Some (Some (JNum x)) else None)"
  by (simp add: nonnegative_int_def z_checked z_number)

lemma unit_number:
  "safeParse unit_number (Some (JNum x)) = (if 0 \<le> x \<and> x \<le> 1 then Some (Some (JNum x)) else None)"
  by (simp add: unit_number_def z_checked z_number)

lemma array_of:
  assumes "\<And>x. safeParse s (Some (f x)) = (if P x then Some (Some (f x)) else None)"
  shows "safeParse (ZArray s) (Some (JArr (map f xs)))
    = (if list_all P xs then Some (Some (JArr (map f xs))) else None)"
proof -
  have "list_all (\<lambda>r. case r of Some (Some v) \<Rightarrow> True | _ \<Rightarrow> False) (map (\<lambda>x. safeParse s (Some (f x))) xs)
      = list_all P xs"
    by (induction xs) (simp_all add: assms)
  moreover have "list_all P xs \<Longrightarrow> map (\<lambda>x. the (the (safeParse s (Some (f x))))) xs = map f xs"
    by (induction xs) (simp_all add: assms)
  ultimately show ?thesis by (simp add: z_array parse_items_def comp_def)
qed

lemma any_record: "safeParse (ZRecord ZUnknown) (Some (JObj fs)) = Some (Some (JObj fs))"
proof -
  have "map (\<lambda>(k, r). (k, case r of None \<Rightarrow> None | Some v \<Rightarrow> v))
      (map (\<lambda>(k, x). (k, safeParse ZUnknown (Some x))) fs) = map (\<lambda>(k, x). (k, Some x)) fs"
    by (auto simp: z_unknown)
  moreover have "list_all (\<lambda>p. snd p \<noteq> None) (map (\<lambda>(k, x). (k, safeParse ZUnknown (Some x))) fs)"
    by (auto simp: z_unknown list_all_iff)
  ultimately have "parse_parts (map (\<lambda>(k, x). (k, safeParse ZUnknown (Some x))) fs) = Some (Some (JObj fs))"
    by (simp only: parse_parts_def if_True js_obj_def obj_fields_somes)
  then show ?thesis by (simp add: z_record)
qed

text \<open>
  An object against its schema. A row of the table has the field, its schema, its value and the
  condition under which that value passes as it is.
\<close>

lemma object_rows:
  assumes rows: "list_all (\<lambda>(k, s, v, P). safeParse s v = (if P then Some v else None)) rows"
    and keys: "distinct (map fst rows)"
  shows "safeParse (ZObject (map (\<lambda>(k, s, v, P). (k, s)) rows)) (Some (js_obj (map (\<lambda>(k, s, v, P). (k, v)) rows)))
    = (if list_all (\<lambda>(k, s, v, P). P) rows
       then Some (Some (js_obj (map (\<lambda>(k, s, v, P). (k, v)) rows))) else None)"
proof -
  let ?o = "js_obj (map (\<lambda>(k, s, v, P). (k, v)) rows)"
  let ?ps = "map (\<lambda>(k, s). (k, safeParse s (json_field ?o k))) (map (\<lambda>(k, s, v, P). (k, s)) rows)"
  have parsed: "?ps = map (\<lambda>(k, s, v, P). (k, if P then Some v else None)) rows"
  proof -
    have "safeParse s (json_field ?o k) = (if P then Some v else None)" if "(k, s, v, P) \<in> set rows" for k s v P
    proof -
      have "distinct (map fst (map (\<lambda>(k, s, v, P). (k, v)) rows))"
        using keys by (simp add: comp_def split_def)
      then have "json_field ?o k = v"
        by (rule field_js_obj) (use that in force)
      with rows that show ?thesis by (auto simp: list_all_iff)
    qed
    then show ?thesis by auto
  qed
  have "safeParse (ZObject (map (\<lambda>(k, s, v, P). (k, s)) rows)) (Some ?o) = parse_parts ?ps"
    by (simp add: z_object js_obj_def)
  also have "\<dots> = (if list_all (\<lambda>(k, s, v, P). P) rows then Some (Some ?o) else None)"
  proof (cases "list_all (\<lambda>(k, s, v, P). P) rows")
    case True
    then have "map (\<lambda>(k, r). (k, case r of None \<Rightarrow> None | Some v \<Rightarrow> v))
        (map (\<lambda>(k, s, v, P). (k, if P then Some v else None)) rows) = map (\<lambda>(k, s, v, P). (k, v)) rows"
      by (auto simp: list_all_iff)
    moreover have "list_all (\<lambda>p. snd p \<noteq> None) (map (\<lambda>(k, s, v, P). (k, if P then Some v else None)) rows)"
      using True by (auto simp: list_all_iff)
    ultimately show ?thesis by (simp only: parsed parse_parts_def True if_True)
  next
    case False
    then have "\<not> list_all (\<lambda>p. snd p \<noteq> None) (map (\<lambda>(k, s, v, P). (k, if P then Some v else None)) rows)"
      by (force simp: list_all_iff)
    with False show ?thesis unfolding parsed parse_parts_def by simp
  qed
  finally show ?thesis .
qed

lemma cue: "safeParse cueSchema (Some (cue_json c)) = (if cue_ok c then Some (Some (cue_json c)) else None)"
proof -
  let ?S = "ZObject [(''id'', id_string), (''startMs'', nonnegative), (''endMs'', nonnegative), (''text'', ZString),
     (''speaker'', ZOptional ZString), (''provenance'', provenanceSchema)]"
  have "safeParse provenanceSchema (Some (JStr (provenance_str p))) = Some (Some (JStr (provenance_str p)))" for p
    by (cases p) (simp_all add: provenanceSchema_def z_enum)
  then have "safeParse ?S (Some (cue_json c))
      = (if cue_id c \<noteq> [] \<and> 0 \<le> startMs c \<and> 0 \<le> endMs c then Some (Some (cue_json c)) else None)"
    using object_rows [of "[(''id'', id_string, Some (JStr (cue_id c)), cue_id c \<noteq> []),
      (''startMs'', nonnegative, Some (JNum (of_int (startMs c))), 0 \<le> startMs c),
      (''endMs'', nonnegative, Some (JNum (of_int (endMs c))), 0 \<le> endMs c),
      (''text'', ZString, Some (JStr (cue_text c)), True), (''speaker'', ZOptional ZString, opt_str (speaker c), True),
      (''provenance'', provenanceSchema, Some (JStr (provenance_str (provenance c))), True)]"]
    by (simp add: cue_json_def id_string nonnegative optional_string z_string)
  moreover have "ends_after_start (cue_json c) \<longleftrightarrow> startMs c < endMs c"
    by (simp add: ends_after_start_def cue_json_def)
  ultimately show ?thesis by (auto simp: cueSchema_def z_refined cue_ok_def)
qed

lemma timeline:
  "safeParse sourceTimelineSchema (Some (timeline_json t))
   = (if timeline_sound t then Some (Some (timeline_json t)) else None)"
proof -
  have "safeParse (ZOptional (ZEnum [''human'', ''auto'', ''asr-live'', ''asr-import'', ''user-edit'']))
      (opt_str (map_option caption_source_str x)) = Some (opt_str (map_option caption_source_str x))" for x
  proof (cases x)
    case (Some k)
    then show ?thesis by (cases k) (simp_all add: opt_str_def z_optional z_enum)
  qed (simp add: opt_str_def z_optional)
  then show ?thesis
    using object_rows [of "[(''videoId'', id_string, Some (JStr (tl_videoId t)), tl_videoId t \<noteq> []),
      (''cues'', ZArray cueSchema, Some (JArr (map cue_json (tl_cues t))), list_all cue_ok (tl_cues t)),
      (''sourceHash'', id_string, Some (JStr (sourceHash t)), sourceHash t \<noteq> []),
      (''immutable'', ZLiteral (JBool True), Some (JBool (immutable t)), immutable t),
      (''captionSource'', ZOptional (ZEnum [''human'', ''auto'', ''asr-live'', ''asr-import'', ''user-edit'']),
        opt_str (map_option caption_source_str (captionSource t)), True),
      (''language'', ZOptional ZString, opt_str (tl_language t), True),
      (''developmentFallback'', ZOptional ZBoolean, map_option JBool (developmentFallback t), True)]"]
    by (simp add: sourceTimelineSchema_def timeline_json_def timeline_sound_def id_string optional_string optional_bool
        array_of [OF cue] z_literal)
qed

lemma job_kind: "safeParse jobKindSchema (Some (JStr (job_kind_str k))) = Some (Some (JStr (job_kind_str k)))"
  by (cases k) (simp_all add: jobKindSchema_def z_enum)

lemma progress:
  "safeParse jobProgressSchema (Some (progress_json p)) = (if progress_ok p then Some (Some (progress_json p)) else None)"
proof -
  have "safeParse jobStatusSchema (Some (JStr (job_status_str x))) = Some (Some (JStr (job_status_str x)))" for x
    by (cases x) (simp_all add: jobStatusSchema_def z_enum)
  moreover have "safeParse (ZOptional nonnegative_int) (map_option (\<lambda>n. JNum (of_nat n)) x)
      = Some (map_option (\<lambda>n. JNum (of_nat n)) x)" for x
    by (cases x) (simp_all add: z_optional nonnegative_int)
  ultimately show ?thesis
    using object_rows [of "[(''jobId'', id_string, Some (JStr (jp_jobId p)), jp_jobId p \<noteq> []),
      (''kind'', jobKindSchema, Some (JStr (job_kind_str (jp_kind p))), True),
      (''status'', jobStatusSchema, Some (JStr (job_status_str (jp_status p))), True),
      (''fraction'', unit_number, Some (JNum (fraction p)), 0 \<le> fraction p \<and> fraction p \<le> 1),
      (''message'', ZOptional ZString, opt_str (jp_message p), True),
      (''cueCount'', ZOptional nonnegative_int, map_option (\<lambda>n. JNum (of_nat n)) (cueCount p), True),
      (''updatedAtMs'', nonnegative_int, Some (JNum (of_int (jp_updatedAtMs p))), 0 \<le> jp_updatedAtMs p)]"]
    by (simp add: jobProgressSchema_def progress_json_def progress_ok_def id_string job_kind unit_number
        optional_string nonnegative_int)
qed

lemmas field_laws = id_string token_string optional_string optional_bool nonnegative nonnegative_int unit_number
  any_record job_kind timeline progress z_string z_literal

text \<open>The members of the union, one object with its table each.\<close>

lemma auth_request:
  "safeParse authHandshakeRequestSchema (critical_json (MAuthRequest r))
   = (if critical_ok (MAuthRequest r) then Some (critical_json (MAuthRequest r)) else None)"
proof -
  have "safeParse (ZChecked ZString (MinLength 16)) (Some (JStr s))
      = (if 16 \<le> length s then Some (Some (JStr s)) else None)" for s
    by (simp add: z_checked z_string)
  then show ?thesis
    using object_rows [of "[(''type'', ZLiteral (JStr ''auth.handshake.request''), Some (JStr ''auth.handshake.request''), True),
      (''protocolVersion'', id_string, Some (JStr (rq_protocolVersion r)), rq_protocolVersion r \<noteq> []),
      (''extensionId'', id_string, Some (JStr (extensionId r)), extensionId r \<noteq> []),
      (''nonce'', ZChecked ZString (MinLength 16), Some (JStr (nonce r)), 16 \<le> length (nonce r)),
      (''requestedAtMs'', nonnegative_int, Some (JNum (requestedAtMs r)), requestedAtMs r \<in> \<int> \<and> 0 \<le> requestedAtMs r)]"]
    by (simp add: authHandshakeRequestSchema_def critical_json_def critical_fields_def critical_ok_def field_laws)
qed

lemma auth_response:
  "safeParse authHandshakeResponseSchema (critical_json (MAuthResponse r))
   = (if critical_ok (MAuthResponse r) then Some (critical_json (MAuthResponse r)) else None)"
proof -
  have "safeParse (ZChecked (ZChecked ZNumber IsInt) Positive) (Some (JNum x))
      = (if x \<in> \<int> \<and> 0 < x then Some (Some (JNum x)) else None)" for x
    by (simp add: z_checked z_number)
  then show ?thesis
    using object_rows [of "[(''type'', ZLiteral (JStr ''auth.handshake.response''), Some (JStr ''auth.handshake.response''), True),
      (''protocolVersion'', id_string, Some (JStr (rs_protocolVersion r)), rs_protocolVersion r \<noteq> []),
      (''sessionToken'', token_string, Some (JStr (rs_sessionToken r)), token_ok (rs_sessionToken r)),
      (''expiresAtMs'', ZChecked (ZChecked ZNumber IsInt) Positive, Some (JNum (expiresAtMs r)),
        expiresAtMs r \<in> \<int> \<and> 0 < expiresAtMs r),
      (''companionBuild'', ZOptional ZString, opt_str (companionBuild r), True),
      (''ok'', ZLiteral (JBool True), Some (JBool (rs_ok r)), rs_ok r)]"]
    by (simp add: authHandshakeResponseSchema_def critical_json_def critical_fields_def critical_ok_def field_laws)
qed

lemma auth_failure:
  "safeParse authHandshakeFailureSchema (critical_json (MAuthFailure f))
   = (if critical_ok (MAuthFailure f) then Some (critical_json (MAuthFailure f)) else None)"
proof -
  let ?C = "ZEnum [''version-mismatch'', ''origin-rejected'', ''rate-limited'', ''internal'']"
  have "safeParse ?C (Some (JStr (failure_code_str c))) = Some (Some (JStr (failure_code_str c)))" for c
    by (cases c) (simp_all add: z_enum)
  then show ?thesis
    using object_rows [of "[(''type'', ZLiteral (JStr ''auth.handshake.failure''), Some (JStr ''auth.handshake.failure''), True),
      (''protocolVersion'', id_string, Some (JStr (fl_protocolVersion f)), fl_protocolVersion f \<noteq> []),
      (''code'', ?C, Some (JStr (failure_code_str (fl_code f))), True),
      (''message'', ZString, Some (JStr (fl_message f)), True),
      (''ok'', ZLiteral (JBool False), Some (JBool (fl_ok f)), \<not> fl_ok f)]"]
    by (simp add: authHandshakeFailureSchema_def critical_json_def critical_fields_def critical_ok_def field_laws)
qed

lemma job_submit:
  "safeParse jobSubmitSchema (critical_json (MJobSubmit t j k v p))
   = (if critical_ok (MJobSubmit t j k v p) then Some (critical_json (MJobSubmit t j k v p)) else None)"
  using object_rows [of "[(''type'', ZLiteral (JStr ''job.submit''), Some (JStr ''job.submit''), True),
      (''sessionToken'', token_string, Some (JStr t), token_ok t), (''jobId'', id_string, Some (JStr j), j \<noteq> []),
      (''kind'', jobKindSchema, Some (JStr (job_kind_str k)), True), (''videoId'', id_string, Some (JStr v), v \<noteq> []),
      (''payload'', ZRecord ZUnknown, Some (JObj p), True)]"]
  by (simp add: jobSubmitSchema_def critical_json_def critical_fields_def critical_ok_def field_laws)

lemma timeline_source:
  "safeParse timelineSourceMessageSchema (critical_json (MTimelineSource t x))
   = (if critical_ok (MTimelineSource t x) then Some (critical_json (MTimelineSource t x)) else None)"
  using object_rows [of "[(''type'', ZLiteral (JStr ''timeline.source''), Some (JStr ''timeline.source''), True),
      (''sessionToken'', token_string, Some (JStr t), token_ok t),
      (''timeline'', sourceTimelineSchema, Some (timeline_json x), timeline_sound x)]"]
  by (simp add: timelineSourceMessageSchema_def critical_json_def critical_fields_def critical_ok_def field_laws)

lemma privacy_wipe:
  "safeParse privacyWipeSchema (critical_json (MPrivacyWipe t sc))
   = (if critical_ok (MPrivacyWipe t sc) then Some (critical_json (MPrivacyWipe t sc)) else None)"
proof -
  have "safeParse privacyWipeScopeSchema (Some (JStr (scope_str sc))) = Some (Some (JStr (scope_str sc)))"
    by (cases sc) (simp_all add: privacyWipeScopeSchema_def z_enum)
  then show ?thesis
    using object_rows [of "[(''type'', ZLiteral (JStr ''privacy.wipe''), Some (JStr ''privacy.wipe''), True),
      (''sessionToken'', token_string, Some (JStr t), token_ok t),
      (''scope'', privacyWipeScopeSchema, Some (JStr (scope_str sc)), True)]"]
    by (simp add: privacyWipeSchema_def critical_json_def critical_fields_def critical_ok_def field_laws)
qed

lemma retention_set:
  "safeParse retentionSetSchema (critical_json (MRetentionSet t p))
   = (if critical_ok (MRetentionSet t p) then Some (critical_json (MRetentionSet t p)) else None)"
proof -
  have "safeParse retentionPresetSchema (Some (JStr (preset_str p))) = Some (Some (JStr (preset_str p)))"
    by (cases p) (simp_all add: retentionPresetSchema_def z_enum)
  then show ?thesis
    using object_rows [of "[(''type'', ZLiteral (JStr ''retention.set''), Some (JStr ''retention.set''), True),
      (''sessionToken'', token_string, Some (JStr t), token_ok t),
      (''preset'', retentionPresetSchema, Some (JStr (preset_str p)), True)]"]
    by (simp add: retentionSetSchema_def critical_json_def critical_fields_def critical_ok_def field_laws)
qed

lemma timeline_hydrate:
  "safeParse timelineHydrateSchema (critical_json (MTimelineHydrate t v h))
   = (if critical_ok (MTimelineHydrate t v h) then Some (critical_json (MTimelineHydrate t v h)) else None)"
  using object_rows [of "[(''type'', ZLiteral (JStr ''timeline.hydrate''), Some (JStr ''timeline.hydrate''), True),
      (''sessionToken'', token_string, Some (JStr t), token_ok t), (''videoId'', id_string, Some (JStr v), v \<noteq> []),
      (''sourceHash'', ZOptional ZString, opt_str h, True)]"]
  by (simp add: timelineHydrateSchema_def critical_json_def critical_fields_def critical_ok_def field_laws)

lemma study_sync:
  "safeParse studySyncSchema (critical_json (MStudySync t op k i p))
   = (if critical_ok (MStudySync t op k i p) then Some (critical_json (MStudySync t op k i p)) else None)"
proof -
  let ?O = "ZEnum [''put'', ''get'', ''list'', ''delete'']"
  have "safeParse ?O (Some (JStr (study_op_str op))) = Some (Some (JStr (study_op_str op)))"
    by (cases op) (simp_all add: z_enum)
  moreover have "safeParse (ZOptional (ZRecord ZUnknown)) (map_option JObj p) = Some (map_option JObj p)"
    by (cases p) (simp_all add: z_optional any_record)
  ultimately show ?thesis
    using object_rows [of "[(''type'', ZLiteral (JStr ''study.sync''), Some (JStr ''study.sync''), True),
      (''sessionToken'', token_string, Some (JStr t), token_ok t),
      (''op'', ?O, Some (JStr (study_op_str op)), True), (''kind'', ZOptional ZString, opt_str k, True),
      (''id'', ZOptional ZString, opt_str i, True),
      (''payload'', ZOptional (ZRecord ZUnknown), map_option JObj p, True)]"]
    by (simp add: studySyncSchema_def critical_json_def critical_fields_def critical_ok_def field_laws)
qed

lemma job_progress:
  "safeParse jobProgressMessageSchema (critical_json (MJobProgress t p))
   = (if critical_ok (MJobProgress t p) then Some (critical_json (MJobProgress t p)) else None)"
  using object_rows [of "[(''type'', ZLiteral (JStr ''job.progress''), Some (JStr ''job.progress''), True),
      (''sessionToken'', token_string, Some (JStr t), token_ok t),
      (''progress'', jobProgressSchema, Some (progress_json p), progress_ok p)]"]
  by (simp add: jobProgressMessageSchema_def critical_json_def critical_fields_def critical_ok_def field_laws)

lemma error_message:
  "safeParse errorSchema (critical_json (MError t c m f))
   = (if critical_ok (MError t c m f) then Some (critical_json (MError t c m f)) else None)"
proof -
  have "safeParse (ZOptional token_string) (opt_str t)
      = (if case t of None \<Rightarrow> True | Some t \<Rightarrow> token_ok t then Some (opt_str t) else None)"
    by (cases t) (simp_all add: z_optional token_string opt_str_def)
  then show ?thesis
    using object_rows [of "[(''type'', ZLiteral (JStr ''error''), Some (JStr ''error''), True),
      (''sessionToken'', ZOptional token_string, opt_str t, case t of None \<Rightarrow> True | Some t \<Rightarrow> token_ok t),
      (''code'', id_string, Some (JStr c), c \<noteq> []), (''message'', ZString, Some (JStr m), True),
      (''fatal'', ZOptional ZBoolean, map_option JBool f, True)]"]
    by (simp add: errorSchema_def critical_json_def critical_fields_def critical_ok_def field_laws)
qed

lemma object_js:
  "safeParse (ZObject ss) (Some (js_obj fs)) = parse_parts (map (\<lambda>(k, s). (k, safeParse s (json_field (js_obj fs) k))) ss)"
  by (simp add: z_object js_obj_def)

text \<open>A field the schema does not know is dropped.\<close>

lemma unknown_field:
  "k \<notin> fst ` set ss \<Longrightarrow> safeParse (ZObject ss) (Some (js_obj (fs @ [(k, v)]))) = safeParse (ZObject ss) (Some (js_obj fs))"
proof -
  assume k: "k \<notin> fst ` set ss"
  have "json_field (js_obj (fs @ [(k, v)])) k' = json_field (js_obj fs) k'" if "(k', s) \<in> set ss" for k' s
  proof -
    have "k' \<noteq> k" using that k by force
    then show ?thesis by (induction fs) (auto simp: split_def)
  qed
  then have "map (\<lambda>(k', s). (k', safeParse s (json_field (js_obj (fs @ [(k, v)])) k'))) ss
      = map (\<lambda>(k', s). (k', safeParse s (json_field (js_obj fs) k'))) ss"
    by auto
  then show ?thesis by (simp only: object_js)
qed

lemma dictionary_lookup:
  "safeParse dictionaryLookupSchema (critical_json (MDictionaryLookup t s es))
   = (if critical_ok (MDictionaryLookup t s es) then Some (critical_json (MDictionaryLookup t s None)) else None)"
proof -
  let ?fs = "[(''type'', Some (JStr ''dictionary.lookup'')), (''sessionToken'', Some (JStr t)), (''surface'', Some (JStr s))]"
  have "safeParse dictionaryLookupSchema (Some (js_obj ?fs))
      = (if critical_ok (MDictionaryLookup t s es) then Some (Some (js_obj ?fs)) else None)"
    using object_rows [of "[(''type'', ZLiteral (JStr ''dictionary.lookup''), Some (JStr ''dictionary.lookup''), True),
        (''sessionToken'', token_string, Some (JStr t), token_ok t), (''surface'', id_string, Some (JStr s), s \<noteq> [])]"]
    by (simp add: dictionaryLookupSchema_def critical_ok_def field_laws)
  moreover have "safeParse dictionaryLookupSchema (Some (js_obj (?fs @ [(''entries'', v)])))
      = safeParse dictionaryLookupSchema (Some (js_obj ?fs))" for v
    unfolding dictionaryLookupSchema_def by (rule unknown_field) simp
  moreover have "js_obj (?fs @ [(''entries'', None)]) = js_obj ?fs" by (simp add: js_obj_def)
  ultimately show ?thesis by (simp add: critical_json_def critical_fields_def)
qed

text \<open>The member of the union is chosen by the type.\<close>

lemmas object_schemas = authHandshakeRequestSchema_def authHandshakeResponseSchema_def authHandshakeFailureSchema_def
  jobSubmitSchema_def timelineSourceMessageSchema_def privacyWipeSchema_def retentionSetSchema_def
  timelineHydrateSchema_def studySyncSchema_def dictionaryLookupSchema_def jobProgressMessageSchema_def errorSchema_def

lemma find_by_key:
  "map d ss = map Some ks \<Longrightarrow> find (\<lambda>s. d s = Some k) ss = map_of (zip ks ss) k"
proof (induction ss arbitrary: ks)
  case (Cons s ss)
  then show ?case by (cases ks) auto
qed simp

lemma discriminators:
  "map (discriminator ''type'') critical_schemas = map Some (map JStr critical_types)"
  by (simp add: critical_schemas_def critical_types_def object_schemas discriminator_def)

lemma union_member:
  "parseCriticalWsMessage safeParse (js_obj ((''type'', Some (JStr t)) # fs))
   = (case map_of (zip critical_types critical_schemas) t of
        None \<Rightarrow> None
      | Some s \<Rightarrow> safeParse s (Some (js_obj ((''type'', Some (JStr t)) # fs))))"
proof -
  have "map_of (zip (map JStr ks) ss) (JStr t) = map_of (zip ks ss) t" for ks and ss :: "Schema list"
  proof (induction ks arbitrary: ss)
    case (Cons k ks)
    then show ?case by (cases ss) auto
  qed simp
  then show ?thesis
    using find_by_key [OF discriminators, of "JStr t"]
    by (simp add: parseCriticalWsMessage_def criticalWsMessageSchema_def z_discriminated js_obj_def
        flip: critical_schemas_def split: option.split)
qed

lemmas member_laws = auth_request auth_response auth_failure job_submit timeline_source privacy_wipe retention_set
  timeline_hydrate study_sync dictionary_lookup job_progress error_message

lemma critical_messages:
  assumes "critical_json m = Some j"
  shows "parseCriticalWsMessage safeParse j = (if critical_ok m then Some (critical_json (without_entries m)) else None)"
proof -
  obtain fs where j: "j = js_obj ((''type'', Some (JStr (ws_type m))) # fs)"
    using assms by (auto simp: critical_json_def)
  then have parse: "parseCriticalWsMessage safeParse j
      = (case map_of (zip critical_types critical_schemas) (ws_type m) of
           None \<Rightarrow> None | Some s \<Rightarrow> safeParse s (critical_json m))"
    using assms by (simp add: union_member cong: option.case_cong)
  have listed: "critical_fields m \<noteq> None" using assms by (auto simp: critical_json_def)
  show ?thesis unfolding parse
    by (cases m; use listed in \<open>simp add: critical_fields_def critical_types_def critical_schemas_def member_laws without_entries_def\<close>)
qed

lemma other_messages:
  assumes "critical_json m = None"
  shows "parseCriticalWsMessage safeParse (js_obj ((''type'', Some (JStr (ws_type m))) # fs)) = None"
proof -
  have "critical_fields m = None" using assms by (simp add: critical_json_def)
  then have "map_of (zip critical_types critical_schemas) (ws_type m) = None"
    by (cases m) (simp_all add: critical_fields_def critical_types_def critical_schemas_def)
  then show ?thesis by (simp add: union_member)
qed

end

section \<open>What passes\<close>

text \<open>C3:
  Under the documented behaviour of the validator, a message of a type the wire schema lists passes
  exactly if its values are well-formed: session tokens of at least 32 characters, identifiers that
  are not empty, times that are not negative, cues that end after they start, fractions between
  zero and one. The data comes out as it went in, except that the entries of a dictionary lookup
  are lost; a message of any other type never passes.\<close>

theorem critical_schema_decides:
  assumes "zod safeParse"
  shows "case critical_json m of
      Some j \<Rightarrow> parseCriticalWsMessage safeParse j = (if critical_ok m then Some (critical_json (without_entries m)) else None)
    | None \<Rightarrow> (\<forall>fs. parseCriticalWsMessage safeParse (js_obj ((''type'', Some (JStr (ws_type m))) # fs)) = None)"
  using zod.critical_messages [OF assms] zod.other_messages [OF assms] by (simp split: option.split)

theorem critical_schema_decides_witness:
  "parseCriticalWsMessage documented
     (js_obj [(''type'', Some (JStr ''privacy.wipe'')), (''sessionToken'', Some (JStr (replicate 32 CHR ''a''))),
        (''scope'', Some (JStr ''all''))])
   = Some (critical_json (MPrivacyWipe (replicate 32 CHR ''a'') ScAll))"
  using critical_schema_decides [OF doc.zod_axioms, of "MPrivacyWipe (replicate 32 CHR ''a'') ScAll"]
  by (simp add: critical_json_def critical_fields_def critical_ok_def token_ok_def without_entries_def)

text \<open>The constructors of messages give what passes, for tokens the companion hands out.\<close>

lemma created_messages_pass:
  assumes "isSessionToken t"
  shows "critical_ok (createPrivacyWipe t sc)" "critical_ok (createRetentionSet t p)"
    "video \<noteq> [] \<Longrightarrow> critical_ok (createTimelineHydrate t video h)"
    "critical_ok (createStudySync t op k i payload)" "s \<noteq> [] \<Longrightarrow> critical_ok (createDictionaryLookup t s)"
    "j \<noteq> [] \<Longrightarrow> video \<noteq> [] \<Longrightarrow> critical_ok (createJobSubmit t j jk video pl)"
  using assms by (simp_all add: isSessionToken_def critical_ok_def token_ok_def message_constructors)

text \<open>
  For versions printed from numbers the major parts decide, as they do in the comparison of versions.
\<close>

lemma assert_version:
  assumes "zod safeParse"
  shows "assertProtocolVersion safeParse (nat_str a @ CHR ''.'' # s) = (if a = 1 then Some () else None)"
proof -
  have dotless: "CHR ''.'' \<notin> set (nat_str n)" for n
    using nat_str_digits [of "CHR ''.''" n] by (auto simp: is_digit_def)
  have one: "hd (split_on (CHR ''.'') PROTOCOL_VERSION) = nat_str 1"
    by code_simp
  show ?thesis
    by (simp add: assertProtocolVersion_def zod.id_string [OF assms] split_on_sep [OF dotless] one)
qed

end
