(* ===== verification/Release_Scripts.thy ===== *)
theory Release_Scripts
  imports Js_Values
begin

text \<open>
  The release gates of \<open>scripts\<close>: \<open>validate-catalog.mjs\<close>, \<open>validate-licenses.mjs\<close>,
  \<open>validate-native-host.mjs\<close> and the gate that runs them with everything else, \<open>verify.mjs\<close>. The
  files are an argument (\<open>None\<close> where there is none), as is \<open>JSON.parse\<close>; \<open>num\<close> prints numbers. A
  script ends by a message, by a list of errors, or by an exception nobody catches.
\<close>

datatype Verdict = Passed string | Rejects "string list" | Threw

section \<open>The model catalog\<close>

definition ALLOWED_LICENSE :: "string list" where
  "ALLOWED_LICENSE = [''commercial-default'', ''optional'', ''research-opt-in'']"

definition ALLOWED_HARDWARE :: "string list" where
  "ALLOWED_HARDWARE = [''lite'', ''balanced'', ''quality'', ''workstation'']"

definition ALLOWED_TASK :: "string list" where
  "ALLOWED_TASK = [''asr'', ''mt'', ''vlm'', ''aligner'', ''align'', ''ast'', ''qe'']"

text \<open>A value inside a template.\<close>

definition shown :: "(real \<Rightarrow> string) \<Rightarrow> json option \<Rightarrow> string" where
  "shown num v = (case v of None \<Rightarrow> ''undefined'' | Some x \<Rightarrow> js_string num x)"

definition nonempty_str :: "json option \<Rightarrow> bool" where
  "nonempty_str v = (case v of Some (JStr s) \<Rightarrow> s \<noteq> [] | _ \<Rightarrow> False)"

definition is_bool :: "json option \<Rightarrow> bool" where
  "is_bool v = (case v of Some (JBool b) \<Rightarrow> True | _ \<Rightarrow> False)"

text \<open>The string is one, and it is not allowed.\<close>

definition strange :: "string list \<Rightarrow> json option \<Rightarrow> bool" where
  "strange ok v = (case v of Some (JStr s) \<Rightarrow> s \<notin> set ok | _ \<Rightarrow> False)"

definition said_if :: "bool \<Rightarrow> string \<Rightarrow> string list" where
  "said_if b m = (if b then [m] else [])"

definition is_research :: "json \<Rightarrow> bool" where
  "is_research m \<longleftrightarrow> json_field m ''licenseClass'' = Some (JStr ''research-opt-in'')"

definition is_default :: "json \<Rightarrow> bool" where
  "is_default m \<longleftrightarrow> json_field m ''commercialDefault'' = Some (JBool True)"

text \<open>The errors of one entry, and the identifiers seen with it.\<close>

definition check_id :: "string \<Rightarrow> string list \<Rightarrow> json \<Rightarrow> string list \<times> string list" where
  "check_id place ids m =
     (case json_field m ''id'' of
        Some (JStr i) \<Rightarrow>
          if i = [] then ([place @ '': missing id''], ids)
          else if i \<in> set ids then ([place @ '': duplicate id '' @ i], ids)
          else ([], ids @ [i])
      | _ \<Rightarrow> ([place @ '': missing id''], ids))"

definition check_fields :: "(real \<Rightarrow> string) \<Rightarrow> string \<Rightarrow> json \<Rightarrow> string list" where
  "check_fields num place m =
     (let at_id = place @ '' ('' @ shown num (json_field m ''id'') @ ''): ''
      in said_if (case json_field m ''licenseClass'' of Some (JStr s) \<Rightarrow> s \<notin> set ALLOWED_LICENSE | _ \<Rightarrow> True)
           (at_id @ ''licenseClass must be one of '' @ join '', '' ALLOWED_LICENSE)
       @ said_if (\<not> is_bool (json_field m ''commercialDefault'')) (at_id @ ''commercialDefault must be boolean'')
       @ said_if (is_research m \<and> is_default m) (at_id @ ''research-opt-in must not be commercialDefault'')
       @ said_if (is_default m \<and> is_research m) (at_id @ ''commercial default cannot be research-opt-in'')
       @ said_if (strange ALLOWED_HARDWARE (json_field m ''hardwareMin''))
           (at_id @ ''invalid hardwareMin '' @ shown num (json_field m ''hardwareMin''))
       @ said_if (strange ALLOWED_TASK (json_field m ''task''))
           (at_id @ ''unknown task '' @ shown num (json_field m ''task''))
       @ said_if (\<not> nonempty_str (json_field m ''sha256Placeholder'')) (at_id @ ''missing sha256Placeholder'')
       @ said_if (is_default m \<and> str_of (json_field m ''family'') = None)
           (at_id @ ''commercialDefault packs need family''))"

definition check_model :: "(real \<Rightarrow> string) \<Rightarrow> nat \<times> json \<Rightarrow> string list \<times> string list \<Rightarrow> string list \<times> string list" where
  "check_model num im acc =
     (let (i, m) = im; (errors, ids) = acc; place = ''models['' @ nat_str i @ '']''
      in if \<not> truthy (Some m) \<or> \<not> is_json_object m then (errors @ [place @ '': not an object''], ids)
         else let (es, ids) = check_id place ids m in (errors @ es @ check_fields num place m, ids))"

text \<open>The entries of \<open>catalog.models ?? []\<close>; what is no array has none to give and throws.\<close>

definition model_entries :: "json \<Rightarrow> json list option" where
  "model_entries catalog =
     (case field_or catalog ''models'' of None \<Rightarrow> Some [] | Some (JArr ms) \<Rightarrow> Some ms | Some _ \<Rightarrow> None)"

definition commercial_defaults :: "json list \<Rightarrow> string list \<Rightarrow> string list" where
  "commercial_defaults ms ids =
     filter (\<lambda>i. case find (\<lambda>m. json_field m ''id'' = Some (JStr i)) ms of None \<Rightarrow> False | Some m \<Rightarrow> is_default m) ids"

definition validate_catalog :: "(real \<Rightarrow> string) \<Rightarrow> json \<Rightarrow> Verdict" where
  "validate_catalog num catalog =
     (if catalog = JNull then Threw
      else
        let header = said_if (\<not> nonempty_str (json_field catalog ''catalogVersion'')) ''catalogVersion must be a non-empty string''
              @ said_if (\<not> is_bool (json_field catalog ''signed'')) ''signed must be a boolean''
              @ said_if (case json_field catalog ''models'' of Some (JArr ms) \<Rightarrow> ms = [] | _ \<Rightarrow> True)
                  ''models must be a non-empty array''
        in case model_entries catalog of
             None \<Rightarrow> Threw
           | Some ms \<Rightarrow>
               let (errors, ids) = fold (check_model num) (List.enumerate 0 ms) (header, []);
                   defaults = commercial_defaults ms ids;
                   errors = errors @ said_if (defaults = []) ''at least one commercialDefault model is required''
               in if errors \<noteq> [] then Rejects errors
                  else Passed (''catalog ok: '' @ nat_str (length ids) @ '' models, '' @ nat_str (length defaults)
                         @ '' commercial defaults, signed='' @ shown num (json_field catalog ''signed'')))"

section \<open>Licenses\<close>

definition requiredDocs :: "string list" where
  "requiredDocs = [''LICENSE'', ''docs/licenses/model-matrix.md'']"

definition matrix_topics :: "string list" where
  "matrix_topics = [''commercial redistributable'', ''research'', ''NLLB'', ''Tower'', ''Kaikki'', ''JMdict'', ''CC-CEDICT'']"

text \<open>What \<open>for ... of\<close> goes over: an array, a string by its characters, nothing; the rest throws.\<close>

definition iterated :: "json option \<Rightarrow> json list option" where
  "iterated v = (case v of
     None \<Rightarrow> Some [] | Some (JArr xs) \<Rightarrow> Some xs | Some (JStr s) \<Rightarrow> Some (map (\<lambda>c. JStr [c]) s) | Some _ \<Rightarrow> None)"

definition research_defaults :: "(real \<Rightarrow> string) \<Rightarrow> json list \<Rightarrow> string list" where
  "research_defaults num ms =
     concat (map (\<lambda>m. said_if (is_research m \<and> is_default m)
       (''catalog '' @ shown num (json_field m ''id'') @ '': research-opt-in cannot be commercialDefault'')) ms)"

definition validate_licenses :: "(real \<Rightarrow> string) \<Rightarrow> (string \<Rightarrow> json option) \<Rightarrow> (string \<Rightarrow> string option) \<Rightarrow> Verdict" where
  "validate_licenses num parse files =
     (let missing = concat (map (\<lambda>rel. said_if (files rel = None) (''missing '' @ rel)) requiredDocs)
      in case files ''docs/licenses/model-matrix.md'' of
           None \<Rightarrow> Threw
         | Some matrix \<Rightarrow>
             let topics = concat (map (\<lambda>needle. said_if (\<not> str_includes (toLowerCase matrix) (toLowerCase needle))
                   (''model-matrix.md missing expected topic: '' @ needle)) matrix_topics)
             in (case Option.bind (files ''models/catalog.json'') parse of
                  None \<Rightarrow> Threw
                | Some catalog \<Rightarrow>
                    (case (if catalog = JNull then None else iterated (field_or catalog ''models'')) of
                       None \<Rightarrow> Threw
                     | Some ms \<Rightarrow>
                         if JNull \<in> set ms then Threw
                         else (case files ''LICENSE'' of
                                None \<Rightarrow> Threw
                              | Some rootLicense \<Rightarrow>
                                  let errors = missing @ topics @ research_defaults num ms
                                        @ said_if (\<not> str_includes (toLowerCase rootLicense) ''mit'')
                                            ''root LICENSE should identify MIT (or update this check)''
                                  in if errors \<noteq> [] then Rejects errors else Passed ''license validation ok''))))"

section \<open>Native host\<close>

definition HOST :: string where
  "HOST = ''com.languagellm.companion''"

definition required :: "string list" where
  "required = [''register-windows.ps1'', ''register-macos.sh'', ''register-linux.sh'', ''uninstall-windows.ps1'',
     ''uninstall-macos.sh'', ''uninstall-linux.sh'', ''native-host.json'']"

definition script_errors :: "(string \<Rightarrow> string option) \<Rightarrow> string \<Rightarrow> string list" where
  "script_errors files name =
     (case files name of
        None \<Rightarrow> [''missing '' @ name]
      | Some content \<Rightarrow>
          said_if (\<not> str_includes content HOST) (name @ '': does not mention host '' @ HOST)
          @ said_if (startsWith name ''register-''
              \<and> \<not> list_ex (str_includes (toLowerCase content)) [''allowed_origins'', ''extensionid'', ''extension''])
              (name @ '': missing extension origin / id wiring''))"

definition validate_native_host :: "(string \<Rightarrow> json option) \<Rightarrow> (string \<Rightarrow> string option) \<Rightarrow> Verdict" where
  "validate_native_host parse files =
     (let errors = concat (map (script_errors files) required);
          manifest = (case files ''native-host.json'' of
            None \<Rightarrow> Some []
          | Some content \<Rightarrow>
              (case parse content of
                 None \<Rightarrow> None
               | Some json \<Rightarrow>
                   if json = JNull then None
                   else Some (said_if (json_field json ''name'' \<noteq> Some (JStr HOST)) (''native-host.json name must be '' @ HOST)
                     @ said_if (arr_of (json_field json ''allowed_origins'') = None)
                         ''native-host.json must declare allowed_origins array'')))
      in case manifest of
           None \<Rightarrow> Threw
         | Some more \<Rightarrow>
             if errors @ more \<noteq> [] then Rejects (errors @ more)
             else Passed (''native-host scripts ok ('' @ nat_str (length required) @ '' files, host='' @ HOST @ '')''))"

section \<open>The verification gate\<close>

record VerifySetup =
  vs_args :: "string list"
  vs_env :: "string \<Rightarrow> string option"
  vs_windows :: bool
  vs_lockfile :: bool
  vs_e2ePackage :: bool

record Step =
  st_cmd :: string
  st_args :: "string list"
  st_label :: string

definition flag :: "VerifySetup \<Rightarrow> string \<Rightarrow> bool" where
  "flag v a \<longleftrightarrow> a \<in> set (vs_args v)"

definition skipBuild :: "VerifySetup \<Rightarrow> bool" where
  "skipBuild v \<longleftrightarrow> flag v ''--skip-build'' \<or> flag v ''--quick''"

definition skipPlaywright :: "VerifySetup \<Rightarrow> bool" where
  "skipPlaywright v \<longleftrightarrow> flag v ''--skip-playwright'' \<or> flag v ''--quick'' \<or> vs_env v ''VERIFY_SKIP_PLAYWRIGHT'' = Some ''1''"

definition wantGui :: "VerifySetup \<Rightarrow> bool" where
  "wantGui v \<longleftrightarrow> vs_env v ''VERIFY_TAURI_GUI'' = Some ''1'' \<or> flag v ''--tauri-gui''"

definition step :: "string \<Rightarrow> string list \<Rightarrow> string \<Rightarrow> Step" where
  "step cmd args label = \<lparr>st_cmd = cmd, st_args = args, st_label = label\<rparr>"

definition pnpm :: "VerifySetup \<Rightarrow> string" where
  "pnpm v = (if vs_windows v then ''pnpm.cmd'' else ''pnpm'')"

definition install_steps :: "VerifySetup \<Rightarrow> Step list" where
  "install_steps v = (if flag v ''--skip-install'' then []
     else [step (pnpm v) (if vs_lockfile v then [''install'', ''--frozen-lockfile''] else [''install'']) ''pnpm install''])"

definition gate_steps :: "VerifySetup \<Rightarrow> Step list" where
  "gate_steps v =
     [step ''node'' [''scripts/validate-catalog.mjs''] ''catalog validation'',
      step ''node'' [''scripts/validate-licenses.mjs''] ''license validation'',
      step ''node'' [''scripts/check-protocol-parity.mjs''] ''protocol parity'',
      step ''node'' [''scripts/validate-native-host.mjs''] ''native-host scripts'',
      step (pnpm v) [''-r'', ''--filter'', ''!@language-llm/extension'', ''--filter'', ''!@language-llm/extension-e2e'',
        ''typecheck''] ''package typecheck'',
      step (pnpm v) [''--filter'', ''@language-llm/extension'', ''typecheck''] ''extension typecheck'',
      step (pnpm v) [''-r'', ''--filter'', ''!@language-llm/extension-e2e'', ''lint'']
        ''pnpm lint (tsc --noEmit where configured)'',
      step (pnpm v) [''-r'', ''--filter'', ''!@language-llm/extension'', ''--filter'', ''!@language-llm/extension-e2e'', ''test'']
        ''package tests'',
      step (pnpm v) [''--filter'', ''@language-llm/extension'', ''test''] ''extension tests'',
      step (pnpm v) [''--filter'', ''@language-llm/benchmarks'', ''test''] ''benchmark suites'']"

definition rust_steps :: "VerifySetup \<Rightarrow> Step list" where
  "rust_steps v = (if flag v ''--skip-rust'' then []
     else [step ''cargo'' [''fmt'', ''--all'', ''--'', ''--check''] ''cargo fmt --check'']
       @ (if flag v ''--quick'' then []
          else [step ''cargo'' [''clippy'', ''--workspace'', ''--all-targets'', ''--'', ''-D'', ''warnings''] ''cargo clippy''])
       @ [step ''cargo'' [''test'', ''--workspace''] ''cargo test --workspace''])"

definition build_steps :: "VerifySetup \<Rightarrow> Step list" where
  "build_steps v = (if skipBuild v then []
     else [step (pnpm v) [''--filter'', ''@language-llm/extension'', ''build''] ''extension production build (wxt)'',
           step (pnpm v) [''--filter'', ''@language-llm/desktop'', ''build''] ''desktop frontend build'']
       @ (if flag v ''--skip-rust'' then []
          else [step ''cargo'' [''check'', ''-p'', ''language-llm-desktop''] ''Tauri crate check (headless default)'']
            @ (if wantGui v
               then [step ''cargo'' [''check'', ''-p'', ''language-llm-desktop'', ''--features'', ''gui'']
                       ''Tauri crate check (gui feature)'']
               else [])))"

definition playwright_steps :: "VerifySetup \<Rightarrow> Step list" where
  "playwright_steps v = (if skipPlaywright v \<or> \<not> vs_e2ePackage v then []
     else [step (pnpm v) [''--filter'', ''@language-llm/extension-e2e'', ''test''] ''Playwright extension e2e''])"

definition verify_plan :: "VerifySetup \<Rightarrow> Step list" where
  "verify_plan v = install_steps v @ gate_steps v @ rust_steps v @ build_steps v @ playwright_steps v"

text \<open>
  \<open>spawn\<close> gives the exit status, \<open>None\<close> where the program was killed or did not start. The run stops
  at the first step that does not succeed; the result is what was run and the exit code.
\<close>

fun run_steps :: "(Step \<Rightarrow> int option) \<Rightarrow> Step list \<Rightarrow> Step list \<times> int" where
  "run_steps spawn [] = ([], 0)"
| "run_steps spawn (s # ss) =
     (if spawn s \<noteq> Some 0 then ([s], opt_or (spawn s) 1)
      else (s # fst (run_steps spawn ss), snd (run_steps spawn ss)))"

definition verify :: "(Step \<Rightarrow> int option) \<Rightarrow> VerifySetup \<Rightarrow> Step list \<times> int" where
  "verify spawn v = run_steps spawn (verify_plan v)"

section \<open>What a catalog must be\<close>

definition id_of :: "json \<Rightarrow> string" where
  "id_of m = opt_or (str_of (json_field m ''id'')) []"

definition model_ok :: "json \<Rightarrow> bool" where
  "model_ok m \<longleftrightarrow> is_json_object m \<and> id_of m \<noteq> []
     \<and> (\<exists>l \<in> set ALLOWED_LICENSE. json_field m ''licenseClass'' = Some (JStr l))
     \<and> is_bool (json_field m ''commercialDefault'') \<and> \<not> (is_research m \<and> is_default m)
     \<and> \<not> strange ALLOWED_HARDWARE (json_field m ''hardwareMin'') \<and> \<not> strange ALLOWED_TASK (json_field m ''task'')
     \<and> nonempty_str (json_field m ''sha256Placeholder'')
     \<and> (is_default m \<longrightarrow> str_of (json_field m ''family'') \<noteq> None)"

definition catalog_ok :: "json \<Rightarrow> bool" where
  "catalog_ok c \<longleftrightarrow> nonempty_str (json_field c ''catalogVersion'') \<and> is_bool (json_field c ''signed'')
     \<and> (\<exists>ms. json_field c ''models'' = Some (JArr ms) \<and> list_all model_ok ms \<and> distinct (map id_of ms)
          \<and> list_ex is_default ms)"

lemma said_if_empty [simp]: "said_if b m = [] \<longleftrightarrow> \<not> b"
  by (simp add: said_if_def)

lemma is_object_truthy: "is_json_object m \<Longrightarrow> truthy (Some m)"
  by (cases m) simp_all

lemma license_allowed:
  "(case v of Some (JStr s) \<Rightarrow> s \<notin> set ok | _ \<Rightarrow> True) \<longleftrightarrow> \<not> (\<exists>l \<in> set ok. v = Some (JStr l))"
  by (auto split: option.split json.split)

lemma check_id_ok:
  "fst (check_id p ids m) = [] \<longleftrightarrow> id_of m \<noteq> [] \<and> id_of m \<notin> set ids"
  "fst (check_id p ids m) = [] \<Longrightarrow> snd (check_id p ids m) = ids @ [id_of m]"
proof -
  have "check_id p ids m = ([p @ '': missing id''], ids) \<and> id_of m = []" if "str_of (json_field m ''id'') = None"
    using that by (cases "json_field m ''id''" rule: str_of.cases) (simp_all add: check_id_def id_of_def)
  moreover have "check_id p ids m = (if i = [] then ([p @ '': missing id''], ids)
      else if i \<in> set ids then ([p @ '': duplicate id '' @ i], ids) else ([], ids @ [i])) \<and> id_of m = i"
    if "str_of (json_field m ''id'') = Some i" for i
    using that by (cases "json_field m ''id''" rule: str_of.cases) (simp_all add: check_id_def id_of_def)
  ultimately show "fst (check_id p ids m) = [] \<longleftrightarrow> id_of m \<noteq> [] \<and> id_of m \<notin> set ids"
    "fst (check_id p ids m) = [] \<Longrightarrow> snd (check_id p ids m) = ids @ [id_of m]"
    by (cases "str_of (json_field m ''id'')"; auto split: if_splits)+
qed

lemma check_fields_ok:
  "check_fields num p m = [] \<longleftrightarrow>
     (\<exists>l \<in> set ALLOWED_LICENSE. json_field m ''licenseClass'' = Some (JStr l))
     \<and> is_bool (json_field m ''commercialDefault'') \<and> \<not> (is_research m \<and> is_default m)
     \<and> \<not> strange ALLOWED_HARDWARE (json_field m ''hardwareMin'') \<and> \<not> strange ALLOWED_TASK (json_field m ''task'')
     \<and> nonempty_str (json_field m ''sha256Placeholder'')
     \<and> (is_default m \<longrightarrow> str_of (json_field m ''family'') \<noteq> None)"
  unfolding check_fields_def Let_def by (simp add: license_allowed) blast

lemma check_model_ok:
  "let (es, js) = check_model num (i, m) (errors, ids)
   in (es = [] \<longleftrightarrow> errors = [] \<and> model_ok m \<and> id_of m \<notin> set ids) \<and> (es = [] \<longrightarrow> js = ids @ [id_of m])"
proof (cases "is_json_object m")
  case True
  then show ?thesis
    using check_id_ok [of "''models['' @ nat_str i @ '']''" ids m]
    by (auto simp: check_model_def is_object_truthy check_fields_ok model_ok_def Let_def split_def)
qed (simp add: check_model_def model_ok_def Let_def)

lemma check_models_ok:
  "let (es, js) = fold (check_model num) ims (errors, ids); ms = map snd ims
   in (es = [] \<longleftrightarrow> errors = [] \<and> list_all model_ok ms \<and> distinct (map id_of ms) \<and> id_of ` set ms \<inter> set ids = {})
     \<and> (es = [] \<longrightarrow> js = ids @ map id_of ms)"
proof (induction ims arbitrary: errors ids)
  case (Cons im ims)
  obtain i m where im: "im = (i, m)" by (cases im)
  obtain es js where step: "check_model num (i, m) (errors, ids) = (es, js)"
    by (cases "check_model num (i, m) (errors, ids)")
  have ok: "es = [] \<longleftrightarrow> errors = [] \<and> model_ok m \<and> id_of m \<notin> set ids" "es = [] \<Longrightarrow> js = ids @ [id_of m]"
    using check_model_ok [of num i m errors ids] by (simp_all add: step)
  obtain es' js' where rest: "fold (check_model num) ims (es, js) = (es', js')"
    by (cases "fold (check_model num) ims (es, js)")
  have ih: "es' = [] \<longleftrightarrow> es = [] \<and> list_all model_ok (map snd ims) \<and> distinct (map id_of (map snd ims))
      \<and> id_of ` set (map snd ims) \<inter> set js = {}" "es' = [] \<Longrightarrow> js' = js @ map id_of (map snd ims)"
    using Cons.IH [of es js] by (simp_all add: rest Let_def)
  have "es' = [] \<longleftrightarrow> errors = [] \<and> model_ok m \<and> list_all model_ok (map snd ims)
      \<and> distinct (id_of m # map id_of (map snd ims)) \<and> insert (id_of m) (id_of ` set (map snd ims)) \<inter> set ids = {}"
  proof (cases "es = []")
    case True
    then show ?thesis using ih(1) ok by auto
  next
    case False
    then show ?thesis using ih(1) ok(1) by auto
  qed
  moreover have "es' = [] \<Longrightarrow> js' = ids @ id_of m # map id_of (map snd ims)"
    using ih ok by simp
  ultimately show ?case by (simp add: im step rest Let_def)
qed simp

lemma find_app: "find P (xs @ ys) = (case find P xs of None \<Rightarrow> find P ys | Some x \<Rightarrow> Some x)"
  by (induction xs) simp_all

text \<open>With distinct identifiers the entry found under one is the entry that has it.\<close>

lemma defaults_exist:
  assumes "distinct (map id_of ms)" "list_all model_ok ms"
  shows "commercial_defaults ms (map id_of ms) \<noteq> [] \<longleftrightarrow> list_ex is_default ms"
proof -
  have has_id: "json_field m ''id'' = Some (JStr i) \<longleftrightarrow> id_of m = i" if "m \<in> set ms" for m i
  proof -
    have "id_of m \<noteq> []" using assms(2) that by (simp add: list_all_iff model_ok_def)
    then show ?thesis
      by (cases "json_field m ''id''" rule: str_of.cases) (auto simp: id_of_def opt_or_def)
  qed
  have "find (\<lambda>m. json_field m ''id'' = Some (JStr (id_of x))) ms = Some x" if x: "x \<in> set ms" for x
  proof -
    obtain a b where ms: "ms = a @ x # b" using split_list [OF x] by blast
    then have "id_of x \<notin> id_of ` set a" "set a \<subseteq> set ms" using assms(1) by auto
    then have "\<forall>y \<in> set a. json_field y ''id'' \<noteq> Some (JStr (id_of x))"
      using has_id by (metis image_eqI subsetD)
    then have "find (\<lambda>m. json_field m ''id'' = Some (JStr (id_of x))) a = None" by (simp add: find_None_iff)
    then show ?thesis
      using has_id [OF x] by (simp add: ms find_app)
  qed
  then show ?thesis
    by (auto simp: commercial_defaults_def filter_empty_conv list_ex_iff)
qed

text \<open>C24:
  The catalog gate accepts exactly the catalogs that are fit for a release: a version, a signed
  flag, a list of models whose fields are complete and allowed, whose identifiers are all different,
  of which none that is for research only is a commercial default, and of which at least one is.\<close>

theorem catalog_accepts_iff:
  "(\<exists>m. validate_catalog num catalog = Passed m) \<longleftrightarrow> catalog_ok catalog"
proof (cases "json_field catalog ''models''" rule: arr_of.cases)
  case (1 ms)
  let ?header = "said_if (\<not> nonempty_str (json_field catalog ''catalogVersion'')) ''catalogVersion must be a non-empty string''
      @ said_if (\<not> is_bool (json_field catalog ''signed'')) ''signed must be a boolean''
      @ said_if (ms = []) ''models must be a non-empty array''"
  obtain es ids where run: "fold (check_model num) (List.enumerate 0 ms) (?header, []) = (es, ids)"
    by (cases "fold (check_model num) (List.enumerate 0 ms) (?header, [])")
  have entries: "es = [] \<longleftrightarrow> ?header = [] \<and> list_all model_ok ms \<and> distinct (map id_of ms)"
    "es = [] \<Longrightarrow> ids = map id_of ms"
    using check_models_ok [of num "List.enumerate 0 ms" ?header "[]"] by (simp_all add: run Let_def)
  have "catalog \<noteq> JNull" using 1 by auto
  then have "(\<exists>m. validate_catalog num catalog = Passed m) \<longleftrightarrow> es = [] \<and> commercial_defaults ms ids \<noteq> []"
    using 1 run by (auto simp: validate_catalog_def model_entries_def field_or_def Let_def)
  also have "\<dots> \<longleftrightarrow> catalog_ok catalog"
    using entries defaults_exist [of ms] 1 by (auto simp: catalog_ok_def)
  finally show ?thesis .
qed (auto simp: validate_catalog_def catalog_ok_def model_entries_def field_or_def said_if_def Let_def split: option.splits prod.splits)

text \<open>What is for research only is never what a release offers by default.\<close>

lemma catalog_no_research_default:
  "validate_catalog num catalog = Passed m \<Longrightarrow> json_field catalog ''models'' = Some (JArr ms) \<Longrightarrow> x \<in> set ms \<Longrightarrow>
   is_default x \<Longrightarrow> \<not> is_research x"
  using catalog_accepts_iff [of num catalog] by (auto simp: catalog_ok_def model_ok_def list_all_iff)

section \<open>What a verification says\<close>

lemma run_steps_ok:
  "snd (run_steps spawn ss) = 0 \<longleftrightarrow> list_all (\<lambda>s. spawn s = Some 0) ss"
  "snd (run_steps spawn ss) = 0 \<Longrightarrow> fst (run_steps spawn ss) = ss"
  by (induction ss) (auto simp: opt_or_def split: option.splits)

lemma run_steps_stops:
  "snd (run_steps spawn ss) \<noteq> 0 \<Longrightarrow>
   \<exists>before s after. ss = before @ s # after \<and> fst (run_steps spawn ss) = before @ [s]
     \<and> list_all (\<lambda>s. spawn s = Some 0) before \<and> spawn s \<noteq> Some 0"
proof (induction ss)
  case (Cons s ss)
  show ?case
  proof (cases "spawn s = Some 0")
    case True
    with Cons.prems have "snd (run_steps spawn ss) \<noteq> 0" by (simp add: split_def)
    from Cons.IH [OF this] obtain before t after where
      "ss = before @ t # after" "fst (run_steps spawn ss) = before @ [t]"
      "list_all (\<lambda>s. spawn s = Some 0) before" "spawn t \<noteq> Some 0" by blast
    with True show ?thesis by (intro exI [of _ "s # before"] exI [of _ t] exI [of _ after]) (simp add: split_def)
  next
    case False
    then show ?thesis by (intro exI [of _ "[]"] exI [of _ s] exI [of _ ss]) simp
  qed
qed simp


text \<open>A quick verification leaves out clippy, the builds and the browser, and nothing else.\<close>

lemma quick_plan:
  "vs_args v = [''--quick''] \<Longrightarrow>
   map st_label (verify_plan v) = [''pnpm install''] @ map st_label (gate_steps v) @ [''cargo fmt --check'', ''cargo test --workspace'']"
  by (simp add: verify_plan_def install_steps_def rust_steps_def build_steps_def playwright_steps_def skipBuild_def
      skipPlaywright_def flag_def step_def)

section \<open>Surprises\<close>

text \<open>
  A license that permits nothing passes for MIT, since the three letters are looked for anywhere;
  and a file that is missing is never reported: reading it throws before the errors are printed.
\<close>

lemma mit_anywhere: "str_includes (toLowerCase ''All rights reserved. Limited use only.'') ''mit''"
  by code_simp

lemma missing_doc_throws:
  "files rel = None \<Longrightarrow> rel \<in> set requiredDocs \<Longrightarrow> validate_licenses num parse files = Threw"
  by (auto simp: validate_licenses_def requiredDocs_def Let_def split: option.split)

end
