(* ===== verification/Protocol_Parity.thy ===== *)
theory Protocol_Parity
  imports Release_Scripts "HOL-Library.List_Lexorder" "HOL-Library.Char_ord"
begin

text \<open>
  The drift check between the TypeScript and the Rust side of the protocol,
  \<open>scripts/check-protocol-parity.mjs\<close>: the readers of a union type and of an enumeration, and the
  comparison. The sources are arguments. A regular expression is a function on the rest of the text
  that gives what it captured.
\<close>

section \<open>Matching\<close>

definition quote :: char where
  "quote = char_of (34 :: nat)"

definition eat :: "string \<Rightarrow> string \<Rightarrow> string option" where
  "eat lit s = (if startsWith s lit then Some (drop (length lit) s) else None)"

definition skip_ws :: "string \<Rightarrow> string" where
  "skip_ws s = dropWhile is_ws s"

text \<open>\<open>"([^"]+)"\<close>: the text inside and what follows the closing quote.\<close>

definition quoted_at :: "string \<Rightarrow> (string \<times> string) option" where
  "quoted_at s =
     (case eat [quote] s of
        None \<Rightarrow> None
      | Some r \<Rightarrow>
          let v = takeWhile (\<lambda>c. c \<noteq> quote) r; r' = dropWhile (\<lambda>c. c \<noteq> quote) r
          in if v \<noteq> [] \<and> r' \<noteq> [] then Some (v, drop 1 r') else None)"

text \<open>The first place where \<open>m\<close> matches.\<close>

fun find_match :: "(string \<Rightarrow> 'a option) \<Rightarrow> string \<Rightarrow> 'a option" where
  "find_match m [] = m []"
| "find_match m (c # s) = (case m (c # s) of Some x \<Rightarrow> Some x | None \<Rightarrow> find_match m s)"

text \<open>All quoted texts one after the other; the fuel is the length of the text.\<close>

fun all_quoted :: "nat \<Rightarrow> string \<Rightarrow> string list" where
  "all_quoted 0 s = []"
| "all_quoted (Suc n) s =
     (if s = [] then []
      else case quoted_at s of Some (v, r) \<Rightarrow> v # all_quoted n r | None \<Rightarrow> all_quoted n (drop 1 s))"

section \<open>Names\<close>

definition is_upper :: "char \<Rightarrow> bool" where
  "is_upper c \<longleftrightarrow> 65 \<le> code c \<and> code c \<le> 90"

definition is_lower :: "char \<Rightarrow> bool" where
  "is_lower c \<longleftrightarrow> 97 \<le> code c \<and> code c \<le> 122"

fun dash_words :: "string \<Rightarrow> string \<Rightarrow> string" where
  "dash_words sep (a # b # s) =
     (if (is_lower a \<or> is_digit a) \<and> is_upper b then a # sep @ dash_words sep (b # s) else a # dash_words sep (b # s))"
| "dash_words sep s = s"

fun dash_capitals :: "string \<Rightarrow> string" where
  "dash_capitals (a # b # c # s) =
     (if is_upper a \<and> is_upper b \<and> is_lower c then a # CHR ''-'' # dash_capitals (b # c # s)
      else a # dash_capitals (b # c # s))"
| "dash_capitals s = s"

definition toKebab :: "string \<Rightarrow> string" where
  "toKebab name = toLowerCase (dash_capitals (dash_words ''-'' name))"

definition toSnake :: "string \<Rightarrow> string" where
  "toSnake name = toLowerCase (dash_words ''_'' name)"

section \<open>The TypeScript side\<close>

definition version_after :: "string list \<Rightarrow> string \<Rightarrow> string option" where
  "version_after lits s =
     map_option fst (Option.bind (fold (\<lambda>lit r. map_option skip_ws (Option.bind r (eat lit))) lits (Some s)) quoted_at)"

definition ts_version :: "string \<Rightarrow> string option" where
  "ts_version src = find_match (version_after [''PROTOCOL_VERSION'', ''='']) src"

text \<open>\<open>export type NAME\s*=\s*([\s\S]*?);\<close>\<close>

definition union_block :: "string \<Rightarrow> string \<Rightarrow> string option" where
  "union_block name s =
     (case Option.bind (map_option skip_ws (eat (''export type '' @ name) s)) (eat ''='') of
        None \<Rightarrow> None
      | Some r \<Rightarrow>
          let r = skip_ws r
          in if CHR '';'' \<in> set r then Some (takeWhile (\<lambda>c. c \<noteq> CHR '';'') r) else None)"

definition extractTsUnion :: "string \<Rightarrow> string \<Rightarrow> string list option" where
  "extractTsUnion src name =
     (case find_match (union_block name) src of
        None \<Rightarrow> None
      | Some block \<Rightarrow> if block = [] then None else Some (sort (all_quoted (length block) block)))"

section \<open>The Rust side\<close>

definition rust_version :: "string \<Rightarrow> string option" where
  "rust_version src = find_match (version_after [''PROTOCOL_VERSION:'', ''&str'', ''='']) src"

definition enum_header :: "string \<Rightarrow> string \<Rightarrow> bool" where
  "enum_header name s \<longleftrightarrow>
     Option.bind (map_option skip_ws (eat (''pub enum '' @ name) s)) (eat ''{'') \<noteq> None"

fun search_at :: "(string \<Rightarrow> bool) \<Rightarrow> string \<Rightarrow> nat option" where
  "search_at p [] = (if p [] then Some 0 else None)"
| "search_at p (c # s) = (if p (c # s) then Some 0 else map_option Suc (search_at p s))"

text \<open>
  \<open>#\[serde\([^\]]*rename_all\s*=\s*"([^"]+)"[^\]]*\)\]\<close>: the last place above a bracket where the
  rest matches wins, since \<open>[^\]]*\<close> takes as much as it can. What follows the value must close at the
  first bracket.
\<close>

definition rename_all_value :: "string \<Rightarrow> string option" where
  "rename_all_value s =
     (case Option.bind (map_option skip_ws (Option.bind (map_option skip_ws (eat ''rename_all'' s)) (eat ''=''))) quoted_at of
        None \<Rightarrow> None
      | Some (v, r) \<Rightarrow>
          let inner = takeWhile (\<lambda>c. c \<noteq> CHR '']'') r
          in if inner \<noteq> [] \<and> last inner = CHR '')'' \<and> CHR '']'' \<in> set r then Some v else None)"

fun latest_match :: "(string \<Rightarrow> 'a option) \<Rightarrow> string \<Rightarrow> 'a option" where
  "latest_match m [] = m []"
| "latest_match m (c # s) =
     (case (if c = CHR '']'' then None else latest_match m s) of Some x \<Rightarrow> Some x | None \<Rightarrow> m (c # s))"

definition serde_rename_all :: "string \<Rightarrow> string option" where
  "serde_rename_all s = Option.bind (eat ''#[serde('' s) (latest_match rename_all_value)"

text \<open>What is inside the brace that is open, up to the brace that closes it.\<close>

fun braced :: "nat \<Rightarrow> string \<Rightarrow> string option" where
  "braced depth [] = None"
| "braced depth (c # s) =
     (if c = CHR ''{'' then map_option ((#) c) (braced (Suc depth) s)
      else if c = CHR ''}'' then (if depth = 1 then Some [] else map_option ((#) c) (braced (depth - 1) s))
      else map_option ((#) c) (braced depth s))"

definition line_rename :: "string \<Rightarrow> string option" where
  "line_rename line =
     find_match (\<lambda>s. Option.bind (Option.bind (map_option skip_ws (Option.bind (map_option skip_ws
         (eat ''#[serde(rename'' s)) (eat ''=''))) quoted_at)
       (\<lambda>(v, r). if startsWith r '')]'' then Some v else None)) line"

text \<open>\<open>^\s*([A-Z][A-Za-z0-9]*)\s*,?\s*$\<close>\<close>

definition bare_variant :: "string \<Rightarrow> string option" where
  "bare_variant line =
     (let s = skip_ws line; name = takeWhile (\<lambda>c. is_upper c \<or> is_lower c \<or> is_digit c) s;
          r = skip_ws (drop (length name) s); r = (if startsWith r '','' then drop 1 r else r)
      in if name \<noteq> [] \<and> is_upper (hd name) \<and> skip_ws r = [] then Some name else None)"

text \<open>A variant with its value, or with the rename that waits for its name.\<close>

datatype Variant = Named string | Pending string

fun name_pending :: "Variant list \<Rightarrow> Variant list option" where
  "name_pending [] = None"
| "name_pending (Pending r # vs) = Some (Named r # vs)"
| "name_pending (Named n # vs) = map_option ((#) (Named n)) (name_pending vs)"

definition variant_line :: "string option \<Rightarrow> string \<Rightarrow> Variant list \<Rightarrow> Variant list" where
  "variant_line renameAll line vs =
     (case line_rename line of
        Some r \<Rightarrow> vs @ [Pending r]
      | None \<Rightarrow>
          (case bare_variant line of
             None \<Rightarrow> vs
           | Some name \<Rightarrow>
               (case name_pending vs of
                  Some vs' \<Rightarrow> vs'
                | None \<Rightarrow> vs @ [Named (if renameAll = Some ''kebab-case'' then toKebab name
                                       else if renameAll = Some ''snake_case'' then toSnake name
                                       else toKebab name)])))"

definition named_values :: "Variant list \<Rightarrow> string list" where
  "named_values vs = concat (map (\<lambda>v. case v of Named n \<Rightarrow> if n = [] then [] else [n] | Pending r \<Rightarrow> []) vs)"

definition extractRustEnum :: "string \<Rightarrow> string \<Rightarrow> string list option" where
  "extractRustEnum src enumName =
     (case search_at (enum_header enumName) src of
        None \<Rightarrow> None
      | Some headerIdx \<Rightarrow>
          let above = drop (headerIdx - 400) (take headerIdx src);
              renameAll = find_match serde_rename_all above;
              opened = dropWhile (\<lambda>c. c \<noteq> CHR ''{'') (drop headerIdx src)
          in (case braced 1 (drop 1 opened) of
               None \<Rightarrow> None
             | Some block \<Rightarrow>
                 Some (sort (named_values (fold (variant_line renameAll) (split_on (char_of (10 :: nat)) block) [])))))"

section \<open>The comparison\<close>

definition pairs :: "(string \<times> string) list" where
  "pairs = map (\<lambda>n. (n, n)) [''Provenance'', ''HardwareProfile'', ''PowerPolicy'', ''LanguageTier'',
     ''ModelLicenseClass'', ''JobKind'', ''JobStatus'']"

definition version_errors :: "string option \<Rightarrow> string option \<Rightarrow> string list" where
  "version_errors tsVer rustVer =
     (case (tsVer, rustVer) of
        (Some t, Some r) \<Rightarrow> said_if (t \<noteq> r) (''PROTOCOL_VERSION drift: TS='' @ t @ '' Rust='' @ r)
      | _ \<Rightarrow> [''could not parse PROTOCOL_VERSION from TS and/or Rust''])"

definition pair_errors :: "string \<Rightarrow> string \<Rightarrow> string \<times> string \<Rightarrow> string list" where
  "pair_errors tsTypesSrc rustSrc p =
     (case extractTsUnion tsTypesSrc (fst p) of
        None \<Rightarrow> [''missing TS union '' @ fst p]
      | Some ts \<Rightarrow>
          (case extractRustEnum rustSrc (snd p) of
             None \<Rightarrow> [''missing Rust enum '' @ snd p]
           | Some rust \<Rightarrow>
               concat (map (\<lambda>v. said_if (v \<notin> set rust) (fst p @ '': TS has '' @ quote # v @ quote # '' missing in Rust'')) ts)
               @ concat (map (\<lambda>v. said_if (v \<notin> set ts) (snd p @ '': Rust has '' @ quote # v @ quote # '' missing in TS'')) rust)))"

definition check_parity :: "string \<Rightarrow> string \<Rightarrow> string \<Rightarrow> Verdict" where
  "check_parity tsVersionSrc tsTypesSrc rustSrc =
     (let tsVer = ts_version tsVersionSrc;
          errors = version_errors tsVer (rust_version rustSrc) @ concat (map (pair_errors tsTypesSrc rustSrc) pairs)
      in if errors \<noteq> [] then Rejects errors
         else Passed (''protocol parity ok: version '' @ opt_or tsVer ''undefined'' @ '', '' @ nat_str (length pairs)
                @ '' enums aligned''))"

section \<open>What passing means\<close>

lemma said_concat [simp]: "concat (map (\<lambda>v. said_if (P v) (f v)) vs) = [] \<longleftrightarrow> list_all (\<lambda>v. \<not> P v) vs"
  by (induction vs) simp_all

lemma version_errors_ok:
  "version_errors t r = [] \<longleftrightarrow> t = r \<and> t \<noteq> None"
  by (cases t; cases r) (auto simp: version_errors_def)

lemma pair_errors_ok:
  "pair_errors ts rs p = [] \<longleftrightarrow>
     (\<exists>vs ws. extractTsUnion ts (fst p) = Some vs \<and> extractRustEnum rs (snd p) = Some ws \<and> set vs = set ws)"
  by (auto simp: pair_errors_def list_all_iff split: option.splits)


section \<open>A union reads back\<close>

definition newline :: char where
  "newline = char_of (10 :: nat)"

definition item :: "string \<Rightarrow> string" where
  "item v = newline # ''  | '' @ quote # v @ [quote]"

definition print_union :: "string \<Rightarrow> string list \<Rightarrow> string" where
  "print_union name vs = ''export type '' @ name @ '' ='' @ concat (map item vs) @ '';''"

definition plain_value :: "string \<Rightarrow> bool" where
  "plain_value v \<longleftrightarrow> v \<noteq> [] \<and> quote \<notin> set v \<and> CHR '';'' \<notin> set v"

lemma value_span:
  "quote \<notin> set v \<Longrightarrow> takeWhile (\<lambda>c. c \<noteq> quote) (v @ quote # r) = v"
  "quote \<notin> set v \<Longrightarrow> dropWhile (\<lambda>c. c \<noteq> quote) (v @ quote # r) = quote # r"
  by (induction v) auto

lemma quoted_at_value: "v \<noteq> [] \<Longrightarrow> quote \<notin> set v \<Longrightarrow> quoted_at (quote # v @ quote # r) = Some (v, r)"
  by (simp add: quoted_at_def eat_def startsWith_def value_span Let_def)

lemma all_quoted_value:
  "plain_value v \<Longrightarrow> length (quote # v @ quote # r) \<le> n \<Longrightarrow>
   all_quoted n (quote # v @ quote # r) = v # all_quoted (n - 1) r"
  by (cases n) (simp_all add: quoted_at_value plain_value_def)

lemma all_quoted_skip: "c \<noteq> quote \<Longrightarrow> length (c # s) \<le> n \<Longrightarrow> all_quoted n (c # s) = all_quoted (n - 1) s"
  by (cases n) (simp_all add: quoted_at_def eat_def startsWith_def)

lemma marks: "quote \<noteq> newline" "quote \<noteq> CHR '' ''" "quote \<noteq> CHR ''|''" "CHR '';'' \<noteq> quote" "CHR '';'' \<noteq> newline"
  "is_ws newline" "is_ws (CHR '' '')" "\<not> is_ws (CHR ''|'')" "\<not> is_ws (CHR ''='')"
  by code_simp+

lemma all_quoted_items:
  "list_all plain_value vs \<Longrightarrow> length (concat (map item vs)) \<le> n \<Longrightarrow> all_quoted n (concat (map item vs)) = vs"
proof (induction vs arbitrary: n)
  case Nil
  then show ?case by (cases n) simp_all
next
  case (Cons v vs)
  have plain: "plain_value v" "list_all plain_value vs" using Cons.prems(1) by simp_all
  have fits: "7 + length v + length (concat (map item vs)) \<le> n"
    using Cons.prems(2) by (simp add: item_def [of v])
  have "all_quoted n (concat (map item (v # vs))) = v # all_quoted (n - 6) (concat (map item vs))"
    using fits marks by (simp add: item_def [of v] all_quoted_skip all_quoted_value [OF plain(1)] eval_nat_numeral)
  also have "all_quoted (n - 6) (concat (map item vs)) = vs"
    using fits by (intro Cons.IH [OF plain(2)]) simp
  finally show ?case .
qed

lemma union_reads_back:
  assumes "vs \<noteq> []" "list_all plain_value vs"
  shows "extractTsUnion (print_union name vs @ rest) name = Some (sort vs)"
proof -
  obtain v ws where vs: "vs = v # ws" using assms(1) by (cases vs) simp_all
  let ?block = "''| '' @ quote # v @ quote # concat (map item ws)"
  have items: "print_union name vs = ''export type '' @ name @ '' ='' @ newline # ''  '' @ ?block @ '';''"
    by (simp add: print_union_def vs item_def [of v])
  have "CHR '';'' \<notin> set (concat (map item ws))"
    using assms(2) marks by (auto simp: vs item_def plain_value_def list_all_iff)
  then have clean: "CHR '';'' \<notin> set ?block"
    using assms(2) marks by (auto simp: vs plain_value_def)
  have "takeWhile (\<lambda>c. c \<noteq> CHR '';'') (?block @ CHR '';'' # rest) = ?block"
    using clean by (subst takeWhile_append2) auto
  then have block: "union_block name (print_union name vs @ rest) = Some ?block"
    using marks by (simp add: union_block_def eat_def startsWith_def items skip_ws_def)
  have "all_quoted n ?block = vs" if "length ?block \<le> n" for n
    using assms(2) marks that by (simp add: vs all_quoted_skip all_quoted_value all_quoted_items)
  then have "all_quoted (length ?block) ?block = vs" by blast
  moreover have "find_match (union_block name) (print_union name vs @ rest) = Some ?block"
    using block by (simp add: items)
  ultimately show ?thesis by (simp add: extractTsUnion_def Let_def)
qed

text \<open>Names of variants as the two sides write them.\<close>

lemma kebab_examples:
  "toKebab ''VlmReview'' = ''vlm-review''" "toKebab ''LyricsOpenApi'' = ''lyrics-open-api''"
  "toKebab ''HTTPServer'' = ''http-server''" "toSnake ''MaximumQuality'' = ''maximum_quality''"
  by code_simp+

end
