(* ===== verification/Views.thy ===== *)
theory Views
  imports Ui_Widgets Page_Toolbar Contrast "HOL-Library.AList"
begin

text \<open>
  What the components of \<open>packages/ui/src\<close> and the overlay of
  \<open>apps/extension/features/overlay/OverlayApp.tsx\<close> render: trees of elements with attributes,
  styles, handlers and children. An element that is \<open>null\<close> is the empty list, a fragment a list.
  A property that is \<open>undefined\<close> is \<open>None\<close>; numbers are written as in the source. Keys and
  references are left out.
\<close>

section \<open>Trees\<close>

type_synonym props = "(string \<times> string option) list"

datatype 'e handler = OnClick 'e | OnChange "string \<Rightarrow> 'e" | OnKeyDown "string \<Rightarrow> 'e option"

datatype 'e View =
    Txt string
  | El string props props "'e handler list" "'e View list"

text \<open>\<open>{...xs, ...ys}\<close>: a later value replaces an earlier one.\<close>

definition spread :: "props \<Rightarrow> props \<Rightarrow> props" where
  "spread xs ys = fold (\<lambda>(k, v). AList.update k v) ys xs"

text \<open>The properties every component passes on to its root: style, class and the rest.\<close>

record Html =
  html_style :: props
  html_class :: "string option"
  html_rest :: props

definition no_html :: Html where
  "no_html = \<lparr>html_style = [], html_class = None, html_rest = []\<rparr>"

definition at_is :: "string \<Rightarrow> string \<Rightarrow> string \<times> string option" where
  "at_is k v = (k, Some v)"

definition truthy_join :: "string option list \<Rightarrow> string" where
  "truthy_join cs = join '' '' (List.map_filter text_or_none cs)"

text \<open>All elements of a tree in document order, their text, and what a click on them does.\<close>

fun nodes :: "'e View \<Rightarrow> 'e View list" where
  "nodes (Txt t) = []"
| "nodes (El t a s h vs) = El t a s h vs # concat (map nodes vs)"

fun text_content :: "'e View \<Rightarrow> string" where
  "text_content (Txt t) = t"
| "text_content (El t a s h vs) = concat (map text_content vs)"

definition has_attr :: "string \<Rightarrow> string \<Rightarrow> 'e View \<Rightarrow> bool" where
  "has_attr k v e = (case e of Txt _ \<Rightarrow> False | El t a s h vs \<Rightarrow> map_of a k = Some (Some v))"

definition style_of :: "string \<Rightarrow> 'e View \<Rightarrow> string option" where
  "style_of k e = (case e of Txt _ \<Rightarrow> None | El t a s h vs \<Rightarrow> Option.bind (map_of s k) id)"

fun click_of :: "'e handler list \<Rightarrow> 'e option" where
  "click_of [] = None"
| "click_of (OnClick e # hs) = Some e"
| "click_of (_ # hs) = click_of hs"

definition elements_with :: "string \<Rightarrow> string \<Rightarrow> 'e View list \<Rightarrow> 'e View list" where
  "elements_with k v vs = filter (has_attr k v) (concat (map nodes vs))"

definition button_of :: "'e View \<Rightarrow> (string \<times> 'e) option" where
  "button_of e = (case e of Txt _ \<Rightarrow> None
     | El t a s h vs \<Rightarrow> map_option (Pair (text_content e)) (click_of h))"

definition buttons :: "'e View list \<Rightarrow> (string \<times> 'e) list" where
  "buttons vs = List.map_filter button_of (concat (map nodes vs))"

definition color :: "string \<Rightarrow> string" where
  "color k = the (map_of colors k)"

definition font_ui :: string where
  "font_ui = ''\"Atkinson Hyperlegible\", \"Noto Sans\", \"Segoe UI\", sans-serif''"

definition font_script :: string where
  "font_script = ''\"Noto Sans\", \"Noto Sans JP\", \"Noto Sans SC\", \"Noto Sans KR\", \"Noto Sans Arabic\", \"Atkinson Hyperlegible\", sans-serif''"

definition font_mono :: string where
  "font_mono = ''\"IBM Plex Mono\", ui-monospace, \"Cascadia Mono\", monospace''"

definition color_mix :: "string \<Rightarrow> string \<Rightarrow> string \<Rightarrow> string" where
  "color_mix c percent d = ''color-mix(in srgb, '' @ color c @ '' '' @ percent @ ''%, '' @ d @ '')''"

definition focusRingStyle :: props where
  "focusRingStyle = [at_is ''outline'' ''none'',
     at_is ''boxShadow'' (''0 0 0 3px '' @ color_mix ''signalBlue'' ''55'' ''transparent'')]"

definition focusRingClassName :: string where
  "focusRingClassName = ''llm-focus-ring''"

section \<open>Button, status region, empty state\<close>

datatype ButtonVariant = Primary | Ghost | Danger | Nav

primrec variantClass :: "ButtonVariant \<Rightarrow> string" where
  "variantClass Primary = ''llm-btn--primary''"
| "variantClass Ghost = ''llm-btn--ghost''"
| "variantClass Danger = ''llm-btn--danger''"
| "variantClass Nav = ''llm-btn--nav''"

definition Button :: "ButtonVariant \<Rightarrow> Html \<Rightarrow> 'e \<Rightarrow> string \<Rightarrow> 'e View" where
  "Button variant h e label =
     El ''button''
       (spread [at_is ''type'' ''button'',
                at_is ''className'' (truthy_join [Some ''llm-btn'', Some (variantClass variant),
                  Some ''llm-focus-ring'', Some ''llm-motion-safe'', html_class h])]
          (html_rest h))
       (html_style h) [OnClick e] [Txt label]"

text \<open>The live region holds the message once the effect of the component has run.\<close>

definition StatusRegion :: "string \<Rightarrow> string \<Rightarrow> bool \<Rightarrow> Html \<Rightarrow> 'e View list" where
  "StatusRegion message tone mirrored h =
     (if message = [] then []
      else El ''div''
             (spread [at_is ''role'' ''status'', at_is ''data-llm-status'' tone,
                at_is ''className'' (truthy_join [Some ''llm-status'', Some ''llm-motion-safe'', html_class h])]
                (html_rest h))
             (html_style h) [] [Txt message]
           # (if mirrored
              then [El ''div'' [at_is ''className'' ''llm-sr-only'', at_is ''aria-live'' ''polite''] [] [] [Txt message]]
              else []))"

primrec COPY :: "EmptyStateKind \<Rightarrow> string \<times> string" where
  "COPY NoCaptions = (''No captions on this video'',
     ''This page has no human or auto captions. Start a local tab transcription after granting capture.'')"
| "COPY NoCompanion = (''Companion offline'',
     ''The local Language-LLM companion is not reachable. Start the desktop app, then retry.'')"
| "COPY NoModel = (''No model installed'',
     ''Install a verified model pack in the desktop companion before running ASR or translation.'')"
| "COPY ModelInstalling = (''Model installing'',
     ''A model pack is downloading or verifying. Captions will stay unavailable until install finishes.'')"
| "COPY NoLyrics = (''No lyrics matched'',
     ''Import an LRC/TTML file, or allow an attributed LRCLIB fetch after confirming the track.'')"
| "COPY UnsupportedPage = (''Page not supported here'',
     ''Website translation is for ordinary http(s) pages. Use the YouTube overlay on video pages.'')"
| "COPY PermissionDenied = (''Permission needed'',
     ''Grant host or capture permission to continue. Access can be revoked anytime from the popup.'')"
| "COPY EmptyDictionary = (''No dictionary loaded'',
     ''Import JMdict, CC-CEDICT, Kaikki, or a Yomitan-compatible archive from the side panel.'')"
| "COPY NoReviewDue = (''Nothing due'',
     ''No cards are scheduled. Mine a caption with Alt+M, then return when reviews are due.'')"
| "COPY GenericEmpty = (''Nothing here yet'',
     ''Choose a recovery action below, or open the side panel for more tools.'')"

record 'e EmptyStateAction =
  ea_id :: string
  ea_label :: string
  ea_click :: 'e
  ea_variant :: "ButtonVariant option"

definition EmptyState ::
  "EmptyStateKind \<Rightarrow> string option \<Rightarrow> string option \<Rightarrow> 'e EmptyStateAction list \<Rightarrow> 'e View list \<Rightarrow> Html \<Rightarrow> 'e View" where
  "EmptyState kind title body actions kids h =
     El ''section''
       (spread [at_is ''role'' ''status'', at_is ''aria-live'' ''polite'', at_is ''data-llm-empty'' (empty_str kind),
          at_is ''className'' (truthy_join [Some ''llm-empty'', html_class h])] (html_rest h))
       (html_style h) []
       ([El ''h2'' [at_is ''className'' ''llm-empty__title''] [] [] [Txt (opt_or title (fst (COPY kind)))],
         El ''p'' [at_is ''className'' ''llm-empty__body''] [] [] [Txt (opt_or body (snd (COPY kind)))]]
        @ kids
        @ (if actions \<noteq> []
           then [El ''div'' [at_is ''className'' ''llm-empty__actions''] [] []
                   (map (\<lambda>a. Button (opt_or (ea_variant a) Primary) no_html (ea_click a) (ea_label a)) actions)]
           else []))"

section \<open>Evidence, captions, context\<close>

datatype Severity = Info | Warn | Error

primrec severityColor :: "Severity \<Rightarrow> string" where
  "severityColor Info = color ''mutedSlate''"
| "severityColor Warn = color ''amberEvidence''"
| "severityColor Error = color ''errorRed''"

record EvidenceItem =
  ev_id :: string
  ev_label :: string
  ev_detail :: "string option"
  ev_severity :: "Severity option"

definition evidence_row :: "EvidenceItem \<Rightarrow> 'e View" where
  "evidence_row item =
     El ''div'' [] [at_is ''color'' (severityColor (opt_or (ev_severity item) Info))] []
       (El ''div'' [] [at_is ''fontWeight'' ''600''] [] [Txt (ev_label item)]
        # (case text_or_none (ev_detail item) of
             None \<Rightarrow> []
           | Some d \<Rightarrow> [El ''div'' [] [at_is ''color'' (color ''mutedSlate'')] [] [Txt d]]))"

definition EvidenceGutter :: "EvidenceItem list \<Rightarrow> Html \<Rightarrow> 'e View" where
  "EvidenceGutter items h =
     El ''aside''
       (spread [at_is ''role'' ''complementary'', at_is ''aria-label'' ''Evidence gutter'',
          (''className'', html_class h)] (html_rest h))
       (spread [at_is ''display'' ''flex'', at_is ''flexDirection'' ''column'', at_is ''gap'' ''0.35rem'',
          at_is ''minWidth'' ''9rem'', at_is ''maxWidth'' ''14rem'', at_is ''fontFamily'' font_mono,
          at_is ''fontSize'' ''0.75rem'', at_is ''color'' (color ''mutedSlate''),
          at_is ''borderLeft'' (''2px solid '' @ color ''amberEvidence''), at_is ''paddingLeft'' ''0.5rem'']
          (html_style h)) []
       (if items = [] then [El ''span'' [] [] [] [Txt ''No evidence'']] else map evidence_row items)"

definition provenanceLabel :: "string \<Rightarrow> string" where
  "provenanceLabel p =
     (if p \<in> {''human'', ''human-caption''} then ''human''
      else if p \<in> {''auto'', ''auto-caption''} then ''auto''
      else if p \<in> {''asr'', ''asr-live'', ''asr-import''} then ''asr''
      else if p = ''mt'' then ''mt''
      else if p \<in> {''lyrics'', ''lyrics-open-api'', ''lyrics-import''} then ''lyrics''
      else if p \<in> {''user'', ''user-edit''} then ''edited''
      else if p \<in> {''vlm'', ''vlm-corrected''} then ''vlm''
      else p)"

record 'e CaptionOverlayProps =
  co_sourceText :: "string option"
  co_translationText :: "string option"
  co_lines :: "string list option"
  co_showSource :: bool
  co_showTranslation :: bool
  co_blurTranslation :: bool
  co_uncertain :: bool
  co_karaokeActive :: bool
  co_provenance :: "string option"
  co_confidence :: "real option"
  co_fontScale :: real
  co_opacity :: real
  co_evidenceSlot :: "'e View option"
  co_liveRegion :: bool
  co_html :: Html

definition default_caption :: "'e CaptionOverlayProps" where
  "default_caption = \<lparr>co_sourceText = None, co_translationText = None, co_lines = None, co_showSource = True,
     co_showTranslation = True, co_blurTranslation = False, co_uncertain = False, co_karaokeActive = False,
     co_provenance = None, co_confidence = None, co_fontScale = 1, co_opacity = 92/100,
     co_evidenceSlot = None, co_liveRegion = False, co_html = no_html\<rparr>"

text \<open>Numbers in styles are printed by \<open>num\<close>.\<close>

definition caption_rootStyle :: "(real \<Rightarrow> string) \<Rightarrow> 'e CaptionOverlayProps \<Rightarrow> props" where
  "caption_rootStyle num p =
     spread [at_is ''position'' ''relative'', at_is ''width'' ''var(--llm-overlay-max-width, min(42rem, 92vw))'',
       at_is ''maxWidth'' ''calc(var(--llm-caption-max-ch, 48) * 1ch)'', at_is ''margin'' ''0 auto'',
       at_is ''textAlign'' ''center'', at_is ''pointerEvents'' ''auto'', at_is ''fontFamily'' font_script,
       at_is ''color'' (color ''paper''), at_is ''textShadow'' (''0 1px 2px '' @ color ''ink''),
       at_is ''opacity'' (num (co_opacity p))] (html_style (co_html p))"

definition cueStyle :: "(real \<Rightarrow> string) \<Rightarrow> 'e CaptionOverlayProps \<Rightarrow> props \<Rightarrow> props" where
  "cueStyle num p extra =
     spread [at_is ''margin'' ''0.15rem 0'', at_is ''padding'' ''0.45rem 0.85rem'',
       at_is ''background'' (color_mix ''ink'' ''78'' ''transparent''),
       at_is ''fontSize'' (''calc('' @ num (115/100 * co_fontScale p) @ ''rem * var(--llm-type-scale, 1))''),
       at_is ''lineHeight'' ''1.35'', at_is ''borderRadius'' ''2'', at_is ''userSelect'' ''text''] extra"

definition percent :: "real \<Rightarrow> string" where
  "percent c = int_str (js_round (c * 100))"

definition caption_diagnostics :: "'e CaptionOverlayProps \<Rightarrow> 'e View list" where
  "caption_diagnostics p =
     (if co_uncertain p \<or> text_or_none (co_provenance p) \<noteq> None \<or> co_confidence p \<noteq> None
      then [El ''div'' [at_is ''data-llm-chrome'' ''diagnostics'']
              [at_is ''display'' ''flex'', at_is ''justifyContent'' ''center'', at_is ''gap'' ''0.5rem'',
               at_is ''marginBottom'' ''0.25rem'', at_is ''fontFamily'' font_mono, at_is ''fontSize'' ''0.75rem'',
               at_is ''color'' (color (if co_uncertain p then ''amberEvidence'' else ''mutedSlate''))] []
              ((if co_uncertain p
                then [El ''span'' [at_is ''aria-label'' ''Uncertain translation''] [] [] [Txt ''uncertain'']] else [])
               @ (case text_or_none (co_provenance p) of
                    None \<Rightarrow> []
                  | Some q \<Rightarrow> [El ''span'' [at_is ''aria-label'' (''Provenance '' @ provenanceLabel q)] [] []
                                [Txt (provenanceLabel q)]])
               @ (case co_confidence p of
                    None \<Rightarrow> []
                  | Some c \<Rightarrow> [El ''span'' [at_is ''aria-label'' (''Confidence '' @ percent c @ '' percent'')] [] []
                                [Txt (percent c), Txt ''%'']]))]
      else [])"

definition caption_source :: "(real \<Rightarrow> string) \<Rightarrow> 'e CaptionOverlayProps \<Rightarrow> 'e View list" where
  "caption_source num p =
     (case (co_showSource p, text_or_none (co_sourceText p)) of
        (True, Some t) \<Rightarrow> [El ''p'' [at_is ''data-llm-source'' ''1''] (cueStyle num p []) [] [Txt t]]
      | _ \<Rightarrow> [])"

definition caption_translation :: "(real \<Rightarrow> string) \<Rightarrow> 'e CaptionOverlayProps \<Rightarrow> 'e View list" where
  "caption_translation num p =
     (case (co_showTranslation p, text_or_none (co_translationText p)) of
        (True, Some t) \<Rightarrow>
          [El ''p'' [at_is ''data-llm-translation'' ''1'']
             (cueStyle num p
                [(''filter'', if co_blurTranslation p then Some ''blur(6px)'' else None),
                 at_is ''userSelect'' (if co_blurTranslation p then ''none'' else ''text''),
                 (''outline'', if co_karaokeActive p then Some (''2px solid '' @ color ''signalBlue'') else None),
                 at_is ''color'' (color (if co_uncertain p then ''amberEvidence'' else ''paper'')),
                 at_is ''boxShadow'' (''0 1px 0 '' @ color_mix ''signalBlue'' ''35'' ''transparent'')])
             [] [Txt t]]
      | _ \<Rightarrow> [])"

definition CaptionOverlay :: "(real \<Rightarrow> string) \<Rightarrow> 'e CaptionOverlayProps \<Rightarrow> 'e View" where
  "CaptionOverlay num p =
     El ''div''
       (spread ([at_is ''role'' ''region'', at_is ''aria-label'' ''Language-LLM captions'']
          @ (if co_liveRegion p then [at_is ''aria-live'' ''polite''] else [])
          @ [at_is ''className'' (truthy_join [Some ''llm-focus-ring'', Some ''llm-motion-safe'', html_class (co_html p)]),
             at_is ''tabIndex'' ''0'']) (html_rest (co_html p)))
       (caption_rootStyle num p) []
       (caption_diagnostics p
        @ (if co_sourceText p \<noteq> None \<or> co_translationText p \<noteq> None
           then caption_source num p @ caption_translation num p
           else map (\<lambda>l. El ''p'' [] (cueStyle num p []) [] [Txt l]) (take 2 (opt_or (co_lines p) [])))
        @ (case co_evidenceSlot p of
             None \<Rightarrow> []
           | Some v \<Rightarrow> [El ''div'' [at_is ''data-llm-chrome'' ''evidence''] [at_is ''marginTop'' ''0.35rem''] [] [v]]))"

record ContextRibbonItem =
  cr_id :: string
  cr_label :: string
  cr_active :: "bool option"
  cr_confidence :: "real option"

definition ribbon_item :: "ContextRibbonItem \<Rightarrow> 'e View" where
  "ribbon_item i =
     (let active = (cr_active i = Some True)
      in El ''li'' [(''aria-current'', if active then Some ''true'' else None)]
           [at_is ''opacity'' (if active then ''1'' else ''0.45''), at_is ''fontWeight'' (if active then ''700'' else ''500''),
            at_is ''color'' (color (if active then ''ink'' else ''mutedSlate'')), at_is ''whiteSpace'' ''nowrap'',
            at_is ''maxWidth'' (if active then ''28rem'' else ''10rem''), at_is ''overflow'' ''hidden'',
            at_is ''textOverflow'' ''ellipsis''] []
           (El ''span'' [] [] [] [Txt (cr_label i)]
            # (case cr_confidence i of
                 None \<Rightarrow> []
               | Some c \<Rightarrow>
                   [El ''span'' [at_is ''aria-label'' (''Confidence '' @ percent c @ '' percent'')]
                      [at_is ''marginLeft'' ''0.35rem'', at_is ''fontFamily'' font_mono, at_is ''fontSize'' ''0.75rem'',
                       at_is ''color'' (color ''amberEvidence'')] []
                      [Txt (percent c), Txt ''%'']])))"

definition ContextRibbon :: "ContextRibbonItem list \<Rightarrow> 'e View list \<Rightarrow> string option \<Rightarrow> Html \<Rightarrow> 'e View" where
  "ContextRibbon items evidenceSlot ariaLabel h =
     El ''nav''
       (spread [at_is ''role'' ''navigation'', at_is ''aria-label'' (opt_or ariaLabel ''Context ribbon''),
          at_is ''className'' (truthy_join [Some ''llm-motion-safe'', html_class h])] (html_rest h))
       (spread [at_is ''display'' ''grid'',
          at_is ''gridTemplateColumns'' (if evidenceSlot \<noteq> [] then ''1fr auto'' else ''1fr''),
          at_is ''gap'' ''0.75rem'', at_is ''alignItems'' ''center'', at_is ''background'' (color ''paper''),
          at_is ''color'' (color ''ink''), at_is ''fontFamily'' font_ui, at_is ''padding'' ''0.5rem 0.75rem'',
          at_is ''borderBottom'' (''1px solid '' @ color_mix ''mutedSlate'' ''35'' ''transparent'')] (html_style h)) []
       (El ''ol'' [] [at_is ''listStyle'' ''none'', at_is ''margin'' ''0'', at_is ''padding'' ''0'', at_is ''display'' ''flex'',
          at_is ''gap'' ''0.5rem'', at_is ''alignItems'' ''baseline'', at_is ''overflowX'' ''auto''] []
          (map ribbon_item items)
        # evidenceSlot)"

section \<open>Review card, tabs, profiles\<close>

datatype CardEvent = RevealCard | RateCard FsrsRating | SkipCard

definition ReviewCard :: "string \<Rightarrow> string option \<Rightarrow> bool \<Rightarrow> Html \<Rightarrow> bool \<Rightarrow> CardEvent View" where
  "ReviewCard front back skippable h answered =
     El ''div'' (spread [(''className'', html_class h)] (html_rest h))
       (spread [at_is ''fontFamily'' font_ui, at_is ''color'' (color ''ink''), at_is ''background'' (color ''paper''),
          at_is ''border'' (''1px solid '' @ color_mix ''mutedSlate'' ''35'' ''transparent''),
          at_is ''borderRadius'' ''2'', at_is ''padding'' ''0.75rem''] (html_style h)) []
       (El ''p'' [] [at_is ''margin'' ''0 0 0.5rem'', at_is ''fontSize'' ''1rem'', at_is ''lineHeight'' ''1.4''] []
          [Txt front]
        # (if answered
           then [El ''p'' [] [at_is ''margin'' ''0 0 0.75rem'', at_is ''fontSize'' ''0.875rem'',
                     at_is ''color'' (color ''mutedSlate'')] []
                   [Txt (opt_or back ''(no translation)'')],
                 El ''div'' [] [at_is ''display'' ''flex'', at_is ''flexWrap'' ''wrap'', at_is ''gap'' ''6''] []
                   (map (\<lambda>(rating, label). Button (if rating = Again then Danger else Ghost) no_html (RateCard rating) label)
                      [(Again, ''Again''), (Hard, ''Hard''), (Good, ''Good''), (Easy, ''Easy'')]
                    @ (if skippable then [Button Ghost no_html SkipCard ''Skip''] else []))]
           else [Button Primary no_html RevealCard ''Reveal'']))"

record TabItem =
  bar_id :: string
  bar_label :: string
  bar_title :: "string option"

definition tab_button :: "string \<Rightarrow> TabItem \<Rightarrow> string View" where
  "tab_button v i =
     El ''button''
       [at_is ''type'' ''button'', at_is ''role'' ''tab'', at_is ''id'' (''tab-'' @ bar_id i),
        at_is ''aria-selected'' (bool_str (bar_id i = v)), at_is ''tabIndex'' (if bar_id i = v then ''0'' else ''-1''),
        (''title'', bar_title i), at_is ''className'' ''llm-tabs__tab llm-focus-ring llm-motion-safe'']
       [] [OnClick (bar_id i)] [Txt (bar_label i)]"

definition TabBar :: "TabItem list \<Rightarrow> string \<Rightarrow> string option \<Rightarrow> Html \<Rightarrow> string View" where
  "TabBar items v label h =
     El ''div''
       (spread [at_is ''role'' ''tablist'', at_is ''aria-label'' (opt_or label ''Sections''),
          at_is ''className'' (truthy_join [Some ''llm-tabs'', html_class h])] (html_rest h))
       (html_style h) [OnKeyDown (tab_key (map bar_id items) v)] (map (tab_button v) items)"

definition ProfilePicker :: "DensityProfile \<Rightarrow> bool \<Rightarrow> Html \<Rightarrow> DensityProfile View" where
  "ProfilePicker v narrow h =
     El ''fieldset''
       (spread [at_is ''className'' (truthy_join [Some ''llm-profile'', html_class h])] (html_rest h))
       (html_style h) []
       ([El ''legend'' [] [] [] [Txt ''Density''],
         El ''div'' [at_is ''role'' ''radiogroup'', at_is ''aria-label'' ''Density profile'',
             at_is ''className'' ''llm-profile__options''] [] []
           (map (\<lambda>q. Button (if v = q then Primary else Ghost)
                   \<lparr>html_style = [at_is ''padding'' (if narrow then ''0.3rem 0.55rem'' else ''0.4rem 0.7rem''),
                                  at_is ''fontSize'' ''0.8125rem''],
                    html_class = None,
                    html_rest = [at_is ''aria-pressed'' (bool_str (v = q)), at_is ''title'' (profileDescription q)]\<rparr>
                   q (profileLabel q)) [DFocus, DBalanced, DExpert])]
        @ (if narrow then []
           else [El ''p'' [at_is ''className'' ''llm-profile__hint''] [] [] [Txt (profileDescription v)]]))"

text \<open>
  The provider puts the profile, the theme and the variables of the profile on its surface; a
  component outside of any provider reads the defaults.
\<close>

definition DensityProvider :: "(rat \<Rightarrow> string) \<Rightarrow> Density \<Rightarrow> 'e View list \<Rightarrow> 'e View" where
  "DensityProvider num d kids =
     El ''div''
       ([at_is ''className'' ''llm-surface'', at_is ''data-llm-density'' (density_str (dn_profile d))]
        @ (if dn_theme d = ''system'' then [] else [at_is ''data-llm-theme'' (dn_theme d)]))
       (map (\<lambda>(k, v). at_is k v) (densityCssVars num (dn_profile d))) [] kids"

definition useDensity :: "Density option \<Rightarrow> Density" where
  "useDensity ctx = (case ctx of None \<Rightarrow> dn_start None None | Some d \<Rightarrow> d)"

section \<open>Transcript list\<close>

record TranscriptRow =
  row_item :: TranscriptItem
  row_active :: bool
  row_uncertain :: bool
  row_provenance :: "string option"

datatype ListEvent = SetQuery string | SelectCue string

definition filter_rows :: "string \<Rightarrow> TranscriptRow list \<Rightarrow> TranscriptRow list" where
  "filter_rows query rows = filter (\<lambda>r. filter_items query [row_item r] \<noteq> []) rows"

definition search_box :: "string \<Rightarrow> ListEvent View" where
  "search_box query =
     El ''label'' [] [at_is ''display'' ''flex'', at_is ''flexDirection'' ''column'', at_is ''gap'' ''4''] []
       [El ''span'' [at_is ''className'' ''llm-sr-only''] [] [] [Txt ''Search transcript''],
        El ''input'' [at_is ''type'' ''search'', at_is ''value'' query, at_is ''placeholder'' ''Search transcript'',
            at_is ''className'' ''llm-focus-ring'']
          [at_is ''fontFamily'' font_ui, at_is ''fontSize'' ''0.875rem'', at_is ''padding'' ''0.45rem 0.6rem'',
           at_is ''border'' (''1px solid '' @ color ''mutedSlate''), at_is ''borderRadius'' ''2'',
           at_is ''background'' (color ''paper''), at_is ''color'' (color ''ink'')]
          [OnChange SetQuery] []]"

definition transcript_row :: "TranscriptRow \<Rightarrow> ListEvent View" where
  "transcript_row r =
     (let i = row_item r
      in El ''div'' [at_is ''role'' ''listitem''] [] []
           [El ''button''
              [at_is ''type'' ''button'', at_is ''className'' ''llm-focus-ring'',
               (''aria-current'', if row_active r then Some ''true'' else None), at_is ''aria-label'' (item_label i)]
              [at_is ''width'' ''100%'', at_is ''textAlign'' ''left'', at_is ''display'' ''grid'',
               at_is ''gridTemplateColumns'' ''3.5rem 1fr'', at_is ''gap'' ''0.5rem'', at_is ''padding'' ''0.4rem 0.5rem'',
               at_is ''marginBottom'' ''0.35rem'', at_is ''border'' ''none'', at_is ''borderRadius'' ''2'',
               at_is ''cursor'' ''pointer'',
               at_is ''background'' (if row_active r then color_mix ''signalBlue'' ''12'' (color ''paper'') else ''transparent''),
               at_is ''color'' (color ''ink'')]
              [OnClick (SelectCue (ti_id i)), OnKeyDown (\<lambda>key. map_option SelectCue (item_key key (ti_id i)))]
              [El ''span'' []
                 [at_is ''fontFamily'' font_mono, at_is ''fontSize'' ''0.75rem'',
                  at_is ''color'' (color (if row_uncertain r then ''amberEvidence'' else ''mutedSlate''))] []
                 [Txt (formatTs (ti_startMs i))],
               El ''span'' [] [] []
                 (El ''span'' [] [at_is ''fontSize'' ''0.9375rem'', at_is ''lineHeight'' ''1.4''] [] [Txt (ti_text i)]
                  # (case text_or_none (ti_translation i) of
                       None \<Rightarrow> []
                     | Some t \<Rightarrow> [El ''span'' []
                         [at_is ''display'' ''block'', at_is ''fontSize'' ''0.8125rem'',
                          at_is ''color'' (color ''mutedSlate''), at_is ''marginTop'' ''2''] [] [Txt t]])
                  @ (case text_or_none (row_provenance r) of
                       None \<Rightarrow> []
                     | Some q \<Rightarrow> [El ''span'' [at_is ''data-llm-chrome'' ''diagnostics'']
                         [at_is ''display'' ''block'', at_is ''fontFamily'' font_mono, at_is ''fontSize'' ''0.7rem'',
                          at_is ''color'' (color ''mutedSlate''), at_is ''marginTop'' ''2''] [] [Txt q]]))]])"

definition TranscriptList :: "bool \<Rightarrow> string \<Rightarrow> Html \<Rightarrow> string \<Rightarrow> TranscriptRow list \<Rightarrow> ListEvent View" where
  "TranscriptList searchable emptyLabel h query rows =
     El ''div'' (spread [(''className'', html_class h)] (html_rest h))
       (spread [at_is ''display'' ''flex'', at_is ''flexDirection'' ''column'', at_is ''gap'' ''0.5rem'',
          at_is ''fontFamily'' font_ui, at_is ''color'' (color ''ink''), at_is ''background'' (color ''paper'')]
          (html_style h)) []
       ((if searchable then [search_box query] else [])
        @ (if filter_rows query rows = []
           then [El ''p'' [at_is ''role'' ''status'']
                   [at_is ''margin'' ''0'', at_is ''fontSize'' ''0.875rem'', at_is ''color'' (color ''mutedSlate'')] []
                   [Txt (if rows = [] then emptyLabel else ''No cues match this search.'')]]
           else [El ''div'' [at_is ''role'' ''list'', at_is ''aria-label'' ''Transcript'', at_is ''aria-busy'' ''false'']
                   [] [] (map transcript_row (filter_rows query rows))]))"

section \<open>Toolbar of translated pages\<close>

datatype ToolbarEvent = TbMode PageTranslateMode | TbRestore | TbLang string | TbRetry

definition small_button :: "string \<Rightarrow> string \<Rightarrow> props \<Rightarrow> Html" where
  "small_button pad fsize others =
     \<lparr>html_style = [at_is ''padding'' pad, at_is ''fontSize'' fsize], html_class = None, html_rest = others\<rparr>"

definition mode_buttons :: "PageTranslateMode \<Rightarrow> ToolbarEvent View list" where
  "mode_buttons mode =
     map (\<lambda>(m, label). Button (if mode = m then Primary else Ghost)
            (small_button ''0.35rem 0.65rem'' ''0.8125rem'' [at_is ''aria-pressed'' (bool_str (mode = m))])
            (TbMode m) label)
       [(ModeOriginal, ''Original''), (ModeTranslated, ''Translated''), (ModeDual, ''Dual'')]"

definition language_select :: "string \<Rightarrow> (string \<times> string) list \<Rightarrow> ToolbarEvent View" where
  "language_select chosen langs =
     El ''label'' []
       [at_is ''display'' ''inline-flex'', at_is ''alignItems'' ''center'', at_is ''gap'' ''6'',
        at_is ''fontSize'' ''0.8125rem'', at_is ''marginLeft'' ''auto''] []
       [El ''span'' [at_is ''className'' ''llm-sr-only''] [] [] [Txt ''Target language''],
        El ''select'' [at_is ''className'' ''llm-focus-ring'', at_is ''value'' chosen,
            at_is ''aria-label'' ''Target language'']
          [at_is ''fontFamily'' font_ui, at_is ''fontSize'' ''0.8125rem'', at_is ''padding'' ''0.3rem 0.4rem'',
           at_is ''border'' (''1px solid '' @ color ''mutedSlate''), at_is ''borderRadius'' ''2'',
           at_is ''background'' (color ''paper''), at_is ''color'' (color ''ink'')]
          [OnChange TbLang]
          (map (\<lambda>(code, label). El ''option'' [at_is ''value'' code] [] [] [Txt label]) langs)]"

definition toolbar_status :: "ToolbarSnapshot \<Rightarrow> ToolbarEvent View list" where
  "toolbar_status s =
     (if ts_localProcessing s \<or> ts_progress s \<noteq> None \<or> text_or_none (ts_statusMessage s) \<noteq> None
           then [El ''div'' [at_is ''aria-live'' ''polite'']
                   [at_is ''fontSize'' ''0.75rem'', at_is ''color'' (color ''mutedSlate''), at_is ''fontFamily'' font_mono] []
                   ((if ts_localProcessing s then [Txt ''Local processing... ''] else [])
                    @ (case ts_progress s of
                         None \<Rightarrow> []
                       | Some f \<Rightarrow> [Txt (int_str (js_round (of_rat (f * 100))) @ ''% '')])
                    @ (case ts_statusMessage s of None \<Rightarrow> [] | Some m \<Rightarrow> [Txt m]))]
           else [])"

definition toolbar_alert :: "bool \<Rightarrow> ToolbarSnapshot \<Rightarrow> ToolbarEvent View list" where
  "toolbar_alert retry s =
     (case text_or_none (ts_failureMessage s) of
             None \<Rightarrow> []
           | Some m \<Rightarrow>
               [El ''div'' [at_is ''role'' ''alert'']
                  [at_is ''fontSize'' ''0.8125rem'', at_is ''color'' (color ''errorRed''), at_is ''display'' ''flex'',
                   at_is ''gap'' ''0.5rem'', at_is ''alignItems'' ''center'', at_is ''flexWrap'' ''wrap''] []
                  (El ''span'' [] [] [] [Txt m]
                   # (if retry then [Button Danger (small_button ''0.3rem 0.55rem'' ''0.75rem'' []) TbRetry ''Retry'']
                      else []))])"

text \<open>The properties are the fields of the snapshot; \<open>onRetry\<close> says whether the handler is given.\<close>

definition PageTranslateToolbar ::
  "(string \<times> string) list \<Rightarrow> bool \<Rightarrow> Html \<Rightarrow> ToolbarSnapshot \<Rightarrow> ToolbarEvent View" where
  "PageTranslateToolbar langs retry h s =
     El ''div''
       (spread [at_is ''role'' ''toolbar'', at_is ''aria-label'' ''Page translation'',
          at_is ''className'' (truthy_join [Some ''llm-motion-safe'', html_class h])] (html_rest h))
       (spread [at_is ''display'' ''flex'', at_is ''flexDirection'' ''column'', at_is ''gap'' ''0.5rem'',
          at_is ''fontFamily'' font_ui, at_is ''color'' (color ''ink''),
          at_is ''background'' (color_mix ''paper'' ''94'' ''transparent''),
          at_is ''border'' (''1px solid '' @ color_mix ''mutedSlate'' ''40'' ''transparent''),
          at_is ''borderRadius'' ''2'', at_is ''padding'' ''0.55rem 0.7rem'',
          at_is ''boxShadow'' (''0 2px 12px '' @ color_mix ''ink'' ''18'' ''transparent''),
          at_is ''maxWidth'' ''min(36rem, 96vw)'', at_is ''pointerEvents'' ''auto''] (html_style h)) []
       (El ''div'' []
          [at_is ''display'' ''flex'', at_is ''flexWrap'' ''wrap'', at_is ''gap'' ''0.35rem'', at_is ''alignItems'' ''center''] []
          (mode_buttons (ts_mode s)
           @ [Button Ghost (small_button ''0.35rem 0.65rem'' ''0.8125rem'' []) TbRestore ''Restore'',
              language_select (ts_targetLang s) langs])
        # toolbar_status s @ toolbar_alert retry s)"

definition ToolbarApp :: "(string \<times> string) list \<Rightarrow> PageTab \<Rightarrow> ToolbarEvent View" where
  "ToolbarApp langs p =
     (let s = snapshot p
      in El ''div'' [at_is ''data-llm-density'' (density_str (tb_density p))] [at_is ''pointerEvents'' ''auto''] []
           [PageTranslateToolbar langs True no_html
              (s\<lparr>ts_statusMessage := text_or_none (ts_statusMessage s),
                ts_localProcessing := ts_localProcessing s \<or> busy p,
                ts_failureMessage := text_or_none (ts_failureMessage s)\<rparr>)])"

section \<open>The overlay\<close>

primrec empty_label :: "EmptyAction \<Rightarrow> string" where
  "empty_label Transcribe = ''Transcribe this tab''"
| "empty_label ConfirmLyricsAction = ''Confirm lyrics match''"
| "empty_label OpenPanel = ''Open side panel''"

primrec empty_id :: "EmptyAction \<Rightarrow> string" where
  "empty_id Transcribe = ''transcribe''"
| "empty_id ConfirmLyricsAction = ''confirm-lyrics''"
| "empty_id OpenPanel = ''sidepanel''"

text \<open>An event of the overlay is the list of callbacks it calls.\<close>

definition empty_button :: "EmptyAction \<Rightarrow> EmptyAction list EmptyStateAction" where
  "empty_button a = \<lparr>ea_id = empty_id a, ea_label = empty_label a, ea_click = [a], ea_variant = None\<rparr>"

definition overlay_caption :: "OverlayState \<Rightarrow> EmptyAction list CaptionOverlayProps" where
  "overlay_caption s = default_caption\<lparr>
     co_sourceText := text_or_none (map_option cue_text (sourceCue s)),
     co_translationText := text_or_none (map_option cue_text (translationCue s)),
     co_showSource := showSource s,
     co_showTranslation := (showTranslation s \<and> translationCue s \<noteq> None),
     co_blurTranslation := blurTranslation s,
     co_uncertain := uncertain s,
     co_karaokeActive := (karaokeActive s = Some True),
     co_provenance := text_or_none (provenance_label s),
     co_confidence := confidence s,
     co_liveRegion := False,
     co_evidenceSlot := map_option (\<lambda>d. EvidenceGutter
         [\<lparr>ev_id = ''vlm'', ev_label = ''Vision evidence'', ev_detail = Some d, ev_severity = Some Warn\<rparr>]
         \<lparr>html_style = [at_is ''margin'' ''0 auto'', at_is ''textAlign'' ''left'', at_is ''maxWidth'' ''28rem''],
          html_class = None, html_rest = []\<rparr>) (text_or_none (evidence_summary s))\<rparr>"

definition status_area :: "OverlayState \<Rightarrow> EmptyAction list View list" where
  "status_area s =
     (case text_or_none (statusMessage s) of
        None \<Rightarrow> []
      | Some m \<Rightarrow>
          [El ''div'' []
             [at_is ''pointerEvents'' ''auto'', at_is ''maxWidth'' ''min(28rem, 92vw)'', at_is ''display'' ''flex'',
              at_is ''flexDirection'' ''column'', at_is ''gap'' ''6''] []
             (StatusRegion m ''info'' True no_html
              @ (case confirmAction s of
                   None \<Rightarrow> []
                 | Some c \<Rightarrow>
                     [Button Primary no_html
                        (if action_id c = ''confirm-lyrics'' then [ConfirmLyricsAction] else []) (action_label c)]))])"

definition OverlayApp :: "(real \<Rightarrow> string) \<Rightarrow> DensityProfile \<Rightarrow> OverlayState \<Rightarrow> EmptyAction list View" where
  "OverlayApp num dens s =
     El ''div'' [at_is ''data-llm-density'' (density_str dens)]
       [at_is ''pointerEvents'' ''none'', at_is ''display'' ''flex'', at_is ''flexDirection'' ''column'',
        at_is ''alignItems'' ''center'', at_is ''gap'' ''0.5rem''] []
       (El ''div'' [at_is ''tabIndex'' ''0'', at_is ''className'' ''llm-focus-ring'']
          [at_is ''pointerEvents'' ''auto'', at_is ''outline'' ''none''] []
          [case emptyKind s of
             Some k \<Rightarrow> EmptyState k None None (map empty_button (emptyActions k)) []
               \<lparr>html_style = [at_is ''maxWidth'' ''min(28rem, 92vw)'', at_is ''pointerEvents'' ''auto''],
                html_class = None, html_rest = []\<rparr>
           | None \<Rightarrow> CaptionOverlay num (overlay_caption s)]
        # status_area s
        @ [El ''div'' [at_is ''className'' ''llm-sr-only'', at_is ''role'' ''status'', at_is ''aria-live'' ''polite''] [] []
             [Txt (opt_or (liveAnnouncement s) [])]])"

section \<open>What is on the screen\<close>

lemma spread_Nil [simp]: "spread xs [] = xs"
  by (simp add: spread_def)

lemma map_of_spread: "map_of (spread xs ys) k = (case map_of (rev ys) k of None \<Rightarrow> map_of xs k | Some v \<Rightarrow> Some v)"
  unfolding spread_def
  by (induction ys arbitrary: xs) (auto simp: update_conv' map_add_def split: option.splits)

lemma with_simps [simp]:
  "elements_with k v [] = []"
  "elements_with k v (Txt t # es) = elements_with k v es"
  "elements_with k v (El t a s h vs # es) =
     (if map_of a k = Some (Some v) then [El t a s h vs] else []) @ elements_with k v vs @ elements_with k v es"
  "elements_with k v (xs @ ys) = elements_with k v xs @ elements_with k v ys"
  by (simp_all add: elements_with_def has_attr_def)

lemma buttons_simps [simp]:
  "buttons [] = []"
  "buttons (Txt t # es) = buttons es"
  "buttons (El t a s h vs # es) =
     (case click_of h of None \<Rightarrow> [] | Some e \<Rightarrow> [(concat (map text_content vs), e)]) @ buttons vs @ buttons es"
  "buttons (xs @ ys) = buttons xs @ buttons ys"
  by (simp_all add: buttons_def List.map_filter_def button_of_def split: option.split)

lemma buttons_Button [simp]:
  "buttons (Button v h e l # es) = (l, e) # buttons es"
  by (simp add: Button_def)

lemma of_cases [simp]:
  "elements_with k v (if b then xs else ys) = (if b then elements_with k v xs else elements_with k v ys)"
  "elements_with k v (case z of None \<Rightarrow> xs | Some y \<Rightarrow> f y) =
     (case z of None \<Rightarrow> elements_with k v xs | Some y \<Rightarrow> elements_with k v (f y))"
  "buttons (if b then us else vs) = (if b then buttons us else buttons vs)"
  "buttons (case z of None \<Rightarrow> us | Some y \<Rightarrow> g y) = (case z of None \<Rightarrow> buttons us | Some y \<Rightarrow> buttons (g y))"
  by (simp_all split: option.split)

lemma with_Button [simp]:
  "html_rest h = [] \<Longrightarrow> k \<notin> {''type'', ''className''} \<Longrightarrow> elements_with k v (Button w h e l # es) = elements_with k v es"
  by (auto simp: Button_def at_is_def)

lemma buttons_map_Button [simp]:
  "buttons (map (\<lambda>a. Button (w a) (h a) (e a) (l a)) xs) = map (\<lambda>a. (l a, e a)) xs"
  by (induction xs) simp_all

lemma with_map_Button [simp]:
  "k \<notin> {''type'', ''className''} \<Longrightarrow> elements_with k v (map (\<lambda>a. Button (w a) no_html (e a) (l a)) xs) = []"
  by (induction xs) (simp_all add: no_html_def)

lemma with_EmptyState:
  assumes "k = ''data-llm-source'' \<or> k = ''data-llm-translation''"
    and "html_rest h = []"
  shows "elements_with k v (EmptyState kind None None acts [] h # es) = elements_with k v es"
  using assms by (elim disjE) (simp_all add: EmptyState_def at_is_def)

lemma buttons_EmptyState:
  "buttons (EmptyState kind None None acts [] h # es) = map (\<lambda>a. (ea_label a, ea_click a)) acts @ buttons es"
  by (simp add: EmptyState_def)

lemma with_status_area:
  assumes "k = ''data-llm-source'' \<or> k = ''data-llm-translation''"
  shows "elements_with k v (status_area s) = []"
  using assms by (elim disjE) (simp_all add: status_area_def StatusRegion_def at_is_def no_html_def split: option.split)

lemma buttons_status_area:
  "buttons (status_area s) =
     (case confirm_button s of
        None \<Rightarrow> []
      | Some l \<Rightarrow> [(l, if map_option action_id (confirmAction s) = Some ''confirm-lyrics''
                      then [ConfirmLyricsAction] else [])])"
  by (auto simp: status_area_def StatusRegion_def confirm_button_def split: option.splits)

lemma with_gutter:
  assumes "k = ''data-llm-source'' \<or> k = ''data-llm-translation''"
  shows "elements_with k v (EvidenceGutter [i] \<lparr>html_style = st, html_class = None, html_rest = []\<rparr> # es) = elements_with k v es"
  using assms by (elim disjE) (simp_all add: EvidenceGutter_def evidence_row_def at_is_def split: option.split)

lemma buttons_gutter: "buttons (EvidenceGutter [i] h # es) = buttons es"
  by (auto simp: EvidenceGutter_def evidence_row_def split: option.splits)

lemma with_diagnostics:
  assumes "k = ''data-llm-source'' \<or> k = ''data-llm-translation''"
  shows "elements_with k v (caption_diagnostics p) = []"
  using assms by (elim disjE) (simp_all add: caption_diagnostics_def at_is_def split: option.split)

lemma buttons_diagnostics: "buttons (caption_diagnostics p) = []"
  by (auto simp: caption_diagnostics_def split: option.splits)

lemma buttons_cues: "buttons (caption_source num p) = []" "buttons (caption_translation num p) = []"
  by (auto simp: caption_source_def caption_translation_def split: option.splits bool.splits)

lemma text_or_none_idem [simp]: "text_or_none (text_or_none x) = text_or_none x"
  by (simp add: text_or_none_def)

lemma buttons_CaptionOverlay: "buttons (CaptionOverlay num (overlay_caption s) # es) = buttons es"
proof -
  have lines: "buttons (map (\<lambda>l. El ''p'' [] st [] [Txt l]) ls) = []" for st ls
    by (induction ls) simp_all
  show ?thesis
    by (simp add: CaptionOverlay_def buttons_diagnostics buttons_cues lines overlay_caption_def default_caption_def
        buttons_gutter split: option.split)
qed

lemma with_CaptionOverlay:
  assumes "k = ''data-llm-source'' \<or> k = ''data-llm-translation''"
  shows "elements_with k v (CaptionOverlay num (overlay_caption s) # es) =
    elements_with k v (caption_source num (overlay_caption s)) @ elements_with k v (caption_translation num (overlay_caption s))
      @ elements_with k v es"
  using assms
proof -
  have slot: "(case co_evidenceSlot (overlay_caption s) of
        None \<Rightarrow> elements_with k v []
      | Some e \<Rightarrow> elements_with k v [El ''div'' [at_is ''data-llm-chrome'' ''evidence''] st [] [e]]) = []" for st
    using assms
    by (elim disjE) (simp_all add: overlay_caption_def at_is_def with_gutter split: option.split)
  have lines: "elements_with k v (map (\<lambda>l. El ''p'' [] st [] [Txt l]) ls) = []" for st ls
    by (induction ls) simp_all
  have none: "caption_source num p @ caption_translation num p = []"
    if "co_sourceText p = None" "co_translationText p = None" for p :: "'e CaptionOverlayProps"
    using that by (simp add: caption_source_def caption_translation_def text_or_none_def split: bool.split)
  have html: "co_html (overlay_caption s) = no_html" "co_liveRegion (overlay_caption s) = False"
    by (simp_all add: overlay_caption_def default_caption_def)
  have "map_of [(''role'', Some ''region''), (''aria-label'', Some l), (''className'', c), (''tabIndex'', Some ''0'')] k = None" for l c
    using assms by (elim disjE) simp_all
  then show ?thesis
    using assms none [of "overlay_caption s"]
    by (simp add: CaptionOverlay_def with_diagnostics html no_html_def at_is_def slot lines)
qed

lemma with_cue_lines:
  "elements_with k ''1'' (caption_source num p) = (if k = ''data-llm-source'' then caption_source num p else [])"
  "elements_with k ''1'' (caption_translation num p) =
     (if k = ''data-llm-translation'' then caption_translation num p else [])"
  by (auto simp: caption_source_def caption_translation_def at_is_def split: option.splits bool.splits)

lemma source_line:
  "emptyKind s = None \<Longrightarrow> map text_content (caption_source num (overlay_caption s)) =
     (case shown_source s of None \<Rightarrow> [] | Some t \<Rightarrow> [t])"
  by (auto simp: caption_source_def overlay_caption_def shown_source_def split: option.splits bool.splits)

lemma translation_line:
  "emptyKind s = None \<Longrightarrow>
   map (\<lambda>e. (text_content e, style_of ''filter'' e)) (caption_translation num (overlay_caption s)) =
     (case shown_translation s of
        None \<Rightarrow> [] | Some t \<Rightarrow> [(t, if blurTranslation s then Some ''blur(6px)'' else None)])"
  by (cases "translationCue s"; cases "showTranslation s"; cases "text_or_none (map_option cue_text (translationCue s))")
    (simp_all add: caption_translation_def overlay_caption_def default_caption_def shown_translation_def style_of_def
      cueStyle_def map_of_spread at_is_def text_or_none_def split: if_splits)

text \<open>C18: the overlay shows the source and the translation of its state and nothing else as such,
  the translation is blurred exactly if the state says so, and the buttons on the screen are those
  of the empty state and the confirmation, each calling the callback of its label.\<close>

theorem overlay_renders_state:
  "map text_content (elements_with ''data-llm-source'' ''1'' [OverlayApp num dens s]) =
     (case shown_source s of None \<Rightarrow> [] | Some t \<Rightarrow> [t])
   \<and> map (\<lambda>e. (text_content e, style_of ''filter'' e)) (elements_with ''data-llm-translation'' ''1'' [OverlayApp num dens s]) =
     (case shown_translation s of
        None \<Rightarrow> [] | Some t \<Rightarrow> [(t, if blurTranslation s then Some ''blur(6px)'' else None)])
   \<and> buttons [OverlayApp num dens s] =
     (case emptyKind s of None \<Rightarrow> [] | Some k \<Rightarrow> map (\<lambda>a. (empty_label a, [a])) (emptyActions k))
     @ (case confirm_button s of
          None \<Rightarrow> []
        | Some l \<Rightarrow> [(l, if map_option action_id (confirmAction s) = Some ''confirm-lyrics''
                        then [ConfirmLyricsAction] else [])])"
proof (cases "emptyKind s")
  case None
  then show ?thesis
    by (simp add: OverlayApp_def with_CaptionOverlay with_status_area with_cue_lines source_line translation_line
        buttons_CaptionOverlay buttons_status_area at_is_def)
next
  case (Some k)
  then show ?thesis
    by (simp add: OverlayApp_def with_EmptyState with_status_area buttons_EmptyState buttons_status_area
        empty_button_def comp_def shown_source_def shown_translation_def at_is_def split: option.split)
qed

section \<open>The other components\<close>

text \<open>Ratings are offered once the answer is revealed, and only then; the answer is not in the tree before.\<close>

lemma review_card_buttons:
  "buttons [ReviewCard front back skippable h answered] =
     (if answered
      then [(''Again'', RateCard Again), (''Hard'', RateCard Hard), (''Good'', RateCard Good), (''Easy'', RateCard Easy)]
           @ (if skippable then [(''Skip'', SkipCard)] else [])
      else [(''Reveal'', RevealCard)])"
  by (simp add: ReviewCard_def)

lemma review_card_hides_answer:
  "ReviewCard front back skippable h False = ReviewCard front back' skippable h False"
  by (simp add: ReviewCard_def)

lemma tab_bar_selected:
  assumes "html_rest h = []" "k = ''aria-selected''"
  shows "map text_content (elements_with k ''true'' [TabBar items v l h]) = map bar_label (filter (\<lambda>i. bar_id i = v) items)"
proof -
  have "map text_content (elements_with k ''true'' (map (tab_button v) xs)) = map bar_label (filter (\<lambda>i. bar_id i = v) xs)" for xs
    using assms(2) by (induction xs) (simp_all add: tab_button_def at_is_def bool_str_def)
  then show ?thesis using assms by (simp add: TabBar_def at_is_def)
qed

lemma tab_bar_clicks: "buttons [TabBar items v l h] = map (\<lambda>i. (bar_label i, bar_id i)) items"
proof -
  have "buttons (map (tab_button v) xs) = map (\<lambda>i. (bar_label i, bar_id i)) xs" for xs
    by (induction xs) (simp_all add: tab_button_def)
  then show ?thesis by (simp add: TabBar_def)
qed

lemma profile_picker_pressed:
  "map text_content (elements_with ''aria-pressed'' ''true'' [ProfilePicker v narrow no_html]) = [profileLabel v]"
  by (cases v; cases narrow) (simp_all add: ProfilePicker_def Button_def at_is_def no_html_def bool_str_def map_of_spread)

lemma filter_rows_items: "map row_item (filter_rows q rows) = filter_items q (map row_item rows)"
  by (cases "toLowerCase (trim q) = []") (simp_all add: filter_rows_def filter_items_def Let_def filter_map comp_def)

text \<open>A click on a row selects its cue, and every row found is there, in order.\<close>

lemma transcript_list_clicks:
  "map snd (buttons [TranscriptList searchable lab h q rows]) =
     map (\<lambda>i. SelectCue (ti_id i)) (filter_items q (map row_item rows))"
proof -
  have one: "map snd (buttons (transcript_row r # es)) = SelectCue (ti_id (row_item r)) # map snd (buttons es)" for r es
    by (simp add: transcript_row_def Let_def split: option.split)
  have "map snd (buttons (map transcript_row rs)) = map (\<lambda>r. SelectCue (ti_id (row_item r))) rs" for rs
    by (induction rs) (simp_all add: one)
  then have rows: "map snd (buttons (map transcript_row (filter_rows q rows))) =
      map (\<lambda>i. SelectCue (ti_id i)) (filter_items q (map row_item rows))"
    by (simp add: filter_rows_items [symmetric] comp_def)
  have "filter_rows q rows = [] \<Longrightarrow> filter_items q (map row_item rows) = []"
    by (simp add: filter_rows_items [symmetric])
  then show ?thesis
    by (simp add: TranscriptList_def search_box_def rows)
qed

section \<open>The toolbar on the page\<close>

definition mode_label :: "PageTranslateMode \<Rightarrow> string" where
  "mode_label m = (case m of ModeOriginal \<Rightarrow> ''Original'' | ModeTranslated \<Rightarrow> ''Translated'' | ModeDual \<Rightarrow> ''Dual'')"

lemma mode_buttons_pressed:
  "map text_content (elements_with ''aria-pressed'' ''true'' (mode_buttons mode)) = [mode_label mode]"
  by (cases mode)
    (simp_all add: mode_buttons_def Button_def small_button_def at_is_def bool_str_def map_of_spread mode_label_def)

lemma mode_buttons_plain:
  "elements_with ''aria-live'' v (mode_buttons mode) = []" "elements_with ''role'' v (mode_buttons mode) = []"
  "buttons (mode_buttons mode) =
     [(''Original'', TbMode ModeOriginal), (''Translated'', TbMode ModeTranslated), (''Dual'', TbMode ModeDual)]"
  by (simp_all add: mode_buttons_def Button_def small_button_def at_is_def map_of_spread)

lemma language_select_plain:
  "elements_with ''aria-pressed'' v [language_select l langs] = []"
  "elements_with ''aria-live'' v [language_select l langs] = []"
  "elements_with ''role'' v [language_select l langs] = []"
  "buttons [language_select l langs] = []"
proof -
  have "elements_with ''aria-pressed'' v (map (\<lambda>(code, label). El ''option'' [at_is ''value'' code] [] [] [Txt label]) xs) = []"
    "elements_with ''aria-live'' v (map (\<lambda>(code, label). El ''option'' [at_is ''value'' code] [] [] [Txt label]) xs) = []"
    "elements_with ''role'' v (map (\<lambda>(code, label). El ''option'' [at_is ''value'' code] [] [] [Txt label]) xs) = []"
    "buttons (map (\<lambda>(code, label). El ''option'' [at_is ''value'' code] [] [] [Txt label]) xs) = ([] :: (string \<times> ToolbarEvent) list)"
    for xs :: "(string \<times> string) list"
    by (induction xs) (auto simp: at_is_def)
  then show "elements_with ''aria-pressed'' v [language_select l langs] = []"
  "elements_with ''aria-live'' v [language_select l langs] = []"
  "elements_with ''role'' v [language_select l langs] = []"
  "buttons [language_select l langs] = []"
    by (simp_all add: language_select_def at_is_def)
qed

lemma small_button_plain:
  "elements_with ''aria-live'' v (Button w (small_button p1 p2 []) e l # es) = elements_with ''aria-live'' v es"
  "elements_with ''role'' v (Button w (small_button p1 p2 []) e l # es) = elements_with ''role'' v es"
  "elements_with ''aria-pressed'' v (Button w (small_button p1 p2 []) e l # es) = elements_with ''aria-pressed'' v es"
  by (simp_all add: small_button_def)

lemma alert_Button: "text_content (Button w h e l) = l"
  by (simp add: Button_def)

lemma of_toolbar_status:
  "elements_with ''aria-pressed'' v (toolbar_status s) = []" "elements_with ''role'' v (toolbar_status s) = []"
  "buttons (toolbar_status s) = []"
  by (simp_all add: toolbar_status_def at_is_def split: option.split)

lemma of_toolbar_alert:
  "elements_with ''aria-pressed'' v (toolbar_alert retry s) = []"
  "elements_with ''aria-live'' v (toolbar_alert retry s) = []"
  "map text_content (elements_with ''role'' ''alert'' (toolbar_alert True s)) =
     (case text_or_none (ts_failureMessage s) of None \<Rightarrow> [] | Some t \<Rightarrow> [t @ ''Retry''])"
  "buttons (toolbar_alert True s) = (case text_or_none (ts_failureMessage s) of None \<Rightarrow> [] | Some _ \<Rightarrow> [(''Retry'', TbRetry)])"
  by (simp_all add: toolbar_alert_def at_is_def small_button_plain alert_Button split: option.split)

lemma live_status:
  "map text_content (elements_with ''aria-live'' ''polite'' (toolbar_status
     (snapshot p\<lparr>ts_statusMessage := text_or_none (ts_statusMessage (snapshot p)),
        ts_localProcessing := ts_localProcessing (snapshot p) \<or> busy p,
        ts_failureMessage := f\<rparr>))) = (case status_line p of None \<Rightarrow> [] | Some t \<Rightarrow> [t])"
  by (simp add: toolbar_status_def at_is_def status_line_def Let_def opt_or_def split: option.split)

text \<open>C13: the toolbar of a translated page presses the button of the mode and no other, announces the
  status line of the tab, shows the failure beside a button to retry, and offers the three modes
  and the restoration at any time.\<close>

theorem toolbar_renders_tab:
  "map text_content (elements_with ''aria-pressed'' ''true'' [ToolbarApp langs p]) = [mode_label (ts_mode (snapshot p))]
   \<and> map text_content (elements_with ''aria-live'' ''polite'' [ToolbarApp langs p]) =
       (case status_line p of None \<Rightarrow> [] | Some t \<Rightarrow> [t])
   \<and> map text_content (elements_with ''role'' ''alert'' [ToolbarApp langs p]) =
       (case failure_alert p of None \<Rightarrow> [] | Some t \<Rightarrow> [t @ ''Retry''])
   \<and> buttons [ToolbarApp langs p] =
       [(''Original'', TbMode ModeOriginal), (''Translated'', TbMode ModeTranslated), (''Dual'', TbMode ModeDual),
        (''Restore'', TbRestore)]
       @ (case failure_alert p of None \<Rightarrow> [] | Some _ \<Rightarrow> [(''Retry'', TbRetry)])"
  by (simp add: ToolbarApp_def PageTranslateToolbar_def Let_def no_html_def at_is_def mode_buttons_plain
      mode_buttons_pressed small_button_plain language_select_plain of_toolbar_status of_toolbar_alert live_status
      failure_alert_def del: map_map)

end
