(* ===== verification/Panel_Views.thy ===== *)
theory Panel_Views
  imports Views Popup
begin

text \<open>
  What the popup (\<open>apps/extension/entrypoints/popup/App.tsx\<close>) and the side panel
  (\<open>entrypoints/sidepanel/App.tsx\<close>) render, as trees of \<open>Views\<close>. An event names the handler that
  runs; the handlers are those of \<open>Popup\<close> and \<open>Side_Panel\<close>. The style sheets are left out; dashes and
  arrows are in ASCII.
\<close>

definition el :: "string \<Rightarrow> props \<Rightarrow> 'e View list \<Rightarrow> 'e View" where
  "el t a vs = El t a [] [] vs"

definition cls :: "string \<Rightarrow> string \<times> string option" where
  "cls c = at_is ''className'' c"

text \<open>The four presets of both retention selects.\<close>

definition retention_options :: "'e View list" where
  "retention_options = map (\<lambda>(v, label). el ''option'' [at_is ''value'' v] [Txt label])
     [(''session'', ''This session''), (''days7'', ''7 days''), (''days30'', ''30 days''), (''keep'', ''Keep until wipe'')]"

section \<open>Popup\<close>

datatype PopupEvent =
    PpRetry | PpTranslate | PpTranscribe | PpSidePanel | PpPermission | PpRetention string | PpWipe
  | PpProfile DensityProfile

definition popup_header :: "Popup \<Rightarrow> PopupEvent View" where
  "popup_header p =
     el ''header'' [cls ''popup-header'']
       [el ''div'' [cls ''popup-header__top'']
          [el ''h1'' [cls ''popup-title''] [Txt ''Language-LLM''],
           el ''span'' [cls (fst (popup_chip (pp_companion p)))] [Txt (snd (popup_chip (pp_companion p)))]],
        (if tabTitle p \<noteq> []
         then el ''p'' [cls ''popup-tab'', at_is ''title'' (tabTitle p)] [Txt (tabTitle p)]
         else el ''p'' [cls ''popup-tab popup-tab--muted''] [Txt ''Current tab''])]"

definition popup_actions :: "PopupEvent View" where
  "popup_actions =
     el ''section'' [cls ''popup-actions'', at_is ''aria-label'' ''Quick actions'']
       [Button Primary no_html PpTranslate ''Translate page'',
        Button Ghost no_html PpTranscribe ''Transcribe tab'',
        Button Ghost no_html PpSidePanel ''Open side panel'']"

definition popup_permission :: "Popup \<Rightarrow> PopupEvent View" where
  "popup_permission p =
     el ''section'' [cls ''popup-perm'', at_is ''aria-label'' ''Website permission'']
       [el ''div'' [cls ''popup-perm__row'']
          [el ''span'' [cls ''llm-meta''] [Txt ''Website hosts''],
           el ''span'' [cls (''llm-chip '' @ (if pagePerm p then ''llm-chip--ok'' else []))]
             [Txt (fst (permission_button p))]],
        Button Ghost no_html PpPermission (snd (permission_button p))]"

definition popup_privacy :: "Popup \<Rightarrow> PopupEvent View" where
  "popup_privacy p =
     el ''details'' [cls ''popup-more'', at_is ''data-llm-chrome'' ''nonessential'']
       [el ''summary'' [] [Txt ''Privacy shortcuts''],
        el ''div'' [cls ''popup-more__body'']
          [el ''label'' [cls ''llm-field'']
             [el ''span'' [] [Txt ''Retention''],
              El ''select'' [cls ''llm-select llm-focus-ring'', at_is ''value'' (preset_str (pp_retention p)),
                  at_is ''aria-label'' ''Retention preset''] [] [OnChange PpRetention] retention_options],
           Button Ghost no_html PpWipe ''Privacy wipe...'']]"

definition PopupInner :: "Popup \<Rightarrow> PopupEvent View" where
  "PopupInner p =
     el ''div'' [cls ''llm-surface popup-shell'']
       (popup_header p
        # (if pp_companion p = UiDown
           then [EmptyState NoCompanion None None
                   [\<lparr>ea_id = ''retry'', ea_label = ''Retry'', ea_click = PpRetry, ea_variant = None\<rparr>] [] no_html]
           else [])
        @ [popup_actions, popup_permission p]
        @ (if shortcuts_shown p then [popup_privacy p] else [])
        @ [map_View PpProfile (ProfilePicker (dn_profile (pp_density p)) True no_html)]
        @ (if pp_status p \<noteq> [] then StatusRegion (pp_status p) ''info'' True no_html else [])
        @ [el ''p'' [cls ''popup-footer'']
             [Txt ''Transcript, learning, dictionaries, and lyrics live in the side panel.'']])"

section \<open>Side panel\<close>

datatype PanelEvent =
    PvPing | PvTab string | PvTranscribe | PvList ListEvent | PvCard CardEvent | PvCopy
  | PvChooseDictionary | PvDictionary string | PvQuery string | PvLookup | PvLyricsAllowed string
  | PvChooseLyrics | PvLyrics string | PvFetch | PvRetention string | PvPageCache | PvLyricsCache | PvWipe
  | PvProfile DensityProfile

primrec tab_item :: "PanelTab \<Rightarrow> TabItem" where
  "tab_item TabTranscript = \<lparr>bar_id = ''transcript'', bar_label = ''Transcript'', bar_title = Some ''Cues and seek''\<rparr>"
| "tab_item TabLearn = \<lparr>bar_id = ''learn'', bar_label = ''Learn'', bar_title = Some ''FSRS reviews''\<rparr>"
| "tab_item TabDictionary =
     \<lparr>bar_id = ''dictionary'', bar_label = ''Dictionary'', bar_title = Some ''Import and look up''\<rparr>"
| "tab_item TabLyrics = \<lparr>bar_id = ''lyrics'', bar_label = ''Lyrics'', bar_title = Some ''Import or LRCLIB''\<rparr>"
| "tab_item TabPrivacy = \<lparr>bar_id = ''privacy'', bar_label = ''Privacy'', bar_title = Some ''Retention and wipe''\<rparr>"

definition side_header :: "SidePanel \<Rightarrow> PanelEvent View" where
  "side_header p =
     el ''header'' [cls ''side-header'']
       (el ''div'' [cls ''side-header__top'']
          [el ''div'' []
             [el ''h1'' [cls ''side-title''] [Txt ''Language-LLM''],
              el ''p'' [cls ''side-sub''] [Txt ''Workbench for this tab'']],
           El ''button'' [at_is ''type'' ''button'', cls (fst (companionChip (sd_companion p))),
               at_is ''title'' ''Refresh companion status'']
             [at_is ''cursor'' ''pointer'', at_is ''font'' ''inherit''] [OnClick PvPing]
             [Txt (snd (companionChip (sd_companion p)))]]
        # (if sd_companion p = UiDown
           then [EmptyState NoCompanion None None
                   [\<lparr>ea_id = ''retry'', ea_label = ''Retry ping'', ea_click = PvPing, ea_variant = None\<rparr>] [] no_html]
           else if sd_companion p = UiDegraded
           then StatusRegion ''Native host up, WebSocket down - study/privacy sync paused until reconnect.'' ''warn''
                  True no_html
           else []))"

text \<open>
  The rows of the transcript: \<open>uncertain\<close> is not set, and the provenance is printed as it was stored.
\<close>

definition panel_rows :: "SidePanel \<Rightarrow> TranscriptRow list" where
  "panel_rows p = map (\<lambda>(i, active). \<lparr>row_item = i, row_active = active, row_uncertain = False,
     row_provenance = Some (provenance_str (ti_provenance i))\<rparr>) (listItems p)"

definition transcript_section :: "string \<Rightarrow> SidePanel \<Rightarrow> PanelEvent View" where
  "transcript_section query p =
     el ''section'' [at_is ''aria-label'' ''Transcript'']
       [if listItems p = []
        then EmptyState NoCaptions None
               (Some ''Open a YouTube video with captions, or start tab transcription. Cues hydrate here when available.'')
               [\<lparr>ea_id = ''transcribe'', ea_label = ''Transcribe active tab'', ea_click = PvTranscribe, ea_variant = None\<rparr>]
               [] no_html
        else map_View PvList (TranscriptList True ''No transcript cues yet.'' no_html query (panel_rows p))]"

definition row_style :: props where
  "row_style = [at_is ''marginTop'' ''8'']"

definition learn_section :: "bool \<Rightarrow> SidePanel \<Rightarrow> PanelEvent View" where
  "learn_section answered p =
     el ''section'' [at_is ''aria-label'' ''Learning'', at_is ''data-llm-chrome'' ''learning'']
       [case reviewCard p of
          None \<Rightarrow> EmptyState NoReviewDue None None [] [] no_html
        | Some c \<Rightarrow> map_View PvCard (ReviewCard (sourceText c) (text_or_none (translationText c)) False no_html answered),
        El ''div'' [cls ''llm-row''] row_style []
          [Button Ghost no_html PvCopy ''Copy CSV export'',
           el ''span'' [cls ''llm-meta''] [Txt (nat_str (length (sd_due p))), Txt '' due'']]]"

definition file_input :: "string \<Rightarrow> (string \<Rightarrow> PanelEvent) \<Rightarrow> PanelEvent View" where
  "file_input accept e =
     El ''input'' [at_is ''type'' ''file'', at_is ''accept'' accept] [at_is ''display'' ''none''] [OnChange e] []"

definition import_controls :: "PanelEvent View list" where
  "import_controls =
     [Button Ghost no_html PvChooseDictionary ''Import dictionary file'',
      file_input ''.txt,.xml,.jsonl,.u8,text/plain,application/xml'' PvDictionary]"

definition dictionary_section :: "(real \<Rightarrow> string) \<Rightarrow> SidePanel \<Rightarrow> PanelEvent View" where
  "dictionary_section num p =
     el ''section'' [at_is ''aria-label'' ''Dictionaries'']
       ((if dictCount p = 0 then EmptyState EmptyDictionary None None [] [] no_html
         else El ''p'' [cls ''llm-meta''] [at_is ''margin'' ''0 0 0.5rem''] []
                [Txt (num (dictCount p)), Txt '' entries'',
                 Txt (if dictAttr p \<noteq> [] then '' '' @ char_of (183::nat) # '' '' @ dictAttr p else [])])
        # import_controls
        @ [El ''div'' [cls ''llm-row''] row_style []
             [El ''input'' [at_is ''value'' (lookupQ p), at_is ''placeholder'' ''Lookup lemma'',
                  at_is ''aria-label'' ''Dictionary lookup'', cls ''llm-input llm-focus-ring'']
                [at_is ''flex'' ''1'', at_is ''minWidth'' ''0'']
                [OnChange PvQuery, OnKeyDown (\<lambda>key. if key \<noteq> ''Enter'' then None else Some PvLookup)] [],
              Button Ghost no_html PvLookup ''Look up'']]
        @ (if lookupHit p \<noteq> []
           then [El ''p'' [cls ''llm-meta''] [at_is ''marginTop'' ''6''] [] [Txt (lookupHit p)]] else []))"

definition LyricsActions :: "bool \<Rightarrow> PanelEvent View" where
  "LyricsActions allowed =
     el ''div'' [cls ''llm-row'']
       [Button Ghost no_html PvChooseLyrics ''Import LRC / TTML'',
        file_input ''.lrc,.ttml,.txt,text/plain'' PvLyrics,
        Button Ghost (no_html\<lparr>html_rest := [(''disabled'', if \<not> allowed then Some ''true'' else None)]\<rparr>)
          PvFetch ''Fetch LRCLIB'']"

definition lyrics_section :: "SidePanel \<Rightarrow> PanelEvent View" where
  "lyrics_section p =
     el ''section'' [at_is ''aria-label'' ''Lyrics'']
       [el ''label'' [cls ''side-check'']
          [El ''input'' [at_is ''type'' ''checkbox'', at_is ''checked'' (bool_str (lyricsNet p))] []
             [OnChange PvLyricsAllowed] [],
           Txt ''Allow attributed LRCLIB fetch (clearable)''],
        El ''p'' [cls ''llm-meta''] [at_is ''margin'' ''0.35rem 0 0.75rem''] []
          [Txt ''Caption<->lyrics matches require confirmation - never applied silently.''],
        LyricsActions (lyricsNet p)]"

definition privacy_section :: "(real \<Rightarrow> string) \<Rightarrow> SidePanel \<Rightarrow> PanelEvent View" where
  "privacy_section num p =
     el ''section'' [at_is ''aria-label'' ''Privacy and retention'']
       [el ''label'' [cls ''llm-field'']
          [el ''span'' [] [Txt ''Retention preset''],
           El ''select'' [at_is ''value'' (js_string num (retention p)), cls ''llm-select llm-focus-ring''] []
             [OnChange PvRetention] retention_options],
        El ''div'' [cls ''llm-row''] row_style []
          [Button Ghost no_html PvPageCache ''Clear page cache'',
           Button Ghost no_html PvLyricsCache ''Clear lyrics cache'',
           Button Danger no_html PvWipe ''Full privacy wipe'']]"

definition side_footer :: "SdEnv \<Rightarrow> SidePanel \<Rightarrow> PanelEvent View" where
  "side_footer env p =
     el ''footer'' [cls ''side-footer'']
       (map_View PvProfile (ProfilePicker (dn_profile (sd_density p)) True no_html)
        # (if sd_status p \<noteq> [] then StatusRegion (sd_status p) ''info'' True no_html else [])
        @ (case diagnostics env p of
             None \<Rightarrow> []
           | Some d \<Rightarrow>
               [El ''p'' [cls ''llm-meta mono'', at_is ''data-llm-chrome'' ''diagnostics'']
                  [at_is ''fontFamily'' ''var(--llm-font-mono)''] [] [Txt d]]))"

text \<open>
  The components with a state of their own are rendered with the query of the transcript and whether
  the answer of the card is revealed.
\<close>

definition SidePanelInner ::
  "SdEnv \<Rightarrow> string \<Rightarrow> bool \<Rightarrow> SidePanel \<Rightarrow> PanelEvent View" where
  "SidePanelInner env query answered p =
     el ''div'' [cls ''llm-surface side-shell'']
       [side_header p,
        map_View PvTab (TabBar (map tab_item (visibleTabs p)) (tab_str (sd_tab p)) (Some ''Side panel sections'') no_html),
        el ''div'' [at_is ''role'' ''tabpanel'', at_is ''id'' (''panel-'' @ tab_str (sd_tab p)),
            at_is ''aria-labelledby'' (''tab-'' @ tab_str (sd_tab p)), cls ''side-panel'']
          [case sd_tab p of
             TabTranscript \<Rightarrow> transcript_section query p
           | TabLearn \<Rightarrow> learn_section answered p
           | TabDictionary \<Rightarrow> dictionary_section (sd_num env) p
           | TabLyrics \<Rightarrow> lyrics_section p
           | TabPrivacy \<Rightarrow> privacy_section (sd_num env) p],
        side_footer env p]"

section \<open>What is offered\<close>

lemma text_map_View [simp]: "text_content (map_View f v) = text_content v"
  by (induction v) (auto simp: comp_def intro!: arg_cong [where f = concat])

lemma click_map [simp]: "click_of (map (map_handler f) hs) = map_option f (click_of hs)"
  by (induction hs rule: click_of.induct) simp_all

lemma buttons_one: "buttons (v # es) = buttons [v] @ buttons es"
  using buttons_simps(4) [of "[v]" es] by simp

lemma buttons_map_View_all: "buttons [map_View f v] = map (\<lambda>(l, e). (l, f e)) (buttons [v])"
proof (induction v)
  case (Txt t)
  then show ?case by simp
next
  case (El t a s h vs)
  then have "buttons (map (map_View f) vs) = map (\<lambda>(l, e). (l, f e)) (buttons vs)"
  proof (induction vs)
    case (Cons w ws)
    then show ?case
      using buttons_one [of "map_View f w" "map (map_View f) ws"] buttons_one [of w ws] by simp
  qed simp
  then show ?case by (simp add: comp_def split: option.split)
qed

lemma buttons_map_View [simp]:
  "buttons (map_View f v # es) = map (\<lambda>(l, e). (l, f e)) (buttons [v]) @ buttons es"
  using buttons_one [of "map_View f v" es] by (simp add: buttons_map_View_all)

lemma buttons_el [simp]: "buttons (el t a vs # es) = buttons vs @ buttons es"
  by (simp add: el_def)

lemma buttons_retention [simp]: "buttons retention_options = []"
  by (simp add: retention_options_def)

lemma buttons_StatusRegion [simp]: "buttons (StatusRegion m t b h) = []"
  by (simp add: StatusRegion_def)

lemma buttons_Empty [simp]:
  "buttons (EmptyState k t b acts [] h # es) = map (\<lambda>a. (ea_label a, ea_click a)) acts @ buttons es"
  by (simp add: EmptyState_def)

lemma buttons_ProfilePicker: "map snd (buttons [ProfilePicker v narrow h]) = [DFocus, DBalanced, DExpert]"
  "map fst (buttons [ProfilePicker v narrow h]) = [''Focus'', ''Balanced'', ''Expert'']"
  by (simp_all add: ProfilePicker_def)

text \<open>The buttons of the popup, in order; the wipe is offered outside of the focus profile only.\<close>

lemma popup_offers:
  "map snd (buttons [PopupInner p]) =
     (if pp_companion p = UiDown then [PpRetry] else [])
     @ [PpTranslate, PpTranscribe, PpSidePanel, PpPermission]
     @ (if shortcuts_shown p then [PpWipe] else []) @ map PpProfile [DFocus, DBalanced, DExpert]"
proof -
  have "map snd (map (\<lambda>(l, e). (l, PpProfile e)) xs) = map PpProfile (map snd xs)" for xs :: "(string \<times> DensityProfile) list"
    by (induction xs) auto
  then show ?thesis
    by (simp add: PopupInner_def popup_header_def popup_actions_def popup_permission_def popup_privacy_def
        buttons_ProfilePicker del: map_map)
qed

lemma fetch_disabled_unless_allowed:
  "map text_content (elements_with ''disabled'' ''true'' [LyricsActions allowed]) =
     (if allowed then [] else [''Fetch LRCLIB''])"
  by (simp add: LyricsActions_def el_def cls_def at_is_def file_input_def Button_def no_html_def map_of_spread)

section \<open>The side panel\<close>

definition section_events :: "string \<Rightarrow> bool \<Rightarrow> SidePanel \<Rightarrow> PanelEvent list" where
  "section_events query answered p =
     (case sd_tab p of
        TabTranscript \<Rightarrow>
          if sd_items p = [] then [PvTranscribe]
          else map (\<lambda>i. PvList (SelectCue (ti_id i))) (filter_items query (sd_items p))
      | TabLearn \<Rightarrow>
          (if sd_due p = [] then []
           else if answered then map (\<lambda>r. PvCard (RateCard r)) [Again, Hard, Good, Easy]
           else [PvCard RevealCard]) @ [PvCopy]
      | TabDictionary \<Rightarrow> [PvChooseDictionary, PvLookup]
      | TabLyrics \<Rightarrow> [PvChooseLyrics, PvFetch]
      | TabPrivacy \<Rightarrow> [PvPageCache, PvLyricsCache, PvWipe])"

lemma snd_tagged: "map snd (map (\<lambda>(l, e). (l, f e)) xs) = map f (map snd xs)"
  by (induction xs) auto

lemma row_items: "map row_item (panel_rows p) = sd_items p"
  by (simp add: panel_rows_def listItems_def comp_def)

lemma section_buttons:
  "map snd (buttons [case sd_tab p of
       TabTranscript \<Rightarrow> transcript_section query p
     | TabLearn \<Rightarrow> learn_section answered p
     | TabDictionary \<Rightarrow> dictionary_section num p
     | TabLyrics \<Rightarrow> lyrics_section p
     | TabPrivacy \<Rightarrow> privacy_section num p]) = section_events query answered p"
proof (cases "sd_tab p")
  case TabTranscript
  then show ?thesis
    by (simp add: transcript_section_def section_events_def listItems_def snd_tagged transcript_list_clicks row_items
        del: map_map) (simp add: comp_def)
next
  case TabLearn
  then show ?thesis
    by (simp add: learn_section_def section_events_def reviewCard_def review_card_buttons split: list.split)
next
  case TabDictionary
  then show ?thesis
    by (simp add: dictionary_section_def section_events_def import_controls_def file_input_def)
next
  case TabLyrics
  then show ?thesis
    by (simp add: lyrics_section_def section_events_def LyricsActions_def file_input_def)
next
  case TabPrivacy
  then show ?thesis by (simp add: privacy_section_def section_events_def)
qed

lemma header_buttons:
  "map snd (buttons [side_header p]) = PvPing # (if sd_companion p = UiDown then [PvPing] else [])"
  by (simp add: side_header_def)

lemma footer_buttons: "map snd (buttons [side_footer env p]) = map PvProfile [DFocus, DBalanced, DExpert]"
  by (simp add: side_footer_def snd_tagged buttons_ProfilePicker del: map_map split: option.split)

lemma tab_items: "bar_id (tab_item t) = tab_str t"
  by (cases t) simp_all

lemma buttons_four: "buttons [a, b, el t u [c], d] = buttons [a] @ buttons [b] @ buttons [c] @ buttons [d]"
  using buttons_one [of a "[b, el t u [c], d]"] buttons_one [of b "[el t u [c], d]"] buttons_one [of c "[d]"]
  by (simp add: el_def)

lemma panel_tab_offered: "sd_tab (side_run es p) \<in> set (visibleTabs (side_run es p))"
proof (cases es rule: rev_cases)
  case Nil
  then show ?thesis using settle_tab_ok by (simp add: side_run_def tab_ok_def)
next
  case (snoc fs f)
  then show ?thesis using settle_tab_ok by (simp add: side_run_def side_step_def tab_ok_def)
qed

lemma panel_offers:
  "map snd (buttons [SidePanelInner env query answered p]) =
     PvPing # (if sd_companion p = UiDown then [PvPing] else [])
     @ map (\<lambda>t. PvTab (tab_str t)) (visibleTabs p) @ section_events query answered p
     @ map PvProfile [DFocus, DBalanced, DExpert]"
proof -
  have "map snd (buttons [map_View PvTab (TabBar (map tab_item ts) v l no_html)]) = map (\<lambda>t. PvTab (tab_str t)) ts" for ts v l
    by (simp add: tab_bar_clicks tab_items comp_def)
  then show ?thesis
    unfolding SidePanelInner_def buttons_el buttons_four
    by (simp add: header_buttons footer_buttons section_buttons del: buttons_map_View)
qed

text \<open>C16: whatever happened before, the side panel offers the full wipe in the privacy section only and
  ratings only once the answer of a due card is revealed; in the focus profile nothing of the
  dictionary, lyrics and privacy sections can be clicked.\<close>

theorem side_panel_offers:
  "let p = side_run es (panel_start stored store);
       offered = map snd (buttons [SidePanelInner env query answered p])
   in (PvWipe \<in> set offered) = (sd_tab p = TabPrivacy)
    \<and> (PvCard (RateCard r) \<in> set offered) = (sd_tab p = TabLearn \<and> sd_due p \<noteq> [] \<and> answered)
    \<and> (if focusMode p
       then list_all (\<lambda>e. e \<notin> {PvWipe, PvPageCache, PvLyricsCache, PvFetch, PvChooseLyrics, PvLookup, PvChooseDictionary})
              offered
       else True)"
  using panel_tab_offered [of es "panel_start stored store"]
  unfolding Let_def panel_offers
  by (cases r) (auto simp: section_events_def list_all_iff visibleTabs_def split: PanelTab.splits if_splits)

end
