(* ===== verification/Open_Apis.thy ===== *)
theory Open_Apis
  imports Study Lyrics Companion
begin

text \<open>
  What the packages do at their edges: the search of LRCLIB (\<open>packages/lyrics/src/lrclib.ts\<close>), the
  requests to AnkiConnect (\<open>packages/learning/src/fsrs.ts\<close>), both with \<open>fetch\<close> as an argument, the
  debounce of mutations (\<open>packages/page-translate/src/segmenter.ts\<close>), the guard of the mock
  translator (\<open>apply.ts\<close>), and the listeners of the
  companion client (\<open>features/companion/client.ts\<close>). The answer of a fetch is the message of what it
  throws, or a status with the body that \<open>res.json()\<close> gives or throws.
\<close>

record FetchReply =
  res_ok :: bool
  res_status :: int
  res_json :: "string + json"

type_synonym fetcher = "string \<Rightarrow> json option \<Rightarrow> string + FetchReply"

section \<open>LRCLIB\<close>

record LrcLibSearchParams =
  lq_track :: string
  lq_artist :: "string option"
  lq_album :: "string option"
  lq_duration :: "real option"

text \<open>The serialiser of \<open>URLSearchParams\<close>: the bytes of UTF-8 outside of letters, digits and four signs.\<close>

definition form_safe :: "char \<Rightarrow> bool" where
  "form_safe c \<longleftrightarrow> (let n = of_char c :: nat in (48 \<le> n \<and> n \<le> 57) \<or> (65 \<le> n \<and> n \<le> 90) \<or> (97 \<le> n \<and> n \<le> 122)
     \<or> n \<in> {42, 45, 46, 95})"

definition utf8_bytes :: "char \<Rightarrow> nat list" where
  "utf8_bytes c = (let n = of_char c in if n < 128 then [n] else [192 + n div 64, 128 + n mod 64])"

definition hex_upper :: "nat \<Rightarrow> char" where
  "hex_upper d = (if d < 10 then char_of (48 + d) else char_of (55 + d))"

definition form_char :: "char \<Rightarrow> string" where
  "form_char c =
     (if form_safe c then [c] else if c = CHR '' '' then ''+''
      else concat (map (\<lambda>b. [CHR ''%'', hex_upper (b div 16), hex_upper (b mod 16)]) (utf8_bytes c)))"

definition form_encode :: "string \<Rightarrow> string" where
  "form_encode s = concat (map form_char s)"

definition search_pairs :: "LrcLibSearchParams \<Rightarrow> (string \<times> string) list" where
  "search_pairs p =
     (''track_name'', lq_track p)
     # (case lq_artist p of None \<Rightarrow> [] | Some a \<Rightarrow> if a = [] then [] else [(''artist_name'', a)])
     @ (case lq_album p of None \<Rightarrow> [] | Some a \<Rightarrow> if a = [] then [] else [(''album_name'', a)])
     @ (case lq_duration p of None \<Rightarrow> [] | Some d \<Rightarrow> [(''duration'', int_str (js_round d))])"

definition query_string :: "(string \<times> string) list \<Rightarrow> string" where
  "query_string ps = join ''&'' (map (\<lambda>(k, v). form_encode k @ ''='' @ form_encode v) ps)"

definition LRCLIB_BASE :: string where
  "LRCLIB_BASE = ''https://lrclib.net/api''"

definition buildLrcLibSearchUrl :: "LrcLibSearchParams \<Rightarrow> string" where
  "buildLrcLibSearchUrl p = LRCLIB_BASE @ ''/search?'' @ query_string (search_pairs p)"

definition attributionNote :: string where
  "attributionNote =
     ''Lyrics via LRCLIB (https://lrclib.net/). Attribution retained locally; clearable in settings.''"

text \<open>The body is handed on as it is: the cast to tracks checks nothing.\<close>

definition fetchLrcLibSearch :: "fetcher \<Rightarrow> LrcLibSearchParams \<Rightarrow> string + json" where
  "fetchLrcLibSearch fetch p =
     (case fetch (buildLrcLibSearchUrl p) None of
        Inl e \<Rightarrow> Inl e
      | Inr res \<Rightarrow> if res_ok res then res_json res else Inl (''LRCLIB search failed: '' @ int_str (res_status res)))"

section \<open>AnkiConnect\<close>

definition ankiConnectRequest :: "string \<Rightarrow> json \<Rightarrow> json" where
  "ankiConnectRequest action params = JObj [(''action'', JStr action), (''version'', JNum 6), (''params'', params)]"

definition ANKI_CONNECT_DEFAULT :: string where
  "ANKI_CONNECT_DEFAULT = ''http://127.0.0.1:8765''"

definition note_json :: "AnkiConnectNote \<Rightarrow> json" where
  "note_json n = JObj [(''deckName'', JStr (deckName n)), (''modelName'', JStr (modelName n)),
     (''fields'', JObj [(''Front'', JStr (note_front n)), (''Back'', JStr (note_back n))]),
     (''tags'', JArr (map JStr (note_tags n)))]"

text \<open>An outcome; \<open>type_error\<close> is the message of the engine for a field of \<open>null\<close> or a missing method.\<close>

record 'a AnkiOutcome =
  anki_ok :: bool
  anki_value :: "'a option"
  anki_error :: "json option"

definition anki_failed :: "json \<Rightarrow> 'a AnkiOutcome" where
  "anki_failed e = \<lparr>anki_ok = False, anki_value = None, anki_error = Some e\<rparr>"

definition anki_call ::
  "string \<Rightarrow> fetcher \<Rightarrow> string \<Rightarrow> json \<Rightarrow> (json option \<Rightarrow> 'a option + string) \<Rightarrow> 'a AnkiOutcome" where
  "anki_call type_error fetch endpoint request result =
     (case fetch endpoint (Some request) of
        Inl e \<Rightarrow> anki_failed (JStr e)
      | Inr res \<Rightarrow>
          if \<not> res_ok res then anki_failed (JStr (''http-'' @ int_str (res_status res)))
          else (case res_json res of
                  Inl e \<Rightarrow> anki_failed (JStr e)
                | Inr body \<Rightarrow>
                    if body = JNull then anki_failed (JStr type_error)
                    else if truthy (json_field body ''error'') then anki_failed (the (json_field body ''error''))
                    else (case result (json_field body ''result'') of
                            Inl v \<Rightarrow> \<lparr>anki_ok = True, anki_value = v, anki_error = None\<rparr>
                          | Inr e \<Rightarrow> anki_failed (JStr e))))"

definition testAnkiConnect :: "string \<Rightarrow> fetcher \<Rightarrow> string \<Rightarrow> json AnkiOutcome" where
  "testAnkiConnect type_error fetch endpoint =
     anki_call type_error fetch endpoint (ankiConnectRequest ''version'' (JObj [])) Inl"

definition numbers_only :: "json list \<Rightarrow> real list" where
  "numbers_only xs = List.map_filter (\<lambda>x. num_of (Some x)) xs"

definition note_ids :: "string \<Rightarrow> json option \<Rightarrow> real list option + string" where
  "note_ids type_error r =
     (case r of
        None \<Rightarrow> Inl (Some [])
      | Some JNull \<Rightarrow> Inl (Some [])
      | Some (JArr xs) \<Rightarrow> Inl (Some (numbers_only xs))
      | Some _ \<Rightarrow> Inr type_error)"

definition addNotesViaAnkiConnect ::
  "string \<Rightarrow> fetcher \<Rightarrow> string \<Rightarrow> string \<Rightarrow> StudyCard list \<Rightarrow> real list AnkiOutcome" where
  "addNotesViaAnkiConnect type_error fetch endpoint deck cs =
     anki_call type_error fetch endpoint
       (ankiConnectRequest ''addNotes'' (JObj [(''notes'', JArr (map note_json (toAnkiConnectNotes cs deck)))]))
       (note_ids type_error)"

section \<open>Debounced mutations\<close>

text \<open>The buffer, the time the running timer is due, and the batches flushed, with their times.\<close>

record 'r Coalescer =
  co_buffer :: "'r list"
  co_due :: "nat option"
  co_flushed :: "(nat \<times> 'r list) list"

definition coalesceMutations :: "'r Coalescer" where
  "coalesceMutations = \<lparr>co_buffer = [], co_due = None, co_flushed = []\<rparr>"

definition co_records :: "nat \<Rightarrow> nat \<Rightarrow> 'r list \<Rightarrow> 'r Coalescer \<Rightarrow> 'r Coalescer" where
  "co_records waitMs now rs s = s\<lparr>co_buffer := co_buffer s @ rs, co_due := Some (now + waitMs)\<rparr>"

text \<open>The timer runs when the event loop comes to it, at its time or later.\<close>

definition co_timer :: "nat \<Rightarrow> 'r Coalescer \<Rightarrow> 'r Coalescer" where
  "co_timer now s =
     (case co_due s of
        None \<Rightarrow> s
      | Some d \<Rightarrow>
          if now < d then s
          else s\<lparr>co_buffer := [], co_due := None, co_flushed := co_flushed s @ [(now, co_buffer s)]\<rparr>)"

datatype 'r MutationEvent = Records nat "'r list" | TimerTurn nat

primrec co_step :: "nat \<Rightarrow> 'r MutationEvent \<Rightarrow> 'r Coalescer \<Rightarrow> 'r Coalescer" where
  "co_step waitMs (Records now rs) s = co_records waitMs now rs s"
| "co_step waitMs (TimerTurn now) s = co_timer now s"

definition co_run :: "nat \<Rightarrow> 'r MutationEvent list \<Rightarrow> 'r Coalescer" where
  "co_run waitMs es = fold (co_step waitMs) es coalesceMutations"

primrec event_records :: "'r MutationEvent \<Rightarrow> 'r list" where
  "event_records (Records now rs) = rs"
| "event_records (TimerTurn now) = []"

text \<open>
  Whether the mock translator may answer: \<open>import.meta.env.DEV\<close>, and \<open>NODE_ENV\<close> if there is a process;
  a missing one of these reads as undefined.
\<close>

definition isDevelopmentMtFallbackAllowed :: "bool option \<Rightarrow> string option option \<Rightarrow> bool" where
  "isDevelopmentMtFallbackAllowed dev node_env \<longleftrightarrow>
     dev = Some True \<or> (case node_env of None \<Rightarrow> False | Some v \<Rightarrow> v \<noteq> Some ''production'')"

text \<open>With a process whose environment does not say production the mock is allowed, even in a production bundle.\<close>

lemma unset_node_env_allows_mock: "isDevelopmentMtFallbackAllowed (Some False) (Some None)"
  by (simp add: isDevelopmentMtFallbackAllowed_def)

section \<open>Listeners of the client\<close>

text \<open>Handlers are numbers, sets in the order of insertion; the log says who was told what.\<close>

datatype Told = ToldState ConnectionState | ToldMessage json

record Listeners =
  stateListeners :: "nat list"
  fanInHandlers :: "nat list"
  calls :: "(nat \<times> Told) list"

definition add_handler :: "nat \<Rightarrow> nat list \<Rightarrow> nat list" where
  "add_handler h hs = (if h \<in> set hs then hs else hs @ [h])"

definition onStateChange :: "nat \<Rightarrow> Listeners \<Rightarrow> Listeners" where
  "onStateChange h l = l\<lparr>stateListeners := add_handler h (stateListeners l)\<rparr>"

definition onMessage :: "nat \<Rightarrow> Listeners \<Rightarrow> Listeners" where
  "onMessage h l = l\<lparr>fanInHandlers := add_handler h (fanInHandlers l)\<rparr>"

definition drop_state_listener :: "nat \<Rightarrow> Listeners \<Rightarrow> Listeners" where
  "drop_state_listener h l = l\<lparr>stateListeners := filter (\<lambda>x. x \<noteq> h) (stateListeners l)\<rparr>"

definition drop_fan_in :: "nat \<Rightarrow> Listeners \<Rightarrow> Listeners" where
  "drop_fan_in h l = l\<lparr>fanInHandlers := filter (\<lambda>x. x \<noteq> h) (fanInHandlers l)\<rparr>"

text \<open>The loops of \<open>setConnectionState\<close> and \<open>dispatchFanIn\<close>, over what the client's model logs.\<close>

definition tell_states :: "Conn \<Rightarrow> Conn \<Rightarrow> Listeners \<Rightarrow> Listeners" where
  "tell_states c c' l =
     l\<lparr>calls := calls l @ concat (map (\<lambda>st. map (\<lambda>h. (h, ToldState st)) (stateListeners l)) (drop (length (told c)) (told c')))\<rparr>"

definition tell_message :: "json \<Rightarrow> Listeners \<Rightarrow> Listeners" where
  "tell_message m l =
     l\<lparr>calls := calls l @ concat (map (\<lambda>j. map (\<lambda>h. (h, ToldMessage j)) (fanInHandlers l)) (dispatchFanIn m))\<rparr>"

text \<open>Events of the client, on its connection and its listeners.\<close>

datatype ClientEvent =
    Subscribe nat | Unsubscribe nat | SubscribeMessages nat | UnsubscribeMessages nat
  | StateSet ConnectionState | MessageIn json

primrec client_event :: "ClientEvent \<Rightarrow> Conn \<times> Listeners \<Rightarrow> Conn \<times> Listeners" where
  "client_event (Subscribe h) s = (fst s, onStateChange h (snd s))"
| "client_event (Unsubscribe h) s = (fst s, drop_state_listener h (snd s))"
| "client_event (SubscribeMessages h) s = (fst s, onMessage h (snd s))"
| "client_event (UnsubscribeMessages h) s = (fst s, drop_fan_in h (snd s))"
| "client_event (StateSet st) s =
     (setConnectionState st (fst s), tell_states (fst s) (setConnectionState st (fst s)) (snd s))"
| "client_event (MessageIn m) s = (fst s, tell_message m (snd s))"

definition client_run :: "ClientEvent list \<Rightarrow> Conn \<times> Listeners \<Rightarrow> Conn \<times> Listeners" where
  "client_run es s = fold client_event es s"

section \<open>Theorems: the search\<close>

lemma utf8_byte: "b \<in> set (utf8_bytes c) \<Longrightarrow> b < 256"
proof -
  have "n div 64 < 4" if "n < 256" for n :: nat using that by simp
  then have "(of_char c :: nat) div 64 < 4" using nat_of_char_less_256 [of c] by blast
  then show "b < 256" if "b \<in> set (utf8_bytes c)"
    using that by (auto simp: utf8_bytes_def Let_def split: if_splits)
qed

lemma form_char_plain: "CHR ''&'' \<notin> set (form_char c) \<and> CHR ''='' \<notin> set (form_char c)"
proof -
  have hex: "hex_upper d \<noteq> CHR ''&'' \<and> hex_upper d \<noteq> CHR ''=''" if "d < 16" for d
  proof -
    have "d \<in> set [0 ..< 16]" using that by simp
    moreover have "list_all (\<lambda>d. hex_upper d \<noteq> CHR ''&'' \<and> hex_upper d \<noteq> CHR ''='') [0 ..< 16]"
      by code_simp
    ultimately show ?thesis unfolding list_all_iff by blast
  qed
  have safe: "\<not> form_safe (CHR ''&'') \<and> \<not> form_safe (CHR ''='')" by (simp add: form_safe_def Let_def)
  have piece: "x \<notin> {hex_upper (b div 16), hex_upper (b mod 16)}"
    if "b \<in> set (utf8_bytes c)" "x = CHR ''&'' \<or> x = CHR ''=''" for b x
  proof -
    have "b div 16 < 16" "b mod 16 < 16" using utf8_byte [OF that(1)] by simp_all
    then show ?thesis using hex [of "b div 16"] hex [of "b mod 16"] that(2) by auto
  qed
  have "x \<notin> set (form_char c)" if x: "x = CHR ''&'' \<or> x = CHR ''=''" for x
  proof
    assume "x \<in> set (form_char c)"
    moreover have "x \<noteq> CHR ''%''" "x \<noteq> CHR ''+''" "x = c \<Longrightarrow> \<not> form_safe c" using x safe by auto
    ultimately show False using piece [OF _ x] by (auto simp: form_char_def split: if_splits)
  qed
  then show ?thesis by blast
qed

lemma form_encode_plain: "CHR ''&'' \<notin> set (form_encode v) \<and> CHR ''='' \<notin> set (form_encode v)"
  using form_char_plain by (auto simp: form_encode_def)

text \<open>
  No title, artist or album can add or change a parameter: split at the ampersands the query has one
  piece for each parameter given, and the first equals sign of a piece ends its name.
\<close>

lemma search_query_pieces:
  "split_on (CHR ''&'') (query_string (search_pairs p)) =
     map (\<lambda>(k, v). form_encode k @ ''='' @ form_encode v) (search_pairs p)"
  unfolding query_string_def
  by (rule split_join) (auto simp: search_pairs_def list_all_iff form_encode_plain)

lemma piece_splits: "split_on (CHR ''='') (form_encode k @ ''='' @ form_encode v) = [form_encode k, form_encode v]"
  by (simp add: split_on_sep split_on_none form_encode_plain)

lemma search_url_example:
  "buildLrcLibSearchUrl \<lparr>lq_track = ''A&B = C'', lq_artist = Some [], lq_album = None, lq_duration = None\<rparr>
    = ''https://lrclib.net/api/search?track_name=A%26B+%3D+C''"
  by code_simp

lemma search_fails_unless_ok:
  "fetchLrcLibSearch fetch p = Inr j \<longleftrightarrow>
     (\<exists>res. fetch (buildLrcLibSearchUrl p) None = Inr res \<and> res_ok res \<and> res_json res = Inr j)"
  by (auto simp: fetchLrcLibSearch_def split: sum.splits)

section \<open>Theorems: AnkiConnect\<close>

lemma anki_ok_iff:
  "anki_ok (addNotesViaAnkiConnect te fetch ep deck cs) \<longleftrightarrow>
     (\<exists>res body. fetch ep (Some (ankiConnectRequest ''addNotes''
          (JObj [(''notes'', JArr (map note_json (toAnkiConnectNotes cs deck)))]))) = Inr res
        \<and> res_ok res \<and> res_json res = Inr body \<and> body \<noteq> JNull \<and> \<not> truthy (json_field body ''error'')
        \<and> (case json_field body ''result'' of None \<Rightarrow> True | Some r \<Rightarrow> r = JNull \<or> arr_of (Some r) \<noteq> None))"
  by (auto simp: addNotesViaAnkiConnect_def anki_call_def anki_failed_def note_ids_def
      split: sum.splits option.splits json.splits if_splits)

text \<open>Notes that Anki refuses come back as \<open>null\<close>: they are dropped, and the outcome is still a success.\<close>

lemma refused_notes_are_dropped:
  assumes "fetch ep (Some (ankiConnectRequest ''addNotes''
      (JObj [(''notes'', JArr (map note_json (toAnkiConnectNotes cs deck)))])))
      = Inr \<lparr>res_ok = True, res_status = 200, res_json = Inr (JObj [(''result'', JArr (replicate (length cs) JNull)), (''error'', JNull)])\<rparr>"
  shows "addNotesViaAnkiConnect te fetch ep deck cs = \<lparr>anki_ok = True, anki_value = Some [], anki_error = None\<rparr>"
proof -
  have "numbers_only (replicate n JNull) = []" for n
    by (induction n) (simp_all add: numbers_only_def)
  then show ?thesis using assms by (simp add: addNotesViaAnkiConnect_def anki_call_def note_ids_def)
qed

section \<open>Theorems: mutations\<close>

definition last_time :: "'r MutationEvent list \<Rightarrow> nat" where
  "last_time es = fold (\<lambda>e t. case e of Records n _ \<Rightarrow> n | TimerTurn _ \<Rightarrow> t) es 0"

lemma co_run_snoc: "co_run w (es @ [e]) = co_step w e (co_run w es)"
  by (simp add: co_run_def)

lemma co_due_last: "co_due (co_run w es) \<in> {None, Some (last_time es + w)}"
proof (induction es rule: rev_induct)
  case Nil
  then show ?case by (simp add: co_run_def coalesceMutations_def)
next
  case (snoc e es)
  then show ?case
    by (cases e) (auto simp: co_run_snoc last_time_def co_records_def co_timer_def split: option.splits)
qed

lemma co_keeps:
  "concat (map snd (co_flushed (co_run w es))) @ co_buffer (co_run w es) = concat (map event_records es)
   \<and> (co_due (co_run w es) = None \<longrightarrow> co_buffer (co_run w es) = [])"
proof (induction es rule: rev_induct)
  case Nil
  then show ?case by (simp add: co_run_def coalesceMutations_def)
next
  case (snoc e es)
  then show ?case
    by (cases e) (auto simp: co_run_snoc co_records_def co_timer_def split: option.splits)
qed

text \<open>C20: whatever the order of mutations and turns of the timer, the records flushed and those in
  the buffer are all records seen, each once and in order; a turn of the timer flushes
  everything once the wait after the last mutation is over, and nothing before.\<close>

theorem coalescer_keeps_records:
  "let s = co_run w es; s' = co_run w (es @ [TimerTurn now])
   in concat (map snd (co_flushed s)) @ co_buffer s = concat (map event_records es)
    \<and> (if last_time es + w \<le> now
       then concat (map snd (co_flushed s')) = concat (map event_records es) \<and> co_buffer s' = []
       else s' = s)"
  using co_keeps [of w es] co_due_last [of w es]
  by (auto simp: Let_def co_run_snoc co_timer_def)

section \<open>Theorems: listeners\<close>

text \<open>What a handler should hear: state changes while subscribed, and pushed messages likewise.\<close>

fun heard :: "nat \<Rightarrow> Conn \<Rightarrow> bool \<Rightarrow> bool \<Rightarrow> ClientEvent list \<Rightarrow> Told list" where
  "heard h c a b [] = []"
| "heard h c a b (Subscribe x # es) = heard h c (a \<or> x = h) b es"
| "heard h c a b (Unsubscribe x # es) = heard h c (a \<and> x \<noteq> h) b es"
| "heard h c a b (SubscribeMessages x # es) = heard h c a (b \<or> x = h) es"
| "heard h c a b (UnsubscribeMessages x # es) = heard h c a (b \<and> x \<noteq> h) es"
| "heard h c a b (StateSet st # es) =
     (if a \<and> connectionState c \<noteq> st then [ToldState st] else []) @ heard h (setConnectionState st c) a b es"
| "heard h c a b (MessageIn m # es) = (if b then map ToldMessage (dispatchFanIn m) else []) @ heard h c a b es"

definition told_to :: "nat \<Rightarrow> (nat \<times> Told) list \<Rightarrow> Told list" where
  "told_to h cs = map snd (filter (\<lambda>(x, _). x = h) cs)"

lemma told_to_append [simp]: "told_to h (xs @ ys) = told_to h xs @ told_to h ys" "told_to h [] = []"
  by (simp_all add: told_to_def)

lemma told_to_each:
  "distinct hs \<Longrightarrow> told_to h (map (\<lambda>x. (x, t)) hs) = (if h \<in> set hs then [t] else [])"
  by (induction hs) (auto simp: told_to_def)

lemma told_to_all: "distinct hs \<Longrightarrow> told_to h (concat (map (\<lambda>t. map (\<lambda>x. (x, f t)) hs) ts)) = (if h \<in> set hs then map f ts else [])"
  by (induction ts) (simp_all add: told_to_each)

lemma add_handler [simp]: "distinct hs \<Longrightarrow> distinct (add_handler h hs)" "set (add_handler h hs) = insert h (set hs)"
  by (auto simp: add_handler_def)

lemma handlers_hear:
  "distinct (stateListeners l) \<Longrightarrow> distinct (fanInHandlers l) \<Longrightarrow>
   told_to h (calls (snd (client_run es (c, l)))) =
     told_to h (calls l) @ heard h c (h \<in> set (stateListeners l)) (h \<in> set (fanInHandlers l)) es"
proof (induction es arbitrary: c l)
  case Nil
  then show ?case by (simp add: client_run_def)
next
  case (Cons e es)
  then show ?case
    by (cases e) (auto simp: client_run_def onStateChange_def onMessage_def drop_state_listener_def drop_fan_in_def
        tell_states_def tell_message_def told_to_all setConnectionState_def eq_commute disj_commute)
qed


end
