(* ===== verification/Audio_Path.thy ===== *)
theory Audio_Path
  imports Offscreen Background_Props
begin

text \<open>
  The way of the sound of a tab through two programs: the offscreen document
  (\<open>entrypoints/offscreen/offscreen.ts\<close>) sends chunks as runtime messages, the background script
  (\<open>entrypoints/background.ts\<close>) takes them as requests and passes the audio on to the companion.
\<close>

text \<open>The message of a chunk; \<open>rate\<close> is the sample rate of the audio context, or 48000 without one.\<close>

definition chunk_message :: "real \<Rightarrow> Chunk \<Rightarrow> json" where
  "chunk_message rate c = js_obj
     [(''type'', Some (JStr ''capture.chunk'')),
      (''jobId'', Some (case ck_jobId c of None \<Rightarrow> JNull | Some j \<Rightarrow> JStr j)),
      (''sampleRateHz'', Some (JNum rate)),
      (''seq'', Some (JNum (of_nat (ck_seq c)))),
      (''pcmI16LeBase64'', Some (JStr (ck_pcm c)))]"

text \<open>A request finds the session open, so that it is used as it is.\<close>

definition open_session :: "CompanionSession option \<Rightarrow> Env \<Rightarrow> bool" where
  "open_session x env \<longleftrightarrow> session_usable (map_option (\<lambda>x. (x, sock_open env)) x) (clock env) \<noteq> None"

text \<open>The number and the samples of an audio message, as the companion reads them.\<close>

definition audio_of :: "Outgoing \<Rightarrow> (nat \<times> int list) list" where
  "audio_of m = (case m of
     Typed (MAudioChunk _ _ _ n pcm) \<Rightarrow> [(n, opt_or (map_option decode_pcm (base64ToBytes pcm)) [])] | _ \<Rightarrow> [])"

definition samples_of :: "real list \<Rightarrow> int list" where
  "samples_of xs = map (\<lambda>x. js_trunc (clamp1 x * 32767)) xs"

definition relay_chunks :: "real \<Rightarrow> Env list \<Rightarrow> Chunk list \<Rightarrow> Bg \<Rightarrow> Bg" where
  "relay_chunks rate envs cs b = bg_run (map2 (\<lambda>env c. Asked env (chunk_message rate c)) envs cs) b"

lemma request_of_chunk: "request_of (chunk_message rate c) = Some CaptureChunk"
  by (simp add: request_of_def chunk_message_def request_names_def)

lemma chunk_fields:
  "ck_jobId c = Some j \<Longrightarrow> chunk_job env (chunk_message rate c) s = j"
  "ck_pcm c = btoa bs \<Longrightarrow> chunk_bytes env (chunk_message rate c) = Some bs"
  by (simp_all add: chunk_job_def chunk_bytes_def text_field_def field_or_def chunk_message_def base64_round_trip)

lemma chunk_relayed:
  assumes "open_session (session b) env" "ck_jobId c = Some j" "j \<noteq> []" "ck_pcm c = btoa bs"
  shows "let b' = bg_step (Asked env (chunk_message rate c)) b
    in (\<exists>m. outbox b' = outbox b @ [m] \<and> audio_of m = [(audioSeq b, decode_pcm bs)])
       \<and> audioSeq b' = audioSeq b + 1 \<and> session b' = session b"
proof -
  from assms(1) obtain x where x: "session b = Some x"
    by (cases "session b") (auto simp: open_session_def session_usable_def)
  with assms(1) have "session_usable (Some (x, sock_open env)) (clock env) = Some x"
    by (auto simp: open_session_def session_usable_def split: option.splits if_splits)
  then show ?thesis
    using assms x
    by (simp add: handle_def request_of_chunk capture_chunk_def with_session_def ensureCompanionSession_def
        registerCompanionFanIn_def chunk_fields answer_def Let_def post_def sendAudioChunk_def audio_of_def
        base64_round_trip opt_or_def)
qed

lemma relayed:
  assumes "list_all (open_session (session b)) envs" "length envs = length cs" "j \<noteq> []"
    and "list_all (\<lambda>c. ck_jobId c = Some j) cs" "map ck_pcm cs = map btoa bss"
  shows "let b' = relay_chunks rate envs cs b
    in \<exists>ms. outbox b' = outbox b @ ms \<and>
         concat (map audio_of ms) = zip [audioSeq b ..< audioSeq b + length cs] (map decode_pcm bss)"
  using assms
proof (induction envs cs arbitrary: b bss rule: list_induct2')
  case (4 env envs c cs)
  then obtain bs bss' where bss: "bss = bs # bss'" "ck_pcm c = btoa bs" by (cases bss) auto
  let ?b = "bg_step (Asked env (chunk_message rate c)) b"
  obtain m where m: "outbox ?b = outbox b @ [m]" "audio_of m = [(audioSeq b, decode_pcm bs)]"
    "audioSeq ?b = audioSeq b + 1" "session ?b = session b"
    using chunk_relayed [of b env c j bs rate] 4 bss by (auto simp: Let_def)
  have "\<exists>ms. outbox (relay_chunks rate envs cs ?b) = outbox ?b @ ms \<and>
      concat (map audio_of ms) = zip [audioSeq ?b ..< audioSeq ?b + length cs] (map decode_pcm bss')"
    using 4(1) [of ?b bss'] 4(2-) bss m by (simp add: Let_def del: bg_step.simps)
  then obtain ms where ms: "outbox (relay_chunks rate envs cs ?b) = outbox ?b @ ms"
    "concat (map audio_of ms) = zip [audioSeq ?b ..< audioSeq ?b + length cs] (map decode_pcm bss')" by blast
  have "[audioSeq b ..< audioSeq b + length (c # cs)] = audioSeq b # [audioSeq ?b ..< audioSeq ?b + length cs]"
    unfolding m by (simp add: upt_conv_Cons del: upt_Suc)
  then have "concat (map audio_of (m # ms)) = zip [audioSeq b ..< audioSeq b + length (c # cs)] (map decode_pcm bss)"
    using m(2) ms(2) bss by simp
  moreover have "outbox (relay_chunks rate (env # envs) (c # cs) b) = outbox b @ m # ms"
    using ms(1) m(1) by (simp add: relay_chunks_def bg_run_def)
  ultimately show ?case unfolding Let_def by blast
qed (auto simp: relay_chunks_def bg_run_def)

lemma buffers_sent:
  assumes "list_ex (\<lambda>g. gr_id g = i \<and> gr_running g) (graphs s)"
  shows "let cs = drop (length (chunks s)) (chunks (os_run (map (OsAudio i) bufs) s))
    in map ck_pcm cs = map (\<lambda>xs. btoa (floatTo16Le xs)) bufs \<and> list_all (\<lambda>c. ck_jobId c = jobId s) cs"
proof -
  have "\<exists>cs. chunks (os_run (map (OsAudio i) bufs) s) = chunks s @ cs
      \<and> map ck_pcm cs = map (\<lambda>xs. btoa (floatTo16Le xs)) bufs \<and> list_all (\<lambda>c. ck_jobId c = jobId s) cs"
    using assms
  proof (induction bufs arbitrary: s)
    case (Cons xs bufs)
    let ?s = "onaudioprocess i xs s"
    have s: "chunks ?s = chunks s @ [\<lparr>ck_jobId = jobId s, ck_seq = os_seq s, ck_pcm = bytesToBase64 (floatTo16Le xs)\<rparr>]"
      "graphs ?s = graphs s" "jobId ?s = jobId s"
      using Cons.prems by (simp_all add: onaudioprocess_def)
    with Cons.IH [of ?s] Cons.prems show ?case by (auto simp: bytesToBase64_def)
  qed simp
  then show ?thesis by (auto simp: Let_def)
qed

text \<open>C9: what a running capture hears arrives at the companion: the buffers of samples of its graph,
  recorded, encoded, sent to the background script and passed on over an open session, are read by
  the companion as the same clipped samples, buffer by buffer, under consecutive numbers.\<close>

theorem heard_audio_arrives:
  assumes "jobId s = Some j" "j \<noteq> []" "list_ex (\<lambda>g. gr_id g = i \<and> gr_running g) (graphs s)"
    and "list_all (open_session (session b)) envs" "length envs = length bufs"
  shows "let cs = drop (length (chunks s)) (chunks (os_run (map (OsAudio i) bufs) s)); b' = relay_chunks rate envs cs b
    in concat (map audio_of (drop (length (outbox b)) (outbox b'))) =
         zip [audioSeq b ..< audioSeq b + length bufs] (map samples_of bufs)"
proof -
  let ?cs = "drop (length (chunks s)) (chunks (os_run (map (OsAudio i) bufs) s))"
  have cs: "map ck_pcm ?cs = map btoa (map floatTo16Le bufs)" "list_all (\<lambda>c. ck_jobId c = Some j) ?cs"
    using buffers_sent [OF assms(3), of bufs] assms(1) by (simp_all add: Let_def comp_def)
  then have len: "length ?cs = length bufs" by (metis length_map)
  have "map (decode_pcm \<circ> floatTo16Le) bufs = map samples_of bufs"
    by (simp add: decode_samples samples_of_def)
  then show ?thesis
    using relayed [of b envs ?cs j "map floatTo16Le bufs" rate] assms(2,4,5) cs len
    by (auto simp: Let_def simp del: map_eq_conv)
qed

definition demo_recording :: Offscreen where
  "demo_recording = (offscreen_start None)\<lparr>jobId := Some ''job-1'', current := Some 0, next_id := 1,
     graphs := [\<lparr>gr_id = 0, gr_running = True\<rparr>]\<rparr>"

theorem heard_audio_arrives_witness:
  "let cs = drop (length (chunks demo_recording)) (chunks (os_run (map (OsAudio 0) [[1], [0, -1]]) demo_recording));
       b' = relay_chunks 48000 [demo_env, demo_env] cs demo_bg
   in concat (map audio_of (drop (length (outbox demo_bg)) (outbox b'))) =
        zip [audioSeq demo_bg ..< audioSeq demo_bg + length [[1], [0, -1 :: real]]] (map samples_of [[1], [0, -1]])"
proof (rule heard_audio_arrives [where j = "''job-1''"])
  show "list_all (open_session (session demo_bg)) [demo_env, demo_env]"
    by (simp add: open_session_def session_usable_def demo_bg_def demo_env_def)
qed (simp_all add: demo_recording_def)

end
