(* ===== verification/Spec2Isabelle.thy ===== *)
theory Spec2Isabelle
  imports Messages Handshake Study Vlm Lyrics Page_Translate Captions Background_Props Content_Props Metrics
    Language_Kits Dictionaries Page_Toolbar Side_Panel Popup Offscreen Webvtt Ttml Page_Bridge
    Eval_Suites Contrast Desktop_Shell Schemas Release_Scripts Protocol_Parity Panel_Views Open_Apis Audio_Path
begin

text \<open>
  Language-LLM teaches languages from video and web pages: a Chrome extension shows translated
  captions over a video player, translates pages in place and keeps study cards; a companion program
  on the same machine runs the models; a desktop manager looks after the companion. This development
  models the TypeScript of the extension, of its packages, of the desktop manager and of the
  evaluation suites, and proves the theorems that make their parts correct.

  \<^bold>\<open>The parts and how they interact.\<close> The content script runs in the page of a video. It asks the
  page bridge, a script in the world of the page, for the response of the player, fetches and parses
  the captions through the background script, shows them in an overlay that follows the time of the
  player, and asks for translations and lyrics. The background script owns the connection to the
  companion, a web socket opened after a handshake through a native host, and passes requests on and
  pushed messages back to tabs; it also runs the capture of a tab's sound, which an offscreen
  document records and sends as numbered chunks. Side panel and popup talk to the background script
  by messages and keep cards, lexicon and permissions in the storage of the extension. On pages
  that are not videos the page content script with its toolbar translates the text of the document
  and can restore it. The desktop manager talks to the Rust side of the companion by commands.

  \<^bold>\<open>Shared theories.\<close>
  \<^item> \<open>Prelude\<close>: the JavaScript library the sources use (trimming, splitting, \<open>Math.round\<close>, \<open>slice\<close>,
    number printing, \<open>Map\<close> and \<open>Set\<close> in insertion order, dynamic values).
  \<^item> \<open>Js_Text\<close>, \<open>Js_Values\<close>, \<open>Js_Map\<close>, \<open>Js_Numbers\<close>: words and runs of a text; fields of values that
    may be missing; the contract of a keyed store (locale \<open>keyed_store\<close>, which the association lists
    of the tables implement); \<open>Number(s)\<close>, \<open>toFixed\<close> and \<open>parseInt(s, 16)\<close>.

  \<^bold>\<open>Packages.\<close>
  \<^item> \<open>Protocol_Types\<close>, \<open>Cue_Math\<close>, \<open>Handshake\<close>, \<open>Messages\<close>: \<open>packages/protocol/src\<close>, its types, the
    arithmetic of cues, versions, tokens and the handshake, the constructors of messages. Merging
    cues separates and covers them; the handshake accepts exactly the fresh requests of the allowed
    extension with a compatible version.
  \<^item> \<open>Fsrs\<close>, \<open>Study\<close>: \<open>packages/learning/src/fsrs.ts\<close> and \<open>features/learning/session.ts\<close>, the
    scheduler of reviews, cards, exports and the study session. Reviews keep the state of a card
    well-formed, exports read back as they were, and reloading a session gives the session stored;
    the stores are the implementations of the locale \<open>study_store\<close>.
  \<^item> \<open>Fidelity\<close>: \<open>packages/mt-core/src/fidelity.ts\<close>, the verdict on a translation. \<open>Vlm\<close>:
    \<open>features/vlm\<close>, the gate in front of the vision model.
  \<^item> \<open>Lyrics\<close>, \<open>Ttml\<close>: \<open>packages/lyrics/src\<close> and \<open>features/lyrics/resolve.ts\<close>. The parsers of lines are
    implementations of the locale \<open>line_parser\<close>; LRC files read back as printed.
  \<^item> \<open>Hash\<close>, \<open>Page_Segments\<close>, \<open>Page_Translate\<close>: \<open>packages/page-translate/src\<close> and
    \<open>features/page-translate/controller.ts\<close>. Hashes are 32-bit words. A path identifies one text
    node; restoring after any steps gives the page back.
  \<^item> \<open>Language_Kits\<close>, \<open>Dictionaries\<close>: \<open>packages/language-kits/src\<close>, tokenizers, grapheme-safe slices
    and dictionary adapters.

  \<^bold>\<open>The extension\<close>, below \<open>apps/extension\<close>.
  \<^item> \<open>Captions\<close>, \<open>Webvtt\<close>, \<open>Page_Bridge\<close>: \<open>features/captions\<close> and \<open>entrypoints/page-bridge.ts\<close>. Caption
    parsers give timelines that are well-formed (locale \<open>caption_parser\<close>), the balanced-brace scan
    finds the response of the player, WebVTT reads back as printed, a ping of the content script is
    answered with the state of the player of that page.
  \<^item> \<open>Overlay\<close>, \<open>Content\<close>, \<open>Content_Props\<close>: \<open>features/overlay\<close> and \<open>entrypoints/content.ts\<close>. The frames
    the overlay draws refine the sequence of its patches; translations shown have passed the checks
    against the captions shown; lyrics wait for a confirmation.
  \<^item> \<open>Companion\<close>: \<open>features/companion/client.ts\<close>, connection and inbox. Reconnecting ends after at
    most five attempts, every wait ends once, and no message is lost by the inbox.
  \<^item> \<open>Runtime\<close>, \<open>Background\<close>, \<open>Background_Props\<close>: \<open>features/companion/runtime.ts\<close> and
    \<open>entrypoints/background.ts\<close>. Relations between first and last state that hold along every run
    are proved once in the locale \<open>run_relation\<close>: chunks are numbered without gaps, lyrics leave the
    machine only with the permission, nothing is sent after a cancel.
  \<^item> \<open>Offscreen\<close>: \<open>entrypoints/offscreen\<close>. What is recorded is heard until the stop and nothing after it;
    samples are 16-bit words that decode to within one step. \<open>Audio_Path\<close> joins it to the background
    script: what a running capture hears is what the companion reads, under consecutive numbers.
  \<^item> \<open>Ui_Widgets\<close>, \<open>Side_Panel\<close>, \<open>Popup\<close>, \<open>Page_Toolbar\<close>: the components with behaviour of their own in
    \<open>packages/ui/src\<close>, the two panels, and the toolbar of translated pages. Their states are
    well-formed after any events, what is wiped is gone, an imported word is found.
  \<^item> \<open>Views\<close>, \<open>Panel_Views\<close>: what the components of \<open>packages/ui/src\<close>, the overlay, the toolbar and the
    two panels render, as trees of elements with attributes, styles, handlers and children. The
    trees show what the states of \<open>Overlay\<close>, \<open>Page_Toolbar\<close> and \<open>Side_Panel\<close> say, and a click on a button
    is the event it is labelled with.
  \<^item> \<open>Open_Apis\<close>: what the packages do at their edges, the search of LRCLIB, the requests to
    AnkiConnect, the debounce of mutations and the listeners of the companion client. No mutation is
    lost or flushed twice, a handler hears what it subscribed, no title adds a search parameter.

  \<^bold>\<open>Desktop manager and evaluation.\<close>
  \<^item> \<open>Desktop_Api\<close>, \<open>Desktop\<close>, \<open>Desktop_Shell\<close>: \<open>apps/desktop/src\<close>, the commands, one record per page
    with its handlers, and the shell. Only clicks change the companion, and a command that fails
    leaves the page as it was.
  \<^item> \<open>Metrics\<close>, \<open>Eval_Suites\<close>, \<open>Contrast\<close>: \<open>benchmarks\<close>. The edit distance by rows is the least number
    of edits; reports are the means they claim to be; the colours of text reach the contrast the
    accessibility suite asks for, amber on light paper does not.

  \<^bold>\<open>The gates of the repository.\<close>
  \<^item> \<open>Schemas\<close>: \<open>packages/protocol/src/schemas.ts\<close>. The schemas are data; the validator of the zod
    library is a parameter, and its documented behaviour the laws of the locale \<open>zod\<close>, interpreted on
    the validator they describe. Which messages pass is decided in terms of their fields.
  \<^item> \<open>Release_Scripts\<close>, \<open>Protocol_Parity\<close>: \<open>scripts\<close>, the checks of catalog, licenses and native host, the
    plan of \<open>verify.mjs\<close>, and the comparison of the TypeScript and Rust protocol, with the files and
    the exit codes of programs as arguments. What each gate accepts is stated exactly.

  \<^bold>\<open>Conventions.\<close> A handler is a function from the state and what it is answered to the new state, with
  the messages sent in order; answers of other programs, of the browser and of the companion are
  arguments. A handler runs to its end before the next event, except where the code interleaves and
  a theorem depends on it: the steps of a caption run, the start of a capture in the offscreen
  document, and the waits of the client. Strings are lists of Latin-1 characters; a dash, an
  ellipsis or an arrow outside of Latin-1 in a message is transliterated. Times are numbers of
  milliseconds, given as arguments where the code reads the clock. Floating point is modelled by
  real numbers, hashes, samples and random words by machine words.

  \<^bold>\<open>Loops and bounds.\<close> Loops are recursion on the data. Reconnecting is bounded by the code itself:
  five attempts, with delays of at most fifteen seconds. Scanners that advance by what they have
  read take the length of the text as their fuel, which suffices since every step reads at least one
  character.

  \<^bold>\<open>Not modelled.\<close> The text of the style sheets (\<open>shadowStyles.ts\<close>, the style elements of the panels),
  scrolling and focus, the markup of the desktop pages; the creation of host elements and shadow
  roots; package indexes, entry points, configuration of the bundler, fixtures and tests; the Rust
  crates and the companion program, which are arguments here.
\<close>

end
